(* ===== verification/Json.thy ===== *)
theory Json
  imports Sdk_Prelude
begin

named_theorems codec \<open>how encoded fields of wire structs read back\<close>

text \<open>
  JSON values as the sources use them: \<open>serde_json::Value\<close> with its accessors, the
  key-ordered \<open>serde_json::Map\<close> (the workspace builds serde_json without its
  \<open>preserve_order\<close> feature, so a map is a B-tree map over byte strings), and the derive
  scheme of serde that every wire struct follows: named fields, \<open>Option\<close> fields skipped when
  \<open>None\<close>, and a flattened \<open>extra\<close> map. The locale \<open>object_map\<close> is the interface of the map,
  \<open>wire_codec\<close> the contract a wire struct has.
\<close>

section \<open>Values\<close>

text \<open>A number is a \<open>u64\<close>, a negative \<open>i64\<close> or the bits of an \<open>f64\<close>, as in serde_json.\<close>

datatype json_number = PosInt u64 | NegInt i64 | Float u64

datatype json =
    JNull
  | JBool bool
  | JNumber json_number
  | JString string
  | JArray "json list"
  | JObject "(string \<times> json) list"

type_synonym jmap = "(string \<times> json) list"

fun number_as_i64 :: "json_number \<Rightarrow> i64 option" where
  "number_as_i64 (PosInt n) = (if unat n < 2 ^ 63 then Some n else None)"
| "number_as_i64 (NegInt n) = Some n"
| "number_as_i64 (Float b) = None"

fun number_as_u64 :: "json_number \<Rightarrow> u64 option" where
  "number_as_u64 (PosInt n) = Some n"
| "number_as_u64 (NegInt n) = None"
| "number_as_u64 (Float b) = None"

text \<open>\<open>Number::from(i64)\<close>.\<close>

definition number_of_i64 :: "i64 \<Rightarrow> json_number" where
  "number_of_i64 v = (if 0 \<le> sint v then PosInt v else NegInt v)"

fun as_str :: "json \<Rightarrow> string option" where
  "as_str (JString s) = Some s"
| "as_str _ = None"

fun as_bool :: "json \<Rightarrow> bool option" where
  "as_bool (JBool b) = Some b"
| "as_bool _ = None"

fun as_array :: "json \<Rightarrow> json list option" where
  "as_array (JArray vs) = Some vs"
| "as_array _ = None"

fun as_object :: "json \<Rightarrow> jmap option" where
  "as_object (JObject m) = Some m"
| "as_object _ = None"

fun as_i64 :: "json \<Rightarrow> i64 option" where
  "as_i64 (JNumber n) = number_as_i64 n"
| "as_i64 _ = None"

fun as_u64 :: "json \<Rightarrow> u64 option" where
  "as_u64 (JNumber n) = number_as_u64 n"
| "as_u64 _ = None"

lemma number_as_i64_of_i64 [simp]: "number_as_i64 (number_of_i64 v) = Some v"
proof (cases "0 \<le> sint v")
  case True
  have lt: "uint v < 2 ^ 64" using uint_lt2p [of v] by simp
  then have "take_bit 64 (uint v) = uint v" by (simp add: take_bit_int_eq_self)
  then have "sint v = uint v - 2 ^ 64 * of_bool (bit (uint v) 63)"
    by (simp add: sint_uint signed_take_bit_eq_take_bit_minus)
  moreover note lt
  ultimately have "int (unat v) = sint v"
    using True by (cases "bit (uint v) 63") simp_all
  moreover have "sint v < 2 ^ 63" using sint_lt [of v] by simp
  ultimately have "int (unat v) < 2 ^ 63" by simp
  then have "unat v < 2 ^ 63" by (metis of_nat_less_numeral_power_cancel_iff)
  with True show ?thesis by (simp add: number_of_i64_def)
next
  case False
  then show ?thesis by (simp add: number_of_i64_def)
qed

section \<open>Maps\<close>

fun jinsert :: "string \<Rightarrow> 'v \<Rightarrow> (string \<times> 'v) list \<Rightarrow> (string \<times> 'v) list" where
  "jinsert k v [] = [(k, v)]"
| "jinsert k v ((k', v') # m) =
     (if k = k' then (k, v) # m
      else if k < k' then (k, v) # (k', v') # m
      else (k', v') # jinsert k v m)"

definition jget :: "(string \<times> 'v) list \<Rightarrow> string \<Rightarrow> 'v option" where
  "jget m k = map_of m k"

definition jkeys :: "(string \<times> 'v) list \<Rightarrow> string set" where
  "jkeys m = fst ` set m"

fun jsorted :: "(string \<times> 'v) list \<Rightarrow> bool" where
  "jsorted [] = True"
| "jsorted [(k, v)] = True"
| "jsorted ((k, v) # (k', v') # m) = (k < k' \<and> jsorted ((k', v') # m))"

text \<open>\<open>Map::extend\<close> and the loops over another map that insert each entry.\<close>

fun jextend :: "(string \<times> 'v) list \<Rightarrow> (string \<times> 'v) list \<Rightarrow> (string \<times> 'v) list" where
  "jextend m [] = m"
| "jextend m ((k, v) # e) = jextend (jinsert k v m) e"

lemma jget_Nil [simp]: "jget [] k = None"
  by (simp add: jget_def)

lemma jget_Cons: "jget ((k', v) # m) k = (if k = k' then Some v else jget m k)"
  by (simp add: jget_def)

lemma jget_jinsert: "jget (jinsert k v m) = (jget m)(k \<mapsto> v)"
proof (induction k v m rule: jinsert.induct)
  case (1 k v)
  then show ?case by (auto simp: jget_def fun_eq_iff)
next
  case (2 k v k' v' m)
  then show ?case by (auto simp: jget_def fun_eq_iff)
qed

lemma jget_jinsert_same [simp]: "jget (jinsert k v m) k = Some v"
  by (simp add: jget_jinsert)

lemma jget_jinsert_other: "k \<noteq> k' \<Longrightarrow> jget (jinsert k v m) k' = jget m k'"
  by (simp add: jget_jinsert)

lemma jget_None_iff: "jget m k = None \<longleftrightarrow> k \<notin> jkeys m"
  by (simp add: jget_def jkeys_def map_of_eq_None_iff)

lemma jkeys_simps [simp]: "jkeys [] = {}" "jkeys ((k, v) # m) = insert k (jkeys m)"
  by (simp_all add: jkeys_def)

lemma jkeys_jinsert [simp]: "jkeys (jinsert k v m) = insert k (jkeys m)"
  by (induction k v m rule: jinsert.induct) auto

lemma jkeys_jextend [simp]: "jkeys (jextend m e) = jkeys m \<union> jkeys e"
  by (induction m e rule: jextend.induct) auto

lemma jsorted_Cons:
  "jsorted ((k, v) # m) \<longleftrightarrow> (\<forall>k' \<in> jkeys m. k < k') \<and> jsorted m"
proof (induction m arbitrary: k v)
  case Nil
  then show ?case by simp
next
  case (Cons p m)
  obtain k' v' where "p = (k', v')" by (cases p)
  with Cons [of k' v'] show ?case by (auto dest: less_trans)
qed

lemma jsorted_jinsert [simp]: "jsorted m \<Longrightarrow> jsorted (jinsert k v m)"
  by (induction k v m rule: jinsert.induct)
    (auto simp: jsorted_Cons not_less_iff_gr_or_eq intro: less_trans)

lemma jsorted_jextend [simp]: "jsorted m \<Longrightarrow> jsorted (jextend m e)"
  by (induction m e rule: jextend.induct) auto

lemma jsorted_filter: "jsorted m \<Longrightarrow> jsorted (filter P m)"
proof (induction m)
  case Nil
  then show ?case by simp
next
  case (Cons p m)
  then show ?case by (cases p) (auto simp: jsorted_Cons jkeys_def)
qed

lemma jget_jextend_not_in: "k \<notin> jkeys e \<Longrightarrow> jget (jextend m e) k = jget m k"
  by (induction m e rule: jextend.induct) (auto simp: jget_jinsert)

lemma jget_jextend_sorted:
  "jsorted e \<Longrightarrow> jget (jextend m e) k = (case jget e k of Some v \<Rightarrow> Some v | None \<Rightarrow> jget m k)"
proof (induction m e rule: jextend.induct)
  case (1 m)
  then show ?case by simp
next
  case (2 m k' v e)
  then have "k' \<notin> jkeys e" by (auto simp: jsorted_Cons)
  then have "jget e k' = None" by (simp add: jget_None_iff)
  with 2 show ?case
    by (auto simp: jsorted_Cons jget_jinsert jget_Cons split: option.splits)
qed

lemma jget_filter_keys: "jget (filter (\<lambda>(k, v). P k) m) k = (if P k then jget m k else None)"
  by (induction m) (auto simp: jget_def)

text \<open>A sorted map is determined by its lookup function.\<close>

lemma jmap_ext:
  "jsorted m \<Longrightarrow> jsorted n \<Longrightarrow> (\<And>k. jget m k = jget n k) \<Longrightarrow> m = n"
proof (induction m arbitrary: n)
  case Nil
  then show ?case by (cases n) (auto simp: jget_Cons split: if_splits, metis option.distinct(1))
next
  case (Cons p m)
  obtain k v where p: "p = (k, v)" by (cases p)
  from Cons.prems(3) [of k] obtain k' v' n' where n: "n = (k', v') # n'"
    by (cases n) (auto simp: p jget_Cons)
  have less: "\<forall>j \<in> jkeys m. k < j" "\<forall>j \<in> jkeys n'. k' < j"
    using Cons.prems by (auto simp: p n jsorted_Cons)
  have "k \<in> jkeys n" "k' \<in> jkeys (p # m)"
    using Cons.prems(3) by (metis p n jget_Cons jget_None_iff option.distinct(1))+
  then have k: "k = k'" using less by (auto simp: n p dest: less_asym)
  then have v: "v = v'" using Cons.prems(3) [of k] by (simp add: p n jget_Cons)
  have notin: "jget m k = None" "jget n' k = None"
    using less k by (auto simp: jget_None_iff)
  have "jget m j = jget n' j" for j
    using Cons.prems(3) [of j] k notin by (auto simp: p n jget_Cons split: if_splits)
  then have "m = n'" using Cons.IH Cons.prems by (simp add: p n jsorted_Cons)
  with k v show ?case by (simp add: p n)
qed

section \<open>The map interface\<close>

text \<open>
  What the builders of the SDK rely on: a lookup after an insert, and the invariant of the
  representation. Its client lemmas are about inserting optional fields, which is what every
  \<open>if let Some(x) = .. { extra.insert(..) }\<close> of the sources does.
\<close>

locale object_map =
  fixes empty :: "'m"
    and insert :: "string \<Rightarrow> 'v \<Rightarrow> 'm \<Rightarrow> 'm"
    and get :: "'m \<Rightarrow> string \<Rightarrow> 'v option"
    and ok :: "'m \<Rightarrow> bool"
  assumes get_empty: "get empty k = None"
    and get_insert: "get (insert k v m) = (get m)(k \<mapsto> v)"
    and ok_empty: "ok empty"
    and ok_insert: "ok m \<Longrightarrow> ok (insert k v m)"
begin

fun insert_all :: "(string \<times> 'v option) list \<Rightarrow> 'm \<Rightarrow> 'm" where
  "insert_all [] m = m"
| "insert_all ((k, None) # rows) m = insert_all rows m"
| "insert_all ((k, Some v) # rows) m = insert_all rows (insert k v m)"

lemma ok_insert_all: "ok m \<Longrightarrow> ok (insert_all rows m)"
  by (induction rows m rule: insert_all.induct) (auto intro: ok_insert)

lemma get_insert_all_other: "k \<notin> fst ` set rows \<Longrightarrow> get (insert_all rows m) k = get m k"
  by (induction rows m rule: insert_all.induct) (auto simp: get_insert)

lemma get_insert_all:
  "distinct (map fst rows) \<Longrightarrow> map_of rows k = Some ov \<Longrightarrow> get m k = None \<Longrightarrow>
   get (insert_all rows m) k = ov"
proof (induction rows m rule: insert_all.induct)
  case (1 m)
  then show ?case by simp
next
  case (2 k' rows m)
  then show ?case by (auto simp: get_insert_all_other split: if_splits)
next
  case (3 k' v rows m)
  then show ?case
    by (auto simp: get_insert_all_other get_insert split: if_splits)
qed

end

interpretation jm: object_map "[] :: (string \<times> 'v) list" jinsert jget jsorted
  by unfold_locales (auto simp: jget_jinsert)

section \<open>Building and reading objects\<close>

text \<open>
  A struct with a flattened map serializes its fields in order and then the entries of
  \<open>extra\<close>; into a \<open>Value\<close> this is one insert after another, so an \<open>extra\<close> key overrides a
  field of that name. A field row is its wire name and its value, \<open>None\<close> when
  \<open>skip_serializing_if\<close> drops it.
\<close>

type_synonym field_row = "string \<times> json option"

fun insert_rows :: "field_row list \<Rightarrow> jmap \<Rightarrow> jmap" where
  "insert_rows [] m = m"
| "insert_rows ((k, None) # rows) m = insert_rows rows m"
| "insert_rows ((k, Some v) # rows) m = insert_rows rows (jinsert k v m)"

lemma insert_rows_eq: "insert_rows rows m = jm.insert_all rows m"
  by (induction rows m rule: insert_rows.induct) auto

definition object_of :: "field_row list \<Rightarrow> jmap \<Rightarrow> jmap" where
  "object_of rows extra = jextend (insert_rows rows []) extra"

lemma jsorted_insert_rows [simp]: "jsorted m \<Longrightarrow> jsorted (insert_rows rows m)"
  by (simp add: insert_rows_eq jm.ok_insert_all)

lemma jsorted_object_of [simp]: "jsorted (object_of rows extra)"
  by (simp add: object_of_def)

lemma jget_insert_rows:
  "distinct (map fst rows) \<Longrightarrow> map_of rows k = Some ov \<Longrightarrow> jget (insert_rows rows []) k = ov"
  by (simp add: insert_rows_eq jm.get_insert_all)

lemma jget_object_of_field:
  assumes "distinct (map fst rows)" "map_of rows k = Some ov" "k \<notin> jkeys extra"
  shows "jget (object_of rows extra) k = ov"
  using assms by (simp add: object_of_def jget_jextend_not_in jget_insert_rows)

lemma jget_object_of_extra:
  assumes "k \<notin> fst ` set rows" "jsorted extra"
  shows "jget (object_of rows extra) k = jget extra k"
  using assms
  by (auto simp: object_of_def jget_jextend_sorted insert_rows_eq jm.get_insert_all_other
      split: option.splits)

lemma jget_object_of_override:
  assumes "jsorted extra" "jget extra k = Some v"
  shows "jget (object_of rows extra) k = Some v"
  using assms by (simp add: object_of_def jget_jextend_sorted)

text \<open>
  Deserialization: a required field must be present, an \<open>Option\<close> field with \<open>default\<close> is
  \<open>None\<close> when absent or \<open>null\<close>, a \<open>Vec\<close> field with \<open>default\<close> is empty when absent, and the
  entries no field claims go to \<open>extra\<close>. The text of a serde error is serde's and is not
  modelled.
\<close>

datatype serde_error = SerdeError

fun read_req :: "(json \<Rightarrow> serde_error + 'a) \<Rightarrow> json option \<Rightarrow> serde_error + 'a" where
  "read_req f None = Err SerdeError"
| "read_req f (Some v) = f v"

fun read_opt :: "(json \<Rightarrow> serde_error + 'a) \<Rightarrow> json option \<Rightarrow> serde_error + 'a option" where
  "read_opt f None = Ok None"
| "read_opt f (Some v) = (if v = JNull then Ok None else map_ok Some (f v))"

fun read_default :: "'a \<Rightarrow> (json \<Rightarrow> serde_error + 'a) \<Rightarrow> json option \<Rightarrow> serde_error + 'a" where
  "read_default d f None = Ok d"
| "read_default d f (Some v) = f v"

definition get_req :: "(json \<Rightarrow> serde_error + 'a) \<Rightarrow> string \<Rightarrow> jmap \<Rightarrow> serde_error + 'a" where
  "get_req f k m = read_req f (jget m k)"

definition get_opt :: "(json \<Rightarrow> serde_error + 'a) \<Rightarrow> string \<Rightarrow> jmap \<Rightarrow> serde_error + 'a option" where
  "get_opt f k m = read_opt f (jget m k)"

definition get_default ::
  "'a \<Rightarrow> (json \<Rightarrow> serde_error + 'a) \<Rightarrow> string \<Rightarrow> jmap \<Rightarrow> serde_error + 'a" where
  "get_default d f k m = read_default d f (jget m k)"

definition get_extra :: "string list \<Rightarrow> jmap \<Rightarrow> jmap" where
  "get_extra known m = filter (\<lambda>(k, v). k \<notin> set known) m"

definition of_object :: "(jmap \<Rightarrow> serde_error + 'a) \<Rightarrow> json \<Rightarrow> serde_error + 'a" where
  "of_object f v = (case v of JObject m \<Rightarrow> f m | _ \<Rightarrow> Err SerdeError)"

fun dec_string :: "json \<Rightarrow> serde_error + string" where
  "dec_string (JString s) = Ok s"
| "dec_string _ = Err SerdeError"

fun dec_bool :: "json \<Rightarrow> serde_error + bool" where
  "dec_bool (JBool b) = Ok b"
| "dec_bool _ = Err SerdeError"

definition dec_value :: "json \<Rightarrow> serde_error + json" where
  "dec_value v = Ok v"

fun dec_map :: "json \<Rightarrow> serde_error + jmap" where
  "dec_map (JObject m) = Ok m"
| "dec_map _ = Err SerdeError"

fun dec_list :: "(json \<Rightarrow> serde_error + 'a) \<Rightarrow> json \<Rightarrow> serde_error + 'a list" where
  "dec_list f (JArray vs) = collect_results f vs"
| "dec_list f _ = Err SerdeError"

definition dec_i64 :: "json \<Rightarrow> serde_error + i64" where
  "dec_i64 v = (case as_i64 v of Some n \<Rightarrow> Ok n | None \<Rightarrow> Err SerdeError)"

definition dec_u64 :: "json \<Rightarrow> serde_error + u64" where
  "dec_u64 v = (case as_u64 v of Some n \<Rightarrow> Ok n | None \<Rightarrow> Err SerdeError)"

definition dec_u32 :: "json \<Rightarrow> serde_error + u32" where
  "dec_u32 v = (case as_u64 v of
       Some n \<Rightarrow> if unat n < 2 ^ 32 then Ok (ucast n) else Err SerdeError
     | None \<Rightarrow> Err SerdeError)"

definition enc_i64 :: "i64 \<Rightarrow> json" where "enc_i64 n = JNumber (number_of_i64 n)"
definition enc_u64 :: "u64 \<Rightarrow> json" where "enc_u64 n = JNumber (PosInt n)"
definition enc_u32 :: "u32 \<Rightarrow> json" where "enc_u32 n = JNumber (PosInt (ucast n))"
definition enc_list :: "('a \<Rightarrow> json) \<Rightarrow> 'a list \<Rightarrow> json" where "enc_list f xs = JArray (map f xs)"

lemma dec_enc_i64 [simp]: "dec_i64 (enc_i64 n) = Ok n"
  by (simp add: dec_i64_def enc_i64_def)

lemma dec_enc_u64 [simp]: "dec_u64 (enc_u64 n) = Ok n"
  by (simp add: dec_u64_def enc_u64_def)

lemma dec_enc_u32 [simp]: "dec_u32 (enc_u32 n) = Ok n"
proof -
  have lt: "unat n < 2 ^ 32" using unsigned_less [of n, where ?'a = nat] by simp
  then have "take_bit 64 (unat n) = unat n" by (simp add: take_bit_nat_eq_self)
  then have "unat (ucast n :: u64) = unat n" by (simp add: unsigned_ucast_eq)
  moreover note lt
  ultimately show ?thesis by (simp add: dec_u32_def enc_u32_def ucast_up_ucast_id is_up)
qed

lemma enc_not_null [simp]:
  "enc_i64 n \<noteq> JNull" "enc_u64 m \<noteq> JNull" "enc_u32 k \<noteq> JNull" "enc_list f xs \<noteq> JNull"
  by (simp_all add: enc_i64_def enc_u64_def enc_u32_def enc_list_def)

lemma dec_enc_list:
  "(\<And>x. x \<in> set xs \<Longrightarrow> f (g x) = Ok x) \<Longrightarrow> dec_list f (enc_list g xs) = Ok xs"
  by (simp add: enc_list_def collect_results_map)

text \<open>How one decoded field reads back from an object that was built by \<open>object_of\<close>.\<close>

lemma object_field:
  assumes "distinct (map fst rows)" "jkeys extra \<inter> set (map fst rows) = {}"
    "k \<in> set (map fst rows)"
  shows "jget (object_of rows extra) k = the (map_of rows k)"
proof -
  from assms(3) obtain ov where ov: "map_of rows k = Some ov"
    by (metis map_of_eq_None_iff not_None_eq set_map)
  from assms(2,3) have "k \<notin> jkeys extra" by blast
  then have "jget (object_of rows extra) k = ov" by (rule jget_object_of_field [OF assms(1) ov])
  with ov show ?thesis by simp
qed

lemma read_opt_map:
  "(\<And>x. ov = Some x \<Longrightarrow> g x \<noteq> JNull \<and> f (g x) = Ok x) \<Longrightarrow> read_opt f (map_option g ov) = Ok ov"
  by (cases ov) auto

lemma read_opt_string [codec]: "read_opt dec_string (map_option JString ov) = Ok ov"
  and read_opt_bool [codec]: "read_opt dec_bool (map_option JBool ob) = Ok ob"
  and read_opt_u32 [codec]: "read_opt dec_u32 (map_option enc_u32 ou) = Ok ou"
  and read_opt_u64 [codec]: "read_opt dec_u64 (map_option enc_u64 ow) = Ok ow"
  and read_opt_map_value [codec]: "read_opt dec_map (map_option JObject om) = Ok om"
  by (auto intro!: read_opt_map)

lemma read_opt_value [codec]: "ov \<noteq> Some JNull \<Longrightarrow> read_opt dec_value ov = Ok ov"
  by (cases ov) (auto simp: dec_value_def)

lemma dec_value_Ok [codec]: "dec_value v = Ok v"
  by (simp add: dec_value_def)

lemma dec_string_list [codec]: "dec_list dec_string (enc_list JString xs) = Ok xs"
  by (simp add: dec_enc_list)

lemma collect_values [simp]: "collect_results dec_value vs = Ok vs"
  using collect_results_map [of vs dec_value id] by (simp add: dec_value_def)

lemma dec_value_list [codec]: "dec_list dec_value (JArray vs) = Ok vs"
  by simp

lemma read_opt_string_list [codec]:
  "read_opt (dec_list dec_string) (map_option (enc_list JString) ov) = Ok ov"
  by (auto intro!: read_opt_map simp: dec_string_list)

lemma read_opt_value_list [codec]: "read_opt (dec_list dec_value) (map_option JArray ov) = Ok ov"
  by (auto intro!: read_opt_map)

lemmas [codec] = of_object_def get_req_def get_opt_def get_default_def

lemma get_extra_object_of:
  assumes "map fst rows = known" "jsorted extra" "jkeys extra \<inter> set known = {}"
  shows "get_extra known (object_of rows extra) = extra"
proof (rule jmap_ext)
  show "jsorted (get_extra known (object_of rows extra))"
    by (simp add: get_extra_def jsorted_filter)
  show "jsorted extra" by fact
  fix k
  show "jget (get_extra known (object_of rows extra)) k = jget extra k"
  proof (cases "k \<in> set known")
    case True
    then have "k \<notin> jkeys extra" using assms(3) by auto
    then show ?thesis using True
      by (simp add: get_extra_def jget_filter_keys jget_None_iff [symmetric])
  next
    case False
    then have "k \<notin> fst ` set rows" using assms(1) by (metis image_set)
    with False show ?thesis
      by (simp add: get_extra_def jget_filter_keys jget_object_of_extra assms(2))
  qed
qed

section \<open>The contract of a wire struct\<close>

text \<open>
  A struct is laid out by its rows and its flattened map: the rows have the struct's field
  names, each once. Then an encoded object gives every field and the map back, as long as
  the map is sorted and claims no field name.
\<close>

locale flat_struct =
  fixes fields :: "string list"
    and rows :: "'a \<Rightarrow> field_row list"
    and extra :: "'a \<Rightarrow> jmap"
  assumes fst_rows: "map fst (rows x) = fields"
    and distinct_fields: "distinct fields"
begin

lemma read_extra:
  assumes "jsorted (extra x)" "jkeys (extra x) \<inter> set fields = {}"
  shows "get_extra fields (object_of (rows x) (extra x)) = extra x"
  using assms by (intro get_extra_object_of fst_rows)

lemma read_field:
  assumes "jkeys (extra x) \<inter> set fields = {}" "k \<in> set fields"
  shows "jget (object_of (rows x) (extra x)) k = the (map_of (rows x) k)"
  using assms by (intro object_field) (simp_all add: fst_rows distinct_fields)

text \<open>An \<open>extra\<close> entry wins over the field of the same name.\<close>

lemma extra_overrides:
  assumes "jsorted (extra x)" "jget (extra x) k = Some v"
  shows "jget (object_of (rows x) (extra x)) k = Some v"
  using assms by (rule jget_object_of_override)

end

text \<open>
  Every wire struct has an encoder, a decoder and a side condition \<open>wf\<close> under which the
  decoder returns what was encoded: its \<open>extra\<close> map is sorted and claims no field's name
  (and no \<open>Option<Value>\<close> field holds \<open>null\<close>).
\<close>

locale wire_codec =
  fixes enc :: "'a \<Rightarrow> json"
    and dec :: "json \<Rightarrow> serde_error + 'a"
    and wf :: "'a \<Rightarrow> bool"
  assumes roundtrip: "wf x \<Longrightarrow> dec (enc x) = Ok x"
    and enc_not_JNull: "enc x \<noteq> JNull"
begin

lemma enc_inj: "wf x \<Longrightarrow> wf y \<Longrightarrow> enc x = enc y \<Longrightarrow> x = y"
  using roundtrip by (metis sum.inject(2))

lemma list_roundtrip: "list_all wf xs \<Longrightarrow> dec_list dec (enc_list enc xs) = Ok xs"
  by (rule dec_enc_list) (auto simp: list_all_iff roundtrip)

lemma opt_roundtrip: "pred_option wf ov \<Longrightarrow> read_opt dec (map_option enc ov) = Ok ov"
  by (rule read_opt_map) (auto simp: roundtrip enc_not_JNull)

lemmas codec_rules = roundtrip list_roundtrip opt_roundtrip

end

end
