(* ===== verification/Wire_Enums.thy ===== *)
theory Wire_Enums
  imports Json
begin

text \<open>
  The wire-facing string enums of \<open>crates/sdk/src/api.rs\<close>. The macro \<open>wire_enum!\<close> generates
  each of them from one table of variants and spellings; here the macro's contract is the
  locale \<open>wire_enum\<close>, each enum interprets it on its own table, and the \<open>FromStr\<close>, serde and
  round-trip facts are proved once. The second half holds the item status enums, which parse
  with a fallback instead of an error (locale \<open>status_enum\<close>).
\<close>

section \<open>The macro and its contract\<close>

definition wire_invalid_message :: "string \<Rightarrow> string \<Rightarrow> string list \<Rightarrow> string" where
  "wire_invalid_message name raw variants =
     ''invalid '' @ name @ '' value '' @ [CHR 0x27] @ raw @ [CHR 0x27] @ ''; expected one of: ''
     @ join_with '', '' variants"

text \<open>\<open>FromStr::from_str\<close> of the macro: the first table row with this spelling, or the error
  that lists \<open>VARIANTS\<close>.\<close>

definition wire_from_str ::
  "string \<Rightarrow> (string \<times> 'e) list \<Rightarrow> string \<Rightarrow> string + 'e" where
  "wire_from_str name table raw =
     (case map_of table raw of
        Some v \<Rightarrow> Ok v
      | None \<Rightarrow> Err (wire_invalid_message name raw (map fst table)))"

text \<open>The derived serde representation: the spelling as a JSON string.\<close>

definition wire_enum_enc :: "('e \<Rightarrow> string) \<Rightarrow> 'e \<Rightarrow> json" where
  "wire_enum_enc as_wire v = JString (as_wire v)"

definition wire_enum_dec :: "(string \<times> 'e) list \<Rightarrow> json \<Rightarrow> serde_error + 'e" where
  "wire_enum_dec table j =
     (case j of
        JString s \<Rightarrow> (case map_of table s of Some v \<Rightarrow> Ok v | None \<Rightarrow> Err SerdeError)
      | _ \<Rightarrow> Err SerdeError)"

locale wire_enum =
  fixes name :: string
    and table :: "(string \<times> 'e) list"
    and as_wire :: "'e \<Rightarrow> string"
  assumes lookup_as_wire: "map_of table (as_wire v) = Some v"
    and as_wire_lookup: "map_of table s = Some v \<Longrightarrow> as_wire v = s"
begin

lemma from_str_as_str: "wire_from_str name table (as_wire v) = Ok v"
  by (simp add: wire_from_str_def lookup_as_wire)

lemma from_str_Ok_iff: "wire_from_str name table s = Ok v \<longleftrightarrow> s = as_wire v"
  by (auto simp: wire_from_str_def lookup_as_wire dest: as_wire_lookup split: option.splits)

lemma as_wire_inj: "as_wire v = as_wire w \<Longrightarrow> v = w"
  using lookup_as_wire by (metis option.inject)

lemma variants_range: "set (map fst table) = range as_wire"
proof -
  have "s \<in> fst ` set table \<longleftrightarrow> s \<in> range as_wire" for s
  proof
    assume "s \<in> fst ` set table"
    then obtain v where "map_of table s = Some v"
      by (metis map_of_eq_None_iff not_None_eq)
    then show "s \<in> range as_wire" by (metis as_wire_lookup rangeI)
  next
    assume "s \<in> range as_wire"
    then obtain v where "map_of table s = Some v" using lookup_as_wire by auto
    then show "s \<in> fst ` set table" by (metis map_of_eq_None_iff option.distinct(1))
  qed
  then show ?thesis by auto
qed

lemma from_str_Err:
  assumes "s \<notin> range as_wire"
  shows "wire_from_str name table s = Err (wire_invalid_message name s (map fst table))"
proof -
  from assms have "map_of table s = None"
    using as_wire_lookup by (cases "map_of table s") auto
  then show ?thesis by (simp add: wire_from_str_def)
qed

sublocale wire_codec "wire_enum_enc as_wire" "wire_enum_dec table" "\<lambda>_. True"
  by unfold_locales (simp_all add: wire_enum_enc_def wire_enum_dec_def lookup_as_wire)

end

section \<open>The enums\<close>

datatype approval_mode = AM_Never | AM_OnRequest | AM_OnFailure | AM_Untrusted

fun approval_mode_as_str :: "approval_mode \<Rightarrow> string" where
  "approval_mode_as_str AM_Never = ''never''"
| "approval_mode_as_str AM_OnRequest = ''on-request''"
| "approval_mode_as_str AM_OnFailure = ''on-failure''"
| "approval_mode_as_str AM_Untrusted = ''untrusted''"

definition approval_mode_table :: "(string \<times> approval_mode) list" where
  "approval_mode_table =
     [(''never'', AM_Never), (''on-request'', AM_OnRequest), (''on-failure'', AM_OnFailure), (''untrusted'', AM_Untrusted)]"

definition approval_mode_from_str :: "string \<Rightarrow> string + approval_mode" where
  "approval_mode_from_str = wire_from_str ''ApprovalMode'' approval_mode_table"

interpretation approval_mode: wire_enum "''ApprovalMode''" approval_mode_table approval_mode_as_str
proof (unfold_locales, goal_cases)
  case (1 v) then show ?case by (cases v) (simp_all add: approval_mode_table_def)
next
  case (2 s v) then show ?case by (auto simp: approval_mode_table_def split: if_splits)
qed

datatype sandbox_mode = SM_ReadOnly | SM_WorkspaceWrite | SM_DangerFullAccess

fun sandbox_mode_as_str :: "sandbox_mode \<Rightarrow> string" where
  "sandbox_mode_as_str SM_ReadOnly = ''read-only''"
| "sandbox_mode_as_str SM_WorkspaceWrite = ''workspace-write''"
| "sandbox_mode_as_str SM_DangerFullAccess = ''danger-full-access''"

definition sandbox_mode_table :: "(string \<times> sandbox_mode) list" where
  "sandbox_mode_table =
     [(''read-only'', SM_ReadOnly), (''workspace-write'', SM_WorkspaceWrite), (''danger-full-access'', SM_DangerFullAccess)]"

definition sandbox_mode_from_str :: "string \<Rightarrow> string + sandbox_mode" where
  "sandbox_mode_from_str = wire_from_str ''SandboxMode'' sandbox_mode_table"

interpretation sandbox_mode: wire_enum "''SandboxMode''" sandbox_mode_table sandbox_mode_as_str
proof (unfold_locales, goal_cases)
  case (1 v) then show ?case by (cases v) (simp_all add: sandbox_mode_table_def)
next
  case (2 s v) then show ?case by (auto simp: sandbox_mode_table_def split: if_splits)
qed

datatype model_reasoning_effort = MRE_None | MRE_Minimal | MRE_Low | MRE_Medium | MRE_High | MRE_XHigh | MRE_Max | MRE_Ultra

fun model_reasoning_effort_as_str :: "model_reasoning_effort \<Rightarrow> string" where
  "model_reasoning_effort_as_str MRE_None = ''none''"
| "model_reasoning_effort_as_str MRE_Minimal = ''minimal''"
| "model_reasoning_effort_as_str MRE_Low = ''low''"
| "model_reasoning_effort_as_str MRE_Medium = ''medium''"
| "model_reasoning_effort_as_str MRE_High = ''high''"
| "model_reasoning_effort_as_str MRE_XHigh = ''xhigh''"
| "model_reasoning_effort_as_str MRE_Max = ''max''"
| "model_reasoning_effort_as_str MRE_Ultra = ''ultra''"

definition model_reasoning_effort_table :: "(string \<times> model_reasoning_effort) list" where
  "model_reasoning_effort_table =
     [(''none'', MRE_None), (''minimal'', MRE_Minimal), (''low'', MRE_Low), (''medium'', MRE_Medium), (''high'', MRE_High), (''xhigh'', MRE_XHigh), (''max'', MRE_Max), (''ultra'', MRE_Ultra)]"

definition model_reasoning_effort_from_str :: "string \<Rightarrow> string + model_reasoning_effort" where
  "model_reasoning_effort_from_str = wire_from_str ''ModelReasoningEffort'' model_reasoning_effort_table"

interpretation model_reasoning_effort: wire_enum "''ModelReasoningEffort''" model_reasoning_effort_table model_reasoning_effort_as_str
proof (unfold_locales, goal_cases)
  case (1 v) then show ?case by (cases v) (simp_all add: model_reasoning_effort_table_def)
next
  case (2 s v) then show ?case by (auto simp: model_reasoning_effort_table_def split: if_splits)
qed

datatype model_reasoning_summary = MRS_None | MRS_Auto | MRS_Concise | MRS_Detailed

fun model_reasoning_summary_as_str :: "model_reasoning_summary \<Rightarrow> string" where
  "model_reasoning_summary_as_str MRS_None = ''none''"
| "model_reasoning_summary_as_str MRS_Auto = ''auto''"
| "model_reasoning_summary_as_str MRS_Concise = ''concise''"
| "model_reasoning_summary_as_str MRS_Detailed = ''detailed''"

definition model_reasoning_summary_table :: "(string \<times> model_reasoning_summary) list" where
  "model_reasoning_summary_table =
     [(''none'', MRS_None), (''auto'', MRS_Auto), (''concise'', MRS_Concise), (''detailed'', MRS_Detailed)]"

definition model_reasoning_summary_from_str :: "string \<Rightarrow> string + model_reasoning_summary" where
  "model_reasoning_summary_from_str = wire_from_str ''ModelReasoningSummary'' model_reasoning_summary_table"

interpretation model_reasoning_summary: wire_enum "''ModelReasoningSummary''" model_reasoning_summary_table model_reasoning_summary_as_str
proof (unfold_locales, goal_cases)
  case (1 v) then show ?case by (cases v) (simp_all add: model_reasoning_summary_table_def)
next
  case (2 s v) then show ?case by (auto simp: model_reasoning_summary_table_def split: if_splits)
qed

datatype model_verbosity = MV_Low | MV_Medium | MV_High

fun model_verbosity_as_str :: "model_verbosity \<Rightarrow> string" where
  "model_verbosity_as_str MV_Low = ''low''"
| "model_verbosity_as_str MV_Medium = ''medium''"
| "model_verbosity_as_str MV_High = ''high''"

definition model_verbosity_table :: "(string \<times> model_verbosity) list" where
  "model_verbosity_table =
     [(''low'', MV_Low), (''medium'', MV_Medium), (''high'', MV_High)]"

definition model_verbosity_from_str :: "string \<Rightarrow> string + model_verbosity" where
  "model_verbosity_from_str = wire_from_str ''ModelVerbosity'' model_verbosity_table"

interpretation model_verbosity: wire_enum "''ModelVerbosity''" model_verbosity_table model_verbosity_as_str
proof (unfold_locales, goal_cases)
  case (1 v) then show ?case by (cases v) (simp_all add: model_verbosity_table_def)
next
  case (2 s v) then show ?case by (auto simp: model_verbosity_table_def split: if_splits)
qed

datatype service_tier = ST_Default | ST_Fast

fun service_tier_as_str :: "service_tier \<Rightarrow> string" where
  "service_tier_as_str ST_Default = ''default''"
| "service_tier_as_str ST_Fast = ''fast''"

definition service_tier_table :: "(string \<times> service_tier) list" where
  "service_tier_table =
     [(''default'', ST_Default), (''fast'', ST_Fast)]"

definition service_tier_from_str :: "string \<Rightarrow> string + service_tier" where
  "service_tier_from_str = wire_from_str ''ServiceTier'' service_tier_table"

interpretation service_tier: wire_enum "''ServiceTier''" service_tier_table service_tier_as_str
proof (unfold_locales, goal_cases)
  case (1 v) then show ?case by (cases v) (simp_all add: service_tier_table_def)
next
  case (2 s v) then show ?case by (auto simp: service_tier_table_def split: if_splits)
qed

datatype personality = PE_None | PE_Friendly | PE_Pragmatic

fun personality_as_str :: "personality \<Rightarrow> string" where
  "personality_as_str PE_None = ''none''"
| "personality_as_str PE_Friendly = ''friendly''"
| "personality_as_str PE_Pragmatic = ''pragmatic''"

definition personality_table :: "(string \<times> personality) list" where
  "personality_table =
     [(''none'', PE_None), (''friendly'', PE_Friendly), (''pragmatic'', PE_Pragmatic)]"

definition personality_from_str :: "string \<Rightarrow> string + personality" where
  "personality_from_str = wire_from_str ''Personality'' personality_table"

interpretation personality: wire_enum "''Personality''" personality_table personality_as_str
proof (unfold_locales, goal_cases)
  case (1 v) then show ?case by (cases v) (simp_all add: personality_table_def)
next
  case (2 s v) then show ?case by (auto simp: personality_table_def split: if_splits)
qed

datatype web_search_mode = WSM_Disabled | WSM_Cached | WSM_Live

fun web_search_mode_as_str :: "web_search_mode \<Rightarrow> string" where
  "web_search_mode_as_str WSM_Disabled = ''disabled''"
| "web_search_mode_as_str WSM_Cached = ''cached''"
| "web_search_mode_as_str WSM_Live = ''live''"

definition web_search_mode_table :: "(string \<times> web_search_mode) list" where
  "web_search_mode_table =
     [(''disabled'', WSM_Disabled), (''cached'', WSM_Cached), (''live'', WSM_Live)]"

definition web_search_mode_from_str :: "string \<Rightarrow> string + web_search_mode" where
  "web_search_mode_from_str = wire_from_str ''WebSearchMode'' web_search_mode_table"

interpretation web_search_mode: wire_enum "''WebSearchMode''" web_search_mode_table web_search_mode_as_str
proof (unfold_locales, goal_cases)
  case (1 v) then show ?case by (cases v) (simp_all add: web_search_mode_table_def)
next
  case (2 s v) then show ?case by (auto simp: web_search_mode_table_def split: if_splits)
qed

datatype collaboration_mode_kind = CMK_Plan | CMK_Default

fun collaboration_mode_kind_as_str :: "collaboration_mode_kind \<Rightarrow> string" where
  "collaboration_mode_kind_as_str CMK_Plan = ''plan''"
| "collaboration_mode_kind_as_str CMK_Default = ''default''"

definition collaboration_mode_kind_table :: "(string \<times> collaboration_mode_kind) list" where
  "collaboration_mode_kind_table =
     [(''plan'', CMK_Plan), (''default'', CMK_Default)]"

definition collaboration_mode_kind_from_str :: "string \<Rightarrow> string + collaboration_mode_kind" where
  "collaboration_mode_kind_from_str = wire_from_str ''CollaborationModeKind'' collaboration_mode_kind_table"

interpretation collaboration_mode_kind: wire_enum "''CollaborationModeKind''" collaboration_mode_kind_table collaboration_mode_kind_as_str
proof (unfold_locales, goal_cases)
  case (1 v) then show ?case by (cases v) (simp_all add: collaboration_mode_kind_table_def)
next
  case (2 s v) then show ?case by (auto simp: collaboration_mode_kind_table_def split: if_splits)
qed

section \<open>Status enums with a fallback\<close>

text \<open>
  Item statuses come from the server and must never fail to parse: every \<open>parse_*\<close> function
  maps an unknown spelling to \<open>Unknown\<close>. The contract: the canonical spelling of a status
  parses back to it, and only finitely many spellings are known.
\<close>

locale status_enum =
  fixes parse :: "string \<Rightarrow> 'e"
    and as_str :: "'e \<Rightarrow> string"
    and unknown :: 'e
    and known :: "string list"
  assumes parse_as_str: "parse (as_str v) = v"
    and parse_unknown: "s \<notin> set known \<Longrightarrow> parse s = unknown"
begin

lemma as_str_inj: "as_str v = as_str w \<Longrightarrow> v = w"
  using parse_as_str by metis

lemma known_of_parse: "parse s \<noteq> unknown \<Longrightarrow> s \<in> set known"
  using parse_unknown by blast

end

datatype agent_message_phase = AMP_Commentary | AMP_FinalAnswer | AMP_Unknown

fun agent_message_phase_as_str :: "agent_message_phase \<Rightarrow> string" where
  "agent_message_phase_as_str AMP_Commentary = ''commentary''"
| "agent_message_phase_as_str AMP_FinalAnswer = ''final_answer''"
| "agent_message_phase_as_str AMP_Unknown = ''unknown''"

definition parse_agent_message_phase :: "string \<Rightarrow> agent_message_phase" where
  "parse_agent_message_phase value =
     (if value = ''commentary'' then AMP_Commentary
      else if value = ''final_answer'' then AMP_FinalAnswer
      else AMP_Unknown)"

interpretation phase: status_enum parse_agent_message_phase agent_message_phase_as_str
  AMP_Unknown "[''commentary'', ''final_answer'']"
proof (unfold_locales, goal_cases)
  case (1 v) then show ?case by (cases v) (simp_all add: parse_agent_message_phase_def)
next
  case (2 s) then show ?case by (simp add: parse_agent_message_phase_def)
qed

datatype command_execution_status =
  CES_InProgress | CES_Completed | CES_Failed | CES_Declined | CES_Unknown

fun command_execution_status_as_str :: "command_execution_status \<Rightarrow> string" where
  "command_execution_status_as_str CES_InProgress = ''inProgress''"
| "command_execution_status_as_str CES_Completed = ''completed''"
| "command_execution_status_as_str CES_Failed = ''failed''"
| "command_execution_status_as_str CES_Declined = ''declined''"
| "command_execution_status_as_str CES_Unknown = ''unknown''"

definition parse_command_execution_status :: "string \<Rightarrow> command_execution_status" where
  "parse_command_execution_status status =
     (if status = ''inProgress'' \<or> status = ''in_progress'' then CES_InProgress
      else if status = ''completed'' then CES_Completed
      else if status = ''failed'' then CES_Failed
      else if status = ''declined'' then CES_Declined
      else CES_Unknown)"

interpretation command_status: status_enum parse_command_execution_status
  command_execution_status_as_str CES_Unknown
  "[''inProgress'', ''in_progress'', ''completed'', ''failed'', ''declined'']"
proof (unfold_locales, goal_cases)
  case (1 v) then show ?case by (cases v) (simp_all add: parse_command_execution_status_def)
next
  case (2 s) then show ?case by (simp add: parse_command_execution_status_def)
qed

datatype patch_change_kind = PCK_Add | PCK_Delete | PCK_Update | PCK_Unknown

fun patch_change_kind_as_str :: "patch_change_kind \<Rightarrow> string" where
  "patch_change_kind_as_str PCK_Add = ''add''"
| "patch_change_kind_as_str PCK_Delete = ''delete''"
| "patch_change_kind_as_str PCK_Update = ''update''"
| "patch_change_kind_as_str PCK_Unknown = ''unknown''"

definition parse_patch_change_kind :: "string \<Rightarrow> patch_change_kind" where
  "parse_patch_change_kind kind =
     (if kind = ''add'' then PCK_Add
      else if kind = ''delete'' then PCK_Delete
      else if kind = ''update'' then PCK_Update
      else PCK_Unknown)"

interpretation patch_kind: status_enum parse_patch_change_kind patch_change_kind_as_str
  PCK_Unknown "[''add'', ''delete'', ''update'']"
proof (unfold_locales, goal_cases)
  case (1 v) then show ?case by (cases v) (simp_all add: parse_patch_change_kind_def)
next
  case (2 s) then show ?case by (simp add: parse_patch_change_kind_def)
qed

datatype patch_apply_status =
  PAS_InProgress | PAS_Completed | PAS_Failed | PAS_Declined | PAS_Unknown

fun patch_apply_status_as_str :: "patch_apply_status \<Rightarrow> string" where
  "patch_apply_status_as_str PAS_InProgress = ''inProgress''"
| "patch_apply_status_as_str PAS_Completed = ''completed''"
| "patch_apply_status_as_str PAS_Failed = ''failed''"
| "patch_apply_status_as_str PAS_Declined = ''declined''"
| "patch_apply_status_as_str PAS_Unknown = ''unknown''"

definition parse_patch_apply_status :: "string \<Rightarrow> patch_apply_status" where
  "parse_patch_apply_status status =
     (if status = ''inProgress'' \<or> status = ''in_progress'' then PAS_InProgress
      else if status = ''completed'' then PAS_Completed
      else if status = ''failed'' then PAS_Failed
      else if status = ''declined'' then PAS_Declined
      else PAS_Unknown)"

interpretation patch_status: status_enum parse_patch_apply_status patch_apply_status_as_str
  PAS_Unknown "[''inProgress'', ''in_progress'', ''completed'', ''failed'', ''declined'']"
proof (unfold_locales, goal_cases)
  case (1 v) then show ?case by (cases v) (simp_all add: parse_patch_apply_status_def)
next
  case (2 s) then show ?case by (simp add: parse_patch_apply_status_def)
qed

datatype mcp_tool_call_status = MTS_InProgress | MTS_Completed | MTS_Failed | MTS_Unknown

fun mcp_tool_call_status_as_str :: "mcp_tool_call_status \<Rightarrow> string" where
  "mcp_tool_call_status_as_str MTS_InProgress = ''inProgress''"
| "mcp_tool_call_status_as_str MTS_Completed = ''completed''"
| "mcp_tool_call_status_as_str MTS_Failed = ''failed''"
| "mcp_tool_call_status_as_str MTS_Unknown = ''unknown''"

definition parse_mcp_tool_call_status :: "string \<Rightarrow> mcp_tool_call_status" where
  "parse_mcp_tool_call_status status =
     (if status = ''inProgress'' \<or> status = ''in_progress'' then MTS_InProgress
      else if status = ''completed'' then MTS_Completed
      else if status = ''failed'' then MTS_Failed
      else MTS_Unknown)"

interpretation mcp_status: status_enum parse_mcp_tool_call_status mcp_tool_call_status_as_str
  MTS_Unknown "[''inProgress'', ''in_progress'', ''completed'', ''failed'']"
proof (unfold_locales, goal_cases)
  case (1 v) then show ?case by (cases v) (simp_all add: parse_mcp_tool_call_status_def)
next
  case (2 s) then show ?case by (simp add: parse_mcp_tool_call_status_def)
qed

end
