(* ===== verification/Protocol_Responses.thy ===== *)
theory Protocol_Responses
  imports Wire_Enums
begin

text \<open>
  The result structs of \<open>crates/sdk/src/protocol/responses.rs\<close> and the shared types of
  \<open>shared.rs\<close>. Each struct is a record with the source's fields, its wire rows
  (\<open>_rows\<close>, in field order, \<open>camelCase\<close> names), its derived encoder and decoder, and an
  interpretation of \<open>flat_struct\<close> and \<open>wire_codec\<close>, which give its round trip.
\<close>

section \<open>Structs with only a flattened map\<close>

text \<open>The macro \<open>opaque_struct!\<close> declares all the payloads the SDK does not look into.\<close>

record opaque_struct =
  opaque_extra :: jmap

definition opaque_struct_enc :: "opaque_struct \<Rightarrow> json" where
  "opaque_struct_enc x = JObject (object_of [] (opaque_extra x))"

definition opaque_struct_dec :: "json \<Rightarrow> serde_error + opaque_struct" where
  "opaque_struct_dec = of_object (\<lambda>m. Ok \<lparr>opaque_extra = get_extra [] m\<rparr>)"

definition opaque_struct_wf :: "opaque_struct \<Rightarrow> bool" where
  "opaque_struct_wf x \<longleftrightarrow> jsorted (opaque_extra x)"

interpretation opaque_struct: flat_struct "[]" "\<lambda>_. []" opaque_extra
  by unfold_locales simp_all

interpretation opaque_struct: wire_codec opaque_struct_enc opaque_struct_dec opaque_struct_wf
  by unfold_locales
    (simp_all add: opaque_struct_enc_def opaque_struct_dec_def opaque_struct_wf_def codec
      opaque_struct.read_extra)

section \<open>Request ids\<close>

text \<open>An untagged enum: a string is tried first, then an \<open>i64\<close>.\<close>

datatype request_id = IdString string | IdInteger i64

fun request_id_enc :: "request_id \<Rightarrow> json" where
  "request_id_enc (IdString s) = JString s"
| "request_id_enc (IdInteger n) = enc_i64 n"

fun request_id_dec :: "json \<Rightarrow> serde_error + request_id" where
  "request_id_dec (JString s) = Ok (IdString s)"
| "request_id_dec (JNumber n) =
     (case number_as_i64 n of Some i \<Rightarrow> Ok (IdInteger i) | None \<Rightarrow> Err SerdeError)"
| "request_id_dec _ = Err SerdeError"

interpretation request_id: wire_codec request_id_enc request_id_dec "\<lambda>_. True"
proof (unfold_locales, goal_cases)
  case (1 x) then show ?case by (cases x) (simp_all add: enc_i64_def)
next
  case (2 x) then show ?case by (cases x) simp_all
qed

record empty_object =
  empty_object_extra :: jmap

definition empty_object_fields :: "string list" where
  "empty_object_fields = []"

definition empty_object_rows :: "empty_object \<Rightarrow> field_row list" where
  "empty_object_rows x =
     []"

definition empty_object_enc :: "empty_object \<Rightarrow> json" where
  "empty_object_enc x = JObject (object_of (empty_object_rows x) (empty_object_extra x))"

definition empty_object_dec :: "json \<Rightarrow> serde_error + empty_object" where
  "empty_object_dec = of_object (\<lambda>m.
     Ok \<lparr>empty_object_extra = get_extra empty_object_fields m\<rparr>)"

definition empty_object_wf :: "empty_object \<Rightarrow> bool" where
  "empty_object_wf x \<longleftrightarrow> jsorted (empty_object_extra x) \<and>
     jkeys (empty_object_extra x) \<inter> set empty_object_fields = {}"

interpretation empty_object: flat_struct empty_object_fields empty_object_rows empty_object_extra
  by unfold_locales (simp_all add: empty_object_rows_def empty_object_fields_def)

interpretation empty_object: wire_codec empty_object_enc empty_object_dec empty_object_wf
  by unfold_locales
    (simp_all add: empty_object_enc_def empty_object_dec_def empty_object_wf_def codec empty_object.read_extra)

section \<open>Results\<close>

record initialize_result =
  initialize_result_user_agent :: "string option"
  initialize_result_extra :: jmap

definition initialize_result_fields :: "string list" where
  "initialize_result_fields = [''userAgent'']"

definition initialize_result_rows :: "initialize_result \<Rightarrow> field_row list" where
  "initialize_result_rows x =
     [(''userAgent'', map_option JString (initialize_result_user_agent x))]"

definition initialize_result_enc :: "initialize_result \<Rightarrow> json" where
  "initialize_result_enc x = JObject (object_of (initialize_result_rows x) (initialize_result_extra x))"

definition initialize_result_dec :: "json \<Rightarrow> serde_error + initialize_result" where
  "initialize_result_dec = of_object (\<lambda>m.
     and_then (get_opt dec_string ''userAgent'' m) (\<lambda>v0.
     Ok \<lparr>initialize_result_user_agent = v0,
         initialize_result_extra = get_extra initialize_result_fields m\<rparr>))"

definition initialize_result_wf :: "initialize_result \<Rightarrow> bool" where
  "initialize_result_wf x \<longleftrightarrow> jsorted (initialize_result_extra x) \<and>
     jkeys (initialize_result_extra x) \<inter> set initialize_result_fields = {}"

interpretation initialize_result: flat_struct initialize_result_fields initialize_result_rows initialize_result_extra
  by unfold_locales (simp_all add: initialize_result_rows_def initialize_result_fields_def)

interpretation initialize_result: wire_codec initialize_result_enc initialize_result_dec initialize_result_wf
  by unfold_locales
    (simp_all add: initialize_result_enc_def initialize_result_dec_def initialize_result_wf_def codec initialize_result.read_extra,
      simp add: initialize_result_fields_def initialize_result.read_field,
      simp add: initialize_result_rows_def codec)

record thread_summary =
  thread_summary_id :: string
  thread_summary_model :: "string option"
  thread_summary_title :: "string option"
  thread_summary_source_kind :: "string option"
  thread_summary_archived :: "bool option"
  thread_summary_extra :: jmap

definition thread_summary_fields :: "string list" where
  "thread_summary_fields = [''id'', ''model'', ''title'', ''sourceKind'', ''archived'']"

definition thread_summary_rows :: "thread_summary \<Rightarrow> field_row list" where
  "thread_summary_rows x =
     [(''id'', Some (JString (thread_summary_id x))),
      (''model'', map_option JString (thread_summary_model x)),
      (''title'', map_option JString (thread_summary_title x)),
      (''sourceKind'', map_option JString (thread_summary_source_kind x)),
      (''archived'', map_option JBool (thread_summary_archived x))]"

definition thread_summary_enc :: "thread_summary \<Rightarrow> json" where
  "thread_summary_enc x = JObject (object_of (thread_summary_rows x) (thread_summary_extra x))"

definition thread_summary_dec :: "json \<Rightarrow> serde_error + thread_summary" where
  "thread_summary_dec = of_object (\<lambda>m.
     and_then (get_req dec_string ''id'' m) (\<lambda>v0.
     and_then (get_opt dec_string ''model'' m) (\<lambda>v1.
     and_then (get_opt dec_string ''title'' m) (\<lambda>v2.
     and_then (get_opt dec_string ''sourceKind'' m) (\<lambda>v3.
     and_then (get_opt dec_bool ''archived'' m) (\<lambda>v4.
     Ok \<lparr>thread_summary_id = v0,
         thread_summary_model = v1,
         thread_summary_title = v2,
         thread_summary_source_kind = v3,
         thread_summary_archived = v4,
         thread_summary_extra = get_extra thread_summary_fields m\<rparr>))))))"

definition thread_summary_wf :: "thread_summary \<Rightarrow> bool" where
  "thread_summary_wf x \<longleftrightarrow> jsorted (thread_summary_extra x) \<and>
     jkeys (thread_summary_extra x) \<inter> set thread_summary_fields = {}"

interpretation thread_summary: flat_struct thread_summary_fields thread_summary_rows thread_summary_extra
  by unfold_locales (simp_all add: thread_summary_rows_def thread_summary_fields_def)

interpretation thread_summary: wire_codec thread_summary_enc thread_summary_dec thread_summary_wf
  by unfold_locales
    (simp_all add: thread_summary_enc_def thread_summary_dec_def thread_summary_wf_def codec thread_summary.read_extra,
      simp add: thread_summary_fields_def thread_summary.read_field,
      simp add: thread_summary_rows_def codec)

record turn_error =
  turn_error_message :: string
  turn_error_codex_error_info :: "json option"
  turn_error_additional_details :: "json option"
  turn_error_extra :: jmap

definition turn_error_fields :: "string list" where
  "turn_error_fields = [''message'', ''codexErrorInfo'', ''additionalDetails'']"

definition turn_error_rows :: "turn_error \<Rightarrow> field_row list" where
  "turn_error_rows x =
     [(''message'', Some (JString (turn_error_message x))),
      (''codexErrorInfo'', turn_error_codex_error_info x),
      (''additionalDetails'', turn_error_additional_details x)]"

definition turn_error_enc :: "turn_error \<Rightarrow> json" where
  "turn_error_enc x = JObject (object_of (turn_error_rows x) (turn_error_extra x))"

definition turn_error_dec :: "json \<Rightarrow> serde_error + turn_error" where
  "turn_error_dec = of_object (\<lambda>m.
     and_then (get_req dec_string ''message'' m) (\<lambda>v0.
     and_then (get_opt dec_value ''codexErrorInfo'' m) (\<lambda>v1.
     and_then (get_opt dec_value ''additionalDetails'' m) (\<lambda>v2.
     Ok \<lparr>turn_error_message = v0,
         turn_error_codex_error_info = v1,
         turn_error_additional_details = v2,
         turn_error_extra = get_extra turn_error_fields m\<rparr>))))"

definition turn_error_wf :: "turn_error \<Rightarrow> bool" where
  "turn_error_wf x \<longleftrightarrow> jsorted (turn_error_extra x) \<and>
     jkeys (turn_error_extra x) \<inter> set turn_error_fields = {} \<and>
     turn_error_codex_error_info x \<noteq> Some JNull \<and>
     turn_error_additional_details x \<noteq> Some JNull"

interpretation turn_error: flat_struct turn_error_fields turn_error_rows turn_error_extra
  by unfold_locales (simp_all add: turn_error_rows_def turn_error_fields_def)

interpretation turn_error: wire_codec turn_error_enc turn_error_dec turn_error_wf
  by unfold_locales
    (simp_all add: turn_error_enc_def turn_error_dec_def turn_error_wf_def codec turn_error.read_extra,
      simp add: turn_error_fields_def turn_error.read_field,
      simp add: turn_error_rows_def codec)

record turn =
  turn_id :: string
  turn_status :: "string option"
  turn_items :: "json list"
  turn_error :: "turn_error option"
  turn_extra :: jmap

definition turn_fields :: "string list" where
  "turn_fields = [''id'', ''status'', ''items'', ''error'']"

definition turn_rows :: "turn \<Rightarrow> field_row list" where
  "turn_rows x =
     [(''id'', Some (JString (turn_id x))),
      (''status'', map_option JString (turn_status x)),
      (''items'', Some (JArray (turn_items x))),
      (''error'', map_option turn_error_enc (turn_error x))]"

definition turn_enc :: "turn \<Rightarrow> json" where
  "turn_enc x = JObject (object_of (turn_rows x) (turn_extra x))"

definition turn_dec :: "json \<Rightarrow> serde_error + turn" where
  "turn_dec = of_object (\<lambda>m.
     and_then (get_req dec_string ''id'' m) (\<lambda>v0.
     and_then (get_opt dec_string ''status'' m) (\<lambda>v1.
     and_then (get_default [] (dec_list dec_value) ''items'' m) (\<lambda>v2.
     and_then (get_opt turn_error_dec ''error'' m) (\<lambda>v3.
     Ok \<lparr>turn_id = v0,
         turn_status = v1,
         turn_items = v2,
         turn_error = v3,
         turn_extra = get_extra turn_fields m\<rparr>)))))"

definition turn_wf :: "turn \<Rightarrow> bool" where
  "turn_wf x \<longleftrightarrow> jsorted (turn_extra x) \<and>
     jkeys (turn_extra x) \<inter> set turn_fields = {} \<and>
     pred_option turn_error_wf (turn_error x)"

interpretation turn: flat_struct turn_fields turn_rows turn_extra
  by unfold_locales (simp_all add: turn_rows_def turn_fields_def)

interpretation turn: wire_codec turn_enc turn_dec turn_wf
  by unfold_locales
    (simp_all add: turn_enc_def turn_dec_def turn_wf_def codec turn.read_extra,
      simp add: turn_fields_def turn.read_field,
      simp add: turn_rows_def codec turn_error.codec_rules)

record thread_result =
  thread_result_thread :: thread_summary
  thread_result_extra :: jmap

definition thread_result_fields :: "string list" where
  "thread_result_fields = [''thread'']"

definition thread_result_rows :: "thread_result \<Rightarrow> field_row list" where
  "thread_result_rows x =
     [(''thread'', Some (thread_summary_enc (thread_result_thread x)))]"

definition thread_result_enc :: "thread_result \<Rightarrow> json" where
  "thread_result_enc x = JObject (object_of (thread_result_rows x) (thread_result_extra x))"

definition thread_result_dec :: "json \<Rightarrow> serde_error + thread_result" where
  "thread_result_dec = of_object (\<lambda>m.
     and_then (get_req thread_summary_dec ''thread'' m) (\<lambda>v0.
     Ok \<lparr>thread_result_thread = v0,
         thread_result_extra = get_extra thread_result_fields m\<rparr>))"

definition thread_result_wf :: "thread_result \<Rightarrow> bool" where
  "thread_result_wf x \<longleftrightarrow> jsorted (thread_result_extra x) \<and>
     jkeys (thread_result_extra x) \<inter> set thread_result_fields = {} \<and>
     thread_summary_wf (thread_result_thread x)"

interpretation thread_result: flat_struct thread_result_fields thread_result_rows thread_result_extra
  by unfold_locales (simp_all add: thread_result_rows_def thread_result_fields_def)

interpretation thread_result: wire_codec thread_result_enc thread_result_dec thread_result_wf
  by unfold_locales
    (simp_all add: thread_result_enc_def thread_result_dec_def thread_result_wf_def codec thread_result.read_extra,
      simp add: thread_result_fields_def thread_result.read_field,
      simp add: thread_result_rows_def codec thread_summary.codec_rules)

record turn_result =
  turn_result_turn :: turn
  turn_result_extra :: jmap

definition turn_result_fields :: "string list" where
  "turn_result_fields = [''turn'']"

definition turn_result_rows :: "turn_result \<Rightarrow> field_row list" where
  "turn_result_rows x =
     [(''turn'', Some (turn_enc (turn_result_turn x)))]"

definition turn_result_enc :: "turn_result \<Rightarrow> json" where
  "turn_result_enc x = JObject (object_of (turn_result_rows x) (turn_result_extra x))"

definition turn_result_dec :: "json \<Rightarrow> serde_error + turn_result" where
  "turn_result_dec = of_object (\<lambda>m.
     and_then (get_req turn_dec ''turn'' m) (\<lambda>v0.
     Ok \<lparr>turn_result_turn = v0,
         turn_result_extra = get_extra turn_result_fields m\<rparr>))"

definition turn_result_wf :: "turn_result \<Rightarrow> bool" where
  "turn_result_wf x \<longleftrightarrow> jsorted (turn_result_extra x) \<and>
     jkeys (turn_result_extra x) \<inter> set turn_result_fields = {} \<and>
     turn_wf (turn_result_turn x)"

interpretation turn_result: flat_struct turn_result_fields turn_result_rows turn_result_extra
  by unfold_locales (simp_all add: turn_result_rows_def turn_result_fields_def)

interpretation turn_result: wire_codec turn_result_enc turn_result_dec turn_result_wf
  by unfold_locales
    (simp_all add: turn_result_enc_def turn_result_dec_def turn_result_wf_def codec turn_result.read_extra,
      simp add: turn_result_fields_def turn_result.read_field,
      simp add: turn_result_rows_def codec turn.codec_rules)

record turn_steer_result =
  turn_steer_result_turn_id :: string
  turn_steer_result_extra :: jmap

definition turn_steer_result_fields :: "string list" where
  "turn_steer_result_fields = [''turnId'']"

definition turn_steer_result_rows :: "turn_steer_result \<Rightarrow> field_row list" where
  "turn_steer_result_rows x =
     [(''turnId'', Some (JString (turn_steer_result_turn_id x)))]"

definition turn_steer_result_enc :: "turn_steer_result \<Rightarrow> json" where
  "turn_steer_result_enc x = JObject (object_of (turn_steer_result_rows x) (turn_steer_result_extra x))"

definition turn_steer_result_dec :: "json \<Rightarrow> serde_error + turn_steer_result" where
  "turn_steer_result_dec = of_object (\<lambda>m.
     and_then (get_req dec_string ''turnId'' m) (\<lambda>v0.
     Ok \<lparr>turn_steer_result_turn_id = v0,
         turn_steer_result_extra = get_extra turn_steer_result_fields m\<rparr>))"

definition turn_steer_result_wf :: "turn_steer_result \<Rightarrow> bool" where
  "turn_steer_result_wf x \<longleftrightarrow> jsorted (turn_steer_result_extra x) \<and>
     jkeys (turn_steer_result_extra x) \<inter> set turn_steer_result_fields = {}"

interpretation turn_steer_result: flat_struct turn_steer_result_fields turn_steer_result_rows turn_steer_result_extra
  by unfold_locales (simp_all add: turn_steer_result_rows_def turn_steer_result_fields_def)

interpretation turn_steer_result: wire_codec turn_steer_result_enc turn_steer_result_dec turn_steer_result_wf
  by unfold_locales
    (simp_all add: turn_steer_result_enc_def turn_steer_result_dec_def turn_steer_result_wf_def codec turn_steer_result.read_extra,
      simp add: turn_steer_result_fields_def turn_steer_result.read_field,
      simp add: turn_steer_result_rows_def codec)

record thread_list_result =
  thread_list_result_data :: "thread_summary list"
  thread_list_result_next_cursor :: "string option"
  thread_list_result_extra :: jmap

definition thread_list_result_fields :: "string list" where
  "thread_list_result_fields = [''data'', ''nextCursor'']"

definition thread_list_result_rows :: "thread_list_result \<Rightarrow> field_row list" where
  "thread_list_result_rows x =
     [(''data'', Some (enc_list thread_summary_enc (thread_list_result_data x))),
      (''nextCursor'', map_option JString (thread_list_result_next_cursor x))]"

definition thread_list_result_enc :: "thread_list_result \<Rightarrow> json" where
  "thread_list_result_enc x = JObject (object_of (thread_list_result_rows x) (thread_list_result_extra x))"

definition thread_list_result_dec :: "json \<Rightarrow> serde_error + thread_list_result" where
  "thread_list_result_dec = of_object (\<lambda>m.
     and_then (get_default [] (dec_list thread_summary_dec) ''data'' m) (\<lambda>v0.
     and_then (get_opt dec_string ''nextCursor'' m) (\<lambda>v1.
     Ok \<lparr>thread_list_result_data = v0,
         thread_list_result_next_cursor = v1,
         thread_list_result_extra = get_extra thread_list_result_fields m\<rparr>)))"

definition thread_list_result_wf :: "thread_list_result \<Rightarrow> bool" where
  "thread_list_result_wf x \<longleftrightarrow> jsorted (thread_list_result_extra x) \<and>
     jkeys (thread_list_result_extra x) \<inter> set thread_list_result_fields = {} \<and>
     list_all thread_summary_wf (thread_list_result_data x)"

interpretation thread_list_result: flat_struct thread_list_result_fields thread_list_result_rows thread_list_result_extra
  by unfold_locales (simp_all add: thread_list_result_rows_def thread_list_result_fields_def)

interpretation thread_list_result: wire_codec thread_list_result_enc thread_list_result_dec thread_list_result_wf
  by unfold_locales
    (simp_all add: thread_list_result_enc_def thread_list_result_dec_def thread_list_result_wf_def codec thread_list_result.read_extra,
      simp add: thread_list_result_fields_def thread_list_result.read_field,
      simp add: thread_list_result_rows_def codec thread_summary.codec_rules)

record thread_loaded_list_result =
  thread_loaded_list_result_data :: "string list"
  thread_loaded_list_result_extra :: jmap

definition thread_loaded_list_result_fields :: "string list" where
  "thread_loaded_list_result_fields = [''data'']"

definition thread_loaded_list_result_rows :: "thread_loaded_list_result \<Rightarrow> field_row list" where
  "thread_loaded_list_result_rows x =
     [(''data'', Some (enc_list JString (thread_loaded_list_result_data x)))]"

definition thread_loaded_list_result_enc :: "thread_loaded_list_result \<Rightarrow> json" where
  "thread_loaded_list_result_enc x = JObject (object_of (thread_loaded_list_result_rows x) (thread_loaded_list_result_extra x))"

definition thread_loaded_list_result_dec :: "json \<Rightarrow> serde_error + thread_loaded_list_result" where
  "thread_loaded_list_result_dec = of_object (\<lambda>m.
     and_then (get_default [] (dec_list dec_string) ''data'' m) (\<lambda>v0.
     Ok \<lparr>thread_loaded_list_result_data = v0,
         thread_loaded_list_result_extra = get_extra thread_loaded_list_result_fields m\<rparr>))"

definition thread_loaded_list_result_wf :: "thread_loaded_list_result \<Rightarrow> bool" where
  "thread_loaded_list_result_wf x \<longleftrightarrow> jsorted (thread_loaded_list_result_extra x) \<and>
     jkeys (thread_loaded_list_result_extra x) \<inter> set thread_loaded_list_result_fields = {}"

interpretation thread_loaded_list_result: flat_struct thread_loaded_list_result_fields thread_loaded_list_result_rows thread_loaded_list_result_extra
  by unfold_locales (simp_all add: thread_loaded_list_result_rows_def thread_loaded_list_result_fields_def)

interpretation thread_loaded_list_result: wire_codec thread_loaded_list_result_enc thread_loaded_list_result_dec thread_loaded_list_result_wf
  by unfold_locales
    (simp_all add: thread_loaded_list_result_enc_def thread_loaded_list_result_dec_def thread_loaded_list_result_wf_def codec thread_loaded_list_result.read_extra,
      simp add: thread_loaded_list_result_fields_def thread_loaded_list_result.read_field,
      simp add: thread_loaded_list_result_rows_def codec)

record model_info =
  model_info_id :: string
  model_info_model :: string
  model_info_display_name :: "string option"
  model_info_upgrade :: "string option"
  model_info_default_reasoning_effort :: "string option"
  model_info_input_modalities :: "string list"
  model_info_supports_personality :: "bool option"
  model_info_is_default :: "bool option"
  model_info_extra :: jmap

definition model_info_fields :: "string list" where
  "model_info_fields = [''id'', ''model'', ''displayName'', ''upgrade'', ''defaultReasoningEffort'', ''inputModalities'', ''supportsPersonality'', ''isDefault'']"

definition model_info_rows :: "model_info \<Rightarrow> field_row list" where
  "model_info_rows x =
     [(''id'', Some (JString (model_info_id x))),
      (''model'', Some (JString (model_info_model x))),
      (''displayName'', map_option JString (model_info_display_name x)),
      (''upgrade'', map_option JString (model_info_upgrade x)),
      (''defaultReasoningEffort'', map_option JString (model_info_default_reasoning_effort x)),
      (''inputModalities'', Some (enc_list JString (model_info_input_modalities x))),
      (''supportsPersonality'', map_option JBool (model_info_supports_personality x)),
      (''isDefault'', map_option JBool (model_info_is_default x))]"

definition model_info_enc :: "model_info \<Rightarrow> json" where
  "model_info_enc x = JObject (object_of (model_info_rows x) (model_info_extra x))"

definition model_info_dec :: "json \<Rightarrow> serde_error + model_info" where
  "model_info_dec = of_object (\<lambda>m.
     and_then (get_req dec_string ''id'' m) (\<lambda>v0.
     and_then (get_req dec_string ''model'' m) (\<lambda>v1.
     and_then (get_opt dec_string ''displayName'' m) (\<lambda>v2.
     and_then (get_opt dec_string ''upgrade'' m) (\<lambda>v3.
     and_then (get_opt dec_string ''defaultReasoningEffort'' m) (\<lambda>v4.
     and_then (get_default [] (dec_list dec_string) ''inputModalities'' m) (\<lambda>v5.
     and_then (get_opt dec_bool ''supportsPersonality'' m) (\<lambda>v6.
     and_then (get_opt dec_bool ''isDefault'' m) (\<lambda>v7.
     Ok \<lparr>model_info_id = v0,
         model_info_model = v1,
         model_info_display_name = v2,
         model_info_upgrade = v3,
         model_info_default_reasoning_effort = v4,
         model_info_input_modalities = v5,
         model_info_supports_personality = v6,
         model_info_is_default = v7,
         model_info_extra = get_extra model_info_fields m\<rparr>)))))))))"

definition model_info_wf :: "model_info \<Rightarrow> bool" where
  "model_info_wf x \<longleftrightarrow> jsorted (model_info_extra x) \<and>
     jkeys (model_info_extra x) \<inter> set model_info_fields = {}"

interpretation model_info: flat_struct model_info_fields model_info_rows model_info_extra
  by unfold_locales (simp_all add: model_info_rows_def model_info_fields_def)

interpretation model_info: wire_codec model_info_enc model_info_dec model_info_wf
  by unfold_locales
    (simp_all add: model_info_enc_def model_info_dec_def model_info_wf_def codec model_info.read_extra,
      simp add: model_info_fields_def model_info.read_field,
      simp add: model_info_rows_def codec)

record model_list_result =
  model_list_result_data :: "model_info list"
  model_list_result_next_cursor :: "string option"
  model_list_result_extra :: jmap

definition model_list_result_fields :: "string list" where
  "model_list_result_fields = [''data'', ''nextCursor'']"

definition model_list_result_rows :: "model_list_result \<Rightarrow> field_row list" where
  "model_list_result_rows x =
     [(''data'', Some (enc_list model_info_enc (model_list_result_data x))),
      (''nextCursor'', map_option JString (model_list_result_next_cursor x))]"

definition model_list_result_enc :: "model_list_result \<Rightarrow> json" where
  "model_list_result_enc x = JObject (object_of (model_list_result_rows x) (model_list_result_extra x))"

definition model_list_result_dec :: "json \<Rightarrow> serde_error + model_list_result" where
  "model_list_result_dec = of_object (\<lambda>m.
     and_then (get_default [] (dec_list model_info_dec) ''data'' m) (\<lambda>v0.
     and_then (get_opt dec_string ''nextCursor'' m) (\<lambda>v1.
     Ok \<lparr>model_list_result_data = v0,
         model_list_result_next_cursor = v1,
         model_list_result_extra = get_extra model_list_result_fields m\<rparr>)))"

definition model_list_result_wf :: "model_list_result \<Rightarrow> bool" where
  "model_list_result_wf x \<longleftrightarrow> jsorted (model_list_result_extra x) \<and>
     jkeys (model_list_result_extra x) \<inter> set model_list_result_fields = {} \<and>
     list_all model_info_wf (model_list_result_data x)"

interpretation model_list_result: flat_struct model_list_result_fields model_list_result_rows model_list_result_extra
  by unfold_locales (simp_all add: model_list_result_rows_def model_list_result_fields_def)

interpretation model_list_result: wire_codec model_list_result_enc model_list_result_dec model_list_result_wf
  by unfold_locales
    (simp_all add: model_list_result_enc_def model_list_result_dec_def model_list_result_wf_def codec model_list_result.read_extra,
      simp add: model_list_result_fields_def model_list_result.read_field,
      simp add: model_list_result_rows_def codec model_info.codec_rules)

end
