(* ===== verification/Protocol_Notifications.thy ===== *)
theory Protocol_Notifications
  imports Protocol_Responses
begin

text \<open>
  The notification payloads of \<open>crates/sdk/src/protocol/notifications.rs\<close> and the typed
  server-request payloads of \<open>server_requests.rs\<close>, in the scheme of \<open>Protocol_Responses\<close>.
\<close>

section \<open>Notification payloads\<close>

record error_notification =
  error_error :: turn_error
  error_extra :: jmap

definition error_notification_fields :: "string list" where
  "error_notification_fields = [''error'']"

definition error_notification_rows :: "error_notification \<Rightarrow> field_row list" where
  "error_notification_rows x =
     [(''error'', Some (turn_error_enc (error_error x)))]"

definition error_notification_enc :: "error_notification \<Rightarrow> json" where
  "error_notification_enc x = JObject (object_of (error_notification_rows x) (error_extra x))"

definition error_notification_dec :: "json \<Rightarrow> serde_error + error_notification" where
  "error_notification_dec = of_object (\<lambda>m.
     and_then (get_req turn_error_dec ''error'' m) (\<lambda>v0.
     Ok \<lparr>error_error = v0,
         error_extra = get_extra error_notification_fields m\<rparr>))"

definition error_notification_wf :: "error_notification \<Rightarrow> bool" where
  "error_notification_wf x \<longleftrightarrow> jsorted (error_extra x) \<and>
     jkeys (error_extra x) \<inter> set error_notification_fields = {} \<and>
     turn_error_wf (error_error x)"

interpretation error_notification: flat_struct error_notification_fields error_notification_rows error_extra
  by unfold_locales (simp_all add: error_notification_rows_def error_notification_fields_def)

interpretation error_notification: wire_codec error_notification_enc error_notification_dec error_notification_wf
  by unfold_locales
    (simp_all add: error_notification_enc_def error_notification_dec_def error_notification_wf_def codec error_notification.read_extra,
      simp add: error_notification_fields_def error_notification.read_field,
      simp add: error_notification_rows_def codec turn_error.codec_rules)

record thread_started_notification =
  thread_started_thread :: thread_summary
  thread_started_extra :: jmap

definition thread_started_notification_fields :: "string list" where
  "thread_started_notification_fields = [''thread'']"

definition thread_started_notification_rows :: "thread_started_notification \<Rightarrow> field_row list" where
  "thread_started_notification_rows x =
     [(''thread'', Some (thread_summary_enc (thread_started_thread x)))]"

definition thread_started_notification_enc :: "thread_started_notification \<Rightarrow> json" where
  "thread_started_notification_enc x = JObject (object_of (thread_started_notification_rows x) (thread_started_extra x))"

definition thread_started_notification_dec :: "json \<Rightarrow> serde_error + thread_started_notification" where
  "thread_started_notification_dec = of_object (\<lambda>m.
     and_then (get_req thread_summary_dec ''thread'' m) (\<lambda>v0.
     Ok \<lparr>thread_started_thread = v0,
         thread_started_extra = get_extra thread_started_notification_fields m\<rparr>))"

definition thread_started_notification_wf :: "thread_started_notification \<Rightarrow> bool" where
  "thread_started_notification_wf x \<longleftrightarrow> jsorted (thread_started_extra x) \<and>
     jkeys (thread_started_extra x) \<inter> set thread_started_notification_fields = {} \<and>
     thread_summary_wf (thread_started_thread x)"

interpretation thread_started_notification: flat_struct thread_started_notification_fields thread_started_notification_rows thread_started_extra
  by unfold_locales (simp_all add: thread_started_notification_rows_def thread_started_notification_fields_def)

interpretation thread_started_notification: wire_codec thread_started_notification_enc thread_started_notification_dec thread_started_notification_wf
  by unfold_locales
    (simp_all add: thread_started_notification_enc_def thread_started_notification_dec_def thread_started_notification_wf_def codec thread_started_notification.read_extra,
      simp add: thread_started_notification_fields_def thread_started_notification.read_field,
      simp add: thread_started_notification_rows_def codec thread_summary.codec_rules)

record thread_name_updated_notification =
  thread_name_updated_thread_id :: string
  thread_name_updated_name :: string
  thread_name_updated_extra :: jmap

definition thread_name_updated_notification_fields :: "string list" where
  "thread_name_updated_notification_fields = [''threadId'', ''name'']"

definition thread_name_updated_notification_rows :: "thread_name_updated_notification \<Rightarrow> field_row list" where
  "thread_name_updated_notification_rows x =
     [(''threadId'', Some (JString (thread_name_updated_thread_id x))),
      (''name'', Some (JString (thread_name_updated_name x)))]"

definition thread_name_updated_notification_enc :: "thread_name_updated_notification \<Rightarrow> json" where
  "thread_name_updated_notification_enc x = JObject (object_of (thread_name_updated_notification_rows x) (thread_name_updated_extra x))"

definition thread_name_updated_notification_dec :: "json \<Rightarrow> serde_error + thread_name_updated_notification" where
  "thread_name_updated_notification_dec = of_object (\<lambda>m.
     and_then (get_req dec_string ''threadId'' m) (\<lambda>v0.
     and_then (get_req dec_string ''name'' m) (\<lambda>v1.
     Ok \<lparr>thread_name_updated_thread_id = v0,
         thread_name_updated_name = v1,
         thread_name_updated_extra = get_extra thread_name_updated_notification_fields m\<rparr>)))"

definition thread_name_updated_notification_wf :: "thread_name_updated_notification \<Rightarrow> bool" where
  "thread_name_updated_notification_wf x \<longleftrightarrow> jsorted (thread_name_updated_extra x) \<and>
     jkeys (thread_name_updated_extra x) \<inter> set thread_name_updated_notification_fields = {}"

interpretation thread_name_updated_notification: flat_struct thread_name_updated_notification_fields thread_name_updated_notification_rows thread_name_updated_extra
  by unfold_locales (simp_all add: thread_name_updated_notification_rows_def thread_name_updated_notification_fields_def)

interpretation thread_name_updated_notification: wire_codec thread_name_updated_notification_enc thread_name_updated_notification_dec thread_name_updated_notification_wf
  by unfold_locales
    (simp_all add: thread_name_updated_notification_enc_def thread_name_updated_notification_dec_def thread_name_updated_notification_wf_def codec thread_name_updated_notification.read_extra,
      simp add: thread_name_updated_notification_fields_def thread_name_updated_notification.read_field,
      simp add: thread_name_updated_notification_rows_def codec)

record thread_lifecycle_notification =
  thread_lifecycle_thread_id :: string
  thread_lifecycle_extra :: jmap

definition thread_lifecycle_notification_fields :: "string list" where
  "thread_lifecycle_notification_fields = [''threadId'']"

definition thread_lifecycle_notification_rows :: "thread_lifecycle_notification \<Rightarrow> field_row list" where
  "thread_lifecycle_notification_rows x =
     [(''threadId'', Some (JString (thread_lifecycle_thread_id x)))]"

definition thread_lifecycle_notification_enc :: "thread_lifecycle_notification \<Rightarrow> json" where
  "thread_lifecycle_notification_enc x = JObject (object_of (thread_lifecycle_notification_rows x) (thread_lifecycle_extra x))"

definition thread_lifecycle_notification_dec :: "json \<Rightarrow> serde_error + thread_lifecycle_notification" where
  "thread_lifecycle_notification_dec = of_object (\<lambda>m.
     and_then (get_req dec_string ''threadId'' m) (\<lambda>v0.
     Ok \<lparr>thread_lifecycle_thread_id = v0,
         thread_lifecycle_extra = get_extra thread_lifecycle_notification_fields m\<rparr>))"

definition thread_lifecycle_notification_wf :: "thread_lifecycle_notification \<Rightarrow> bool" where
  "thread_lifecycle_notification_wf x \<longleftrightarrow> jsorted (thread_lifecycle_extra x) \<and>
     jkeys (thread_lifecycle_extra x) \<inter> set thread_lifecycle_notification_fields = {}"

interpretation thread_lifecycle_notification: flat_struct thread_lifecycle_notification_fields thread_lifecycle_notification_rows thread_lifecycle_extra
  by unfold_locales (simp_all add: thread_lifecycle_notification_rows_def thread_lifecycle_notification_fields_def)

interpretation thread_lifecycle_notification: wire_codec thread_lifecycle_notification_enc thread_lifecycle_notification_dec thread_lifecycle_notification_wf
  by unfold_locales
    (simp_all add: thread_lifecycle_notification_enc_def thread_lifecycle_notification_dec_def thread_lifecycle_notification_wf_def codec thread_lifecycle_notification.read_extra,
      simp add: thread_lifecycle_notification_fields_def thread_lifecycle_notification.read_field,
      simp add: thread_lifecycle_notification_rows_def codec)

record thread_status_value =
  thread_status_value_status_type :: "string option"
  thread_status_value_active_flags :: "string list"
  thread_status_value_extra :: jmap

definition thread_status_value_fields :: "string list" where
  "thread_status_value_fields = [''type'', ''activeFlags'']"

definition thread_status_value_rows :: "thread_status_value \<Rightarrow> field_row list" where
  "thread_status_value_rows x =
     [(''type'', map_option JString (thread_status_value_status_type x)),
      (''activeFlags'', Some (enc_list JString (thread_status_value_active_flags x)))]"

definition thread_status_value_enc :: "thread_status_value \<Rightarrow> json" where
  "thread_status_value_enc x = JObject (object_of (thread_status_value_rows x) (thread_status_value_extra x))"

definition thread_status_value_dec :: "json \<Rightarrow> serde_error + thread_status_value" where
  "thread_status_value_dec = of_object (\<lambda>m.
     and_then (get_opt dec_string ''type'' m) (\<lambda>v0.
     and_then (get_default [] (dec_list dec_string) ''activeFlags'' m) (\<lambda>v1.
     Ok \<lparr>thread_status_value_status_type = v0,
         thread_status_value_active_flags = v1,
         thread_status_value_extra = get_extra thread_status_value_fields m\<rparr>)))"

definition thread_status_value_wf :: "thread_status_value \<Rightarrow> bool" where
  "thread_status_value_wf x \<longleftrightarrow> jsorted (thread_status_value_extra x) \<and>
     jkeys (thread_status_value_extra x) \<inter> set thread_status_value_fields = {}"

interpretation thread_status_value: flat_struct thread_status_value_fields thread_status_value_rows thread_status_value_extra
  by unfold_locales (simp_all add: thread_status_value_rows_def thread_status_value_fields_def)

interpretation thread_status_value: wire_codec thread_status_value_enc thread_status_value_dec thread_status_value_wf
  by unfold_locales
    (simp_all add: thread_status_value_enc_def thread_status_value_dec_def thread_status_value_wf_def codec thread_status_value.read_extra,
      simp add: thread_status_value_fields_def thread_status_value.read_field,
      simp add: thread_status_value_rows_def codec)

record thread_status_changed_notification =
  thread_status_changed_thread_id :: string
  thread_status_changed_status :: "thread_status_value option"
  thread_status_changed_extra :: jmap

definition thread_status_changed_notification_fields :: "string list" where
  "thread_status_changed_notification_fields = [''threadId'', ''status'']"

definition thread_status_changed_notification_rows :: "thread_status_changed_notification \<Rightarrow> field_row list" where
  "thread_status_changed_notification_rows x =
     [(''threadId'', Some (JString (thread_status_changed_thread_id x))),
      (''status'', map_option thread_status_value_enc (thread_status_changed_status x))]"

definition thread_status_changed_notification_enc :: "thread_status_changed_notification \<Rightarrow> json" where
  "thread_status_changed_notification_enc x = JObject (object_of (thread_status_changed_notification_rows x) (thread_status_changed_extra x))"

definition thread_status_changed_notification_dec :: "json \<Rightarrow> serde_error + thread_status_changed_notification" where
  "thread_status_changed_notification_dec = of_object (\<lambda>m.
     and_then (get_req dec_string ''threadId'' m) (\<lambda>v0.
     and_then (get_opt thread_status_value_dec ''status'' m) (\<lambda>v1.
     Ok \<lparr>thread_status_changed_thread_id = v0,
         thread_status_changed_status = v1,
         thread_status_changed_extra = get_extra thread_status_changed_notification_fields m\<rparr>)))"

definition thread_status_changed_notification_wf :: "thread_status_changed_notification \<Rightarrow> bool" where
  "thread_status_changed_notification_wf x \<longleftrightarrow> jsorted (thread_status_changed_extra x) \<and>
     jkeys (thread_status_changed_extra x) \<inter> set thread_status_changed_notification_fields = {} \<and>
     pred_option thread_status_value_wf (thread_status_changed_status x)"

interpretation thread_status_changed_notification: flat_struct thread_status_changed_notification_fields thread_status_changed_notification_rows thread_status_changed_extra
  by unfold_locales (simp_all add: thread_status_changed_notification_rows_def thread_status_changed_notification_fields_def)

interpretation thread_status_changed_notification: wire_codec thread_status_changed_notification_enc thread_status_changed_notification_dec thread_status_changed_notification_wf
  by unfold_locales
    (simp_all add: thread_status_changed_notification_enc_def thread_status_changed_notification_dec_def thread_status_changed_notification_wf_def codec thread_status_changed_notification.read_extra,
      simp add: thread_status_changed_notification_fields_def thread_status_changed_notification.read_field,
      simp add: thread_status_changed_notification_rows_def codec thread_status_value.codec_rules)

record thread_token_usage_updated_notification =
  thread_token_usage_updated_thread_id :: "string option"
  thread_token_usage_updated_usage :: "json option"
  thread_token_usage_updated_extra :: jmap

definition thread_token_usage_updated_notification_fields :: "string list" where
  "thread_token_usage_updated_notification_fields = [''threadId'', ''usage'']"

definition thread_token_usage_updated_notification_rows :: "thread_token_usage_updated_notification \<Rightarrow> field_row list" where
  "thread_token_usage_updated_notification_rows x =
     [(''threadId'', map_option JString (thread_token_usage_updated_thread_id x)),
      (''usage'', thread_token_usage_updated_usage x)]"

definition thread_token_usage_updated_notification_enc :: "thread_token_usage_updated_notification \<Rightarrow> json" where
  "thread_token_usage_updated_notification_enc x = JObject (object_of (thread_token_usage_updated_notification_rows x) (thread_token_usage_updated_extra x))"

definition thread_token_usage_updated_notification_dec :: "json \<Rightarrow> serde_error + thread_token_usage_updated_notification" where
  "thread_token_usage_updated_notification_dec = of_object (\<lambda>m.
     and_then (get_opt dec_string ''threadId'' m) (\<lambda>v0.
     and_then (get_opt dec_value ''usage'' m) (\<lambda>v1.
     Ok \<lparr>thread_token_usage_updated_thread_id = v0,
         thread_token_usage_updated_usage = v1,
         thread_token_usage_updated_extra = get_extra thread_token_usage_updated_notification_fields m\<rparr>)))"

definition thread_token_usage_updated_notification_wf :: "thread_token_usage_updated_notification \<Rightarrow> bool" where
  "thread_token_usage_updated_notification_wf x \<longleftrightarrow> jsorted (thread_token_usage_updated_extra x) \<and>
     jkeys (thread_token_usage_updated_extra x) \<inter> set thread_token_usage_updated_notification_fields = {} \<and>
     thread_token_usage_updated_usage x \<noteq> Some JNull"

interpretation thread_token_usage_updated_notification: flat_struct thread_token_usage_updated_notification_fields thread_token_usage_updated_notification_rows thread_token_usage_updated_extra
  by unfold_locales (simp_all add: thread_token_usage_updated_notification_rows_def thread_token_usage_updated_notification_fields_def)

interpretation thread_token_usage_updated_notification: wire_codec thread_token_usage_updated_notification_enc thread_token_usage_updated_notification_dec thread_token_usage_updated_notification_wf
  by unfold_locales
    (simp_all add: thread_token_usage_updated_notification_enc_def thread_token_usage_updated_notification_dec_def thread_token_usage_updated_notification_wf_def codec thread_token_usage_updated_notification.read_extra,
      simp add: thread_token_usage_updated_notification_fields_def thread_token_usage_updated_notification.read_field,
      simp add: thread_token_usage_updated_notification_rows_def codec)

record turn_started_notification =
  turn_started_turn :: turn
  turn_started_extra :: jmap

definition turn_started_notification_fields :: "string list" where
  "turn_started_notification_fields = [''turn'']"

definition turn_started_notification_rows :: "turn_started_notification \<Rightarrow> field_row list" where
  "turn_started_notification_rows x =
     [(''turn'', Some (turn_enc (turn_started_turn x)))]"

definition turn_started_notification_enc :: "turn_started_notification \<Rightarrow> json" where
  "turn_started_notification_enc x = JObject (object_of (turn_started_notification_rows x) (turn_started_extra x))"

definition turn_started_notification_dec :: "json \<Rightarrow> serde_error + turn_started_notification" where
  "turn_started_notification_dec = of_object (\<lambda>m.
     and_then (get_req turn_dec ''turn'' m) (\<lambda>v0.
     Ok \<lparr>turn_started_turn = v0,
         turn_started_extra = get_extra turn_started_notification_fields m\<rparr>))"

definition turn_started_notification_wf :: "turn_started_notification \<Rightarrow> bool" where
  "turn_started_notification_wf x \<longleftrightarrow> jsorted (turn_started_extra x) \<and>
     jkeys (turn_started_extra x) \<inter> set turn_started_notification_fields = {} \<and>
     turn_wf (turn_started_turn x)"

interpretation turn_started_notification: flat_struct turn_started_notification_fields turn_started_notification_rows turn_started_extra
  by unfold_locales (simp_all add: turn_started_notification_rows_def turn_started_notification_fields_def)

interpretation turn_started_notification: wire_codec turn_started_notification_enc turn_started_notification_dec turn_started_notification_wf
  by unfold_locales
    (simp_all add: turn_started_notification_enc_def turn_started_notification_dec_def turn_started_notification_wf_def codec turn_started_notification.read_extra,
      simp add: turn_started_notification_fields_def turn_started_notification.read_field,
      simp add: turn_started_notification_rows_def codec turn.codec_rules)

record turn_completed_notification =
  turn_completed_turn :: turn
  turn_completed_extra :: jmap

definition turn_completed_notification_fields :: "string list" where
  "turn_completed_notification_fields = [''turn'']"

definition turn_completed_notification_rows :: "turn_completed_notification \<Rightarrow> field_row list" where
  "turn_completed_notification_rows x =
     [(''turn'', Some (turn_enc (turn_completed_turn x)))]"

definition turn_completed_notification_enc :: "turn_completed_notification \<Rightarrow> json" where
  "turn_completed_notification_enc x = JObject (object_of (turn_completed_notification_rows x) (turn_completed_extra x))"

definition turn_completed_notification_dec :: "json \<Rightarrow> serde_error + turn_completed_notification" where
  "turn_completed_notification_dec = of_object (\<lambda>m.
     and_then (get_req turn_dec ''turn'' m) (\<lambda>v0.
     Ok \<lparr>turn_completed_turn = v0,
         turn_completed_extra = get_extra turn_completed_notification_fields m\<rparr>))"

definition turn_completed_notification_wf :: "turn_completed_notification \<Rightarrow> bool" where
  "turn_completed_notification_wf x \<longleftrightarrow> jsorted (turn_completed_extra x) \<and>
     jkeys (turn_completed_extra x) \<inter> set turn_completed_notification_fields = {} \<and>
     turn_wf (turn_completed_turn x)"

interpretation turn_completed_notification: flat_struct turn_completed_notification_fields turn_completed_notification_rows turn_completed_extra
  by unfold_locales (simp_all add: turn_completed_notification_rows_def turn_completed_notification_fields_def)

interpretation turn_completed_notification: wire_codec turn_completed_notification_enc turn_completed_notification_dec turn_completed_notification_wf
  by unfold_locales
    (simp_all add: turn_completed_notification_enc_def turn_completed_notification_dec_def turn_completed_notification_wf_def codec turn_completed_notification.read_extra,
      simp add: turn_completed_notification_fields_def turn_completed_notification.read_field,
      simp add: turn_completed_notification_rows_def codec turn.codec_rules)

record turn_diff_updated_notification =
  turn_diff_updated_thread_id :: string
  turn_diff_updated_turn_id :: string
  turn_diff_updated_diff :: "string option"
  turn_diff_updated_extra :: jmap

definition turn_diff_updated_notification_fields :: "string list" where
  "turn_diff_updated_notification_fields = [''threadId'', ''turnId'', ''diff'']"

definition turn_diff_updated_notification_rows :: "turn_diff_updated_notification \<Rightarrow> field_row list" where
  "turn_diff_updated_notification_rows x =
     [(''threadId'', Some (JString (turn_diff_updated_thread_id x))),
      (''turnId'', Some (JString (turn_diff_updated_turn_id x))),
      (''diff'', map_option JString (turn_diff_updated_diff x))]"

definition turn_diff_updated_notification_enc :: "turn_diff_updated_notification \<Rightarrow> json" where
  "turn_diff_updated_notification_enc x = JObject (object_of (turn_diff_updated_notification_rows x) (turn_diff_updated_extra x))"

definition turn_diff_updated_notification_dec :: "json \<Rightarrow> serde_error + turn_diff_updated_notification" where
  "turn_diff_updated_notification_dec = of_object (\<lambda>m.
     and_then (get_req dec_string ''threadId'' m) (\<lambda>v0.
     and_then (get_req dec_string ''turnId'' m) (\<lambda>v1.
     and_then (get_opt dec_string ''diff'' m) (\<lambda>v2.
     Ok \<lparr>turn_diff_updated_thread_id = v0,
         turn_diff_updated_turn_id = v1,
         turn_diff_updated_diff = v2,
         turn_diff_updated_extra = get_extra turn_diff_updated_notification_fields m\<rparr>))))"

definition turn_diff_updated_notification_wf :: "turn_diff_updated_notification \<Rightarrow> bool" where
  "turn_diff_updated_notification_wf x \<longleftrightarrow> jsorted (turn_diff_updated_extra x) \<and>
     jkeys (turn_diff_updated_extra x) \<inter> set turn_diff_updated_notification_fields = {}"

interpretation turn_diff_updated_notification: flat_struct turn_diff_updated_notification_fields turn_diff_updated_notification_rows turn_diff_updated_extra
  by unfold_locales (simp_all add: turn_diff_updated_notification_rows_def turn_diff_updated_notification_fields_def)

interpretation turn_diff_updated_notification: wire_codec turn_diff_updated_notification_enc turn_diff_updated_notification_dec turn_diff_updated_notification_wf
  by unfold_locales
    (simp_all add: turn_diff_updated_notification_enc_def turn_diff_updated_notification_dec_def turn_diff_updated_notification_wf_def codec turn_diff_updated_notification.read_extra,
      simp add: turn_diff_updated_notification_fields_def turn_diff_updated_notification.read_field,
      simp add: turn_diff_updated_notification_rows_def codec)

record plan_step =
  plan_step_step :: string
  plan_step_status :: string
  plan_step_extra :: jmap

definition plan_step_fields :: "string list" where
  "plan_step_fields = [''step'', ''status'']"

definition plan_step_rows :: "plan_step \<Rightarrow> field_row list" where
  "plan_step_rows x =
     [(''step'', Some (JString (plan_step_step x))),
      (''status'', Some (JString (plan_step_status x)))]"

definition plan_step_enc :: "plan_step \<Rightarrow> json" where
  "plan_step_enc x = JObject (object_of (plan_step_rows x) (plan_step_extra x))"

definition plan_step_dec :: "json \<Rightarrow> serde_error + plan_step" where
  "plan_step_dec = of_object (\<lambda>m.
     and_then (get_req dec_string ''step'' m) (\<lambda>v0.
     and_then (get_req dec_string ''status'' m) (\<lambda>v1.
     Ok \<lparr>plan_step_step = v0,
         plan_step_status = v1,
         plan_step_extra = get_extra plan_step_fields m\<rparr>)))"

definition plan_step_wf :: "plan_step \<Rightarrow> bool" where
  "plan_step_wf x \<longleftrightarrow> jsorted (plan_step_extra x) \<and>
     jkeys (plan_step_extra x) \<inter> set plan_step_fields = {}"

interpretation plan_step: flat_struct plan_step_fields plan_step_rows plan_step_extra
  by unfold_locales (simp_all add: plan_step_rows_def plan_step_fields_def)

interpretation plan_step: wire_codec plan_step_enc plan_step_dec plan_step_wf
  by unfold_locales
    (simp_all add: plan_step_enc_def plan_step_dec_def plan_step_wf_def codec plan_step.read_extra,
      simp add: plan_step_fields_def plan_step.read_field,
      simp add: plan_step_rows_def codec)

record turn_plan_updated_notification =
  turn_plan_updated_turn_id :: string
  turn_plan_updated_explanation :: "string option"
  turn_plan_updated_plan :: "plan_step list"
  turn_plan_updated_extra :: jmap

definition turn_plan_updated_notification_fields :: "string list" where
  "turn_plan_updated_notification_fields = [''turnId'', ''explanation'', ''plan'']"

definition turn_plan_updated_notification_rows :: "turn_plan_updated_notification \<Rightarrow> field_row list" where
  "turn_plan_updated_notification_rows x =
     [(''turnId'', Some (JString (turn_plan_updated_turn_id x))),
      (''explanation'', map_option JString (turn_plan_updated_explanation x)),
      (''plan'', Some (enc_list plan_step_enc (turn_plan_updated_plan x)))]"

definition turn_plan_updated_notification_enc :: "turn_plan_updated_notification \<Rightarrow> json" where
  "turn_plan_updated_notification_enc x = JObject (object_of (turn_plan_updated_notification_rows x) (turn_plan_updated_extra x))"

definition turn_plan_updated_notification_dec :: "json \<Rightarrow> serde_error + turn_plan_updated_notification" where
  "turn_plan_updated_notification_dec = of_object (\<lambda>m.
     and_then (get_req dec_string ''turnId'' m) (\<lambda>v0.
     and_then (get_opt dec_string ''explanation'' m) (\<lambda>v1.
     and_then (get_default [] (dec_list plan_step_dec) ''plan'' m) (\<lambda>v2.
     Ok \<lparr>turn_plan_updated_turn_id = v0,
         turn_plan_updated_explanation = v1,
         turn_plan_updated_plan = v2,
         turn_plan_updated_extra = get_extra turn_plan_updated_notification_fields m\<rparr>))))"

definition turn_plan_updated_notification_wf :: "turn_plan_updated_notification \<Rightarrow> bool" where
  "turn_plan_updated_notification_wf x \<longleftrightarrow> jsorted (turn_plan_updated_extra x) \<and>
     jkeys (turn_plan_updated_extra x) \<inter> set turn_plan_updated_notification_fields = {} \<and>
     list_all plan_step_wf (turn_plan_updated_plan x)"

interpretation turn_plan_updated_notification: flat_struct turn_plan_updated_notification_fields turn_plan_updated_notification_rows turn_plan_updated_extra
  by unfold_locales (simp_all add: turn_plan_updated_notification_rows_def turn_plan_updated_notification_fields_def)

interpretation turn_plan_updated_notification: wire_codec turn_plan_updated_notification_enc turn_plan_updated_notification_dec turn_plan_updated_notification_wf
  by unfold_locales
    (simp_all add: turn_plan_updated_notification_enc_def turn_plan_updated_notification_dec_def turn_plan_updated_notification_wf_def codec turn_plan_updated_notification.read_extra,
      simp add: turn_plan_updated_notification_fields_def turn_plan_updated_notification.read_field,
      simp add: turn_plan_updated_notification_rows_def codec plan_step.codec_rules)

record item_lifecycle_notification =
  item_lifecycle_item :: json
  item_lifecycle_extra :: jmap

definition item_lifecycle_notification_fields :: "string list" where
  "item_lifecycle_notification_fields = [''item'']"

definition item_lifecycle_notification_rows :: "item_lifecycle_notification \<Rightarrow> field_row list" where
  "item_lifecycle_notification_rows x =
     [(''item'', Some (item_lifecycle_item x))]"

definition item_lifecycle_notification_enc :: "item_lifecycle_notification \<Rightarrow> json" where
  "item_lifecycle_notification_enc x = JObject (object_of (item_lifecycle_notification_rows x) (item_lifecycle_extra x))"

definition item_lifecycle_notification_dec :: "json \<Rightarrow> serde_error + item_lifecycle_notification" where
  "item_lifecycle_notification_dec = of_object (\<lambda>m.
     and_then (get_default JNull dec_value ''item'' m) (\<lambda>v0.
     Ok \<lparr>item_lifecycle_item = v0,
         item_lifecycle_extra = get_extra item_lifecycle_notification_fields m\<rparr>))"

definition item_lifecycle_notification_wf :: "item_lifecycle_notification \<Rightarrow> bool" where
  "item_lifecycle_notification_wf x \<longleftrightarrow> jsorted (item_lifecycle_extra x) \<and>
     jkeys (item_lifecycle_extra x) \<inter> set item_lifecycle_notification_fields = {}"

interpretation item_lifecycle_notification: flat_struct item_lifecycle_notification_fields item_lifecycle_notification_rows item_lifecycle_extra
  by unfold_locales (simp_all add: item_lifecycle_notification_rows_def item_lifecycle_notification_fields_def)

interpretation item_lifecycle_notification: wire_codec item_lifecycle_notification_enc item_lifecycle_notification_dec item_lifecycle_notification_wf
  by unfold_locales
    (simp_all add: item_lifecycle_notification_enc_def item_lifecycle_notification_dec_def item_lifecycle_notification_wf_def codec item_lifecycle_notification.read_extra,
      simp add: item_lifecycle_notification_fields_def item_lifecycle_notification.read_field,
      simp add: item_lifecycle_notification_rows_def codec)

record delta_notification =
  delta_item_id :: "string option"
  delta_delta :: "string option"
  delta_text :: "string option"
  delta_summary_index :: "u64 option"
  delta_extra :: jmap

definition delta_notification_fields :: "string list" where
  "delta_notification_fields = [''itemId'', ''delta'', ''text'', ''summaryIndex'']"

definition delta_notification_rows :: "delta_notification \<Rightarrow> field_row list" where
  "delta_notification_rows x =
     [(''itemId'', map_option JString (delta_item_id x)),
      (''delta'', map_option JString (delta_delta x)),
      (''text'', map_option JString (delta_text x)),
      (''summaryIndex'', map_option enc_u64 (delta_summary_index x))]"

definition delta_notification_enc :: "delta_notification \<Rightarrow> json" where
  "delta_notification_enc x = JObject (object_of (delta_notification_rows x) (delta_extra x))"

definition delta_notification_dec :: "json \<Rightarrow> serde_error + delta_notification" where
  "delta_notification_dec = of_object (\<lambda>m.
     and_then (get_opt dec_string ''itemId'' m) (\<lambda>v0.
     and_then (get_opt dec_string ''delta'' m) (\<lambda>v1.
     and_then (get_opt dec_string ''text'' m) (\<lambda>v2.
     and_then (get_opt dec_u64 ''summaryIndex'' m) (\<lambda>v3.
     Ok \<lparr>delta_item_id = v0,
         delta_delta = v1,
         delta_text = v2,
         delta_summary_index = v3,
         delta_extra = get_extra delta_notification_fields m\<rparr>)))))"

definition delta_notification_wf :: "delta_notification \<Rightarrow> bool" where
  "delta_notification_wf x \<longleftrightarrow> jsorted (delta_extra x) \<and>
     jkeys (delta_extra x) \<inter> set delta_notification_fields = {}"

interpretation delta_notification: flat_struct delta_notification_fields delta_notification_rows delta_extra
  by unfold_locales (simp_all add: delta_notification_rows_def delta_notification_fields_def)

interpretation delta_notification: wire_codec delta_notification_enc delta_notification_dec delta_notification_wf
  by unfold_locales
    (simp_all add: delta_notification_enc_def delta_notification_dec_def delta_notification_wf_def codec delta_notification.read_extra,
      simp add: delta_notification_fields_def delta_notification.read_field,
      simp add: delta_notification_rows_def codec)

record server_request_resolved_notification =
  server_request_resolved_thread_id :: "string option"
  server_request_resolved_request_id :: request_id
  server_request_resolved_extra :: jmap

definition server_request_resolved_notification_fields :: "string list" where
  "server_request_resolved_notification_fields = [''threadId'', ''requestId'']"

definition server_request_resolved_notification_rows :: "server_request_resolved_notification \<Rightarrow> field_row list" where
  "server_request_resolved_notification_rows x =
     [(''threadId'', map_option JString (server_request_resolved_thread_id x)),
      (''requestId'', Some (request_id_enc (server_request_resolved_request_id x)))]"

definition server_request_resolved_notification_enc :: "server_request_resolved_notification \<Rightarrow> json" where
  "server_request_resolved_notification_enc x = JObject (object_of (server_request_resolved_notification_rows x) (server_request_resolved_extra x))"

definition server_request_resolved_notification_dec :: "json \<Rightarrow> serde_error + server_request_resolved_notification" where
  "server_request_resolved_notification_dec = of_object (\<lambda>m.
     and_then (get_opt dec_string ''threadId'' m) (\<lambda>v0.
     and_then (get_req request_id_dec ''requestId'' m) (\<lambda>v1.
     Ok \<lparr>server_request_resolved_thread_id = v0,
         server_request_resolved_request_id = v1,
         server_request_resolved_extra = get_extra server_request_resolved_notification_fields m\<rparr>)))"

definition server_request_resolved_notification_wf :: "server_request_resolved_notification \<Rightarrow> bool" where
  "server_request_resolved_notification_wf x \<longleftrightarrow> jsorted (server_request_resolved_extra x) \<and>
     jkeys (server_request_resolved_extra x) \<inter> set server_request_resolved_notification_fields = {}"

interpretation server_request_resolved_notification: flat_struct server_request_resolved_notification_fields server_request_resolved_notification_rows server_request_resolved_extra
  by unfold_locales (simp_all add: server_request_resolved_notification_rows_def server_request_resolved_notification_fields_def)

interpretation server_request_resolved_notification: wire_codec server_request_resolved_notification_enc server_request_resolved_notification_dec server_request_resolved_notification_wf
  by unfold_locales
    (simp_all add: server_request_resolved_notification_enc_def server_request_resolved_notification_dec_def server_request_resolved_notification_wf_def codec server_request_resolved_notification.read_extra,
      simp add: server_request_resolved_notification_fields_def server_request_resolved_notification.read_field,
      simp add: server_request_resolved_notification_rows_def codec request_id.codec_rules)

section \<open>Server requests with typed payloads\<close>

record chatgpt_auth_tokens_refresh_params =
  chatgpt_auth_tokens_refresh_reason :: string
  chatgpt_auth_tokens_refresh_previous_account_id :: "string option"
  chatgpt_auth_tokens_refresh_extra :: jmap

definition chatgpt_auth_tokens_refresh_params_fields :: "string list" where
  "chatgpt_auth_tokens_refresh_params_fields = [''reason'', ''previousAccountId'']"

definition chatgpt_auth_tokens_refresh_params_rows :: "chatgpt_auth_tokens_refresh_params \<Rightarrow> field_row list" where
  "chatgpt_auth_tokens_refresh_params_rows x =
     [(''reason'', Some (JString (chatgpt_auth_tokens_refresh_reason x))),
      (''previousAccountId'', map_option JString (chatgpt_auth_tokens_refresh_previous_account_id x))]"

definition chatgpt_auth_tokens_refresh_params_enc :: "chatgpt_auth_tokens_refresh_params \<Rightarrow> json" where
  "chatgpt_auth_tokens_refresh_params_enc x = JObject (object_of (chatgpt_auth_tokens_refresh_params_rows x) (chatgpt_auth_tokens_refresh_extra x))"

definition chatgpt_auth_tokens_refresh_params_dec :: "json \<Rightarrow> serde_error + chatgpt_auth_tokens_refresh_params" where
  "chatgpt_auth_tokens_refresh_params_dec = of_object (\<lambda>m.
     and_then (get_req dec_string ''reason'' m) (\<lambda>v0.
     and_then (get_opt dec_string ''previousAccountId'' m) (\<lambda>v1.
     Ok \<lparr>chatgpt_auth_tokens_refresh_reason = v0,
         chatgpt_auth_tokens_refresh_previous_account_id = v1,
         chatgpt_auth_tokens_refresh_extra = get_extra chatgpt_auth_tokens_refresh_params_fields m\<rparr>)))"

definition chatgpt_auth_tokens_refresh_params_wf :: "chatgpt_auth_tokens_refresh_params \<Rightarrow> bool" where
  "chatgpt_auth_tokens_refresh_params_wf x \<longleftrightarrow> jsorted (chatgpt_auth_tokens_refresh_extra x) \<and>
     jkeys (chatgpt_auth_tokens_refresh_extra x) \<inter> set chatgpt_auth_tokens_refresh_params_fields = {}"

interpretation chatgpt_auth_tokens_refresh_params: flat_struct chatgpt_auth_tokens_refresh_params_fields chatgpt_auth_tokens_refresh_params_rows chatgpt_auth_tokens_refresh_extra
  by unfold_locales (simp_all add: chatgpt_auth_tokens_refresh_params_rows_def chatgpt_auth_tokens_refresh_params_fields_def)

interpretation chatgpt_auth_tokens_refresh_params: wire_codec chatgpt_auth_tokens_refresh_params_enc chatgpt_auth_tokens_refresh_params_dec chatgpt_auth_tokens_refresh_params_wf
  by unfold_locales
    (simp_all add: chatgpt_auth_tokens_refresh_params_enc_def chatgpt_auth_tokens_refresh_params_dec_def chatgpt_auth_tokens_refresh_params_wf_def codec chatgpt_auth_tokens_refresh_params.read_extra,
      simp add: chatgpt_auth_tokens_refresh_params_fields_def chatgpt_auth_tokens_refresh_params.read_field,
      simp add: chatgpt_auth_tokens_refresh_params_rows_def codec)

record chatgpt_auth_tokens_refresh_response =
  chatgpt_auth_tokens_refresh_response_id_token :: string
  chatgpt_auth_tokens_refresh_response_access_token :: string
  chatgpt_auth_tokens_refresh_response_extra :: jmap

definition chatgpt_auth_tokens_refresh_response_fields :: "string list" where
  "chatgpt_auth_tokens_refresh_response_fields = [''idToken'', ''accessToken'']"

definition chatgpt_auth_tokens_refresh_response_rows :: "chatgpt_auth_tokens_refresh_response \<Rightarrow> field_row list" where
  "chatgpt_auth_tokens_refresh_response_rows x =
     [(''idToken'', Some (JString (chatgpt_auth_tokens_refresh_response_id_token x))),
      (''accessToken'', Some (JString (chatgpt_auth_tokens_refresh_response_access_token x)))]"

definition chatgpt_auth_tokens_refresh_response_enc :: "chatgpt_auth_tokens_refresh_response \<Rightarrow> json" where
  "chatgpt_auth_tokens_refresh_response_enc x = JObject (object_of (chatgpt_auth_tokens_refresh_response_rows x) (chatgpt_auth_tokens_refresh_response_extra x))"

definition chatgpt_auth_tokens_refresh_response_dec :: "json \<Rightarrow> serde_error + chatgpt_auth_tokens_refresh_response" where
  "chatgpt_auth_tokens_refresh_response_dec = of_object (\<lambda>m.
     and_then (get_req dec_string ''idToken'' m) (\<lambda>v0.
     and_then (get_req dec_string ''accessToken'' m) (\<lambda>v1.
     Ok \<lparr>chatgpt_auth_tokens_refresh_response_id_token = v0,
         chatgpt_auth_tokens_refresh_response_access_token = v1,
         chatgpt_auth_tokens_refresh_response_extra = get_extra chatgpt_auth_tokens_refresh_response_fields m\<rparr>)))"

definition chatgpt_auth_tokens_refresh_response_wf :: "chatgpt_auth_tokens_refresh_response \<Rightarrow> bool" where
  "chatgpt_auth_tokens_refresh_response_wf x \<longleftrightarrow> jsorted (chatgpt_auth_tokens_refresh_response_extra x) \<and>
     jkeys (chatgpt_auth_tokens_refresh_response_extra x) \<inter> set chatgpt_auth_tokens_refresh_response_fields = {}"

interpretation chatgpt_auth_tokens_refresh_response: flat_struct chatgpt_auth_tokens_refresh_response_fields chatgpt_auth_tokens_refresh_response_rows chatgpt_auth_tokens_refresh_response_extra
  by unfold_locales (simp_all add: chatgpt_auth_tokens_refresh_response_rows_def chatgpt_auth_tokens_refresh_response_fields_def)

interpretation chatgpt_auth_tokens_refresh_response: wire_codec chatgpt_auth_tokens_refresh_response_enc chatgpt_auth_tokens_refresh_response_dec chatgpt_auth_tokens_refresh_response_wf
  by unfold_locales
    (simp_all add: chatgpt_auth_tokens_refresh_response_enc_def chatgpt_auth_tokens_refresh_response_dec_def chatgpt_auth_tokens_refresh_response_wf_def codec chatgpt_auth_tokens_refresh_response.read_extra,
      simp add: chatgpt_auth_tokens_refresh_response_fields_def chatgpt_auth_tokens_refresh_response.read_field,
      simp add: chatgpt_auth_tokens_refresh_response_rows_def codec)

end
