(* ===== verification/Rpc_Errors.thy ===== *)
theory Rpc_Errors
  imports Protocol_Responses
begin

text \<open>
  Errors and the classification of inbound frames: \<open>crates/sdk/src/error.rs\<close>. \<open>client_error\<close>
  has the variants of \<open>ClientError\<close>, \<open>rpc_error\<close> is the JSON-RPC error object, and
  \<open>classify_incoming\<close> decides whether a frame is a response, a notification or a request of
  the server. The texts of errors that serde, the operating system and the derived \<open>Debug\<close>
  of serde values print are parameters (record \<open>displays\<close>).
\<close>

section \<open>Errors\<close>

definition RPC_ERROR_CODE_HANDLER_FAILED :: i64 where
  "RPC_ERROR_CODE_HANDLER_FAILED = word_of_int (-32001)"

definition RPC_ERROR_CODE_TRANSPORT_FAILURE :: i64 where
  "RPC_ERROR_CODE_TRANSPORT_FAILURE = word_of_int (-32098)"

record rpc_error =
  rpc_error_code :: i64
  rpc_error_message :: string
  rpc_error_data :: "json option"

definition rpc_error_rows :: "rpc_error \<Rightarrow> field_row list" where
  "rpc_error_rows e =
     [(''code'', Some (enc_i64 (rpc_error_code e))),
      (''message'', Some (JString (rpc_error_message e))),
      (''data'', rpc_error_data e)]"

definition rpc_error_enc :: "rpc_error \<Rightarrow> json" where
  "rpc_error_enc e = JObject (insert_rows (rpc_error_rows e) [])"

text \<open>Without a flattened map, the derived decoder also accepts the sequence of the fields.\<close>

definition rpc_error_make :: "i64 \<Rightarrow> string \<Rightarrow> json option \<Rightarrow> rpc_error" where
  "rpc_error_make c m d = \<lparr>rpc_error_code = c, rpc_error_message = m, rpc_error_data = d\<rparr>"

fun rpc_error_dec :: "json \<Rightarrow> serde_error + rpc_error" where
  "rpc_error_dec (JObject m) =
     and_then (get_req dec_i64 ''code'' m) (\<lambda>c.
     and_then (get_req dec_string ''message'' m) (\<lambda>s.
     and_then (get_opt dec_value ''data'' m) (\<lambda>d. Ok (rpc_error_make c s d))))"
| "rpc_error_dec (JArray (c # s # rest)) =
     (if length rest \<le> 1 then
        and_then (dec_i64 c) (\<lambda>c.
        and_then (dec_string s) (\<lambda>s.
        and_then (read_opt dec_value (case rest of [] \<Rightarrow> None | d # _ \<Rightarrow> Some d)) (\<lambda>d.
        Ok (rpc_error_make c s d))))
      else Err SerdeError)"
| "rpc_error_dec _ = Err SerdeError"

definition rpc_error_wf :: "rpc_error \<Rightarrow> bool" where
  "rpc_error_wf e \<longleftrightarrow> rpc_error_data e \<noteq> Some JNull"

interpretation rpc_error: wire_codec rpc_error_enc rpc_error_dec rpc_error_wf
proof (unfold_locales, goal_cases)
  case (1 e)
  then have f: "distinct (map fst (rpc_error_rows e))"
    by (simp add: rpc_error_rows_def)
  note g = jget_insert_rows [OF f]
  have "jget (insert_rows (rpc_error_rows e) []) ''code'' = Some (enc_i64 (rpc_error_code e))"
    "jget (insert_rows (rpc_error_rows e) []) ''message'' = Some (JString (rpc_error_message e))"
    "jget (insert_rows (rpc_error_rows e) []) ''data'' = rpc_error_data e"
    by (rule g, simp add: rpc_error_rows_def)+
  with 1 show ?case
    by (simp add: rpc_error_enc_def rpc_error_wf_def rpc_error_make_def codec)
next
  case (2 e)
  then show ?case by (simp add: rpc_error_enc_def)
qed

text \<open>The kinds of \<open>std::io::Error\<close> the sources distinguish, and its message.\<close>

datatype io_error_kind =
    ConnectionRefused | ConnectionAborted | ConnectionReset | NotConnected | TimedOut
  | AddrNotAvailable | BrokenPipe | Unsupported | UnexpectedEof | OtherKind

datatype io_error = IoError io_error_kind string

datatype client_error =
    NotInitialized string
  | NotReady string
  | AlreadyInitialized
  | Timeout string u64
  | Config string
  | Startup string "string option"
  | TransportSend string
  | TransportClosed
  | InvalidMessage string
  | Serialization serde_error
  | Io io_error
  | Rpc rpc_error
  | UnexpectedResult string serde_error

record displays =
  display_serde :: "serde_error \<Rightarrow> string"
  debug_rpc_error :: "rpc_error \<Rightarrow> string"
  display_send_error :: string

definition startup_log_suffix :: "string option \<Rightarrow> string" where
  "startup_log_suffix log_path =
     (case log_path of Some path \<Rightarrow> ''; logs: '' @ path | None \<Rightarrow> '''')"

fun client_error_display :: "displays \<Rightarrow> client_error \<Rightarrow> string" where
  "client_error_display d (NotInitialized method) =
     ''not initialized: call initialize() before invoking '' @ method"
| "client_error_display d (NotReady method) =
     ''connection not ready: call initialized() before invoking '' @ method"
| "client_error_display d AlreadyInitialized = ''connection is already initialized''"
| "client_error_display d (Timeout method ms) =
     ''request timed out after '' @ show_nat (unat ms) @ ''ms for method '' @ method"
| "client_error_display d (Config m) = ''invalid configuration: '' @ m"
| "client_error_display d (Startup m log_path) =
     ''app-server startup failed: '' @ m @ startup_log_suffix log_path"
| "client_error_display d (TransportSend m) = ''transport send failed: '' @ m"
| "client_error_display d TransportClosed = ''transport closed''"
| "client_error_display d (InvalidMessage m) = ''invalid message from server: '' @ m"
| "client_error_display d (Serialization e) = ''serialization error: '' @ display_serde d e"
| "client_error_display d (Io e) = ''io error: '' @ (case e of IoError k m \<Rightarrow> m)"
| "client_error_display d (Rpc e) = ''rpc error '' @ debug_rpc_error d e"
| "client_error_display d (UnexpectedResult method e) =
     ''unexpected result shape for method '' @ method @ '': '' @ display_serde d e"

section \<open>Classification of inbound frames\<close>

datatype incoming =
    Response request_id "rpc_error + json"
  | IncomingNotification string json json
  | IncomingServerRequest request_id string json json

text \<open>\<open>obj.get("id").map(from_value).transpose()\<close>.\<close>

definition frame_id :: "jmap \<Rightarrow> client_error + request_id option" where
  "frame_id obj =
     (case jget obj ''id'' of
        None \<Rightarrow> Ok None
      | Some v \<Rightarrow> map_ok Some (map_err Serialization (request_id_dec v)))"

definition frame_method :: "jmap \<Rightarrow> string option" where
  "frame_method obj = Option.bind (jget obj ''method'') as_str"

definition frame_params :: "jmap \<Rightarrow> json" where
  "frame_params obj = unwrap_or (jget obj ''params'') JNull"

definition classify_response :: "request_id \<Rightarrow> jmap \<Rightarrow> client_error + incoming" where
  "classify_response i obj =
     (case jget obj ''result'' of
        Some result \<Rightarrow> Ok (Response i (Ok result))
      | None \<Rightarrow>
          (case jget obj ''error'' of
             Some error \<Rightarrow>
               map_ok (\<lambda>e. Response i (Err e)) (map_err Serialization (rpc_error_dec error))
           | None \<Rightarrow> Err (InvalidMessage ''response missing both result and error'')))"

definition classify_incoming :: "json \<Rightarrow> client_error + incoming" where
  "classify_incoming value =
     (case value of
        JObject obj \<Rightarrow>
          and_then (frame_id obj) (\<lambda>fid.
            (case (fid, frame_method obj) of
               (Some i, Some method) \<Rightarrow>
                 Ok (IncomingServerRequest i method (frame_params obj) value)
             | (None, Some method) \<Rightarrow>
                 Ok (IncomingNotification method (frame_params obj) value)
             | (Some i, None) \<Rightarrow> classify_response i obj
             | (None, None) \<Rightarrow> Err (InvalidMessage ''message missing method and id'')))
      | _ \<Rightarrow> Err (InvalidMessage ''expected JSON object''))"

lemmas classify_simps =
  classify_incoming_def classify_response_def frame_id_def frame_method_def frame_params_def

section \<open>The frames the client writes\<close>

text \<open>The \<open>json!\<close> literals of \<open>client/mod.rs\<close>: requests, notifications and responses.\<close>

definition request_frame :: "string \<Rightarrow> request_id \<Rightarrow> json \<Rightarrow> json" where
  "request_frame method i params =
     JObject (insert_rows [(''method'', Some (JString method)), (''id'', Some (request_id_enc i)),
       (''params'', Some params)] [])"

definition notification_frame :: "string \<Rightarrow> json \<Rightarrow> json" where
  "notification_frame method params =
     JObject (insert_rows [(''method'', Some (JString method)), (''params'', Some params)] [])"

definition response_frame :: "request_id \<Rightarrow> json \<Rightarrow> json" where
  "response_frame i result =
     JObject (insert_rows [(''id'', Some (request_id_enc i)), (''result'', Some result)] [])"

definition error_frame :: "request_id \<Rightarrow> json \<Rightarrow> json" where
  "error_frame i error =
     JObject (insert_rows [(''id'', Some (request_id_enc i)), (''error'', Some error)] [])"

lemmas frame_defs =
  request_frame_def notification_frame_def response_frame_def error_frame_def

lemma jget_request_frame:
  "request_frame method i params = JObject m \<Longrightarrow>
   jget m ''method'' = Some (JString method) \<and> jget m ''id'' = Some (request_id_enc i) \<and>
   jget m ''params'' = Some params"
  by (auto simp: request_frame_def jget_Cons)

lemma classify_request_frame:
  "classify_incoming (request_frame method i params) =
     Ok (IncomingServerRequest i method params (request_frame method i params))"
  by (simp add: frame_defs classify_simps jget_Cons request_id.roundtrip)

lemma classify_notification_frame:
  "classify_incoming (notification_frame method params) =
     Ok (IncomingNotification method params (notification_frame method params))"
  by (simp add: frame_defs classify_simps jget_Cons)

lemma classify_response_frame:
  "classify_incoming (response_frame i result) = Ok (Response i (Ok result))"
  by (simp add: frame_defs classify_simps jget_Cons request_id.roundtrip)

lemma classify_error_frame:
  "rpc_error_wf e \<Longrightarrow> classify_incoming (error_frame i (rpc_error_enc e)) = Ok (Response i (Err e))"
  by (simp add: frame_defs classify_simps jget_Cons request_id.roundtrip rpc_error.roundtrip)

text \<open>What a successful classification says of the frame.\<close>

definition response_of :: "jmap \<Rightarrow> rpc_error + json \<Rightarrow> bool" where
  "response_of obj r \<longleftrightarrow>
     (case jget obj ''result'' of
        Some result \<Rightarrow> r = Ok result
      | None \<Rightarrow> (\<exists>error e. jget obj ''error'' = Some error \<and> rpc_error_dec error = Ok e \<and> r = Err e))"

lemma classify_response_Ok_iff:
  "classify_response i obj = Ok c \<longleftrightarrow> (\<exists>r. c = Response i r \<and> response_of obj r)"
  by (cases "jget obj ''result''"; cases "jget obj ''error''")
    (auto simp: classify_response_def response_of_def map_ok_Inr_iff map_err_Inr_iff)

lemma classify_Response_iff:
  "classify_incoming (JObject obj) = Ok (Response i r) \<longleftrightarrow>
     (\<exists>w. jget obj ''id'' = Some w \<and> request_id_dec w = Ok i \<and> frame_method obj = None \<and>
        response_of obj r)"
  by (cases "jget obj ''id''"; cases "frame_method obj")
    (auto simp: classify_incoming_def frame_id_def and_then_Inr_iff map_ok_Inr_iff map_err_Inr_iff
      classify_response_Ok_iff)

end
