(* ===== verification/Events.thy ===== *)
theory Events
  imports Protocol_Notifications Rpc_Errors
begin

text \<open>
  Server events: \<open>crates/sdk/src/events/mod.rs\<close>. The notification table and the server-request
  table are the source's tables row by row; \<open>parse_notification\<close>, \<open>method_name\<close> and
  \<open>parse_server_request\<close> are what the macros expand from them, and the handler record is the
  one \<open>client/server_requests.rs\<close> expands from the second.
\<close>

section \<open>Notifications\<close>

datatype server_notification =
    SN_Error error_notification
  | SN_ThreadStarted thread_started_notification
  | SN_ThreadArchived thread_lifecycle_notification
  | SN_ThreadUnarchived thread_lifecycle_notification
  | SN_ThreadClosed thread_lifecycle_notification
  | SN_ThreadNameUpdated thread_name_updated_notification
  | SN_ThreadStatusChanged thread_status_changed_notification
  | SN_ThreadTokenUsageUpdated thread_token_usage_updated_notification
  | SN_TurnStarted turn_started_notification
  | SN_TurnCompleted turn_completed_notification
  | SN_TurnDiffUpdated turn_diff_updated_notification
  | SN_TurnPlanUpdated turn_plan_updated_notification
  | SN_ItemStarted item_lifecycle_notification
  | SN_ItemCompleted item_lifecycle_notification
  | SN_RawResponseItemCompleted opaque_struct
  | SN_ItemAgentMessageDelta delta_notification
  | SN_ItemPlanDelta delta_notification
  | SN_ItemCommandExecutionOutputDelta delta_notification
  | SN_ItemCommandExecutionTerminalInteraction delta_notification
  | SN_ItemFileChangeOutputDelta delta_notification
  | SN_ItemMcpToolCallProgress delta_notification
  | SN_ItemReasoningSummaryTextDelta delta_notification
  | SN_ItemReasoningSummaryPartAdded delta_notification
  | SN_ItemReasoningTextDelta delta_notification
  | SN_McpServerOauthLoginCompleted opaque_struct
  | SN_AccountUpdated opaque_struct
  | SN_AccountRateLimitsUpdated opaque_struct
  | SN_AppListUpdated opaque_struct
  | SN_ContextCompacted delta_notification
  | SN_DeprecationNotice opaque_struct
  | SN_ConfigWarning opaque_struct
  | SN_WindowsWorldWritableWarning opaque_struct
  | SN_WindowsSandboxSetupCompleted opaque_struct
  | SN_AccountLoginCompleted opaque_struct
  | SN_AuthStatusChange opaque_struct
  | SN_LoginChatGptComplete opaque_struct
  | SN_SessionConfigured opaque_struct
  | SN_FuzzyFileSearchSessionUpdated opaque_struct
  | SN_FuzzyFileSearchSessionCompleted opaque_struct
  | SN_ServerRequestResolved server_request_resolved_notification
  | SN_Unknown string json

definition notification_table ::
  "(string \<times> (json \<Rightarrow> serde_error + server_notification)) list" where
  "notification_table =
     [(''error'', map_ok SN_Error \<circ> error_notification_dec),
      (''thread/started'', map_ok SN_ThreadStarted \<circ> thread_started_notification_dec),
      (''thread/archived'', map_ok SN_ThreadArchived \<circ> thread_lifecycle_notification_dec),
      (''thread/unarchived'', map_ok SN_ThreadUnarchived \<circ> thread_lifecycle_notification_dec),
      (''thread/closed'', map_ok SN_ThreadClosed \<circ> thread_lifecycle_notification_dec),
      (''thread/name/updated'', map_ok SN_ThreadNameUpdated \<circ> thread_name_updated_notification_dec),
      (''thread/status/changed'', map_ok SN_ThreadStatusChanged \<circ> thread_status_changed_notification_dec),
      (''thread/tokenUsage/updated'', map_ok SN_ThreadTokenUsageUpdated \<circ> thread_token_usage_updated_notification_dec),
      (''turn/started'', map_ok SN_TurnStarted \<circ> turn_started_notification_dec),
      (''turn/completed'', map_ok SN_TurnCompleted \<circ> turn_completed_notification_dec),
      (''turn/diff/updated'', map_ok SN_TurnDiffUpdated \<circ> turn_diff_updated_notification_dec),
      (''turn/plan/updated'', map_ok SN_TurnPlanUpdated \<circ> turn_plan_updated_notification_dec),
      (''item/started'', map_ok SN_ItemStarted \<circ> item_lifecycle_notification_dec),
      (''item/completed'', map_ok SN_ItemCompleted \<circ> item_lifecycle_notification_dec),
      (''rawResponseItem/completed'', map_ok SN_RawResponseItemCompleted \<circ> opaque_struct_dec),
      (''item/agentMessage/delta'', map_ok SN_ItemAgentMessageDelta \<circ> delta_notification_dec),
      (''item/plan/delta'', map_ok SN_ItemPlanDelta \<circ> delta_notification_dec),
      (''item/commandExecution/outputDelta'', map_ok SN_ItemCommandExecutionOutputDelta \<circ> delta_notification_dec),
      (''item/commandExecution/terminalInteraction'', map_ok SN_ItemCommandExecutionTerminalInteraction \<circ> delta_notification_dec),
      (''item/fileChange/outputDelta'', map_ok SN_ItemFileChangeOutputDelta \<circ> delta_notification_dec),
      (''item/mcpToolCall/progress'', map_ok SN_ItemMcpToolCallProgress \<circ> delta_notification_dec),
      (''item/reasoning/summaryTextDelta'', map_ok SN_ItemReasoningSummaryTextDelta \<circ> delta_notification_dec),
      (''item/reasoning/summaryPartAdded'', map_ok SN_ItemReasoningSummaryPartAdded \<circ> delta_notification_dec),
      (''item/reasoning/textDelta'', map_ok SN_ItemReasoningTextDelta \<circ> delta_notification_dec),
      (''mcpServer/oauthLogin/completed'', map_ok SN_McpServerOauthLoginCompleted \<circ> opaque_struct_dec),
      (''account/updated'', map_ok SN_AccountUpdated \<circ> opaque_struct_dec),
      (''account/rateLimits/updated'', map_ok SN_AccountRateLimitsUpdated \<circ> opaque_struct_dec),
      (''app/list/updated'', map_ok SN_AppListUpdated \<circ> opaque_struct_dec),
      (''thread/compacted'', map_ok SN_ContextCompacted \<circ> delta_notification_dec),
      (''deprecationNotice'', map_ok SN_DeprecationNotice \<circ> opaque_struct_dec),
      (''configWarning'', map_ok SN_ConfigWarning \<circ> opaque_struct_dec),
      (''windows/worldWritableWarning'', map_ok SN_WindowsWorldWritableWarning \<circ> opaque_struct_dec),
      (''windowsSandbox/setupCompleted'', map_ok SN_WindowsSandboxSetupCompleted \<circ> opaque_struct_dec),
      (''account/login/completed'', map_ok SN_AccountLoginCompleted \<circ> opaque_struct_dec),
      (''authStatusChange'', map_ok SN_AuthStatusChange \<circ> opaque_struct_dec),
      (''loginChatGptComplete'', map_ok SN_LoginChatGptComplete \<circ> opaque_struct_dec),
      (''sessionConfigured'', map_ok SN_SessionConfigured \<circ> opaque_struct_dec),
      (''fuzzyFileSearch/sessionUpdated'', map_ok SN_FuzzyFileSearchSessionUpdated \<circ> opaque_struct_dec),
      (''fuzzyFileSearch/sessionCompleted'', map_ok SN_FuzzyFileSearchSessionCompleted \<circ> opaque_struct_dec),
      (''serverRequest/resolved'', map_ok SN_ServerRequestResolved \<circ> server_request_resolved_notification_dec)]"

definition parse_notification :: "string \<Rightarrow> json \<Rightarrow> client_error + server_notification" where
  "parse_notification method params =
     (case map_of notification_table method of
        Some decode \<Rightarrow> map_err Serialization (decode params)
      | None \<Rightarrow> Ok (SN_Unknown method params))"

fun method_name :: "server_notification \<Rightarrow> string option" where
  "method_name (SN_Error _) = Some ''error''"
| "method_name (SN_ThreadStarted _) = Some ''thread/started''"
| "method_name (SN_ThreadArchived _) = Some ''thread/archived''"
| "method_name (SN_ThreadUnarchived _) = Some ''thread/unarchived''"
| "method_name (SN_ThreadClosed _) = Some ''thread/closed''"
| "method_name (SN_ThreadNameUpdated _) = Some ''thread/name/updated''"
| "method_name (SN_ThreadStatusChanged _) = Some ''thread/status/changed''"
| "method_name (SN_ThreadTokenUsageUpdated _) = Some ''thread/tokenUsage/updated''"
| "method_name (SN_TurnStarted _) = Some ''turn/started''"
| "method_name (SN_TurnCompleted _) = Some ''turn/completed''"
| "method_name (SN_TurnDiffUpdated _) = Some ''turn/diff/updated''"
| "method_name (SN_TurnPlanUpdated _) = Some ''turn/plan/updated''"
| "method_name (SN_ItemStarted _) = Some ''item/started''"
| "method_name (SN_ItemCompleted _) = Some ''item/completed''"
| "method_name (SN_RawResponseItemCompleted _) = Some ''rawResponseItem/completed''"
| "method_name (SN_ItemAgentMessageDelta _) = Some ''item/agentMessage/delta''"
| "method_name (SN_ItemPlanDelta _) = Some ''item/plan/delta''"
| "method_name (SN_ItemCommandExecutionOutputDelta _) = Some ''item/commandExecution/outputDelta''"
| "method_name (SN_ItemCommandExecutionTerminalInteraction _) = Some ''item/commandExecution/terminalInteraction''"
| "method_name (SN_ItemFileChangeOutputDelta _) = Some ''item/fileChange/outputDelta''"
| "method_name (SN_ItemMcpToolCallProgress _) = Some ''item/mcpToolCall/progress''"
| "method_name (SN_ItemReasoningSummaryTextDelta _) = Some ''item/reasoning/summaryTextDelta''"
| "method_name (SN_ItemReasoningSummaryPartAdded _) = Some ''item/reasoning/summaryPartAdded''"
| "method_name (SN_ItemReasoningTextDelta _) = Some ''item/reasoning/textDelta''"
| "method_name (SN_McpServerOauthLoginCompleted _) = Some ''mcpServer/oauthLogin/completed''"
| "method_name (SN_AccountUpdated _) = Some ''account/updated''"
| "method_name (SN_AccountRateLimitsUpdated _) = Some ''account/rateLimits/updated''"
| "method_name (SN_AppListUpdated _) = Some ''app/list/updated''"
| "method_name (SN_ContextCompacted _) = Some ''thread/compacted''"
| "method_name (SN_DeprecationNotice _) = Some ''deprecationNotice''"
| "method_name (SN_ConfigWarning _) = Some ''configWarning''"
| "method_name (SN_WindowsWorldWritableWarning _) = Some ''windows/worldWritableWarning''"
| "method_name (SN_WindowsSandboxSetupCompleted _) = Some ''windowsSandbox/setupCompleted''"
| "method_name (SN_AccountLoginCompleted _) = Some ''account/login/completed''"
| "method_name (SN_AuthStatusChange _) = Some ''authStatusChange''"
| "method_name (SN_LoginChatGptComplete _) = Some ''loginChatGptComplete''"
| "method_name (SN_SessionConfigured _) = Some ''sessionConfigured''"
| "method_name (SN_FuzzyFileSearchSessionUpdated _) = Some ''fuzzyFileSearch/sessionUpdated''"
| "method_name (SN_FuzzyFileSearchSessionCompleted _) = Some ''fuzzyFileSearch/sessionCompleted''"
| "method_name (SN_ServerRequestResolved _) = Some ''serverRequest/resolved''"
| "method_name (SN_Unknown _ _) = None"

section \<open>Server requests\<close>

datatype server_request_event =
    SR_ChatgptAuthTokensRefresh request_id chatgpt_auth_tokens_refresh_params
  | SR_ApplyPatchApproval request_id opaque_struct
  | SR_ExecCommandApproval request_id opaque_struct
  | SR_CommandExecutionRequestApproval request_id opaque_struct
  | SR_FileChangeRequestApproval request_id opaque_struct
  | SR_ToolRequestUserInput request_id opaque_struct
  | SR_DynamicToolCall request_id opaque_struct
  | SR_Unknown request_id string json

definition server_request_table ::
  "(string \<times> (request_id \<Rightarrow> json \<Rightarrow> serde_error + server_request_event)) list" where
  "server_request_table =
     [(''account/chatgptAuthTokens/refresh'', \<lambda>i v. map_ok (SR_ChatgptAuthTokensRefresh i) (chatgpt_auth_tokens_refresh_params_dec v)),
      (''applyPatchApproval'', \<lambda>i v. map_ok (SR_ApplyPatchApproval i) (opaque_struct_dec v)),
      (''execCommandApproval'', \<lambda>i v. map_ok (SR_ExecCommandApproval i) (opaque_struct_dec v)),
      (''item/commandExecution/requestApproval'', \<lambda>i v. map_ok (SR_CommandExecutionRequestApproval i) (opaque_struct_dec v)),
      (''item/fileChange/requestApproval'', \<lambda>i v. map_ok (SR_FileChangeRequestApproval i) (opaque_struct_dec v)),
      (''item/tool/requestUserInput'', \<lambda>i v. map_ok (SR_ToolRequestUserInput i) (opaque_struct_dec v)),
      (''item/tool/call'', \<lambda>i v. map_ok (SR_DynamicToolCall i) (opaque_struct_dec v))]"

definition parse_server_request ::
  "request_id \<Rightarrow> string \<Rightarrow> json \<Rightarrow> client_error + server_request_event" where
  "parse_server_request i method params =
     (case map_of server_request_table method of
        Some decode \<Rightarrow> map_err Serialization (decode i params)
      | None \<Rightarrow> Ok (SR_Unknown i method params))"

fun server_request_method :: "server_request_event \<Rightarrow> string" where
  "server_request_method (SR_ChatgptAuthTokensRefresh _ _) = ''account/chatgptAuthTokens/refresh''"
| "server_request_method (SR_ApplyPatchApproval _ _) = ''applyPatchApproval''"
| "server_request_method (SR_ExecCommandApproval _ _) = ''execCommandApproval''"
| "server_request_method (SR_CommandExecutionRequestApproval _ _) = ''item/commandExecution/requestApproval''"
| "server_request_method (SR_FileChangeRequestApproval _ _) = ''item/fileChange/requestApproval''"
| "server_request_method (SR_ToolRequestUserInput _ _) = ''item/tool/requestUserInput''"
| "server_request_method (SR_DynamicToolCall _ _) = ''item/tool/call''"
| "server_request_method (SR_Unknown _ m _) = m"

fun server_request_id :: "server_request_event \<Rightarrow> request_id" where
  "server_request_id (SR_ChatgptAuthTokensRefresh i _) = i"
| "server_request_id (SR_ApplyPatchApproval i _) = i"
| "server_request_id (SR_ExecCommandApproval i _) = i"
| "server_request_id (SR_CommandExecutionRequestApproval i _) = i"
| "server_request_id (SR_FileChangeRequestApproval i _) = i"
| "server_request_id (SR_ToolRequestUserInput i _) = i"
| "server_request_id (SR_DynamicToolCall i _) = i"
| "server_request_id (SR_Unknown i _ _) = i"

datatype server_event =
    Notification server_notification
  | ServerRequest server_request_event
  | EventTransportClosed

section \<open>Handlers\<close>

text \<open>
  One optional handler per server request. A handler is the application's closure; here it is
  the function from the params it is called with to the outcome its future resolves to.
\<close>

record server_request_handlers =
  h_chatgpt_auth_tokens_refresh :: "(chatgpt_auth_tokens_refresh_params \<Rightarrow> client_error + chatgpt_auth_tokens_refresh_response) option"
  h_apply_patch_approval :: "(opaque_struct \<Rightarrow> client_error + opaque_struct) option"
  h_exec_command_approval :: "(opaque_struct \<Rightarrow> client_error + opaque_struct) option"
  h_command_execution_request_approval :: "(opaque_struct \<Rightarrow> client_error + opaque_struct) option"
  h_file_change_request_approval :: "(opaque_struct \<Rightarrow> client_error + opaque_struct) option"
  h_tool_request_user_input :: "(opaque_struct \<Rightarrow> client_error + opaque_struct) option"
  h_dynamic_tool_call :: "(opaque_struct \<Rightarrow> client_error + opaque_struct) option"

definition no_handlers :: server_request_handlers where
  "no_handlers =
     \<lparr>h_chatgpt_auth_tokens_refresh = None,
      h_apply_patch_approval = None,
      h_exec_command_approval = None,
      h_command_execution_request_approval = None,
      h_file_change_request_approval = None,
      h_tool_request_user_input = None,
      h_dynamic_tool_call = None\<rparr>"

text \<open>The registered handler of a request run on its params: the id to answer, the serialized
  result or the error, and the context string of the row. \<open>None\<close> when nothing is registered.\<close>

fun run_handler ::
  "server_request_handlers \<Rightarrow> server_request_event \<Rightarrow>
   (request_id \<times> (client_error + json) \<times> string) option" where
  "run_handler hs (SR_ChatgptAuthTokensRefresh i p) =
     map_option (\<lambda>h. (i, map_ok chatgpt_auth_tokens_refresh_response_enc (h p), ''chatgptAuthTokens refresh'')) (h_chatgpt_auth_tokens_refresh hs)"
| "run_handler hs (SR_ApplyPatchApproval i p) =
     map_option (\<lambda>h. (i, map_ok opaque_struct_enc (h p), ''applyPatchApproval'')) (h_apply_patch_approval hs)"
| "run_handler hs (SR_ExecCommandApproval i p) =
     map_option (\<lambda>h. (i, map_ok opaque_struct_enc (h p), ''execCommandApproval'')) (h_exec_command_approval hs)"
| "run_handler hs (SR_CommandExecutionRequestApproval i p) =
     map_option (\<lambda>h. (i, map_ok opaque_struct_enc (h p), ''item/commandExecution/requestApproval'')) (h_command_execution_request_approval hs)"
| "run_handler hs (SR_FileChangeRequestApproval i p) =
     map_option (\<lambda>h. (i, map_ok opaque_struct_enc (h p), ''item/fileChange/requestApproval'')) (h_file_change_request_approval hs)"
| "run_handler hs (SR_ToolRequestUserInput i p) =
     map_option (\<lambda>h. (i, map_ok opaque_struct_enc (h p), ''item/tool/requestUserInput'')) (h_tool_request_user_input hs)"
| "run_handler hs (SR_DynamicToolCall i p) =
     map_option (\<lambda>h. (i, map_ok opaque_struct_enc (h p), ''item/tool/call'')) (h_dynamic_tool_call hs)"
| "run_handler hs (SR_Unknown i m p) = None"

section \<open>Facts about the tables\<close>

lemma notification_table_method:
  "map_of notification_table m = Some f \<Longrightarrow> f v = Ok n \<Longrightarrow> method_name n = Some m"
  by (auto simp: notification_table_def map_ok_Inr_iff split: if_splits)

lemma notification_table_known:
  "map_of notification_table m = Some f \<Longrightarrow> f v \<noteq> Ok (SN_Unknown a b)"
  by (auto simp: notification_table_def map_ok_Inr_iff split: if_splits)

lemma server_request_table_method:
  "map_of server_request_table m = Some f \<Longrightarrow> f i v = Ok r \<Longrightarrow>
   server_request_method r = m \<and> server_request_id r = i"
  by (auto simp: server_request_table_def map_ok_Inr_iff split: if_splits)

lemma run_handler_id: "run_handler hs r = Some (i, res, c) \<Longrightarrow> i = server_request_id r"
  by (cases r) auto

end
