(* ===== verification/Protocol_Requests.thy ===== *)
theory Protocol_Requests
  imports Protocol_Responses
begin

text \<open>
  The request params of \<open>crates/sdk/src/protocol/requests.rs\<close>, in the scheme of
  \<open>Protocol_Responses\<close>, the constructors the source gives them, and the type aliases at the
  end of that file.
\<close>

section \<open>Client info\<close>

record client_info =
  client_info_name :: string
  client_info_title :: string
  client_info_version :: string

definition client_info_new :: "string \<Rightarrow> string \<Rightarrow> string \<Rightarrow> client_info" where
  "client_info_new name title version =
     \<lparr>client_info_name = name, client_info_title = title, client_info_version = version\<rparr>"

definition client_info_rows :: "client_info \<Rightarrow> field_row list" where
  "client_info_rows x =
     [(''name'', Some (JString (client_info_name x))),
      (''title'', Some (JString (client_info_title x))),
      (''version'', Some (JString (client_info_version x)))]"

definition client_info_enc :: "client_info \<Rightarrow> json" where
  "client_info_enc x = JObject (insert_rows (client_info_rows x) [])"

text \<open>Without a flattened map, a derived struct also reads from a sequence of its fields.\<close>

fun client_info_dec :: "json \<Rightarrow> serde_error + client_info" where
  "client_info_dec (JObject m) =
     and_then (get_req dec_string ''name'' m) (\<lambda>n.
     and_then (get_req dec_string ''title'' m) (\<lambda>t.
     and_then (get_req dec_string ''version'' m) (\<lambda>v. Ok (client_info_new n t v))))"
| "client_info_dec (JArray [JString n, JString t, JString v]) = Ok (client_info_new n t v)"
| "client_info_dec _ = Err SerdeError"

definition client_info_wf :: "client_info \<Rightarrow> bool" where
  "client_info_wf x = True"

interpretation client_info: wire_codec client_info_enc client_info_dec client_info_wf
  by unfold_locales
    (simp_all add: client_info_enc_def client_info_rows_def codec jget_Cons client_info_new_def)

section \<open>Request params\<close>

record initialize_capabilities =
  initialize_capabilities_experimental_api :: "bool option"
  initialize_capabilities_extra :: jmap

definition initialize_capabilities_fields :: "string list" where
  "initialize_capabilities_fields = [''experimentalApi'']"

definition initialize_capabilities_rows :: "initialize_capabilities \<Rightarrow> field_row list" where
  "initialize_capabilities_rows x =
     [(''experimentalApi'', map_option JBool (initialize_capabilities_experimental_api x))]"

definition initialize_capabilities_enc :: "initialize_capabilities \<Rightarrow> json" where
  "initialize_capabilities_enc x = JObject (object_of (initialize_capabilities_rows x) (initialize_capabilities_extra x))"

definition initialize_capabilities_dec :: "json \<Rightarrow> serde_error + initialize_capabilities" where
  "initialize_capabilities_dec = of_object (\<lambda>m.
     and_then (get_opt dec_bool ''experimentalApi'' m) (\<lambda>v0.
     Ok \<lparr>initialize_capabilities_experimental_api = v0,
         initialize_capabilities_extra = get_extra initialize_capabilities_fields m\<rparr>))"

definition initialize_capabilities_wf :: "initialize_capabilities \<Rightarrow> bool" where
  "initialize_capabilities_wf x \<longleftrightarrow> jsorted (initialize_capabilities_extra x) \<and>
     jkeys (initialize_capabilities_extra x) \<inter> set initialize_capabilities_fields = {}"

interpretation initialize_capabilities: flat_struct initialize_capabilities_fields initialize_capabilities_rows initialize_capabilities_extra
  by unfold_locales (simp_all add: initialize_capabilities_rows_def initialize_capabilities_fields_def)

interpretation initialize_capabilities: wire_codec initialize_capabilities_enc initialize_capabilities_dec initialize_capabilities_wf
  by unfold_locales
    (simp_all add: initialize_capabilities_enc_def initialize_capabilities_dec_def initialize_capabilities_wf_def codec initialize_capabilities.read_extra,
      simp add: initialize_capabilities_fields_def initialize_capabilities.read_field,
      simp add: initialize_capabilities_rows_def codec)

record initialize_params =
  initialize_client_info :: client_info
  initialize_capabilities :: "initialize_capabilities option"
  initialize_extra :: jmap

definition initialize_params_fields :: "string list" where
  "initialize_params_fields = [''clientInfo'', ''capabilities'']"

definition initialize_params_rows :: "initialize_params \<Rightarrow> field_row list" where
  "initialize_params_rows x =
     [(''clientInfo'', Some (client_info_enc (initialize_client_info x))),
      (''capabilities'', map_option initialize_capabilities_enc (initialize_capabilities x))]"

definition initialize_params_enc :: "initialize_params \<Rightarrow> json" where
  "initialize_params_enc x = JObject (object_of (initialize_params_rows x) (initialize_extra x))"

definition initialize_params_dec :: "json \<Rightarrow> serde_error + initialize_params" where
  "initialize_params_dec = of_object (\<lambda>m.
     and_then (get_req client_info_dec ''clientInfo'' m) (\<lambda>v0.
     and_then (get_opt initialize_capabilities_dec ''capabilities'' m) (\<lambda>v1.
     Ok \<lparr>initialize_client_info = v0,
         initialize_capabilities = v1,
         initialize_extra = get_extra initialize_params_fields m\<rparr>)))"

definition initialize_params_wf :: "initialize_params \<Rightarrow> bool" where
  "initialize_params_wf x \<longleftrightarrow> jsorted (initialize_extra x) \<and>
     jkeys (initialize_extra x) \<inter> set initialize_params_fields = {} \<and>
     client_info_wf (initialize_client_info x) \<and>
     pred_option initialize_capabilities_wf (initialize_capabilities x)"

interpretation initialize_params: flat_struct initialize_params_fields initialize_params_rows initialize_extra
  by unfold_locales (simp_all add: initialize_params_rows_def initialize_params_fields_def)

interpretation initialize_params: wire_codec initialize_params_enc initialize_params_dec initialize_params_wf
  by unfold_locales
    (simp_all add: initialize_params_enc_def initialize_params_dec_def initialize_params_wf_def codec initialize_params.read_extra,
      simp add: initialize_params_fields_def initialize_params.read_field,
      simp add: initialize_params_rows_def codec client_info.codec_rules initialize_capabilities.codec_rules)

record pagination_params =
  pagination_limit :: "u32 option"
  pagination_cursor :: "string option"
  pagination_extra :: jmap

definition pagination_params_fields :: "string list" where
  "pagination_params_fields = [''limit'', ''cursor'']"

definition pagination_params_rows :: "pagination_params \<Rightarrow> field_row list" where
  "pagination_params_rows x =
     [(''limit'', map_option enc_u32 (pagination_limit x)),
      (''cursor'', map_option JString (pagination_cursor x))]"

definition pagination_params_enc :: "pagination_params \<Rightarrow> json" where
  "pagination_params_enc x = JObject (object_of (pagination_params_rows x) (pagination_extra x))"

definition pagination_params_dec :: "json \<Rightarrow> serde_error + pagination_params" where
  "pagination_params_dec = of_object (\<lambda>m.
     and_then (get_opt dec_u32 ''limit'' m) (\<lambda>v0.
     and_then (get_opt dec_string ''cursor'' m) (\<lambda>v1.
     Ok \<lparr>pagination_limit = v0,
         pagination_cursor = v1,
         pagination_extra = get_extra pagination_params_fields m\<rparr>)))"

definition pagination_params_wf :: "pagination_params \<Rightarrow> bool" where
  "pagination_params_wf x \<longleftrightarrow> jsorted (pagination_extra x) \<and>
     jkeys (pagination_extra x) \<inter> set pagination_params_fields = {}"

interpretation pagination_params: flat_struct pagination_params_fields pagination_params_rows pagination_extra
  by unfold_locales (simp_all add: pagination_params_rows_def pagination_params_fields_def)

interpretation pagination_params: wire_codec pagination_params_enc pagination_params_dec pagination_params_wf
  by unfold_locales
    (simp_all add: pagination_params_enc_def pagination_params_dec_def pagination_params_wf_def codec pagination_params.read_extra,
      simp add: pagination_params_fields_def pagination_params.read_field,
      simp add: pagination_params_rows_def codec)

record thread_start_params =
  thread_start_model :: "string option"
  thread_start_model_provider :: "string option"
  thread_start_cwd :: "string option"
  thread_start_approval_policy :: "string option"
  thread_start_sandbox :: "string option"
  thread_start_sandbox_policy :: "json option"
  thread_start_effort :: "string option"
  thread_start_summary :: "string option"
  thread_start_personality :: "string option"
  thread_start_ephemeral :: "bool option"
  thread_start_base_instructions :: "string option"
  thread_start_developer_instructions :: "string option"
  thread_start_extra :: jmap

definition thread_start_params_fields :: "string list" where
  "thread_start_params_fields = [''model'', ''modelProvider'', ''cwd'', ''approvalPolicy'', ''sandbox'', ''sandboxPolicy'', ''effort'', ''summary'', ''personality'', ''ephemeral'', ''baseInstructions'', ''developerInstructions'']"

definition thread_start_params_rows :: "thread_start_params \<Rightarrow> field_row list" where
  "thread_start_params_rows x =
     [(''model'', map_option JString (thread_start_model x)),
      (''modelProvider'', map_option JString (thread_start_model_provider x)),
      (''cwd'', map_option JString (thread_start_cwd x)),
      (''approvalPolicy'', map_option JString (thread_start_approval_policy x)),
      (''sandbox'', map_option JString (thread_start_sandbox x)),
      (''sandboxPolicy'', thread_start_sandbox_policy x),
      (''effort'', map_option JString (thread_start_effort x)),
      (''summary'', map_option JString (thread_start_summary x)),
      (''personality'', map_option JString (thread_start_personality x)),
      (''ephemeral'', map_option JBool (thread_start_ephemeral x)),
      (''baseInstructions'', map_option JString (thread_start_base_instructions x)),
      (''developerInstructions'', map_option JString (thread_start_developer_instructions x))]"

definition thread_start_params_enc :: "thread_start_params \<Rightarrow> json" where
  "thread_start_params_enc x = JObject (object_of (thread_start_params_rows x) (thread_start_extra x))"

definition thread_start_params_dec :: "json \<Rightarrow> serde_error + thread_start_params" where
  "thread_start_params_dec = of_object (\<lambda>m.
     and_then (get_opt dec_string ''model'' m) (\<lambda>v0.
     and_then (get_opt dec_string ''modelProvider'' m) (\<lambda>v1.
     and_then (get_opt dec_string ''cwd'' m) (\<lambda>v2.
     and_then (get_opt dec_string ''approvalPolicy'' m) (\<lambda>v3.
     and_then (get_opt dec_string ''sandbox'' m) (\<lambda>v4.
     and_then (get_opt dec_value ''sandboxPolicy'' m) (\<lambda>v5.
     and_then (get_opt dec_string ''effort'' m) (\<lambda>v6.
     and_then (get_opt dec_string ''summary'' m) (\<lambda>v7.
     and_then (get_opt dec_string ''personality'' m) (\<lambda>v8.
     and_then (get_opt dec_bool ''ephemeral'' m) (\<lambda>v9.
     and_then (get_opt dec_string ''baseInstructions'' m) (\<lambda>v10.
     and_then (get_opt dec_string ''developerInstructions'' m) (\<lambda>v11.
     Ok \<lparr>thread_start_model = v0,
         thread_start_model_provider = v1,
         thread_start_cwd = v2,
         thread_start_approval_policy = v3,
         thread_start_sandbox = v4,
         thread_start_sandbox_policy = v5,
         thread_start_effort = v6,
         thread_start_summary = v7,
         thread_start_personality = v8,
         thread_start_ephemeral = v9,
         thread_start_base_instructions = v10,
         thread_start_developer_instructions = v11,
         thread_start_extra = get_extra thread_start_params_fields m\<rparr>)))))))))))))"

definition thread_start_params_wf :: "thread_start_params \<Rightarrow> bool" where
  "thread_start_params_wf x \<longleftrightarrow> jsorted (thread_start_extra x) \<and>
     jkeys (thread_start_extra x) \<inter> set thread_start_params_fields = {} \<and>
     thread_start_sandbox_policy x \<noteq> Some JNull"

interpretation thread_start_params: flat_struct thread_start_params_fields thread_start_params_rows thread_start_extra
  by unfold_locales (simp_all add: thread_start_params_rows_def thread_start_params_fields_def)

interpretation thread_start_params: wire_codec thread_start_params_enc thread_start_params_dec thread_start_params_wf
  by unfold_locales
    (simp_all add: thread_start_params_enc_def thread_start_params_dec_def thread_start_params_wf_def codec thread_start_params.read_extra,
      simp add: thread_start_params_fields_def thread_start_params.read_field,
      simp add: thread_start_params_rows_def codec)

record thread_resume_params =
  thread_resume_thread_id :: string
  thread_resume_history :: "(json list) option"
  thread_resume_path :: "string option"
  thread_resume_model :: "string option"
  thread_resume_model_provider :: "string option"
  thread_resume_cwd :: "string option"
  thread_resume_approval_policy :: "string option"
  thread_resume_sandbox :: "string option"
  thread_resume_config :: "jmap option"
  thread_resume_base_instructions :: "string option"
  thread_resume_developer_instructions :: "string option"
  thread_resume_personality :: "string option"
  thread_resume_persist_extended_history :: "bool option"
  thread_resume_extra :: jmap

definition thread_resume_params_fields :: "string list" where
  "thread_resume_params_fields = [''threadId'', ''history'', ''path'', ''model'', ''modelProvider'', ''cwd'', ''approvalPolicy'', ''sandbox'', ''config'', ''baseInstructions'', ''developerInstructions'', ''personality'', ''persistExtendedHistory'']"

definition thread_resume_params_rows :: "thread_resume_params \<Rightarrow> field_row list" where
  "thread_resume_params_rows x =
     [(''threadId'', Some (JString (thread_resume_thread_id x))),
      (''history'', map_option JArray (thread_resume_history x)),
      (''path'', map_option JString (thread_resume_path x)),
      (''model'', map_option JString (thread_resume_model x)),
      (''modelProvider'', map_option JString (thread_resume_model_provider x)),
      (''cwd'', map_option JString (thread_resume_cwd x)),
      (''approvalPolicy'', map_option JString (thread_resume_approval_policy x)),
      (''sandbox'', map_option JString (thread_resume_sandbox x)),
      (''config'', map_option JObject (thread_resume_config x)),
      (''baseInstructions'', map_option JString (thread_resume_base_instructions x)),
      (''developerInstructions'', map_option JString (thread_resume_developer_instructions x)),
      (''personality'', map_option JString (thread_resume_personality x)),
      (''persistExtendedHistory'', map_option JBool (thread_resume_persist_extended_history x))]"

definition thread_resume_params_enc :: "thread_resume_params \<Rightarrow> json" where
  "thread_resume_params_enc x = JObject (object_of (thread_resume_params_rows x) (thread_resume_extra x))"

definition thread_resume_params_dec :: "json \<Rightarrow> serde_error + thread_resume_params" where
  "thread_resume_params_dec = of_object (\<lambda>m.
     and_then (get_req dec_string ''threadId'' m) (\<lambda>v0.
     and_then (get_opt (dec_list dec_value) ''history'' m) (\<lambda>v1.
     and_then (get_opt dec_string ''path'' m) (\<lambda>v2.
     and_then (get_opt dec_string ''model'' m) (\<lambda>v3.
     and_then (get_opt dec_string ''modelProvider'' m) (\<lambda>v4.
     and_then (get_opt dec_string ''cwd'' m) (\<lambda>v5.
     and_then (get_opt dec_string ''approvalPolicy'' m) (\<lambda>v6.
     and_then (get_opt dec_string ''sandbox'' m) (\<lambda>v7.
     and_then (get_opt dec_map ''config'' m) (\<lambda>v8.
     and_then (get_opt dec_string ''baseInstructions'' m) (\<lambda>v9.
     and_then (get_opt dec_string ''developerInstructions'' m) (\<lambda>v10.
     and_then (get_opt dec_string ''personality'' m) (\<lambda>v11.
     and_then (get_opt dec_bool ''persistExtendedHistory'' m) (\<lambda>v12.
     Ok \<lparr>thread_resume_thread_id = v0,
         thread_resume_history = v1,
         thread_resume_path = v2,
         thread_resume_model = v3,
         thread_resume_model_provider = v4,
         thread_resume_cwd = v5,
         thread_resume_approval_policy = v6,
         thread_resume_sandbox = v7,
         thread_resume_config = v8,
         thread_resume_base_instructions = v9,
         thread_resume_developer_instructions = v10,
         thread_resume_personality = v11,
         thread_resume_persist_extended_history = v12,
         thread_resume_extra = get_extra thread_resume_params_fields m\<rparr>))))))))))))))"

definition thread_resume_params_wf :: "thread_resume_params \<Rightarrow> bool" where
  "thread_resume_params_wf x \<longleftrightarrow> jsorted (thread_resume_extra x) \<and>
     jkeys (thread_resume_extra x) \<inter> set thread_resume_params_fields = {}"

interpretation thread_resume_params: flat_struct thread_resume_params_fields thread_resume_params_rows thread_resume_extra
  by unfold_locales (simp_all add: thread_resume_params_rows_def thread_resume_params_fields_def)

interpretation thread_resume_params: wire_codec thread_resume_params_enc thread_resume_params_dec thread_resume_params_wf
  by unfold_locales
    (simp_all add: thread_resume_params_enc_def thread_resume_params_dec_def thread_resume_params_wf_def codec thread_resume_params.read_extra,
      simp add: thread_resume_params_fields_def thread_resume_params.read_field,
      simp add: thread_resume_params_rows_def codec)

record thread_id_params =
  thread_id_thread_id :: string
  thread_id_extra :: jmap

definition thread_id_params_fields :: "string list" where
  "thread_id_params_fields = [''threadId'']"

definition thread_id_params_rows :: "thread_id_params \<Rightarrow> field_row list" where
  "thread_id_params_rows x =
     [(''threadId'', Some (JString (thread_id_thread_id x)))]"

definition thread_id_params_enc :: "thread_id_params \<Rightarrow> json" where
  "thread_id_params_enc x = JObject (object_of (thread_id_params_rows x) (thread_id_extra x))"

definition thread_id_params_dec :: "json \<Rightarrow> serde_error + thread_id_params" where
  "thread_id_params_dec = of_object (\<lambda>m.
     and_then (get_req dec_string ''threadId'' m) (\<lambda>v0.
     Ok \<lparr>thread_id_thread_id = v0,
         thread_id_extra = get_extra thread_id_params_fields m\<rparr>))"

definition thread_id_params_wf :: "thread_id_params \<Rightarrow> bool" where
  "thread_id_params_wf x \<longleftrightarrow> jsorted (thread_id_extra x) \<and>
     jkeys (thread_id_extra x) \<inter> set thread_id_params_fields = {}"

interpretation thread_id_params: flat_struct thread_id_params_fields thread_id_params_rows thread_id_extra
  by unfold_locales (simp_all add: thread_id_params_rows_def thread_id_params_fields_def)

interpretation thread_id_params: wire_codec thread_id_params_enc thread_id_params_dec thread_id_params_wf
  by unfold_locales
    (simp_all add: thread_id_params_enc_def thread_id_params_dec_def thread_id_params_wf_def codec thread_id_params.read_extra,
      simp add: thread_id_params_fields_def thread_id_params.read_field,
      simp add: thread_id_params_rows_def codec)

record thread_fork_params =
  thread_fork_thread_id :: string
  thread_fork_from_turn_id :: "string option"
  thread_fork_extra :: jmap

definition thread_fork_params_fields :: "string list" where
  "thread_fork_params_fields = [''threadId'', ''fromTurnId'']"

definition thread_fork_params_rows :: "thread_fork_params \<Rightarrow> field_row list" where
  "thread_fork_params_rows x =
     [(''threadId'', Some (JString (thread_fork_thread_id x))),
      (''fromTurnId'', map_option JString (thread_fork_from_turn_id x))]"

definition thread_fork_params_enc :: "thread_fork_params \<Rightarrow> json" where
  "thread_fork_params_enc x = JObject (object_of (thread_fork_params_rows x) (thread_fork_extra x))"

definition thread_fork_params_dec :: "json \<Rightarrow> serde_error + thread_fork_params" where
  "thread_fork_params_dec = of_object (\<lambda>m.
     and_then (get_req dec_string ''threadId'' m) (\<lambda>v0.
     and_then (get_opt dec_string ''fromTurnId'' m) (\<lambda>v1.
     Ok \<lparr>thread_fork_thread_id = v0,
         thread_fork_from_turn_id = v1,
         thread_fork_extra = get_extra thread_fork_params_fields m\<rparr>)))"

definition thread_fork_params_wf :: "thread_fork_params \<Rightarrow> bool" where
  "thread_fork_params_wf x \<longleftrightarrow> jsorted (thread_fork_extra x) \<and>
     jkeys (thread_fork_extra x) \<inter> set thread_fork_params_fields = {}"

interpretation thread_fork_params: flat_struct thread_fork_params_fields thread_fork_params_rows thread_fork_extra
  by unfold_locales (simp_all add: thread_fork_params_rows_def thread_fork_params_fields_def)

interpretation thread_fork_params: wire_codec thread_fork_params_enc thread_fork_params_dec thread_fork_params_wf
  by unfold_locales
    (simp_all add: thread_fork_params_enc_def thread_fork_params_dec_def thread_fork_params_wf_def codec thread_fork_params.read_extra,
      simp add: thread_fork_params_fields_def thread_fork_params.read_field,
      simp add: thread_fork_params_rows_def codec)

record thread_set_name_params =
  thread_set_name_thread_id :: string
  thread_set_name_name :: string
  thread_set_name_extra :: jmap

definition thread_set_name_params_fields :: "string list" where
  "thread_set_name_params_fields = [''threadId'', ''name'']"

definition thread_set_name_params_rows :: "thread_set_name_params \<Rightarrow> field_row list" where
  "thread_set_name_params_rows x =
     [(''threadId'', Some (JString (thread_set_name_thread_id x))),
      (''name'', Some (JString (thread_set_name_name x)))]"

definition thread_set_name_params_enc :: "thread_set_name_params \<Rightarrow> json" where
  "thread_set_name_params_enc x = JObject (object_of (thread_set_name_params_rows x) (thread_set_name_extra x))"

definition thread_set_name_params_dec :: "json \<Rightarrow> serde_error + thread_set_name_params" where
  "thread_set_name_params_dec = of_object (\<lambda>m.
     and_then (get_req dec_string ''threadId'' m) (\<lambda>v0.
     and_then (get_req dec_string ''name'' m) (\<lambda>v1.
     Ok \<lparr>thread_set_name_thread_id = v0,
         thread_set_name_name = v1,
         thread_set_name_extra = get_extra thread_set_name_params_fields m\<rparr>)))"

definition thread_set_name_params_wf :: "thread_set_name_params \<Rightarrow> bool" where
  "thread_set_name_params_wf x \<longleftrightarrow> jsorted (thread_set_name_extra x) \<and>
     jkeys (thread_set_name_extra x) \<inter> set thread_set_name_params_fields = {}"

interpretation thread_set_name_params: flat_struct thread_set_name_params_fields thread_set_name_params_rows thread_set_name_extra
  by unfold_locales (simp_all add: thread_set_name_params_rows_def thread_set_name_params_fields_def)

interpretation thread_set_name_params: wire_codec thread_set_name_params_enc thread_set_name_params_dec thread_set_name_params_wf
  by unfold_locales
    (simp_all add: thread_set_name_params_enc_def thread_set_name_params_dec_def thread_set_name_params_wf_def codec thread_set_name_params.read_extra,
      simp add: thread_set_name_params_fields_def thread_set_name_params.read_field,
      simp add: thread_set_name_params_rows_def codec)

record thread_rollback_params =
  thread_rollback_thread_id :: string
  thread_rollback_count :: u32
  thread_rollback_extra :: jmap

definition thread_rollback_params_fields :: "string list" where
  "thread_rollback_params_fields = [''threadId'', ''count'']"

definition thread_rollback_params_rows :: "thread_rollback_params \<Rightarrow> field_row list" where
  "thread_rollback_params_rows x =
     [(''threadId'', Some (JString (thread_rollback_thread_id x))),
      (''count'', Some (enc_u32 (thread_rollback_count x)))]"

definition thread_rollback_params_enc :: "thread_rollback_params \<Rightarrow> json" where
  "thread_rollback_params_enc x = JObject (object_of (thread_rollback_params_rows x) (thread_rollback_extra x))"

definition thread_rollback_params_dec :: "json \<Rightarrow> serde_error + thread_rollback_params" where
  "thread_rollback_params_dec = of_object (\<lambda>m.
     and_then (get_req dec_string ''threadId'' m) (\<lambda>v0.
     and_then (get_req dec_u32 ''count'' m) (\<lambda>v1.
     Ok \<lparr>thread_rollback_thread_id = v0,
         thread_rollback_count = v1,
         thread_rollback_extra = get_extra thread_rollback_params_fields m\<rparr>)))"

definition thread_rollback_params_wf :: "thread_rollback_params \<Rightarrow> bool" where
  "thread_rollback_params_wf x \<longleftrightarrow> jsorted (thread_rollback_extra x) \<and>
     jkeys (thread_rollback_extra x) \<inter> set thread_rollback_params_fields = {}"

interpretation thread_rollback_params: flat_struct thread_rollback_params_fields thread_rollback_params_rows thread_rollback_extra
  by unfold_locales (simp_all add: thread_rollback_params_rows_def thread_rollback_params_fields_def)

interpretation thread_rollback_params: wire_codec thread_rollback_params_enc thread_rollback_params_dec thread_rollback_params_wf
  by unfold_locales
    (simp_all add: thread_rollback_params_enc_def thread_rollback_params_dec_def thread_rollback_params_wf_def codec thread_rollback_params.read_extra,
      simp add: thread_rollback_params_fields_def thread_rollback_params.read_field,
      simp add: thread_rollback_params_rows_def codec)

record thread_background_terminals_clean_params =
  thread_background_terminals_clean_thread_id :: string
  thread_background_terminals_clean_extra :: jmap

definition thread_background_terminals_clean_params_fields :: "string list" where
  "thread_background_terminals_clean_params_fields = [''threadId'']"

definition thread_background_terminals_clean_params_rows :: "thread_background_terminals_clean_params \<Rightarrow> field_row list" where
  "thread_background_terminals_clean_params_rows x =
     [(''threadId'', Some (JString (thread_background_terminals_clean_thread_id x)))]"

definition thread_background_terminals_clean_params_enc :: "thread_background_terminals_clean_params \<Rightarrow> json" where
  "thread_background_terminals_clean_params_enc x = JObject (object_of (thread_background_terminals_clean_params_rows x) (thread_background_terminals_clean_extra x))"

definition thread_background_terminals_clean_params_dec :: "json \<Rightarrow> serde_error + thread_background_terminals_clean_params" where
  "thread_background_terminals_clean_params_dec = of_object (\<lambda>m.
     and_then (get_req dec_string ''threadId'' m) (\<lambda>v0.
     Ok \<lparr>thread_background_terminals_clean_thread_id = v0,
         thread_background_terminals_clean_extra = get_extra thread_background_terminals_clean_params_fields m\<rparr>))"

definition thread_background_terminals_clean_params_wf :: "thread_background_terminals_clean_params \<Rightarrow> bool" where
  "thread_background_terminals_clean_params_wf x \<longleftrightarrow> jsorted (thread_background_terminals_clean_extra x) \<and>
     jkeys (thread_background_terminals_clean_extra x) \<inter> set thread_background_terminals_clean_params_fields = {}"

interpretation thread_background_terminals_clean_params: flat_struct thread_background_terminals_clean_params_fields thread_background_terminals_clean_params_rows thread_background_terminals_clean_extra
  by unfold_locales (simp_all add: thread_background_terminals_clean_params_rows_def thread_background_terminals_clean_params_fields_def)

interpretation thread_background_terminals_clean_params: wire_codec thread_background_terminals_clean_params_enc thread_background_terminals_clean_params_dec thread_background_terminals_clean_params_wf
  by unfold_locales
    (simp_all add: thread_background_terminals_clean_params_enc_def thread_background_terminals_clean_params_dec_def thread_background_terminals_clean_params_wf_def codec thread_background_terminals_clean_params.read_extra,
      simp add: thread_background_terminals_clean_params_fields_def thread_background_terminals_clean_params.read_field,
      simp add: thread_background_terminals_clean_params_rows_def codec)

record thread_list_params =
  thread_list_limit :: "u32 option"
  thread_list_cursor :: "string option"
  thread_list_archived :: "bool option"
  thread_list_source_kinds :: "(string list) option"
  thread_list_model_providers :: "(string list) option"
  thread_list_extra :: jmap

definition thread_list_params_fields :: "string list" where
  "thread_list_params_fields = [''limit'', ''cursor'', ''archived'', ''sourceKinds'', ''modelProviders'']"

definition thread_list_params_rows :: "thread_list_params \<Rightarrow> field_row list" where
  "thread_list_params_rows x =
     [(''limit'', map_option enc_u32 (thread_list_limit x)),
      (''cursor'', map_option JString (thread_list_cursor x)),
      (''archived'', map_option JBool (thread_list_archived x)),
      (''sourceKinds'', map_option (enc_list JString) (thread_list_source_kinds x)),
      (''modelProviders'', map_option (enc_list JString) (thread_list_model_providers x))]"

definition thread_list_params_enc :: "thread_list_params \<Rightarrow> json" where
  "thread_list_params_enc x = JObject (object_of (thread_list_params_rows x) (thread_list_extra x))"

definition thread_list_params_dec :: "json \<Rightarrow> serde_error + thread_list_params" where
  "thread_list_params_dec = of_object (\<lambda>m.
     and_then (get_opt dec_u32 ''limit'' m) (\<lambda>v0.
     and_then (get_opt dec_string ''cursor'' m) (\<lambda>v1.
     and_then (get_opt dec_bool ''archived'' m) (\<lambda>v2.
     and_then (get_opt (dec_list dec_string) ''sourceKinds'' m) (\<lambda>v3.
     and_then (get_opt (dec_list dec_string) ''modelProviders'' m) (\<lambda>v4.
     Ok \<lparr>thread_list_limit = v0,
         thread_list_cursor = v1,
         thread_list_archived = v2,
         thread_list_source_kinds = v3,
         thread_list_model_providers = v4,
         thread_list_extra = get_extra thread_list_params_fields m\<rparr>))))))"

definition thread_list_params_wf :: "thread_list_params \<Rightarrow> bool" where
  "thread_list_params_wf x \<longleftrightarrow> jsorted (thread_list_extra x) \<and>
     jkeys (thread_list_extra x) \<inter> set thread_list_params_fields = {}"

interpretation thread_list_params: flat_struct thread_list_params_fields thread_list_params_rows thread_list_extra
  by unfold_locales (simp_all add: thread_list_params_rows_def thread_list_params_fields_def)

interpretation thread_list_params: wire_codec thread_list_params_enc thread_list_params_dec thread_list_params_wf
  by unfold_locales
    (simp_all add: thread_list_params_enc_def thread_list_params_dec_def thread_list_params_wf_def codec thread_list_params.read_extra,
      simp add: thread_list_params_fields_def thread_list_params.read_field,
      simp add: thread_list_params_rows_def codec)

record thread_read_params =
  thread_read_thread_id :: string
  thread_read_include_turns :: "bool option"
  thread_read_extra :: jmap

definition thread_read_params_fields :: "string list" where
  "thread_read_params_fields = [''threadId'', ''includeTurns'']"

definition thread_read_params_rows :: "thread_read_params \<Rightarrow> field_row list" where
  "thread_read_params_rows x =
     [(''threadId'', Some (JString (thread_read_thread_id x))),
      (''includeTurns'', map_option JBool (thread_read_include_turns x))]"

definition thread_read_params_enc :: "thread_read_params \<Rightarrow> json" where
  "thread_read_params_enc x = JObject (object_of (thread_read_params_rows x) (thread_read_extra x))"

definition thread_read_params_dec :: "json \<Rightarrow> serde_error + thread_read_params" where
  "thread_read_params_dec = of_object (\<lambda>m.
     and_then (get_req dec_string ''threadId'' m) (\<lambda>v0.
     and_then (get_opt dec_bool ''includeTurns'' m) (\<lambda>v1.
     Ok \<lparr>thread_read_thread_id = v0,
         thread_read_include_turns = v1,
         thread_read_extra = get_extra thread_read_params_fields m\<rparr>)))"

definition thread_read_params_wf :: "thread_read_params \<Rightarrow> bool" where
  "thread_read_params_wf x \<longleftrightarrow> jsorted (thread_read_extra x) \<and>
     jkeys (thread_read_extra x) \<inter> set thread_read_params_fields = {}"

interpretation thread_read_params: flat_struct thread_read_params_fields thread_read_params_rows thread_read_extra
  by unfold_locales (simp_all add: thread_read_params_rows_def thread_read_params_fields_def)

interpretation thread_read_params: wire_codec thread_read_params_enc thread_read_params_dec thread_read_params_wf
  by unfold_locales
    (simp_all add: thread_read_params_enc_def thread_read_params_dec_def thread_read_params_wf_def codec thread_read_params.read_extra,
      simp add: thread_read_params_fields_def thread_read_params.read_field,
      simp add: thread_read_params_rows_def codec)

record turn_interrupt_params =
  turn_interrupt_thread_id :: string
  turn_interrupt_turn_id :: string
  turn_interrupt_extra :: jmap

definition turn_interrupt_params_fields :: "string list" where
  "turn_interrupt_params_fields = [''threadId'', ''turnId'']"

definition turn_interrupt_params_rows :: "turn_interrupt_params \<Rightarrow> field_row list" where
  "turn_interrupt_params_rows x =
     [(''threadId'', Some (JString (turn_interrupt_thread_id x))),
      (''turnId'', Some (JString (turn_interrupt_turn_id x)))]"

definition turn_interrupt_params_enc :: "turn_interrupt_params \<Rightarrow> json" where
  "turn_interrupt_params_enc x = JObject (object_of (turn_interrupt_params_rows x) (turn_interrupt_extra x))"

definition turn_interrupt_params_dec :: "json \<Rightarrow> serde_error + turn_interrupt_params" where
  "turn_interrupt_params_dec = of_object (\<lambda>m.
     and_then (get_req dec_string ''threadId'' m) (\<lambda>v0.
     and_then (get_req dec_string ''turnId'' m) (\<lambda>v1.
     Ok \<lparr>turn_interrupt_thread_id = v0,
         turn_interrupt_turn_id = v1,
         turn_interrupt_extra = get_extra turn_interrupt_params_fields m\<rparr>)))"

definition turn_interrupt_params_wf :: "turn_interrupt_params \<Rightarrow> bool" where
  "turn_interrupt_params_wf x \<longleftrightarrow> jsorted (turn_interrupt_extra x) \<and>
     jkeys (turn_interrupt_extra x) \<inter> set turn_interrupt_params_fields = {}"

interpretation turn_interrupt_params: flat_struct turn_interrupt_params_fields turn_interrupt_params_rows turn_interrupt_extra
  by unfold_locales (simp_all add: turn_interrupt_params_rows_def turn_interrupt_params_fields_def)

interpretation turn_interrupt_params: wire_codec turn_interrupt_params_enc turn_interrupt_params_dec turn_interrupt_params_wf
  by unfold_locales
    (simp_all add: turn_interrupt_params_enc_def turn_interrupt_params_dec_def turn_interrupt_params_wf_def codec turn_interrupt_params.read_extra,
      simp add: turn_interrupt_params_fields_def turn_interrupt_params.read_field,
      simp add: turn_interrupt_params_rows_def codec)

record skills_list_params =
  skills_list_cwd :: "(string list) option"
  skills_list_force_reload :: "bool option"
  skills_list_extra :: jmap

definition skills_list_params_fields :: "string list" where
  "skills_list_params_fields = [''cwd'', ''forceReload'']"

definition skills_list_params_rows :: "skills_list_params \<Rightarrow> field_row list" where
  "skills_list_params_rows x =
     [(''cwd'', map_option (enc_list JString) (skills_list_cwd x)),
      (''forceReload'', map_option JBool (skills_list_force_reload x))]"

definition skills_list_params_enc :: "skills_list_params \<Rightarrow> json" where
  "skills_list_params_enc x = JObject (object_of (skills_list_params_rows x) (skills_list_extra x))"

definition skills_list_params_dec :: "json \<Rightarrow> serde_error + skills_list_params" where
  "skills_list_params_dec = of_object (\<lambda>m.
     and_then (get_opt (dec_list dec_string) ''cwd'' m) (\<lambda>v0.
     and_then (get_opt dec_bool ''forceReload'' m) (\<lambda>v1.
     Ok \<lparr>skills_list_cwd = v0,
         skills_list_force_reload = v1,
         skills_list_extra = get_extra skills_list_params_fields m\<rparr>)))"

definition skills_list_params_wf :: "skills_list_params \<Rightarrow> bool" where
  "skills_list_params_wf x \<longleftrightarrow> jsorted (skills_list_extra x) \<and>
     jkeys (skills_list_extra x) \<inter> set skills_list_params_fields = {}"

interpretation skills_list_params: flat_struct skills_list_params_fields skills_list_params_rows skills_list_extra
  by unfold_locales (simp_all add: skills_list_params_rows_def skills_list_params_fields_def)

interpretation skills_list_params: wire_codec skills_list_params_enc skills_list_params_dec skills_list_params_wf
  by unfold_locales
    (simp_all add: skills_list_params_enc_def skills_list_params_dec_def skills_list_params_wf_def codec skills_list_params.read_extra,
      simp add: skills_list_params_fields_def skills_list_params.read_field,
      simp add: skills_list_params_rows_def codec)

record login_account_params =
  login_account_login_type :: string
  login_account_api_key :: "string option"
  login_account_id_token :: "string option"
  login_account_access_token :: "string option"
  login_account_extra :: jmap

definition login_account_params_fields :: "string list" where
  "login_account_params_fields = [''type'', ''apiKey'', ''idToken'', ''accessToken'']"

definition login_account_params_rows :: "login_account_params \<Rightarrow> field_row list" where
  "login_account_params_rows x =
     [(''type'', Some (JString (login_account_login_type x))),
      (''apiKey'', map_option JString (login_account_api_key x)),
      (''idToken'', map_option JString (login_account_id_token x)),
      (''accessToken'', map_option JString (login_account_access_token x))]"

definition login_account_params_enc :: "login_account_params \<Rightarrow> json" where
  "login_account_params_enc x = JObject (object_of (login_account_params_rows x) (login_account_extra x))"

definition login_account_params_dec :: "json \<Rightarrow> serde_error + login_account_params" where
  "login_account_params_dec = of_object (\<lambda>m.
     and_then (get_req dec_string ''type'' m) (\<lambda>v0.
     and_then (get_opt dec_string ''apiKey'' m) (\<lambda>v1.
     and_then (get_opt dec_string ''idToken'' m) (\<lambda>v2.
     and_then (get_opt dec_string ''accessToken'' m) (\<lambda>v3.
     Ok \<lparr>login_account_login_type = v0,
         login_account_api_key = v1,
         login_account_id_token = v2,
         login_account_access_token = v3,
         login_account_extra = get_extra login_account_params_fields m\<rparr>)))))"

definition login_account_params_wf :: "login_account_params \<Rightarrow> bool" where
  "login_account_params_wf x \<longleftrightarrow> jsorted (login_account_extra x) \<and>
     jkeys (login_account_extra x) \<inter> set login_account_params_fields = {}"

interpretation login_account_params: flat_struct login_account_params_fields login_account_params_rows login_account_extra
  by unfold_locales (simp_all add: login_account_params_rows_def login_account_params_fields_def)

interpretation login_account_params: wire_codec login_account_params_enc login_account_params_dec login_account_params_wf
  by unfold_locales
    (simp_all add: login_account_params_enc_def login_account_params_dec_def login_account_params_wf_def codec login_account_params.read_extra,
      simp add: login_account_params_fields_def login_account_params.read_field,
      simp add: login_account_params_rows_def codec)

record cancel_login_account_params =
  cancel_login_account_login_id :: string
  cancel_login_account_extra :: jmap

definition cancel_login_account_params_fields :: "string list" where
  "cancel_login_account_params_fields = [''loginId'']"

definition cancel_login_account_params_rows :: "cancel_login_account_params \<Rightarrow> field_row list" where
  "cancel_login_account_params_rows x =
     [(''loginId'', Some (JString (cancel_login_account_login_id x)))]"

definition cancel_login_account_params_enc :: "cancel_login_account_params \<Rightarrow> json" where
  "cancel_login_account_params_enc x = JObject (object_of (cancel_login_account_params_rows x) (cancel_login_account_extra x))"

definition cancel_login_account_params_dec :: "json \<Rightarrow> serde_error + cancel_login_account_params" where
  "cancel_login_account_params_dec = of_object (\<lambda>m.
     and_then (get_req dec_string ''loginId'' m) (\<lambda>v0.
     Ok \<lparr>cancel_login_account_login_id = v0,
         cancel_login_account_extra = get_extra cancel_login_account_params_fields m\<rparr>))"

definition cancel_login_account_params_wf :: "cancel_login_account_params \<Rightarrow> bool" where
  "cancel_login_account_params_wf x \<longleftrightarrow> jsorted (cancel_login_account_extra x) \<and>
     jkeys (cancel_login_account_extra x) \<inter> set cancel_login_account_params_fields = {}"

interpretation cancel_login_account_params: flat_struct cancel_login_account_params_fields cancel_login_account_params_rows cancel_login_account_extra
  by unfold_locales (simp_all add: cancel_login_account_params_rows_def cancel_login_account_params_fields_def)

interpretation cancel_login_account_params: wire_codec cancel_login_account_params_enc cancel_login_account_params_dec cancel_login_account_params_wf
  by unfold_locales
    (simp_all add: cancel_login_account_params_enc_def cancel_login_account_params_dec_def cancel_login_account_params_wf_def codec cancel_login_account_params.read_extra,
      simp add: cancel_login_account_params_fields_def cancel_login_account_params.read_field,
      simp add: cancel_login_account_params_rows_def codec)

record get_account_params =
  get_account_refresh_token :: "bool option"
  get_account_extra :: jmap

definition get_account_params_fields :: "string list" where
  "get_account_params_fields = [''refreshToken'']"

definition get_account_params_rows :: "get_account_params \<Rightarrow> field_row list" where
  "get_account_params_rows x =
     [(''refreshToken'', map_option JBool (get_account_refresh_token x))]"

definition get_account_params_enc :: "get_account_params \<Rightarrow> json" where
  "get_account_params_enc x = JObject (object_of (get_account_params_rows x) (get_account_extra x))"

definition get_account_params_dec :: "json \<Rightarrow> serde_error + get_account_params" where
  "get_account_params_dec = of_object (\<lambda>m.
     and_then (get_opt dec_bool ''refreshToken'' m) (\<lambda>v0.
     Ok \<lparr>get_account_refresh_token = v0,
         get_account_extra = get_extra get_account_params_fields m\<rparr>))"

definition get_account_params_wf :: "get_account_params \<Rightarrow> bool" where
  "get_account_params_wf x \<longleftrightarrow> jsorted (get_account_extra x) \<and>
     jkeys (get_account_extra x) \<inter> set get_account_params_fields = {}"

interpretation get_account_params: flat_struct get_account_params_fields get_account_params_rows get_account_extra
  by unfold_locales (simp_all add: get_account_params_rows_def get_account_params_fields_def)

interpretation get_account_params: wire_codec get_account_params_enc get_account_params_dec get_account_params_wf
  by unfold_locales
    (simp_all add: get_account_params_enc_def get_account_params_dec_def get_account_params_wf_def codec get_account_params.read_extra,
      simp add: get_account_params_fields_def get_account_params.read_field,
      simp add: get_account_params_rows_def codec)

section \<open>Turn input\<close>

text \<open>An internally tagged enum: the variant name is the \<open>type\<close> key of the object.\<close>

datatype turn_input_item =
    TII_Text string
  | TII_Image string
  | TII_LocalImage string
  | TII_Skill string string
  | TII_Unknown

fun turn_input_item_enc :: "turn_input_item \<Rightarrow> json" where
  "turn_input_item_enc (TII_Text t) =
     JObject (insert_rows [(''type'', Some (JString ''text'')), (''text'', Some (JString t))] [])"
| "turn_input_item_enc (TII_Image u) =
     JObject (insert_rows [(''type'', Some (JString ''image'')), (''url'', Some (JString u))] [])"
| "turn_input_item_enc (TII_LocalImage p) =
     JObject (insert_rows [(''type'', Some (JString ''localImage'')),
       (''path'', Some (JString p))] [])"
| "turn_input_item_enc (TII_Skill n p) =
     JObject (insert_rows [(''type'', Some (JString ''skill'')), (''name'', Some (JString n)),
       (''path'', Some (JString p))] [])"
| "turn_input_item_enc TII_Unknown =
     JObject (insert_rows [(''type'', Some (JString ''unknown''))] [])"

definition turn_input_item_dec_map :: "string \<Rightarrow> jmap \<Rightarrow> serde_error + turn_input_item" where
  "turn_input_item_dec_map tag m =
     (if tag = ''text'' then map_ok TII_Text (get_req dec_string ''text'' m)
      else if tag = ''image'' then map_ok TII_Image (get_req dec_string ''url'' m)
      else if tag = ''localImage'' then map_ok TII_LocalImage (get_req dec_string ''path'' m)
      else if tag = ''skill'' then
        and_then (get_req dec_string ''name'' m) (\<lambda>n.
        and_then (get_req dec_string ''path'' m) (\<lambda>p. Ok (TII_Skill n p)))
      else Ok TII_Unknown)"

definition turn_input_item_dec_seq :: "string \<Rightarrow> json list \<Rightarrow> serde_error + turn_input_item" where
  "turn_input_item_dec_seq tag vs =
     (if tag = ''text'' then
        (case vs of [JString t] \<Rightarrow> Ok (TII_Text t) | _ \<Rightarrow> Err SerdeError)
      else if tag = ''image'' then
        (case vs of [JString u] \<Rightarrow> Ok (TII_Image u) | _ \<Rightarrow> Err SerdeError)
      else if tag = ''localImage'' then
        (case vs of [JString p] \<Rightarrow> Ok (TII_LocalImage p) | _ \<Rightarrow> Err SerdeError)
      else if tag = ''skill'' then
        (case vs of [JString n, JString p] \<Rightarrow> Ok (TII_Skill n p) | _ \<Rightarrow> Err SerdeError)
      else Ok TII_Unknown)"

fun turn_input_item_dec :: "json \<Rightarrow> serde_error + turn_input_item" where
  "turn_input_item_dec (JObject m) =
     and_then (get_req dec_string ''type'' m) (\<lambda>tag. turn_input_item_dec_map tag m)"
| "turn_input_item_dec (JArray (JString tag # vs)) = turn_input_item_dec_seq tag vs"
| "turn_input_item_dec _ = Err SerdeError"

definition turn_input_item_wf :: "turn_input_item \<Rightarrow> bool" where
  "turn_input_item_wf x = True"

interpretation turn_input_item: wire_codec turn_input_item_enc turn_input_item_dec
  turn_input_item_wf
proof (unfold_locales, goal_cases)
  case (1 x)
  show ?case
    by (cases x) (simp_all add: turn_input_item_dec_map_def codec jget_Cons)
next
  case (2 x)
  show ?case by (cases x) simp_all
qed

record turn_start_params =
  turn_start_thread_id :: string
  turn_start_input :: "turn_input_item list"
  turn_start_cwd :: "string option"
  turn_start_model :: "string option"
  turn_start_model_provider :: "string option"
  turn_start_effort :: "string option"
  turn_start_summary :: "string option"
  turn_start_personality :: "string option"
  turn_start_output_schema :: "json option"
  turn_start_approval_policy :: "string option"
  turn_start_sandbox_policy :: "json option"
  turn_start_extra :: jmap

definition turn_start_params_fields :: "string list" where
  "turn_start_params_fields = [''threadId'', ''input'', ''cwd'', ''model'', ''modelProvider'', ''effort'', ''summary'', ''personality'', ''outputSchema'', ''approvalPolicy'', ''sandboxPolicy'']"

definition turn_start_params_rows :: "turn_start_params \<Rightarrow> field_row list" where
  "turn_start_params_rows x =
     [(''threadId'', Some (JString (turn_start_thread_id x))),
      (''input'', Some (enc_list turn_input_item_enc (turn_start_input x))),
      (''cwd'', map_option JString (turn_start_cwd x)),
      (''model'', map_option JString (turn_start_model x)),
      (''modelProvider'', map_option JString (turn_start_model_provider x)),
      (''effort'', map_option JString (turn_start_effort x)),
      (''summary'', map_option JString (turn_start_summary x)),
      (''personality'', map_option JString (turn_start_personality x)),
      (''outputSchema'', turn_start_output_schema x),
      (''approvalPolicy'', map_option JString (turn_start_approval_policy x)),
      (''sandboxPolicy'', turn_start_sandbox_policy x)]"

definition turn_start_params_enc :: "turn_start_params \<Rightarrow> json" where
  "turn_start_params_enc x = JObject (object_of (turn_start_params_rows x) (turn_start_extra x))"

definition turn_start_params_dec :: "json \<Rightarrow> serde_error + turn_start_params" where
  "turn_start_params_dec = of_object (\<lambda>m.
     and_then (get_req dec_string ''threadId'' m) (\<lambda>v0.
     and_then (get_req (dec_list turn_input_item_dec) ''input'' m) (\<lambda>v1.
     and_then (get_opt dec_string ''cwd'' m) (\<lambda>v2.
     and_then (get_opt dec_string ''model'' m) (\<lambda>v3.
     and_then (get_opt dec_string ''modelProvider'' m) (\<lambda>v4.
     and_then (get_opt dec_string ''effort'' m) (\<lambda>v5.
     and_then (get_opt dec_string ''summary'' m) (\<lambda>v6.
     and_then (get_opt dec_string ''personality'' m) (\<lambda>v7.
     and_then (get_opt dec_value ''outputSchema'' m) (\<lambda>v8.
     and_then (get_opt dec_string ''approvalPolicy'' m) (\<lambda>v9.
     and_then (get_opt dec_value ''sandboxPolicy'' m) (\<lambda>v10.
     Ok \<lparr>turn_start_thread_id = v0,
         turn_start_input = v1,
         turn_start_cwd = v2,
         turn_start_model = v3,
         turn_start_model_provider = v4,
         turn_start_effort = v5,
         turn_start_summary = v6,
         turn_start_personality = v7,
         turn_start_output_schema = v8,
         turn_start_approval_policy = v9,
         turn_start_sandbox_policy = v10,
         turn_start_extra = get_extra turn_start_params_fields m\<rparr>))))))))))))"

definition turn_start_params_wf :: "turn_start_params \<Rightarrow> bool" where
  "turn_start_params_wf x \<longleftrightarrow> jsorted (turn_start_extra x) \<and>
     jkeys (turn_start_extra x) \<inter> set turn_start_params_fields = {} \<and>
     list_all turn_input_item_wf (turn_start_input x) \<and>
     turn_start_output_schema x \<noteq> Some JNull \<and>
     turn_start_sandbox_policy x \<noteq> Some JNull"

interpretation turn_start_params: flat_struct turn_start_params_fields turn_start_params_rows turn_start_extra
  by unfold_locales (simp_all add: turn_start_params_rows_def turn_start_params_fields_def)

interpretation turn_start_params: wire_codec turn_start_params_enc turn_start_params_dec turn_start_params_wf
  by unfold_locales
    (simp_all add: turn_start_params_enc_def turn_start_params_dec_def turn_start_params_wf_def codec turn_start_params.read_extra,
      simp add: turn_start_params_fields_def turn_start_params.read_field,
      simp add: turn_start_params_rows_def codec turn_input_item.codec_rules)

record turn_steer_params =
  turn_steer_thread_id :: string
  turn_steer_input :: "turn_input_item list"
  turn_steer_expected_turn_id :: "string option"
  turn_steer_extra :: jmap

definition turn_steer_params_fields :: "string list" where
  "turn_steer_params_fields = [''threadId'', ''input'', ''expectedTurnId'']"

definition turn_steer_params_rows :: "turn_steer_params \<Rightarrow> field_row list" where
  "turn_steer_params_rows x =
     [(''threadId'', Some (JString (turn_steer_thread_id x))),
      (''input'', Some (enc_list turn_input_item_enc (turn_steer_input x))),
      (''expectedTurnId'', map_option JString (turn_steer_expected_turn_id x))]"

definition turn_steer_params_enc :: "turn_steer_params \<Rightarrow> json" where
  "turn_steer_params_enc x = JObject (object_of (turn_steer_params_rows x) (turn_steer_extra x))"

definition turn_steer_params_dec :: "json \<Rightarrow> serde_error + turn_steer_params" where
  "turn_steer_params_dec = of_object (\<lambda>m.
     and_then (get_req dec_string ''threadId'' m) (\<lambda>v0.
     and_then (get_req (dec_list turn_input_item_dec) ''input'' m) (\<lambda>v1.
     and_then (get_opt dec_string ''expectedTurnId'' m) (\<lambda>v2.
     Ok \<lparr>turn_steer_thread_id = v0,
         turn_steer_input = v1,
         turn_steer_expected_turn_id = v2,
         turn_steer_extra = get_extra turn_steer_params_fields m\<rparr>))))"

definition turn_steer_params_wf :: "turn_steer_params \<Rightarrow> bool" where
  "turn_steer_params_wf x \<longleftrightarrow> jsorted (turn_steer_extra x) \<and>
     jkeys (turn_steer_extra x) \<inter> set turn_steer_params_fields = {} \<and>
     list_all turn_input_item_wf (turn_steer_input x)"

interpretation turn_steer_params: flat_struct turn_steer_params_fields turn_steer_params_rows turn_steer_extra
  by unfold_locales (simp_all add: turn_steer_params_rows_def turn_steer_params_fields_def)

interpretation turn_steer_params: wire_codec turn_steer_params_enc turn_steer_params_dec turn_steer_params_wf
  by unfold_locales
    (simp_all add: turn_steer_params_enc_def turn_steer_params_dec_def turn_steer_params_wf_def codec turn_steer_params.read_extra,
      simp add: turn_steer_params_fields_def turn_steer_params.read_field,
      simp add: turn_steer_params_rows_def codec turn_input_item.codec_rules)

section \<open>Constructors and aliases\<close>

definition initialize_params_new :: "client_info \<Rightarrow> initialize_params" where
  "initialize_params_new info =
     \<lparr>initialize_client_info = info, initialize_capabilities = None, initialize_extra = []\<rparr>"

definition thread_resume_from_thread_id :: "string \<Rightarrow> thread_resume_params" where
  "thread_resume_from_thread_id thread =
     \<lparr>thread_resume_thread_id = thread, thread_resume_history = None, thread_resume_path = None,
      thread_resume_model = None, thread_resume_model_provider = None, thread_resume_cwd = None,
      thread_resume_approval_policy = None, thread_resume_sandbox = None,
      thread_resume_config = None, thread_resume_base_instructions = None,
      thread_resume_developer_instructions = None, thread_resume_personality = None,
      thread_resume_persist_extended_history = None, thread_resume_extra = []\<rparr>"

definition thread_resume_of_thread_id_params :: "thread_id_params \<Rightarrow> thread_resume_params" where
  "thread_resume_of_thread_id_params p =
     (thread_resume_from_thread_id (thread_id_thread_id p))
       \<lparr>thread_resume_extra := thread_id_extra p\<rparr>"

definition turn_start_text :: "string \<Rightarrow> string \<Rightarrow> turn_start_params" where
  "turn_start_text thread text =
     \<lparr>turn_start_thread_id = thread, turn_start_input = [TII_Text text], turn_start_cwd = None,
      turn_start_model = None, turn_start_model_provider = None, turn_start_effort = None,
      turn_start_summary = None, turn_start_personality = None, turn_start_output_schema = None,
      turn_start_approval_policy = None, turn_start_sandbox_policy = None,
      turn_start_extra = []\<rparr>"

definition login_account_api_key_params :: "string \<Rightarrow> login_account_params" where
  "login_account_api_key_params key =
     \<lparr>login_account_login_type = ''apiKey'', login_account_api_key = Some key,
      login_account_id_token = None, login_account_access_token = None,
      login_account_extra = []\<rparr>"

definition login_account_chatgpt_params :: "string \<Rightarrow> string \<Rightarrow> login_account_params" where
  "login_account_chatgpt_params token access =
     \<lparr>login_account_login_type = ''chatgpt'', login_account_api_key = None,
      login_account_id_token = Some token, login_account_access_token = Some access,
      login_account_extra = []\<rparr>"

type_synonym thread_archive_params = thread_id_params
type_synonym thread_unarchive_params = thread_id_params
type_synonym thread_compact_start_params = thread_id_params
type_synonym thread_loaded_list_params = pagination_params

end
