(* ===== verification/Client.thy ===== *)
theory Client
  imports Events Protocol_Requests
begin

text \<open>
  The JSON-RPC client: \<open>crates/sdk/src/client/mod.rs\<close> and \<open>client/server_requests.rs\<close>.

  The record \<open>inner\<close> is \<open>struct Inner\<close>: the frames the outbound channel has accepted, the
  pending map from request ids to one-shot channels (slots), what each slot has received, the
  handshake state, the id counter, the events broadcast so far and the handlers. An async
  method is a function on \<open>inner\<close>; where it awaits a reply or a lock, a parameter \<open>env\<close>
  stands for everything the rest of the program does to \<open>inner\<close> meanwhile. The inbound loop
  is a function over the sequence of frames its channel delivers. Channel capacity (a full
  channel delays a send and loses nothing) is not modelled.
\<close>

section \<open>Configuration\<close>

record client_options =
  default_timeout :: nat \<comment> \<open>milliseconds\<close>

definition client_options_default :: client_options where
  "client_options_default = \<lparr>default_timeout = 30000\<rparr>"

record stdio_config =
  stdio_codex_binary :: string
  stdio_args :: "string list"
  stdio_env :: "string \<rightharpoonup> string"
  stdio_options :: client_options

definition stdio_config_default :: stdio_config where
  "stdio_config_default =
     \<lparr>stdio_codex_binary = ''codex'', stdio_args = [''app-server''], stdio_env = Map.empty,
      stdio_options = client_options_default\<rparr>"

record ws_config =
  ws_url :: string
  ws_options :: client_options
  ws_auth_token :: "string option"

definition ws_config_new :: "string \<Rightarrow> client_options \<Rightarrow> ws_config" where
  "ws_config_new url options = \<lparr>ws_url = url, ws_options = options, ws_auth_token = None\<rparr>"

definition ws_config_with_url :: "string \<Rightarrow> ws_config \<Rightarrow> ws_config" where
  "ws_config_with_url url c = c\<lparr>ws_url := url\<rparr>"

definition ws_config_with_auth_token :: "string \<Rightarrow> ws_config \<Rightarrow> ws_config" where
  "ws_config_with_auth_token token c = c\<lparr>ws_auth_token := Some token\<rparr>"

definition ws_config_default :: ws_config where
  "ws_config_default =
     \<lparr>ws_url = ''ws://127.0.0.1:4222'', ws_options = client_options_default,
      ws_auth_token = None\<rparr>"

text \<open>\<open>impl Debug for WsConfig\<close>: a struct printer with three fields; \<open>quote\<close> is the \<open>Debug\<close>
  form of a string and \<open>opts\<close> that of the options.\<close>

definition ws_config_debug :: "(string \<Rightarrow> string) \<Rightarrow> (client_options \<Rightarrow> string) \<Rightarrow> ws_config \<Rightarrow> string" where
  "ws_config_debug quote opts c =
     ''WsConfig { url: '' @ quote (ws_url c) @ '', options: '' @ opts (ws_options c) @
     '', auth_token: '' @
     (case map_option (\<lambda>_. ''[redacted]'') (ws_auth_token c) of
        None \<Rightarrow> ''None''
      | Some t \<Rightarrow> ''Some('' @ quote t @ '')'') @ '' }''"

record ws_start_config =
  start_listen_url :: string
  start_connect_url :: string
  start_env :: "string \<rightharpoonup> string"
  start_reuse_existing :: bool

definition ws_start_config_new ::
  "string \<Rightarrow> string \<Rightarrow> (string \<rightharpoonup> string) \<Rightarrow> ws_start_config" where
  "ws_start_config_new listen connect env =
     \<lparr>start_listen_url = listen, start_connect_url = connect, start_env = env,
      start_reuse_existing = True\<rparr>"

definition with_listen_url :: "string \<Rightarrow> ws_start_config \<Rightarrow> ws_start_config" where
  "with_listen_url u c = c\<lparr>start_listen_url := u\<rparr>"

definition with_connect_url :: "string \<Rightarrow> ws_start_config \<Rightarrow> ws_start_config" where
  "with_connect_url u c = c\<lparr>start_connect_url := u\<rparr>"

definition with_env :: "(string \<rightharpoonup> string) \<Rightarrow> ws_start_config \<Rightarrow> ws_start_config" where
  "with_env e c = c\<lparr>start_env := e\<rparr>"

definition with_reuse_existing :: "bool \<Rightarrow> ws_start_config \<Rightarrow> ws_start_config" where
  "with_reuse_existing r c = c\<lparr>start_reuse_existing := r\<rparr>"

definition ws_start_config_default :: ws_start_config where
  "ws_start_config_default =
     ws_start_config_new ''ws://127.0.0.1:4222'' ''ws://127.0.0.1:4222'' Map.empty"

section \<open>State\<close>

definition METHOD_INITIALIZE :: string where "METHOD_INITIALIZE = ''initialize''"
definition METHOD_INITIALIZED :: string where "METHOD_INITIALIZED = ''initialized''"

text \<open>The \<open>HANDSHAKE_*\<close> constants, ordered as their numbers.\<close>

datatype handshake = HS_New | HS_Initializing | HS_Initialized | HS_Ready

fun handshake_code :: "handshake \<Rightarrow> nat" where
  "handshake_code HS_New = 0"
| "handshake_code HS_Initializing = 1"
| "handshake_code HS_Initialized = 2"
| "handshake_code HS_Ready = 3"

instantiation handshake :: linorder
begin

definition less_eq_handshake :: "handshake \<Rightarrow> handshake \<Rightarrow> bool" where
  "less_eq_handshake a b \<longleftrightarrow> handshake_code a \<le> handshake_code b"

definition less_handshake :: "handshake \<Rightarrow> handshake \<Rightarrow> bool" where
  "less_handshake a b \<longleftrightarrow> handshake_code a < handshake_code b"

instance
proof
  fix a b c :: handshake
  show "(a < b) = (a \<le> b \<and> \<not> b \<le> a)"
    by (auto simp: less_eq_handshake_def less_handshake_def)
  show "a \<le> a" by (simp add: less_eq_handshake_def)
  show "a \<le> b \<Longrightarrow> b \<le> c \<Longrightarrow> a \<le> c" by (simp add: less_eq_handshake_def)
  show "a \<le> b \<Longrightarrow> b \<le> a \<Longrightarrow> a = b"
    by (cases a; cases b) (simp_all add: less_eq_handshake_def)
  show "a \<le> b \<or> b \<le> a" by (auto simp: less_eq_handshake_def)
qed

end

lemmas handshake_order = less_eq_handshake_def less_handshake_def

text \<open>What a one-shot receiver can see: the value sent, or that the sender was dropped.\<close>

datatype reply = Delivered "rpc_error + json" | SenderDropped

record inner =
  outbound :: "json list"
  outbound_open :: bool
  pending :: "(request_id \<times> nat) list"
  replies :: "nat \<rightharpoonup> reply"
  next_slot :: nat
  client_timeout :: nat
  handshake_state :: handshake
  next_id :: i64
  events :: "server_event list"
  handlers :: server_request_handlers

text \<open>\<open>from_transport\<close>.\<close>

definition inner_new :: "nat \<Rightarrow> inner" where
  "inner_new timeout =
     \<lparr>outbound = [], outbound_open = True, pending = [], replies = Map.empty, next_slot = 0,
      client_timeout = timeout, handshake_state = HS_New, next_id = 1, events = [],
      handlers = no_handlers\<rparr>"

text \<open>\<open>default_initialize_params\<close>; the package version is set by the build.\<close>

definition default_initialize_params :: "string \<Rightarrow> initialize_params" where
  "default_initialize_params version =
     initialize_params_new (client_info_new ''codex_sdk_rs'' ''Codex Rust SDK'' version)"

section \<open>Sending\<close>

definition publish :: "server_event \<Rightarrow> inner \<Rightarrow> inner" where
  "publish e s = s\<lparr>events := events s @ [e]\<rparr>"

definition send_message :: "displays \<Rightarrow> json \<Rightarrow> inner \<Rightarrow> inner \<times> (client_error + unit)" where
  "send_message d v s =
     (if outbound_open s then (s\<lparr>outbound := outbound s @ [v]\<rparr>, Ok ())
      else (s, Err (TransportSend
             (''failed to send outbound frame: '' @ display_send_error d))))"

definition send_notification ::
  "displays \<Rightarrow> string \<Rightarrow> json \<Rightarrow> bool \<Rightarrow> inner \<Rightarrow> inner \<times> (client_error + unit)" where
  "send_notification d method params requires_ready s =
     (if requires_ready \<and> handshake_state s < HS_Ready then (s, Err (NotReady method))
      else send_message d (notification_frame method params) s)"

text \<open>The pending map. Inserting over an entry drops its sender.\<close>

definition pending_remove :: "request_id \<Rightarrow> inner \<Rightarrow> inner" where
  "pending_remove i s = s\<lparr>pending := filter (\<lambda>(j, n). j \<noteq> i) (pending s)\<rparr>"

definition pending_insert :: "request_id \<Rightarrow> nat \<Rightarrow> inner \<Rightarrow> inner" where
  "pending_insert i slot s =
     (case map_of (pending s) i of
        None \<Rightarrow> s\<lparr>pending := (i, slot) # pending s\<rparr>
      | Some old \<Rightarrow> s\<lparr>pending := (i, slot) # filter (\<lambda>(j, n). j \<noteq> i) (pending s),
                     replies := (replies s)(old \<mapsto> SenderDropped)\<rparr>)"

definition request_gate :: "string \<Rightarrow> bool \<Rightarrow> inner \<Rightarrow> client_error option" where
  "request_gate method requires_ready s =
     (if requires_ready \<and> handshake_state s < HS_Ready then Some (NotReady method)
      else if \<not> requires_ready \<and> HS_Initialized \<le> handshake_state s then Some AlreadyInitialized
      else None)"

text \<open>\<open>request_value_internal\<close> up to its await: gates, id allocation, registration, send.\<close>

definition request_begin ::
  "displays \<Rightarrow> string \<Rightarrow> json \<Rightarrow> bool \<Rightarrow> inner \<Rightarrow> inner \<times> (client_error + request_id \<times> nat)" where
  "request_begin d method params requires_ready s =
     (case request_gate method requires_ready s of
        Some e \<Rightarrow> (s, Err e)
      | None \<Rightarrow>
          (let i = IdInteger (next_id s);
               slot = next_slot s;
               s1 = pending_insert i slot (s\<lparr>next_id := next_id s + 1, next_slot := slot + 1\<rparr>)
           in case send_message d (request_frame method i params) s1 of
                (s2, Err e) \<Rightarrow> (pending_remove i s2, Err e)
              | (s2, Ok _) \<Rightarrow> (s2, Ok (i, slot))))"

datatype wait_result = Replied reply | TimedOutWaiting

text \<open>\<open>request_value_internal\<close> after its await.\<close>

definition request_finish ::
  "string \<Rightarrow> nat \<Rightarrow> request_id \<Rightarrow> wait_result \<Rightarrow> inner \<Rightarrow> inner \<times> (client_error + json)" where
  "request_finish method timeout i w s =
     (case w of
        Replied (Delivered (Inr value)) \<Rightarrow> (s, Ok value)
      | Replied (Delivered (Inl error)) \<Rightarrow> (s, Err (Rpc error))
      | Replied SenderDropped \<Rightarrow> (s, Err TransportClosed)
      | TimedOutWaiting \<Rightarrow> (pending_remove i s, Err (Timeout method (of_nat timeout))))"

text \<open>
  The whole request. \<open>env\<close> is what happens between sending and waking up: it gets the id and
  the slot, changes the state as the inbound loop and the other tasks do, and says whether a
  reply or the timer came first.
\<close>

type_synonym env = "request_id \<Rightarrow> nat \<Rightarrow> inner \<Rightarrow> inner \<times> wait_result"

definition request_value_internal ::
  "displays \<Rightarrow> env \<Rightarrow> string \<Rightarrow> json \<Rightarrow> nat option \<Rightarrow> bool \<Rightarrow> inner \<Rightarrow>
   inner \<times> (client_error + json)" where
  "request_value_internal d env method params timeout requires_ready s =
     (case request_begin d method params requires_ready s of
        (s1, Inl e) \<Rightarrow> (s1, Err e)
      | (s1, Inr (i, slot)) \<Rightarrow>
          (let (s2, w) = env i slot s1
           in request_finish method (unwrap_or timeout (client_timeout s)) i w s2))"

definition request_typed_value_internal ::
  "displays \<Rightarrow> env \<Rightarrow> (json \<Rightarrow> serde_error + 'r) \<Rightarrow> string \<Rightarrow> json \<Rightarrow> nat option \<Rightarrow> bool \<Rightarrow> inner \<Rightarrow>
   inner \<times> (client_error + 'r)" where
  "request_typed_value_internal d env dec method params timeout requires_ready s =
     (let (s1, r) = request_value_internal d env method params timeout requires_ready s
      in (s1, and_then r (\<lambda>raw. map_err (UnexpectedResult method) (dec raw))))"

definition request_typed_internal ::
  "displays \<Rightarrow> env \<Rightarrow> ('p \<Rightarrow> json) \<Rightarrow> (json \<Rightarrow> serde_error + 'r) \<Rightarrow> string \<Rightarrow> 'p \<Rightarrow> nat option \<Rightarrow>
   bool \<Rightarrow> inner \<Rightarrow> inner \<times> (client_error + 'r)" where
  "request_typed_internal d env enc dec method params timeout requires_ready s =
     request_typed_value_internal d env dec method (enc params) timeout requires_ready s"

section \<open>The public operations\<close>

text \<open>What the macro \<open>define_client_rpc_methods!\<close> generates for a \<open>typed\<close> and a \<open>null\<close> row.\<close>

definition rpc_typed_method ::
  "displays \<Rightarrow> env \<Rightarrow> ('p \<Rightarrow> json) \<Rightarrow> (json \<Rightarrow> serde_error + 'r) \<Rightarrow> string \<Rightarrow> 'p \<Rightarrow> inner \<Rightarrow>
   inner \<times> (client_error + 'r)" where
  "rpc_typed_method d env enc dec method params s =
     request_typed_internal d env enc dec method params None True s"

definition rpc_null_method ::
  "displays \<Rightarrow> env \<Rightarrow> (json \<Rightarrow> serde_error + 'r) \<Rightarrow> string \<Rightarrow> inner \<Rightarrow> inner \<times> (client_error + 'r)" where
  "rpc_null_method d env dec method s =
     request_typed_value_internal d env dec method JNull None True s"

definition initialize ::
  "displays \<Rightarrow> env \<Rightarrow> initialize_params \<Rightarrow> inner \<Rightarrow> inner \<times> (client_error + initialize_result)" where
  "initialize d env params s =
     (case request_typed_internal d env initialize_params_enc initialize_result_dec
             METHOD_INITIALIZE params None False s of
        (s1, Inl e) \<Rightarrow> (s1, Err e)
      | (s1, Inr r) \<Rightarrow>
          (s1\<lparr>handshake_state := max (handshake_state s1) HS_Initialized\<rparr>, Ok r))"

text \<open>\<open>EmptyObject::default()\<close> serializes to an empty object.\<close>

definition empty_params :: json where "empty_params = JObject []"

definition initialized :: "displays \<Rightarrow> inner \<Rightarrow> inner \<times> (client_error + unit)" where
  "initialized d s =
     (if handshake_state s < HS_Initialized then (s, Err (NotInitialized METHOD_INITIALIZED))
      else case send_notification d METHOD_INITIALIZED empty_params False s of
             (s1, Inl e) \<Rightarrow> (s1, Err e)
           | (s1, Inr _) \<Rightarrow>
               (s1\<lparr>handshake_state := max (handshake_state s1) HS_Ready\<rparr>, Ok ()))"

text \<open>The second half of \<open>ensure_ready_with\<close>: the notification and the final store.\<close>

definition ensure_ready_notify :: "displays \<Rightarrow> inner \<Rightarrow> inner \<times> (client_error + unit)" where
  "ensure_ready_notify d s =
     (case send_notification d METHOD_INITIALIZED empty_params False s of
        (s1, Inl e) \<Rightarrow> (s1, Err e)
      | (s1, Inr _) \<Rightarrow> (s1\<lparr>handshake_state := HS_Ready\<rparr>, Ok ()))"

text \<open>\<open>lock_wait\<close> is what other tasks do while this one waits for the handshake lock.\<close>

definition ensure_ready_with ::
  "displays \<Rightarrow> (inner \<Rightarrow> inner) \<Rightarrow> env \<Rightarrow> initialize_params \<Rightarrow> inner \<Rightarrow>
   inner \<times> (client_error + unit)" where
  "ensure_ready_with d lock_wait env params s =
     (if handshake_state s = HS_Ready then (s, Ok ())
      else
        (let s0 = lock_wait s in
         if handshake_state s0 = HS_Ready then (s0, Ok ())
         else if handshake_state s0 < HS_Initialized then
           (case request_typed_internal d env initialize_params_enc initialize_result_dec
                   METHOD_INITIALIZE params None False
                   (s0\<lparr>handshake_state := HS_Initializing\<rparr>) of
              (s1, Inr _) \<Rightarrow> ensure_ready_notify d (s1\<lparr>handshake_state := HS_Initialized\<rparr>)
            | (s1, Inl e) \<Rightarrow> (s1\<lparr>handshake_state := HS_New\<rparr>, Err e))
         else ensure_ready_notify d s0))"

definition send_raw_request ::
  "displays \<Rightarrow> env \<Rightarrow> string \<Rightarrow> json \<Rightarrow> nat option \<Rightarrow> inner \<Rightarrow> inner \<times> (client_error + json)" where
  "send_raw_request d env method params timeout s =
     request_value_internal d env method params timeout (method \<noteq> METHOD_INITIALIZE) s"

definition send_raw_notification ::
  "displays \<Rightarrow> string \<Rightarrow> json \<Rightarrow> inner \<Rightarrow> inner \<times> (client_error + unit)" where
  "send_raw_notification d method params s =
     send_notification d method params (method \<noteq> METHOD_INITIALIZED) s"

definition respond_server_request ::
  "displays \<Rightarrow> request_id \<Rightarrow> json \<Rightarrow> inner \<Rightarrow> inner \<times> (client_error + unit)" where
  "respond_server_request d i result s = send_message d (response_frame i result) s"

definition respond_server_request_error ::
  "displays \<Rightarrow> request_id \<Rightarrow> rpc_error \<Rightarrow> inner \<Rightarrow> inner \<times> (client_error + unit)" where
  "respond_server_request_error d i error s =
     send_message d (error_frame i (rpc_error_enc error)) s"

section \<open>Handler registration\<close>

text \<open>The \<open>set\<close>, \<open>clear\<close> and \<open>respond\<close> methods of each row of the server-request table.\<close>

definition set_chatgpt_auth_tokens_refresh_handler ::
  "(chatgpt_auth_tokens_refresh_params \<Rightarrow> client_error + chatgpt_auth_tokens_refresh_response) \<Rightarrow> inner \<Rightarrow> inner" where
  "set_chatgpt_auth_tokens_refresh_handler h s = s\<lparr>handlers := (handlers s)\<lparr>h_chatgpt_auth_tokens_refresh := Some h\<rparr>\<rparr>"

definition clear_chatgpt_auth_tokens_refresh_handler :: "inner \<Rightarrow> inner" where
  "clear_chatgpt_auth_tokens_refresh_handler s = s\<lparr>handlers := (handlers s)\<lparr>h_chatgpt_auth_tokens_refresh := None\<rparr>\<rparr>"

definition respond_chatgpt_auth_tokens_refresh ::
  "displays \<Rightarrow> request_id \<Rightarrow> chatgpt_auth_tokens_refresh_response \<Rightarrow> inner \<Rightarrow> inner \<times> (client_error + unit)" where
  "respond_chatgpt_auth_tokens_refresh d i response s = respond_server_request d i (chatgpt_auth_tokens_refresh_response_enc response) s"

definition set_apply_patch_approval_handler ::
  "(opaque_struct \<Rightarrow> client_error + opaque_struct) \<Rightarrow> inner \<Rightarrow> inner" where
  "set_apply_patch_approval_handler h s = s\<lparr>handlers := (handlers s)\<lparr>h_apply_patch_approval := Some h\<rparr>\<rparr>"

definition clear_apply_patch_approval_handler :: "inner \<Rightarrow> inner" where
  "clear_apply_patch_approval_handler s = s\<lparr>handlers := (handlers s)\<lparr>h_apply_patch_approval := None\<rparr>\<rparr>"

definition respond_apply_patch_approval ::
  "displays \<Rightarrow> request_id \<Rightarrow> opaque_struct \<Rightarrow> inner \<Rightarrow> inner \<times> (client_error + unit)" where
  "respond_apply_patch_approval d i response s = respond_server_request d i (opaque_struct_enc response) s"

definition set_exec_command_approval_handler ::
  "(opaque_struct \<Rightarrow> client_error + opaque_struct) \<Rightarrow> inner \<Rightarrow> inner" where
  "set_exec_command_approval_handler h s = s\<lparr>handlers := (handlers s)\<lparr>h_exec_command_approval := Some h\<rparr>\<rparr>"

definition clear_exec_command_approval_handler :: "inner \<Rightarrow> inner" where
  "clear_exec_command_approval_handler s = s\<lparr>handlers := (handlers s)\<lparr>h_exec_command_approval := None\<rparr>\<rparr>"

definition respond_exec_command_approval ::
  "displays \<Rightarrow> request_id \<Rightarrow> opaque_struct \<Rightarrow> inner \<Rightarrow> inner \<times> (client_error + unit)" where
  "respond_exec_command_approval d i response s = respond_server_request d i (opaque_struct_enc response) s"

definition set_command_execution_request_approval_handler ::
  "(opaque_struct \<Rightarrow> client_error + opaque_struct) \<Rightarrow> inner \<Rightarrow> inner" where
  "set_command_execution_request_approval_handler h s = s\<lparr>handlers := (handlers s)\<lparr>h_command_execution_request_approval := Some h\<rparr>\<rparr>"

definition clear_command_execution_request_approval_handler :: "inner \<Rightarrow> inner" where
  "clear_command_execution_request_approval_handler s = s\<lparr>handlers := (handlers s)\<lparr>h_command_execution_request_approval := None\<rparr>\<rparr>"

definition respond_command_execution_request_approval ::
  "displays \<Rightarrow> request_id \<Rightarrow> opaque_struct \<Rightarrow> inner \<Rightarrow> inner \<times> (client_error + unit)" where
  "respond_command_execution_request_approval d i response s = respond_server_request d i (opaque_struct_enc response) s"

definition set_file_change_request_approval_handler ::
  "(opaque_struct \<Rightarrow> client_error + opaque_struct) \<Rightarrow> inner \<Rightarrow> inner" where
  "set_file_change_request_approval_handler h s = s\<lparr>handlers := (handlers s)\<lparr>h_file_change_request_approval := Some h\<rparr>\<rparr>"

definition clear_file_change_request_approval_handler :: "inner \<Rightarrow> inner" where
  "clear_file_change_request_approval_handler s = s\<lparr>handlers := (handlers s)\<lparr>h_file_change_request_approval := None\<rparr>\<rparr>"

definition respond_file_change_request_approval ::
  "displays \<Rightarrow> request_id \<Rightarrow> opaque_struct \<Rightarrow> inner \<Rightarrow> inner \<times> (client_error + unit)" where
  "respond_file_change_request_approval d i response s = respond_server_request d i (opaque_struct_enc response) s"

definition set_tool_request_user_input_handler ::
  "(opaque_struct \<Rightarrow> client_error + opaque_struct) \<Rightarrow> inner \<Rightarrow> inner" where
  "set_tool_request_user_input_handler h s = s\<lparr>handlers := (handlers s)\<lparr>h_tool_request_user_input := Some h\<rparr>\<rparr>"

definition clear_tool_request_user_input_handler :: "inner \<Rightarrow> inner" where
  "clear_tool_request_user_input_handler s = s\<lparr>handlers := (handlers s)\<lparr>h_tool_request_user_input := None\<rparr>\<rparr>"

definition respond_tool_request_user_input ::
  "displays \<Rightarrow> request_id \<Rightarrow> opaque_struct \<Rightarrow> inner \<Rightarrow> inner \<times> (client_error + unit)" where
  "respond_tool_request_user_input d i response s = respond_server_request d i (opaque_struct_enc response) s"

definition set_dynamic_tool_call_handler ::
  "(opaque_struct \<Rightarrow> client_error + opaque_struct) \<Rightarrow> inner \<Rightarrow> inner" where
  "set_dynamic_tool_call_handler h s = s\<lparr>handlers := (handlers s)\<lparr>h_dynamic_tool_call := Some h\<rparr>\<rparr>"

definition clear_dynamic_tool_call_handler :: "inner \<Rightarrow> inner" where
  "clear_dynamic_tool_call_handler s = s\<lparr>handlers := (handlers s)\<lparr>h_dynamic_tool_call := None\<rparr>\<rparr>"

definition respond_dynamic_tool_call ::
  "displays \<Rightarrow> request_id \<Rightarrow> opaque_struct \<Rightarrow> inner \<Rightarrow> inner \<times> (client_error + unit)" where
  "respond_dynamic_tool_call d i response s = respond_server_request d i (opaque_struct_enc response) s"

section \<open>The inbound loop\<close>

text \<open>\<open>send_server_request_handler_result\<close>.\<close>

definition handler_result_payload ::
  "displays \<Rightarrow> request_id \<Rightarrow> client_error + json \<Rightarrow> string \<Rightarrow> json" where
  "handler_result_payload d i response ctxt =
     (case response of
        Inr result \<Rightarrow> response_frame i result
      | Inl err \<Rightarrow> error_frame i (JObject (insert_rows
          [(''code'', Some (enc_i64 RPC_ERROR_CODE_HANDLER_FAILED)),
           (''message'', Some (JString (ctxt @ '' handler failed: '' @
              client_error_display d err)))] [])))"

definition send_server_request_handler_result ::
  "displays \<Rightarrow> request_id \<Rightarrow> client_error + json \<Rightarrow> string \<Rightarrow> inner \<Rightarrow> inner" where
  "send_server_request_handler_result d i response ctxt s =
     (case send_message d (handler_result_payload d i response ctxt) s of
        (s1, Inr _) \<Rightarrow> s1
      | (s1, Inl _) \<Rightarrow> publish EventTransportClosed s1)"

definition try_auto_handle_server_request ::
  "displays \<Rightarrow> server_request_event \<Rightarrow> inner \<Rightarrow> inner \<times> bool" where
  "try_auto_handle_server_request d request s =
     (case run_handler (handlers s) request of
        None \<Rightarrow> (s, False)
      | Some (i, response, ctxt) \<Rightarrow>
          (send_server_request_handler_result d i response ctxt s, True))"

definition resolve_pending :: "request_id \<Rightarrow> rpc_error + json \<Rightarrow> inner \<Rightarrow> inner" where
  "resolve_pending i result s =
     (case map_of (pending s) i of
        None \<Rightarrow> s
      | Some slot \<Rightarrow>
          (pending_remove i s)\<lparr>replies := (replies s)(slot \<mapsto> Delivered result)\<rparr>)"

definition process_incoming_value ::
  "displays \<Rightarrow> json \<Rightarrow> inner \<Rightarrow> inner \<times> (client_error + unit)" where
  "process_incoming_value d value s =
     (case classify_incoming value of
        Inl e \<Rightarrow> (s, Err e)
      | Inr (Response i result) \<Rightarrow> (resolve_pending i result s, Ok ())
      | Inr (IncomingNotification method params raw) \<Rightarrow>
          (let parsed = (case parse_notification method params of
                           Inr n \<Rightarrow> n | Inl _ \<Rightarrow> SN_Unknown method params)
           in (publish (Notification parsed) s, Ok ()))
      | Inr (IncomingServerRequest i method params raw) \<Rightarrow>
          (let parsed = (case parse_server_request i method params of
                           Inr r \<Rightarrow> r | Inl _ \<Rightarrow> SR_Unknown i method params)
           in case try_auto_handle_server_request d parsed s of
                (s1, True) \<Rightarrow> (s1, Ok ())
              | (s1, False) \<Rightarrow> (publish (ServerRequest parsed) s1, Ok ())))"

definition transport_failure :: "string \<Rightarrow> rpc_error" where
  "transport_failure message =
     rpc_error_make RPC_ERROR_CODE_TRANSPORT_FAILURE message None"

definition fail_all_pending :: "string \<Rightarrow> inner \<Rightarrow> inner" where
  "fail_all_pending message s =
     s\<lparr>pending := [],
       replies := foldl (\<lambda>r (i, slot). r(slot \<mapsto> Delivered (Err (transport_failure message))))
         (replies s) (pending s)\<rparr>"

definition loop_abort :: "string \<Rightarrow> inner \<Rightarrow> inner" where
  "loop_abort message s = publish EventTransportClosed (fail_all_pending message s)"

text \<open>The loop over the frames the channel delivers; the end of the list is the closed channel,
  where the loop just ends. The flag says whether the loop is still reading.\<close>

fun run_inbound_loop :: "displays \<Rightarrow> (client_error + json) list \<Rightarrow> inner \<Rightarrow> inner \<times> bool" where
  "run_inbound_loop d [] s = (s, True)"
| "run_inbound_loop d (Inr value # frames) s =
     (case process_incoming_value d value s of
        (s1, Inr _) \<Rightarrow> run_inbound_loop d frames s1
      | (s1, Inl err) \<Rightarrow>
          (loop_abort (''processing inbound frame failed: '' @ client_error_display d err) s1,
           False))"
| "run_inbound_loop d (Inl err # frames) s =
     (loop_abort (''transport error: '' @ client_error_display d err) s, False)"

section \<open>Reading events\<close>

text \<open>What a broadcast receiver can return; the empty list means nothing more has arrived.\<close>

datatype recv = Received server_event | Lagged nat | RecvClosed

fun next_event :: "recv list \<Rightarrow> (client_error + server_event) option" where
  "next_event [] = None"
| "next_event (Received e # rs) = Some (Ok e)"
| "next_event (Lagged n # rs) = next_event rs"
| "next_event (RecvClosed # rs) = Some (Err TransportClosed)"

end
