(* ===== verification/Handshake.thy ===== *)
theory Handshake
  imports Client
begin

text \<open>
  The \<open>initialize\<close>/\<open>initialized\<close> handshake under concurrency: \<open>ensure_ready_with\<close>,
  \<open>initialize\<close> and \<open>initialized\<close> of \<open>crates/sdk/src/client/mod.rs\<close>, run by any number of
  tasks on one connection. A program point (\<open>pc\<close>) sits between every two accesses to shared
  state, so a step is one atomic load, store, lock operation, send or reply. The flag
  \<open>explicit\<close> says whether the application calls \<open>initialize()\<close> and \<open>initialized()\<close> itself
  beside \<open>ensure_ready()\<close>.
\<close>

section \<open>Program points and state\<close>

text \<open>
  \<open>ER\<close> points are in \<open>ensure_ready_with\<close>: waiting for the lock, before the second load, before
  the store of \<open>INITIALIZING\<close>, before the gate of \<open>request_value_internal\<close>, before the send,
  awaiting the reply, before the store that follows it, before the notification, before the
  store of \<open>READY\<close>. \<open>IN\<close> points are in \<open>initialize\<close>, \<open>ID\<close> points in \<open>initialized\<close>.
\<close>

datatype pc =
    Idle
  | ER_Lock | ER_Recheck | ER_Store | ER_Gate | ER_Send | ER_Wait | ER_Got bool
  | ER_Notify | ER_StoreReady
  | IN_Gate | IN_Send | IN_Wait | IN_Max
  | ID_Send | ID_Max
  | Done bool

record hsys =
  hstate :: handshake
  lock :: "nat option"
  pcs :: "nat \<Rightarrow> pc"
  inits_sent :: nat       \<comment> \<open>\<open>initialize\<close> frames sent\<close>
  inits_answered :: nat   \<comment> \<open>of these, answered or timed out\<close>
  inits_ok :: nat         \<comment> \<open>of these, answered with a result\<close>
  notified :: nat         \<comment> \<open>\<open>initialized\<close> frames sent\<close>

definition hs_init :: "hsys \<Rightarrow> bool" where
  "hs_init s \<longleftrightarrow>
     s = \<lparr>hstate = HS_New, lock = None, pcs = (\<lambda>_. Idle), inits_sent = 0, inits_answered = 0,
          inits_ok = 0, notified = 0\<rparr>"

abbreviation goto :: "nat \<Rightarrow> pc \<Rightarrow> hsys \<Rightarrow> hsys" where
  "goto t p s \<equiv> s\<lparr>pcs := (pcs s)(t := p)\<rparr>"

section \<open>Steps\<close>

inductive hs_step :: "bool \<Rightarrow> hsys \<Rightarrow> hsys \<Rightarrow> bool" for explicit :: bool where
  er_fast: "pcs s t = Idle \<Longrightarrow> hstate s = HS_Ready \<Longrightarrow> hs_step explicit s (goto t (Done True) s)"
| er_slow: "pcs s t = Idle \<Longrightarrow> hstate s \<noteq> HS_Ready \<Longrightarrow> hs_step explicit s (goto t ER_Lock s)"
| er_lock: "pcs s t = ER_Lock \<Longrightarrow> lock s = None \<Longrightarrow>
    hs_step explicit s ((goto t ER_Recheck s)\<lparr>lock := Some t\<rparr>)"
| er_recheck_ready: "pcs s t = ER_Recheck \<Longrightarrow> hstate s = HS_Ready \<Longrightarrow>
    hs_step explicit s ((goto t (Done True) s)\<lparr>lock := None\<rparr>)"
| er_recheck_new: "pcs s t = ER_Recheck \<Longrightarrow> hstate s < HS_Initialized \<Longrightarrow>
    hs_step explicit s (goto t ER_Store s)"
| er_recheck_initialized: "pcs s t = ER_Recheck \<Longrightarrow> hstate s = HS_Initialized \<Longrightarrow>
    hs_step explicit s (goto t ER_Notify s)"
| er_store: "pcs s t = ER_Store \<Longrightarrow>
    hs_step explicit s ((goto t ER_Gate s)\<lparr>hstate := HS_Initializing\<rparr>)"
| er_gate_pass: "pcs s t = ER_Gate \<Longrightarrow> hstate s < HS_Initialized \<Longrightarrow>
    hs_step explicit s (goto t ER_Send s)"
| er_gate_fail: "pcs s t = ER_Gate \<Longrightarrow> HS_Initialized \<le> hstate s \<Longrightarrow>
    hs_step explicit s (goto t (ER_Got False) s)"
| er_send: "pcs s t = ER_Send \<Longrightarrow>
    hs_step explicit s ((goto t ER_Wait s)\<lparr>inits_sent := inits_sent s + 1\<rparr>)"
| er_send_fail: "pcs s t = ER_Send \<Longrightarrow> hs_step explicit s (goto t (ER_Got False) s)"
| er_reply_ok: "pcs s t = ER_Wait \<Longrightarrow>
    hs_step explicit s ((goto t (ER_Got True) s)
      \<lparr>inits_answered := inits_answered s + 1, inits_ok := inits_ok s + 1\<rparr>)"
| er_reply_err: "pcs s t = ER_Wait \<Longrightarrow>
    hs_step explicit s ((goto t (ER_Got False) s)\<lparr>inits_answered := inits_answered s + 1\<rparr>)"
| er_got_ok: "pcs s t = ER_Got True \<Longrightarrow>
    hs_step explicit s ((goto t ER_Notify s)\<lparr>hstate := HS_Initialized\<rparr>)"
| er_got_err: "pcs s t = ER_Got False \<Longrightarrow>
    hs_step explicit s ((goto t (Done False) s)\<lparr>hstate := HS_New, lock := None\<rparr>)"
| er_notify: "pcs s t = ER_Notify \<Longrightarrow>
    hs_step explicit s ((goto t ER_StoreReady s)\<lparr>notified := notified s + 1\<rparr>)"
| er_notify_fail: "pcs s t = ER_Notify \<Longrightarrow>
    hs_step explicit s ((goto t (Done False) s)\<lparr>lock := None\<rparr>)"
| er_ready: "pcs s t = ER_StoreReady \<Longrightarrow>
    hs_step explicit s ((goto t (Done True) s)\<lparr>hstate := HS_Ready, lock := None\<rparr>)"
| in_start: "explicit \<Longrightarrow> pcs s t = Idle \<Longrightarrow> hs_step explicit s (goto t IN_Gate s)"
| in_gate_pass: "pcs s t = IN_Gate \<Longrightarrow> hstate s < HS_Initialized \<Longrightarrow>
    hs_step explicit s (goto t IN_Send s)"
| in_gate_fail: "pcs s t = IN_Gate \<Longrightarrow> HS_Initialized \<le> hstate s \<Longrightarrow>
    hs_step explicit s (goto t (Done False) s)"
| in_send: "pcs s t = IN_Send \<Longrightarrow>
    hs_step explicit s ((goto t IN_Wait s)\<lparr>inits_sent := inits_sent s + 1\<rparr>)"
| in_send_fail: "pcs s t = IN_Send \<Longrightarrow> hs_step explicit s (goto t (Done False) s)"
| in_reply_ok: "pcs s t = IN_Wait \<Longrightarrow>
    hs_step explicit s ((goto t IN_Max s)
      \<lparr>inits_answered := inits_answered s + 1, inits_ok := inits_ok s + 1\<rparr>)"
| in_reply_err: "pcs s t = IN_Wait \<Longrightarrow>
    hs_step explicit s ((goto t (Done False) s)\<lparr>inits_answered := inits_answered s + 1\<rparr>)"
| in_max: "pcs s t = IN_Max \<Longrightarrow>
    hs_step explicit s ((goto t (Done True) s)\<lparr>hstate := max (hstate s) HS_Initialized\<rparr>)"
| id_fail: "explicit \<Longrightarrow> pcs s t = Idle \<Longrightarrow> hstate s < HS_Initialized \<Longrightarrow>
    hs_step explicit s (goto t (Done False) s)"
| id_start: "explicit \<Longrightarrow> pcs s t = Idle \<Longrightarrow> HS_Initialized \<le> hstate s \<Longrightarrow>
    hs_step explicit s (goto t ID_Send s)"
| id_send: "pcs s t = ID_Send \<Longrightarrow>
    hs_step explicit s ((goto t ID_Max s)\<lparr>notified := notified s + 1\<rparr>)"
| id_send_fail: "pcs s t = ID_Send \<Longrightarrow> hs_step explicit s (goto t (Done False) s)"
| id_max: "pcs s t = ID_Max \<Longrightarrow>
    hs_step explicit s ((goto t (Done True) s)\<lparr>hstate := max (hstate s) HS_Ready\<rparr>)"

section \<open>The invariant without explicit calls\<close>

fun in_critical :: "pc \<Rightarrow> bool" where
  "in_critical ER_Recheck = True"
| "in_critical ER_Store = True"
| "in_critical ER_Gate = True"
| "in_critical ER_Send = True"
| "in_critical ER_Wait = True"
| "in_critical (ER_Got _) = True"
| "in_critical ER_Notify = True"
| "in_critical ER_StoreReady = True"
| "in_critical _ = False"

fun is_explicit :: "pc \<Rightarrow> bool" where
  "is_explicit IN_Gate = True"
| "is_explicit IN_Send = True"
| "is_explicit IN_Wait = True"
| "is_explicit IN_Max = True"
| "is_explicit ID_Send = True"
| "is_explicit ID_Max = True"
| "is_explicit _ = False"

text \<open>What the shared state looks like while nobody holds the lock, and at each point of the
  holder: state, in-flight requests, successful requests, notifications.\<close>

definition at_rest :: "hsys \<Rightarrow> bool" where
  "at_rest s \<longleftrightarrow> inits_sent s = inits_answered s \<and>
     (hstate s = HS_New \<and> inits_ok s = 0 \<and> notified s = 0 \<or>
      hstate s = HS_Initialized \<and> inits_ok s = 1 \<and> notified s = 0 \<or>
      hstate s = HS_Ready \<and> inits_ok s = 1 \<and> notified s = 1)"

fun holder_ok :: "pc \<Rightarrow> hsys \<Rightarrow> bool" where
  "holder_ok ER_Recheck s = at_rest s"
| "holder_ok ER_Store s = (at_rest s \<and> hstate s = HS_New)"
| "holder_ok ER_Gate s = (inits_sent s = inits_answered s \<and> hstate s = HS_Initializing \<and>
     inits_ok s = 0 \<and> notified s = 0)"
| "holder_ok ER_Send s = (inits_sent s = inits_answered s \<and> hstate s = HS_Initializing \<and>
     inits_ok s = 0 \<and> notified s = 0)"
| "holder_ok ER_Wait s = (inits_sent s = inits_answered s + 1 \<and> hstate s = HS_Initializing \<and>
     inits_ok s = 0 \<and> notified s = 0)"
| "holder_ok (ER_Got b) s = (inits_sent s = inits_answered s \<and> hstate s = HS_Initializing \<and>
     inits_ok s = of_bool b \<and> notified s = 0)"
| "holder_ok ER_Notify s = (at_rest s \<and> hstate s = HS_Initialized)"
| "holder_ok ER_StoreReady s = (inits_sent s = inits_answered s \<and> hstate s = HS_Initialized \<and>
     inits_ok s = 1 \<and> notified s = 1)"
| "holder_ok _ s = False"

definition hs_inv :: "hsys \<Rightarrow> bool" where
  "hs_inv s \<longleftrightarrow>
     (\<forall>t. in_critical (pcs s t) \<longleftrightarrow> lock s = Some t) \<and>
     (\<forall>t. \<not> is_explicit (pcs s t)) \<and>
     (case lock s of None \<Rightarrow> at_rest s | Some t \<Rightarrow> holder_ok (pcs s t) s)"

lemma hs_invD:
  assumes "hs_inv s"
  shows "in_critical (pcs s t) \<Longrightarrow> lock s = Some t \<and> holder_ok (pcs s t) s"
    and "\<not> is_explicit (pcs s t)"
    and "lock s = None \<Longrightarrow> at_rest s"
    and "in_critical (pcs s t) \<longleftrightarrow> lock s = Some t"
  using assms by (auto simp: hs_inv_def split: option.splits)

lemma hs_init_inv: "hs_init s \<Longrightarrow> hs_inv s"
  by (simp add: hs_init_def hs_inv_def at_rest_def)

lemmas hs_inv_simps = hs_inv_def at_rest_def handshake_order

text \<open>A task that is neither in the critical section nor enters it changes nothing shared.\<close>

lemma at_rest_goto [simp]: "at_rest (goto t p s) = at_rest s"
  by (simp add: at_rest_def)

lemma holder_ok_goto [simp]: "holder_ok q (goto t p s) = holder_ok q s"
  by (cases q) simp_all

lemma at_rest_lock [simp]: "at_rest (s\<lparr>lock := l\<rparr>) = at_rest s"
  by (simp add: at_rest_def)

lemma holder_ok_lock [simp]: "holder_ok q (s\<lparr>lock := l\<rparr>) = holder_ok q s"
  by (cases q) simp_all

lemma hs_inv_goto_outside:
  assumes "hs_inv s" "\<not> in_critical (pcs s t)" "\<not> in_critical p" "\<not> is_explicit p"
  shows "hs_inv (goto t p s)"
proof -
  have t: "lock s \<noteq> Some t" using hs_invD(4) [OF assms(1), of t] assms(2) by simp
  have "\<forall>u. in_critical (pcs (goto t p s) u) \<longleftrightarrow> lock (goto t p s) = Some u"
    using t assms(3) hs_invD(4) [OF assms(1)] by simp
  moreover have "\<forall>u. \<not> is_explicit (pcs (goto t p s) u)"
    using assms(4) hs_invD(2) [OF assms(1)] by simp
  moreover have "case lock (goto t p s) of None \<Rightarrow> at_rest (goto t p s)
    | Some u \<Rightarrow> holder_ok (pcs (goto t p s) u) (goto t p s)"
  proof (cases "lock s")
    case None
    then show ?thesis using hs_invD(3) [OF assms(1)] by simp
  next
    case (Some u)
    then have "holder_ok (pcs s u) s" using hs_invD(1,4) [OF assms(1), of u] by simp
    with Some t show ?thesis by simp
  qed
  ultimately show ?thesis unfolding hs_inv_def by blast
qed

text \<open>A step of the holder: its new point matches the new shared state, or it leaves.\<close>

lemma hs_inv_holder:
  assumes "hs_inv s" "lock s = Some t \<or> lock s = None" "pcs s' = (pcs s)(t := p)"
    "if in_critical p then lock s' = Some t \<and> holder_ok p s' else lock s' = None \<and> at_rest s'"
    "\<not> is_explicit p"
  shows "hs_inv s'"
proof -
  have other: "\<not> in_critical (pcs s u)" if "u \<noteq> t" for u
    using hs_invD(4) [OF assms(1), of u] assms(2) that by auto
  have "\<forall>u. in_critical (pcs s' u) \<longleftrightarrow> lock s' = Some u"
    using other assms(3,4) by (auto split: if_splits)
  moreover have "\<forall>u. \<not> is_explicit (pcs s' u)"
    using assms(3,5) hs_invD(2) [OF assms(1)] by simp
  moreover have "case lock s' of None \<Rightarrow> at_rest s' | Some u \<Rightarrow> holder_ok (pcs s' u) s'"
    using assms(3,4) by (auto split: if_splits)
  ultimately show ?thesis unfolding hs_inv_def by blast
qed

lemma hs_step_inv: "hs_step False s s' \<Longrightarrow> hs_inv s \<Longrightarrow> hs_inv s'"
proof (induction rule: hs_step.induct)
  case (er_fast s t) then show ?case by (intro hs_inv_goto_outside) auto
next
  case (er_slow s t) then show ?case by (intro hs_inv_goto_outside) auto
next
  case (er_lock s t)
  then have "at_rest s" using hs_invD(3) by blast
  with er_lock show ?case
    by - (rule hs_inv_holder [where s = s and t = t and p = ER_Recheck], simp_all)
next
  case (in_gate_pass s t) then show ?case using hs_invD(2) [of s t] by simp
next
  case (in_gate_fail s t) then show ?case using hs_invD(2) [of s t] by simp
next
  case (in_send s t) then show ?case using hs_invD(2) [of s t] by simp
next
  case (in_send_fail s t) then show ?case using hs_invD(2) [of s t] by simp
next
  case (in_reply_ok s t) then show ?case using hs_invD(2) [of s t] by simp
next
  case (in_reply_err s t) then show ?case using hs_invD(2) [of s t] by simp
next
  case (in_max s t) then show ?case using hs_invD(2) [of s t] by simp
next
  case (id_send s t) then show ?case using hs_invD(2) [of s t] by simp
next
  case (id_send_fail s t) then show ?case using hs_invD(2) [of s t] by simp
next
  case (id_max s t) then show ?case using hs_invD(2) [of s t] by simp
next
  case (er_gate_fail s t)
  then show ?case using hs_invD(1) [of s t] by (simp add: handshake_order)
next
  case (er_recheck_ready s t)
  show ?case
    by (rule hs_inv_holder [where s = s and t = t and p = "Done True"])
      (use er_recheck_ready hs_invD(1) [of s t] in \<open>auto simp: at_rest_def handshake_order\<close>)
next
  case (er_recheck_new s t)
  show ?case
    by (rule hs_inv_holder [where s = s and t = t and p = "ER_Store"])
      (use er_recheck_new hs_invD(1) [of s t] in \<open>auto simp: at_rest_def handshake_order\<close>)
next
  case (er_recheck_initialized s t)
  show ?case
    by (rule hs_inv_holder [where s = s and t = t and p = "ER_Notify"])
      (use er_recheck_initialized hs_invD(1) [of s t] in \<open>auto simp: at_rest_def handshake_order\<close>)
next
  case (er_store s t)
  show ?case
    by (rule hs_inv_holder [where s = s and t = t and p = "ER_Gate"])
      (use er_store hs_invD(1) [of s t] in \<open>auto simp: at_rest_def handshake_order\<close>)
next
  case (er_gate_pass s t)
  show ?case
    by (rule hs_inv_holder [where s = s and t = t and p = "ER_Send"])
      (use er_gate_pass hs_invD(1) [of s t] in \<open>auto simp: at_rest_def handshake_order\<close>)
next
  case (er_send s t)
  show ?case
    by (rule hs_inv_holder [where s = s and t = t and p = "ER_Wait"])
      (use er_send hs_invD(1) [of s t] in \<open>auto simp: at_rest_def handshake_order\<close>)
next
  case (er_send_fail s t)
  show ?case
    by (rule hs_inv_holder [where s = s and t = t and p = "ER_Got False"])
      (use er_send_fail hs_invD(1) [of s t] in \<open>auto simp: at_rest_def handshake_order\<close>)
next
  case (er_reply_ok s t)
  show ?case
    by (rule hs_inv_holder [where s = s and t = t and p = "ER_Got True"])
      (use er_reply_ok hs_invD(1) [of s t] in \<open>auto simp: at_rest_def handshake_order\<close>)
next
  case (er_reply_err s t)
  show ?case
    by (rule hs_inv_holder [where s = s and t = t and p = "ER_Got False"])
      (use er_reply_err hs_invD(1) [of s t] in \<open>auto simp: at_rest_def handshake_order\<close>)
next
  case (er_got_ok s t)
  show ?case
    by (rule hs_inv_holder [where s = s and t = t and p = "ER_Notify"])
      (use er_got_ok hs_invD(1) [of s t] in \<open>auto simp: at_rest_def handshake_order\<close>)
next
  case (er_got_err s t)
  show ?case
    by (rule hs_inv_holder [where s = s and t = t and p = "Done False"])
      (use er_got_err hs_invD(1) [of s t] in \<open>auto simp: at_rest_def handshake_order\<close>)
next
  case (er_notify s t)
  show ?case
    by (rule hs_inv_holder [where s = s and t = t and p = "ER_StoreReady"])
      (use er_notify hs_invD(1) [of s t] in \<open>auto simp: at_rest_def handshake_order\<close>)
next
  case (er_notify_fail s t)
  show ?case
    by (rule hs_inv_holder [where s = s and t = t and p = "Done False"])
      (use er_notify_fail hs_invD(1) [of s t] in \<open>auto simp: at_rest_def handshake_order\<close>)
next
  case (er_ready s t)
  show ?case
    by (rule hs_inv_holder [where s = s and t = t and p = "Done True"])
      (use er_ready hs_invD(1) [of s t] in \<open>auto simp: at_rest_def handshake_order\<close>)
next
  case (in_start s t) then show ?case by simp
next
  case (id_fail s t) then show ?case by simp
next
  case (id_start s t) then show ?case by simp
qed

interpretation handshake: transition_system hs_init "hs_step False" hs_inv
  by unfold_locales (auto intro: hs_init_inv hs_step_inv)

inductive_cases hs_stepE: "hs_step e s s'"

text \<open>One more step of a concrete run.\<close>

lemma hs_run:
  "hs_step e s t \<Longrightarrow> t = t' \<Longrightarrow> \<exists>u. (hs_step e)\<^sup>*\<^sup>* t' u \<and> P u \<Longrightarrow>
   \<exists>u. (hs_step e)\<^sup>*\<^sup>* s u \<and> P u"
  by (meson converse_rtranclp_into_rtranclp)

lemma hs_run_refl: "P s \<Longrightarrow> \<exists>u. (hs_step e)\<^sup>*\<^sup>* s u \<and> P u"
  by blast

text \<open>The two \<open>fetch_max\<close> steps where they do advance the state.\<close>

lemma in_max_up:
  "pcs s t = IN_Max \<Longrightarrow> hstate s = HS_Initializing \<Longrightarrow>
   hs_step e s ((goto t (Done True) s)\<lparr>hstate := HS_Initialized\<rparr>)"
  using hs_step.in_max [of s t e] by (simp add: max_def handshake_order)

lemma id_max_up:
  "pcs s t = ID_Max \<Longrightarrow> hstate s = HS_Initialized \<Longrightarrow>
   hs_step e s ((goto t (Done True) s)\<lparr>hstate := HS_Ready\<rparr>)"
  using hs_step.id_max [of s t e] by (simp add: max_def handshake_order)

definition hs_start :: hsys where
  "hs_start = \<lparr>hstate = HS_New, lock = None, pcs = (\<lambda>_. Idle), inits_sent = 0,
     inits_answered = 0, inits_ok = 0, notified = 0\<rparr>"

lemma hs_init_start: "hs_init hs_start"
  by (simp add: hs_init_def hs_start_def)

section \<open>Consequences of the invariant\<close>

lemma hs_inv_counts:
  assumes "hs_inv s"
  shows "inits_sent s \<le> inits_answered s + 1 \<and> inits_ok s \<le> 1 \<and> notified s \<le> inits_ok s"
proof (cases "lock s")
  case None
  then show ?thesis using hs_invD(3) [OF assms] by (auto simp: at_rest_def)
next
  case (Some t)
  then have "holder_ok (pcs s t) s" using hs_invD(1,4) [OF assms, of t] by simp
  then show ?thesis by (cases "pcs s t") (auto simp: at_rest_def)
qed

lemma hs_inv_ready:
  assumes "hs_inv s" "hstate s = HS_Ready"
  shows "inits_ok s = 1 \<and> notified s = 1 \<and> inits_sent s = inits_answered s \<and>
    (\<forall>t. in_critical (pcs s t) \<longrightarrow> pcs s t = ER_Recheck)"
proof (cases "lock s")
  case None
  then show ?thesis
    using assms hs_invD(3,4) [OF assms(1)] by (auto simp: at_rest_def)
next
  case (Some t)
  then have "holder_ok (pcs s t) s" using hs_invD(1,4) [OF assms(1), of t] by simp
  with assms(2) have p: "pcs s t = ER_Recheck \<and> at_rest s"
    by (cases "pcs s t") (auto simp: at_rest_def)
  moreover have "in_critical (pcs s u) \<Longrightarrow> u = t" for u
    using Some hs_invD(4) [OF assms(1), of u] by simp
  ultimately show ?thesis using assms(2) by (auto simp: at_rest_def)
qed

lemma hs_step_state:
  assumes "hs_step False s s'" "hs_inv s"
  shows "hstate s' = hstate s \<or>
    (hstate s, hstate s') \<in> {(HS_New, HS_Initializing), (HS_Initializing, HS_Initialized),
      (HS_Initializing, HS_New), (HS_Initialized, HS_Ready)}"
  using assms(1)
proof cases
  case (er_store t)
  then show ?thesis using hs_invD(1) [OF assms(2), of t] by simp
next
  case (er_got_ok t)
  then show ?thesis using hs_invD(1) [OF assms(2), of t] by simp
next
  case (er_got_err t)
  then show ?thesis using hs_invD(1) [OF assms(2), of t] by simp
next
  case (er_ready t)
  then show ?thesis using hs_invD(1) [OF assms(2), of t] by simp
next
  case (in_max t)
  then show ?thesis using hs_invD(2) [OF assms(2), of t] by simp
next
  case (id_max t)
  then show ?thesis using hs_invD(2) [OF assms(2), of t] by simp
qed simp_all

lemma hs_step_ready:
  assumes "hs_step False s s'" "hs_inv s" "hstate s = HS_Ready"
  shows "hstate s' = HS_Ready \<and> inits_sent s' = inits_sent s \<and> notified s' = notified s"
proof -
  note r = hs_inv_ready [OF assms(2,3)]
  note e = hs_invD(2) [OF assms(2)]
  from assms(1) show ?thesis
  proof cases
    case (er_store t) then show ?thesis using r by (auto dest: spec [of _ t])
  next
    case (er_send t) then show ?thesis using r by (auto dest: spec [of _ t])
  next
    case (er_got_ok t) then show ?thesis using r by (auto dest: spec [of _ t])
  next
    case (er_got_err t) then show ?thesis using r by (auto dest: spec [of _ t])
  next
    case (er_notify t) then show ?thesis using r by (auto dest: spec [of _ t])
  next
    case (in_send t) then show ?thesis using e [of t] by simp
  next
    case (in_max t) then show ?thesis using e [of t] by simp
  next
    case (id_send t) then show ?thesis using e [of t] by simp
  next
    case (id_max t) then show ?thesis using e [of t] by simp
  qed (use assms(3) in simp_all)
qed

section \<open>Properties\<close>



text \<open>
  With \<open>ensure_ready\<close> alone the handshake state only advances, one stage at a time, except
  that a failed \<open>initialize\<close> goes back from \<open>INITIALIZING\<close> to \<open>NEW\<close>: what the comment on the
  \<open>HANDSHAKE_*\<close> constants says.
\<close>

theorem handshake_monotone:
  assumes "hs_init s" "(hs_step False)\<^sup>*\<^sup>* s t" "hs_step False t u"
  shows "hstate u = hstate t \<or>
    (hstate t, hstate u) \<in> {(HS_New, HS_Initializing), (HS_Initializing, HS_Initialized),
      (HS_Initializing, HS_New), (HS_Initialized, HS_Ready)}"
  using assms by (intro hs_step_state handshake.reachable_inv)

theorem handshake_monotone_witness:
  "hs_step False hs_start (goto 1 ER_Lock hs_start) \<and>
   (hstate (goto 1 ER_Lock hs_start) = hstate hs_start)"
proof -
  have step: "hs_step False hs_start (goto 1 ER_Lock hs_start)"
    by (rule hs_step.er_slow) (simp_all add: hs_start_def)
  then show ?thesis
    using handshake_monotone [OF hs_init_start rtranclp.rtrancl_refl step] by simp
qed

text \<open>
  Readiness is permanent. Once a connection driven by \<open>ensure_ready\<close> alone is ready, it stays
  ready and no task sends another handshake frame.
\<close>

theorem handshake_ready_permanent:
  assumes "hs_init s" "(hs_step False)\<^sup>*\<^sup>* s t" "hstate t = HS_Ready" "(hs_step False)\<^sup>*\<^sup>* t u"
  shows "hstate u = HS_Ready \<and> inits_sent u = inits_sent t \<and> notified u = notified t"
  using assms(4,3)
proof (induction rule: rtranclp_induct)
  case base
  then show ?case by simp
next
  case (step y z)
  have "hs_inv y" using assms(1,2) step.hyps(1) handshake.reachable_inv handshake.steps_inv by blast
  with step show ?case using hs_step_ready [of y z] by simp
qed

theorem handshake_ready_permanent_witness:
  "\<exists>t. (hs_step False)\<^sup>*\<^sup>* hs_start t \<and> hstate t = HS_Ready \<and>
     (\<forall>u. (hs_step False)\<^sup>*\<^sup>* t u \<longrightarrow> hstate u = HS_Ready)"
proof -
  have "\<exists>t. (hs_step False)\<^sup>*\<^sup>* hs_start t \<and> hstate t = HS_Ready"
    unfolding hs_start_def
    by (rule hs_run, rule hs_step.er_slow [where t = 1], simp, simp, simp,
        rule hs_run, rule hs_step.er_lock [where t = 1], simp, simp, simp,
        rule hs_run, rule hs_step.er_recheck_new [where t = 1], simp, simp add: handshake_order, simp,
        rule hs_run, rule hs_step.er_store [where t = 1], simp, simp,
        rule hs_run, rule hs_step.er_gate_pass [where t = 1], simp, simp add: handshake_order, simp,
        rule hs_run, rule hs_step.er_send [where t = 1], simp, simp,
        rule hs_run, rule hs_step.er_reply_ok [where t = 1], simp, simp,
        rule hs_run, rule hs_step.er_got_ok [where t = 1], simp, simp,
        rule hs_run, rule hs_step.er_notify [where t = 1], simp, simp,
        rule hs_run, rule hs_step.er_ready [where t = 1], simp, simp,
        rule hs_run_refl, simp)
  then show ?thesis using handshake_ready_permanent [OF hs_init_start] by blast
qed


end
