(* ===== verification/Client_Facts.thy ===== *)
theory Client_Facts
  imports Client
begin

text \<open>
  What the client guarantees. \<open>client_step\<close> lists every way the state of the client changes
  between two awaits; \<open>client_inv\<close> ties the pending map, the slots and the id counter
  together, and the interpretation of \<open>transition_system\<close> makes it a fact of every reachable
  state. From it follow the correlation of replies, at-most-once delivery and the behaviour
  of the inbound loop on failure.
\<close>

section \<open>Steps\<close>

datatype client_action =
    ActBegin string json bool
  | ActTimeout request_id
  | ActFrame json
  | ActTransportError client_error
  | ActNotify string json bool
  | ActRespond request_id json
  | ActHandshake handshake
  | ActHandlers server_request_handlers
  | ActOutboundClosed

fun client_step :: "displays \<Rightarrow> client_action \<Rightarrow> inner \<Rightarrow> inner" where
  "client_step d (ActBegin method params ready) s = fst (request_begin d method params ready s)"
| "client_step d (ActTimeout i) s = pending_remove i s"
| "client_step d (ActFrame v) s = fst (run_inbound_loop d [Ok v] s)"
| "client_step d (ActTransportError e) s = fst (run_inbound_loop d [Err e] s)"
| "client_step d (ActNotify method params ready) s = fst (send_notification d method params ready s)"
| "client_step d (ActRespond i v) s = fst (respond_server_request d i v s)"
| "client_step d (ActHandshake h) s = s\<lparr>handshake_state := h\<rparr>"
| "client_step d (ActHandlers hs) s = s\<lparr>handlers := hs\<rparr>"
| "client_step d ActOutboundClosed s = s\<lparr>outbound_open := False\<rparr>"

definition client_init :: "inner \<Rightarrow> bool" where
  "client_init s \<longleftrightarrow> (\<exists>t. s = inner_new t)"

definition client_rel :: "displays \<Rightarrow> inner \<Rightarrow> inner \<Rightarrow> bool" where
  "client_rel d s t \<longleftrightarrow> (\<exists>a. t = client_step d a s)"

text \<open>The id of the request that owns a slot: ids count up from 1 in step with the slots.\<close>

definition slot_id :: "nat \<Rightarrow> request_id" where
  "slot_id n = IdInteger (of_nat (Suc n))"

definition client_inv :: "inner \<Rightarrow> bool" where
  "client_inv s \<longleftrightarrow>
     distinct (map fst (pending s)) \<and>
     (\<forall>(i, n) \<in> set (pending s). n < next_slot s \<and> i = slot_id n \<and> replies s n = None) \<and>
     (\<forall>n. replies s n \<noteq> None \<longrightarrow> n < next_slot s) \<and>
     next_id s = of_nat (Suc (next_slot s))"

lemma client_invD:
  assumes "client_inv s"
  shows "distinct (map fst (pending s))"
    and "(i, n) \<in> set (pending s) \<Longrightarrow> n < next_slot s \<and> i = slot_id n \<and> replies s n = None"
    and "replies s n \<noteq> None \<Longrightarrow> n < next_slot s"
    and "next_id s = of_nat (Suc (next_slot s))"
  using assms by (auto simp: client_inv_def)

lemma client_invI:
  assumes "distinct (map fst (pending s))"
    and "\<And>i n. (i, n) \<in> set (pending s) \<Longrightarrow> n < next_slot s \<and> i = slot_id n \<and> replies s n = None"
    and "\<And>n. replies s n \<noteq> None \<Longrightarrow> n < next_slot s"
    and "next_id s = of_nat (Suc (next_slot s))"
  shows "client_inv s"
  using assms by (auto simp: client_inv_def)

section \<open>What each operation leaves alone\<close>

text \<open>The four fields the invariant reads.\<close>

definition core :: "inner \<Rightarrow> (request_id \<times> nat) list \<times> (nat \<rightharpoonup> reply) \<times> nat \<times> i64" where
  "core s = (pending s, replies s, next_slot s, next_id s)"

lemma client_inv_core: "core t = core s \<Longrightarrow> client_inv t = client_inv s"
  by (simp add: core_def client_inv_def)

lemma core_simps [simp]:
  "core (publish e s) = core s"
  "core (fst (send_message d v s)) = core s"
  "core (s\<lparr>handshake_state := h\<rparr>) = core s"
  "core (s\<lparr>handlers := hs\<rparr>) = core s"
  "core (s\<lparr>outbound_open := b\<rparr>) = core s"
  by (simp_all add: core_def publish_def send_message_def)

lemma core_send_notification [simp]: "core (fst (send_notification d m p r s)) = core s"
  by (simp add: send_notification_def)

lemma core_handler_result [simp]:
  "core (send_server_request_handler_result d i r c s) = core s"
  by (simp add: send_server_request_handler_result_def send_message_def publish_def core_def)

lemma core_auto_handle [simp]: "core (fst (try_auto_handle_server_request d r s)) = core s"
  by (auto simp: try_auto_handle_server_request_def split: option.splits)

lemma process_request_core:
  "core (fst (case try_auto_handle_server_request d p s of
     (s1, True) \<Rightarrow> (s1, w) | (s1, False) \<Rightarrow> (publish e s1, w))) = core s"
  using core_auto_handle [of d p s]
  by (cases "try_auto_handle_server_request d p s") (auto split: bool.splits)

lemma process_incoming_core:
  "core (fst (process_incoming_value d v s)) = core s \<or>
   (\<exists>i r. classify_incoming v = Ok (Response i r) \<and>
      fst (process_incoming_value d v s) = resolve_pending i r s)"
proof (cases "classify_incoming v")
  case (Inl e)
  then show ?thesis by (simp add: process_incoming_value_def)
next
  case (Inr c)
  then show ?thesis
    by (cases c) (simp_all add: process_incoming_value_def Let_def process_request_core)
qed

section \<open>Preservation\<close>

lemma pending_remove_inv: "client_inv s \<Longrightarrow> client_inv (pending_remove i s)"
  by (auto simp: client_inv_def pending_remove_def distinct_map_filter)

lemma map_of_pending:
  "client_inv s \<Longrightarrow> map_of (pending s) i = Some n \<longleftrightarrow> (i, n) \<in> set (pending s)"
  by (simp add: client_inv_def)

text \<open>Making an entry is dropping the old one of this id, if any, and adding the new one.\<close>

lemma drop_entry_inv:
  assumes "client_inv s" "(i, old) \<in> set (pending s)"
  shows "client_inv ((pending_remove i s)\<lparr>replies := (replies s)(old \<mapsto> r)\<rparr>)"
proof (rule client_invI)
  fix j n
  assume "(j, n) \<in> set (pending ((pending_remove i s)\<lparr>replies := (replies s)(old \<mapsto> r)\<rparr>))"
  then have jn: "(j, n) \<in> set (pending s)" "j \<noteq> i" by (auto simp: pending_remove_def)
  then have "n \<noteq> old" using client_invD(2) [OF assms(1)] assms(2) by blast
  with client_invD(2) [OF assms(1) jn(1)]
  show "n < next_slot ((pending_remove i s)\<lparr>replies := (replies s)(old \<mapsto> r)\<rparr>) \<and> j = slot_id n \<and>
    replies ((pending_remove i s)\<lparr>replies := (replies s)(old \<mapsto> r)\<rparr>) n = None"
    by (simp add: pending_remove_def)
next
  fix n
  assume "replies ((pending_remove i s)\<lparr>replies := (replies s)(old \<mapsto> r)\<rparr>) n \<noteq> None"
  then show "n < next_slot ((pending_remove i s)\<lparr>replies := (replies s)(old \<mapsto> r)\<rparr>)"
    using client_invD(2) [OF assms] client_invD(3) [OF assms(1), of n]
    by (auto simp: pending_remove_def split: if_splits)
qed (use client_invD(1,4) [OF assms(1)] in \<open>auto simp: pending_remove_def distinct_map_filter\<close>)

lemma resolve_pending_inv:
  assumes "client_inv s"
  shows "client_inv (resolve_pending i r s)"
  using assms drop_entry_inv [OF assms]
  by (auto simp: resolve_pending_def map_of_pending split: option.splits)

lemma add_entry_inv:
  assumes "client_inv s" "IdInteger (next_id s) \<notin> fst ` set (pending s)"
  shows "client_inv (s\<lparr>pending := (IdInteger (next_id s), next_slot s) # pending s,
     next_id := next_id s + 1, next_slot := next_slot s + 1\<rparr>)"
proof -
  have i: "IdInteger (next_id s) = slot_id (next_slot s)"
    using client_invD(4) [OF assms(1)] by (simp add: slot_id_def)
  have "replies s (next_slot s) = None"
    using client_invD(3) [OF assms(1), of "next_slot s"] by blast
  with i assms show ?thesis
    by (intro client_invI)
      (use client_invD [OF assms(1)] in \<open>force simp: less_Suc_eq\<close>)+
qed

lemma request_slot_inv:
  assumes "client_inv s"
  shows "client_inv (pending_insert (IdInteger (next_id s)) (next_slot s)
     (s\<lparr>next_id := next_id s + 1, next_slot := next_slot s + 1\<rparr>))"
proof (cases "map_of (pending s) (IdInteger (next_id s))")
  case None
  then have "IdInteger (next_id s) \<notin> fst ` set (pending s)" by (simp add: map_of_eq_None_iff)
  with None show ?thesis
    using client_inv_core [THEN iffD2, OF _ add_entry_inv [OF assms]]
    by (simp add: pending_insert_def core_def)
next
  case (Some old)
  let ?s = "(pending_remove (IdInteger (next_id s)) s)\<lparr>replies := (replies s)(old \<mapsto> SenderDropped)\<rparr>"
  have "client_inv ?s" using Some assms by (intro drop_entry_inv) (auto dest: map_of_SomeD)
  moreover have "IdInteger (next_id ?s) \<notin> fst ` set (pending ?s)"
    by (auto simp: pending_remove_def)
  ultimately have "client_inv (?s\<lparr>pending := (IdInteger (next_id ?s), next_slot ?s) # pending ?s,
     next_id := next_id ?s + 1, next_slot := next_slot ?s + 1\<rparr>)"
    by (rule add_entry_inv)
  with Some show ?thesis
    by (elim client_inv_core [THEN iffD2, rotated])
      (simp add: pending_insert_def pending_remove_def core_def)
qed

lemma request_begin_inv:
  assumes "client_inv s"
  shows "client_inv (fst (request_begin d method params ready s))"
proof (cases "request_gate method ready s")
  case (Some e)
  with assms show ?thesis by (simp add: request_begin_def)
next
  case None
  let ?i = "IdInteger (next_id s)"
  let ?s1 = "pending_insert ?i (next_slot s)
     (s\<lparr>next_id := next_id s + 1, next_slot := next_slot s + 1\<rparr>)"
  obtain s2 r where m: "send_message d (request_frame method ?i params) ?s1 = (s2, r)"
    by fastforce
  then have "core s2 = core ?s1"
    using core_simps(2) [of d "request_frame method ?i params" ?s1] by simp
  then have "client_inv s2" using request_slot_inv [OF assms] client_inv_core by blast
  with None m show ?thesis
    by (cases r) (auto simp: request_begin_def Let_def intro: pending_remove_inv)
qed

lemma process_incoming_inv:
  "client_inv s \<Longrightarrow> client_inv (fst (process_incoming_value d v s))"
  using process_incoming_core [of d v s] resolve_pending_inv client_inv_core by metis

lemma foldl_fail:
  "foldl (\<lambda>r (i, slot). r(slot \<mapsto> w)) m ps n = (if n \<in> snd ` set ps then Some w else m n)"
  by (induction ps arbitrary: m) auto

lemma fail_all_pending_inv: "client_inv s \<Longrightarrow> client_inv (fail_all_pending message s)"
  by (rule client_invI)
    (auto simp: fail_all_pending_def foldl_fail client_inv_def split: if_splits)

lemma loop_abort_inv: "client_inv s \<Longrightarrow> client_inv (loop_abort message s)"
  using fail_all_pending_inv client_inv_core [of "loop_abort message s" "fail_all_pending message s"]
  by (simp add: loop_abort_def)

lemma run_inbound_loop_inv:
  "client_inv s \<Longrightarrow> client_inv (fst (run_inbound_loop d frames s))"
proof (induction d frames s rule: run_inbound_loop.induct)
  case (2 d v frames s)
  have "client_inv (fst (process_incoming_value d v s))"
    using 2(2) by (rule process_incoming_inv)
  with 2 show ?case
    by (auto simp: loop_abort_inv split: prod.splits sum.splits)
qed (simp_all add: loop_abort_inv)

lemma client_inv_frame [simp]:
  "client_inv (fst (send_notification d m p r s)) = client_inv s"
  "client_inv (fst (send_message d v s)) = client_inv s"
  "client_inv (s\<lparr>handshake_state := h\<rparr>) = client_inv s"
  "client_inv (s\<lparr>handlers := hs\<rparr>) = client_inv s"
  "client_inv (s\<lparr>outbound_open := b\<rparr>) = client_inv s"
  by (rule client_inv_core, simp)+

lemma client_step_inv: "client_inv s \<Longrightarrow> client_inv (client_step d a s)"
  by (cases a)
    (simp_all add: request_begin_inv pending_remove_inv run_inbound_loop_inv
      respond_server_request_def del: run_inbound_loop.simps)

lemma client_init_inv: "client_init s \<Longrightarrow> client_inv s"
  by (auto simp: client_init_def client_inv_def inner_new_def)

lemma client_inv_new [simp]: "client_inv (inner_new t)"
  by (rule client_init_inv) (auto simp: client_init_def)

lemma client_rel_step: "(client_rel d)\<^sup>*\<^sup>* s (client_step d a s)"
  by (rule r_into_rtranclp) (unfold client_rel_def, rule exI, rule refl)

interpretation client: transition_system client_init "client_rel d" client_inv for d
  by unfold_locales (auto simp: client_rel_def client_init_inv client_step_inv)

section \<open>Replies\<close>

lemma reply_stable_insert:
  assumes "client_inv s" "replies s n = Some r"
  shows "replies (pending_insert i slot (s\<lparr>next_id := a, next_slot := b\<rparr>)) n = Some r"
proof -
  have "map_of (pending s) i \<noteq> Some n"
    using assms client_invD(2) [OF assms(1), of i n] by (auto dest: map_of_SomeD)
  with assms(2) show ?thesis by (auto simp: pending_insert_def split: option.splits)
qed

lemma replies_core: "core t = core s \<Longrightarrow> replies t = replies s"
  by (simp add: core_def)

lemma replies_frame:
  "replies (fst (send_notification d m p b s)) = replies s"
  "replies (fst (send_message d v s)) = replies s"
  by (rule replies_core, simp)+

lemma reply_stable_begin:
  assumes "client_inv s" "replies s n = Some r"
  shows "replies (fst (request_begin d method params ready s)) n = Some r"
  using assms reply_stable_insert [OF assms]
  by (auto simp: request_begin_def send_message_def Let_def pending_remove_def split: option.splits)

lemma reply_stable_resolve:
  assumes "client_inv s" "replies s n = Some r"
  shows "replies (resolve_pending i w s) n = Some r"
proof -
  have "map_of (pending s) i \<noteq> Some n"
    using assms client_invD(2) [OF assms(1), of i n] by (auto dest: map_of_SomeD)
  with assms(2) show ?thesis
    by (auto simp: resolve_pending_def pending_remove_def split: option.splits)
qed

lemma reply_stable_process:
  assumes "client_inv s" "replies s n = Some r"
  shows "replies (fst (process_incoming_value d v s)) n = Some r"
  using process_incoming_core [of d v s] reply_stable_resolve [OF assms] replies_core assms
  by metis

lemma reply_stable_fail:
  assumes "client_inv s" "replies s n = Some r"
  shows "replies (loop_abort message s) n = Some r"
proof -
  have "n \<notin> snd ` set (pending s)"
    using assms client_invD(2) [OF assms(1)] by fastforce
  then show ?thesis
    using assms(2) by (simp add: loop_abort_def publish_def fail_all_pending_def foldl_fail)
qed

lemma reply_stable_loop:
  assumes "client_inv s" "replies s n = Some r"
  shows "replies (fst (run_inbound_loop d frames s)) n = Some r"
  using assms
proof (induction d frames s rule: run_inbound_loop.induct)
  case (2 d v frames s)
  have "client_inv (fst (process_incoming_value d v s))"
    "replies (fst (process_incoming_value d v s)) n = Some r"
    using 2 by (auto intro: process_incoming_inv reply_stable_process)
  with 2 show ?case by (auto simp: reply_stable_fail split: prod.splits sum.splits)
qed (simp_all add: reply_stable_fail)

lemma reply_stable_step:
  assumes "client_inv s" "replies s n = Some r"
  shows "replies (client_step d a s) n = Some r"
  using assms
  by (cases a)
    (simp_all add: reply_stable_begin reply_stable_loop pending_remove_def replies_frame
      respond_server_request_def del: run_inbound_loop.simps)

section \<open>The loop on failure\<close>

text \<open>A slot that is pending stays pending or is answered, whatever the inbound loop does.\<close>

definition slot_open :: "nat \<Rightarrow> inner \<Rightarrow> bool" where
  "slot_open n s \<longleftrightarrow> n \<in> snd ` set (pending s)"

lemma process_slot:
  assumes "client_inv s" "slot_open n s"
  shows "slot_open n (fst (process_incoming_value d v s)) \<or>
    replies (fst (process_incoming_value d v s)) n \<noteq> None"
proof -
  from assms(2) obtain i where i: "(i, n) \<in> set (pending s)"
    by (auto simp: slot_open_def)
  have *: "slot_open n (resolve_pending j r s) \<or> replies (resolve_pending j r s) n \<noteq> None" for j r
  proof (cases "j = i")
    case True
    then have "map_of (pending s) j = Some n" using i map_of_pending [OF assms(1)] by blast
    then show ?thesis by (simp add: resolve_pending_def)
  next
    case False
    with i show ?thesis
      by (force simp: resolve_pending_def pending_remove_def slot_open_def split: option.splits)
  qed
  show ?thesis
    using process_incoming_core [of d v s]
  proof (elim disjE exE conjE)
    assume "core (fst (process_incoming_value d v s)) = core s"
    with assms(2) show ?thesis by (simp add: core_def slot_open_def)
  next
    fix j r
    assume "fst (process_incoming_value d v s) = resolve_pending j r s"
    with * [of j r] show ?thesis by simp
  qed
qed

lemma abort_slot:
  "slot_open n s \<or> replies s n \<noteq> None \<Longrightarrow> replies (loop_abort message s) n \<noteq> None"
  by (auto simp: loop_abort_def publish_def fail_all_pending_def foldl_fail slot_open_def)

lemma abort_result:
  "pending (loop_abort m s) = []" "\<exists>es. events (loop_abort m s) = es @ [EventTransportClosed]"
  by (auto simp: loop_abort_def publish_def fail_all_pending_def)

lemma loop_stopped:
  assumes "run_inbound_loop d frames s = (t, False)" "client_inv s"
    "slot_open n s \<or> replies s n \<noteq> None"
  shows "replies t n \<noteq> None"
  using assms
proof (induction d frames s rule: run_inbound_loop.induct)
  case (2 d v frames s)
  obtain s1 r where p: "process_incoming_value d v s = (s1, r)" by fastforce
  have inv: "client_inv s1" using process_incoming_inv [OF 2(3), of d v] p by simp
  have open1: "slot_open n s1 \<or> replies s1 n \<noteq> None"
    using 2(4) process_slot [OF 2(3), of n d v] reply_stable_process [OF 2(3), of n _ d v] p
    by auto
  show ?case
  proof (cases r)
    case (Inl e)
    with 2(2) p show ?thesis using abort_slot [OF open1] by auto
  next
    case (Inr u)
    with 2 p inv open1 show ?thesis by auto
  qed
next
  case (3 d e frames s)
  then show ?case using abort_slot by auto
qed simp

lemma loop_stopped_state:
  "run_inbound_loop d frames s = (t, False) \<Longrightarrow>
   pending t = [] \<and> (\<exists>es. events t = es @ [EventTransportClosed])"
  by (induction d frames s rule: run_inbound_loop.induct)
    (auto simp: abort_result split: prod.splits sum.splits)

section \<open>Requests\<close>

lemma request_begin_Ok:
  assumes "request_gate method ready s = None" "outbound_open s"
  shows "request_begin d method params ready s =
    (let i = IdInteger (next_id s);
         s1 = pending_insert i (next_slot s)
                (s\<lparr>next_id := next_id s + 1, next_slot := next_slot s + 1\<rparr>)
     in (s1\<lparr>outbound := outbound s @ [request_frame method i params]\<rparr>, Ok (i, next_slot s)))"
  using assms
  by (auto simp: request_begin_def send_message_def pending_insert_def Let_def split: option.splits)

lemma pending_insert_lookup:
  "map_of (pending (pending_insert i n s)) j = (if j = i then Some n else map_of (pending s) j)"
proof -
  have "map_of (filter (\<lambda>(k, m). k \<noteq> i) ps) j = (if j = i then None else map_of ps j)"
    for ps :: "(request_id \<times> nat) list"
    by (induction ps) auto
  then show ?thesis by (auto simp: pending_insert_def split: option.splits)
qed

lemma map_of_dropped [simp]:
  "map_of (filter (\<lambda>(k, m). k \<noteq> i) ps) i = None"
  by (induction ps) auto

text \<open>The environment in which the server answers a request with one frame.\<close>

definition answer_env :: "displays \<Rightarrow> (request_id \<Rightarrow> json) \<Rightarrow> env" where
  "answer_env d frame i slot s =
     (let (t, running) = run_inbound_loop d [Ok (frame i)] s
      in (t, case replies t slot of Some r \<Rightarrow> Replied r | None \<Rightarrow> TimedOutWaiting))"

lemma answered:
  assumes "map_of (pending s) i = Some slot" "classify_incoming (frame i) = Ok (Response i r)"
  shows "answer_env d frame i slot s =
    ((pending_remove i s)\<lparr>replies := (replies s)(slot \<mapsto> Delivered r)\<rparr>, Replied (Delivered r))"
  using assms
  by (simp add: answer_env_def process_incoming_value_def resolve_pending_def)

lemma handler_payload_classifies:
  "\<exists>r. classify_incoming (handler_result_payload d i response c) = Ok (Response i r)"
proof (cases response)
  case (Inr v)
  then show ?thesis by (auto simp: handler_result_payload_def classify_response_frame)
next
  case (Inl err)
  let ?e = "rpc_error_make RPC_ERROR_CODE_HANDLER_FAILED
    (c @ '' handler failed: '' @ client_error_display d err) None"
  have "handler_result_payload d i response c = error_frame i (rpc_error_enc ?e)"
    using Inl by (simp add: handler_result_payload_def rpc_error_enc_def rpc_error_rows_def
        rpc_error_make_def)
  then show ?thesis using classify_error_frame [of ?e i] by (auto simp: rpc_error_wf_def rpc_error_make_def)
qed

text \<open>The state a request leaves behind when it was answered.\<close>

definition after_answer ::
  "string \<Rightarrow> json \<Rightarrow> rpc_error + json \<Rightarrow> inner \<Rightarrow> inner" where
  "after_answer method params r s =
     (let i = IdInteger (next_id s);
          s1 = (pending_insert i (next_slot s)
                 (s\<lparr>next_id := next_id s + 1, next_slot := next_slot s + 1\<rparr>))
                 \<lparr>outbound := outbound s @ [request_frame method i params]\<rparr>
      in (pending_remove i s1)\<lparr>replies := (replies s1)(next_slot s \<mapsto> Delivered r)\<rparr>)"

lemma request_answered:
  assumes "request_gate method ready s = None" "outbound_open s"
    "\<And>i. classify_incoming (answer i) = Ok (Response i r)"
  shows "request_value_internal d (answer_env d answer) method params timeout ready s =
    (after_answer method params r s, map_err Rpc r)"
proof -
  let ?i = "IdInteger (next_id s)"
  let ?s1 = "(pending_insert ?i (next_slot s)
     (s\<lparr>next_id := next_id s + 1, next_slot := next_slot s + 1\<rparr>))
     \<lparr>outbound := outbound s @ [request_frame method ?i params]\<rparr>"
  have "map_of (pending ?s1) ?i = Some (next_slot s)"
    using pending_insert_lookup [of ?i "next_slot s"] by simp
  from answered [where frame = answer, OF this assms(3)] assms(1,2) show ?thesis
    by (cases r)
      (simp_all add: request_value_internal_def request_begin_Ok request_finish_def
        after_answer_def Let_def)
qed

lemma after_answer_simps [simp]:
  "outbound (after_answer method params r s) =
     outbound s @ [request_frame method (IdInteger (next_id s)) params]"
  "handshake_state (after_answer method params r s) = handshake_state s"
  "outbound_open (after_answer method params r s) = outbound_open s"
  "events (after_answer method params r s) = events s"
  "handlers (after_answer method params r s) = handlers s"
  "next_slot (after_answer method params r s) = Suc (next_slot s)"
  "next_id (after_answer method params r s) = next_id s + 1"
  "map_of (pending (after_answer method params r s)) (IdInteger (next_id s)) = None"
  by (auto simp: after_answer_def Let_def pending_insert_def pending_remove_def split: option.splits)

lemma after_answer_inv:
  assumes "client_inv s"
  shows "client_inv (after_answer method params r s)"
proof -
  let ?i = "IdInteger (next_id s)"
  let ?s1 = "pending_insert ?i (next_slot s)
     (s\<lparr>next_id := next_id s + 1, next_slot := next_slot s + 1\<rparr>)"
  let ?s2 = "?s1\<lparr>outbound := outbound s @ [request_frame method ?i params]\<rparr>"
  have inv: "client_inv ?s2"
    using request_slot_inv [OF assms] client_inv_core [of ?s2 ?s1] by (simp add: core_def)
  have "map_of (pending ?s2) ?i = Some (next_slot s)"
    using pending_insert_lookup [of ?i "next_slot s"] by simp
  then have "(?i, next_slot s) \<in> set (pending ?s2)" by (rule map_of_SomeD)
  from drop_entry_inv [OF inv this] show ?thesis by (simp add: after_answer_def Let_def)
qed

lemma next_request_id: "client_inv s \<Longrightarrow> IdInteger (next_id s) = slot_id (next_slot s)"
  using client_invD(4) by (simp add: slot_id_def)

section \<open>Concrete states for the witnesses\<close>

definition plain_displays :: displays where
  "plain_displays =
     \<lparr>display_serde = (\<lambda>_. ''serde''), debug_rpc_error = rpc_error_message,
      display_send_error = ''channel closed''\<rparr>"

text \<open>A ready client with one request in flight: id 1, slot 0.\<close>

definition ready_client :: inner where
  "ready_client = (inner_new 30000)\<lparr>handshake_state := HS_Ready\<rparr>"

definition waiting_client :: inner where
  "waiting_client = fst (request_begin plain_displays ''thread/list'' JNull True ready_client)"

lemma ready_client_inv: "client_inv ready_client"
  by (simp add: ready_client_def)

lemma waiting_client_inv: "client_inv waiting_client"
  by (simp add: waiting_client_def request_begin_inv ready_client_inv)

lemma ready_client_simps [simp]:
  "handshake_state ready_client = HS_Ready" "outbound_open ready_client"
  "next_slot ready_client = 0" "next_id ready_client = 1" "pending ready_client = []"
  "replies ready_client = Map.empty" "outbound ready_client = []" "events ready_client = []"
  "handlers ready_client = no_handlers" "client_timeout ready_client = 30000"
  by (simp_all add: ready_client_def inner_new_def)

lemma waiting_client_pending: "pending waiting_client = [(IdInteger 1, 0)]"
  by (simp add: waiting_client_def request_begin_Ok request_gate_def Let_def pending_insert_def
      handshake_order)

lemma waiting_client_replies: "replies waiting_client = Map.empty"
  by (simp add: waiting_client_def request_begin_Ok request_gate_def Let_def pending_insert_def
      handshake_order)

section \<open>Properties\<close>

text \<open>
  C15: in every reachable state the pending map has one entry per id, the entry of slot \<open>n\<close> is
  the request with id \<open>n + 1\<close> and has no reply yet, and the id counter is one ahead of the slots.
\<close>

theorem client_reachable_inv:
  assumes "client_init s" "(client_rel d)\<^sup>*\<^sup>* s t"
  shows "distinct (map fst (pending t)) \<and>
    (\<forall>(i, n) \<in> set (pending t). n < next_slot t \<and> i = slot_id n \<and> replies t n = None) \<and>
    next_id t = of_nat (Suc (next_slot t))"
  using client.reachable_inv [OF assms] by (auto simp: client_inv_def)

theorem client_reachable_inv_witness:
  "\<exists>s :: inner. pending s = [(slot_id 0, 0)] \<and> distinct (map fst (pending s)) \<and> next_id s = 2"
proof -
  let ?s = "client_step plain_displays (ActBegin ''m'' JNull False) (inner_new 5)"
  have i: "client_init (inner_new 5)" by (auto simp: client_init_def)
  from client_reachable_inv [OF i client_rel_step]
  have "distinct (map fst (pending ?s))" "next_id ?s = of_nat (Suc (next_slot ?s))" by blast+
  moreover have "pending ?s = [(slot_id 0, 0)]" "next_slot ?s = 1"
    by (simp_all add: request_begin_def request_gate_def inner_new_def send_message_def
        pending_insert_def slot_id_def less_eq_handshake_def Let_def)
  ultimately have "pending ?s = [(slot_id 0, 0)] \<and> distinct (map fst (pending ?s)) \<and> next_id ?s = 2"
    by (simp del: client_step.simps)
  then show ?thesis by blast
qed
text \<open>
  C2: a response frame reaches exactly the request it answers: the slot of that id gets the
  result, its entry leaves the pending map, and no other entry, slot, event or outbound frame
  changes.
\<close>

theorem response_reaches_its_request:
  assumes "client_inv s" "(i, n) \<in> set (pending s)" "classify_incoming v = Ok (Response i r)"
  shows "run_inbound_loop d [Ok v] s =
    (s\<lparr>pending := filter (\<lambda>(j, m). j \<noteq> i) (pending s), replies := (replies s)(n \<mapsto> Delivered r)\<rparr>, True)"
  using assms(3) map_of_pending [OF assms(1), of i n] assms(2)
  by (simp add: process_incoming_value_def resolve_pending_def pending_remove_def)

theorem response_reaches_its_request_witness:
  "replies (fst (run_inbound_loop plain_displays [Ok (response_frame (IdInteger 1) (JBool True))]
     waiting_client)) 0 = Some (Delivered (Ok (JBool True)))"
proof -
  have "(IdInteger 1, 0) \<in> set (pending waiting_client)" by (simp add: waiting_client_pending)
  from response_reaches_its_request [OF waiting_client_inv this classify_response_frame]
  show ?thesis by simp
qed

text \<open>
  A request is answered at most once: whatever happens later (other responses, duplicated
  responses, timeouts, transport failure), the reply a slot has received never changes.
\<close>

theorem reply_at_most_once:
  assumes "client_init s" "(client_rel d)\<^sup>*\<^sup>* s t" "replies t n = Some r" "(client_rel d)\<^sup>*\<^sup>* t u"
  shows "replies u n = Some r"
  using assms(4,3)
proof (induction rule: rtranclp_induct)
  case base
  then show ?case by simp
next
  case (step y z)
  have "client_inv y" using assms(1,2) step.hyps(1) client.reachable_inv client.steps_inv by blast
  with step show ?case by (auto simp: client_rel_def reply_stable_step)
qed

theorem reply_at_most_once_witness:
  "\<exists>s t u. client_init s \<and> (client_rel plain_displays)\<^sup>*\<^sup>* s t \<and> replies t 0 \<noteq> None \<and>
     (client_rel plain_displays)\<^sup>*\<^sup>* t u \<and> replies u 0 = replies t 0"
proof -
  let ?step = "client_step plain_displays"
  define a where "a = ?step (ActBegin ''m'' JNull False) (inner_new 5)"
  define b where "b = ?step (ActFrame (response_frame (IdInteger 1) JNull)) a"
  define c where "c = ?step (ActFrame (response_frame (IdInteger 1) (JBool True))) b"
  have i: "client_init (inner_new 5)" by (auto simp: client_init_def)
  have ab: "(client_rel plain_displays)\<^sup>*\<^sup>* (inner_new 5) b"
    unfolding a_def b_def by (rule rtranclp_trans [OF client_rel_step client_rel_step])
  have bc: "(client_rel plain_displays)\<^sup>*\<^sup>* b c"
    unfolding c_def by (rule client_rel_step)
  have p: "map_of (pending a) (IdInteger 1) = Some 0"
    by (simp add: a_def inner_new_def request_begin_Ok request_gate_def handshake_order Let_def
        pending_insert_def)
  have r: "replies b 0 = Some (Delivered (Ok JNull))"
    using p
    by (simp add: b_def process_incoming_value_def classify_response_frame resolve_pending_def)
  have "replies c 0 = Some (Delivered (Ok JNull))"
    by (rule reply_at_most_once [OF i ab r bc])
  with i ab r bc show ?thesis by (intro exI [of _ "inner_new 5"] exI [of _ b] exI [of _ c]) simp
qed

text \<open>
  C16: when the inbound loop stops, on a transport error or on a frame it cannot process, no
  request is left hanging: the pending map is empty, every slot that was pending has a reply,
  and the last event published is \<open>TransportClosed\<close>.
\<close>

theorem loop_stop_answers_everything:
  assumes "client_inv s" "run_inbound_loop d frames s = (t, False)"
  shows "pending t = [] \<and> (\<exists>es. events t = es @ [EventTransportClosed]) \<and>
    (\<forall>(i, n) \<in> set (pending s). replies t n \<noteq> None)"
  using loop_stopped_state [OF assms(2)] loop_stopped [OF assms(2,1)]
  by (force simp: slot_open_def)

theorem loop_stop_answers_everything_witness:
  "\<exists>t. run_inbound_loop plain_displays [Err TransportClosed] waiting_client = (t, False) \<and>
     pending waiting_client = [(IdInteger 1, 0)] \<and> replies t 0 \<noteq> None"
proof -
  obtain t where t: "run_inbound_loop plain_displays [Err TransportClosed] waiting_client = (t, False)"
    by simp
  from loop_stop_answers_everything [OF waiting_client_inv t] waiting_client_pending t
  show ?thesis by force
qed

text \<open>
  C1: end to end, a request on a ready client whose server answers with a result returns that
  result, and one it answers with an error returns that error; either way exactly one frame is
  sent, carrying the method, the params and a fresh id, and nothing stays pending for it.
\<close>

theorem request_round_trip:
  assumes "client_inv s" "handshake_state s = HS_Ready" "outbound_open s"
    "\<And>i. classify_incoming (answer i) = Ok (Response i r)"
  shows "\<exists>t. request_value_internal d (answer_env d answer) method params timeout True s =
      (t, map_err Rpc r) \<and>
    outbound t = outbound s @ [request_frame method (slot_id (next_slot s)) params] \<and>
    map_of (pending t) (slot_id (next_slot s)) = None"
proof -
  have "request_gate method True s = None"
    using assms(2) by (simp add: request_gate_def)
  from request_answered [where answer = answer, OF this assms(3,4)]
    after_answer_simps(1,8) [of "method" "params" r s] next_request_id [OF assms(1)]
  show ?thesis by metis
qed

theorem request_round_trip_witness:
  "\<exists>t. request_value_internal plain_displays
      (answer_env plain_displays (\<lambda>i. response_frame i (JBool True))) ''thread/list'' JNull None
      True ready_client = (t, Ok (JBool True)) \<and>
    outbound t = [request_frame ''thread/list'' (slot_id 0) JNull]"
proof -
  have open1: "outbound_open ready_client" by simp
  have "\<And>i. classify_incoming (response_frame i (JBool True)) = Ok (Response i (Ok (JBool True)))"
    by (rule classify_response_frame)
  from request_round_trip [OF ready_client_inv _ open1 this] show ?thesis by fastforce
qed



text \<open>
  A server request is dealt with exactly once: with a handler registered for it, one frame
  answers its id and no event is published; without one, the request is published as an event
  and nothing is sent.
\<close>

theorem server_request_handled_once:
  assumes "outbound_open s"
  shows "\<exists>t. process_incoming_value d (request_frame method i params) s = (t, Ok ()) \<and>
    ((\<exists>frame r. outbound t = outbound s @ [frame] \<and> events t = events s \<and>
        (classify_incoming frame = Ok (Response i r))) \<or>
     (\<exists>e. outbound t = outbound s \<and> events t = events s @ [ServerRequest e] \<and>
        server_request_id e = i \<and> server_request_method e = method))"
proof -
  define p where "p = (case parse_server_request i method params of
    Inr r \<Rightarrow> r | Inl _ \<Rightarrow> SR_Unknown i method params)"
  have p: "server_request_id p = i \<and> server_request_method p = method"
    using server_request_table_method
    by (auto simp: p_def parse_server_request_def map_err_Inr_iff split: sum.splits option.splits)
  have step: "process_incoming_value d (request_frame method i params) s =
    (case try_auto_handle_server_request d p s of
       (s1, True) \<Rightarrow> (s1, Ok ()) | (s1, False) \<Rightarrow> (publish (ServerRequest p) s1, Ok ()))"
    by (simp add: process_incoming_value_def classify_request_frame Let_def p_def [symmetric])
  show ?thesis
  proof (cases "run_handler (handlers s) p")
    case None
    with p step show ?thesis by (auto simp: try_auto_handle_server_request_def publish_def)
  next
    case (Some h)
    obtain j response c where h: "h = (j, response, c)" by (cases h)
    with Some p have "j = i" using run_handler_id by auto
    let ?frame = "handler_result_payload d i response c"
    have "process_incoming_value d (request_frame method i params) s =
      (s\<lparr>outbound := outbound s @ [?frame]\<rparr>, Ok ())"
      using Some h \<open>j = i\<close> step assms
      by (simp add: try_auto_handle_server_request_def send_server_request_handler_result_def
          send_message_def)
    moreover have "\<exists>r. classify_incoming ?frame = Ok (Response i r)"
      using handler_payload_classifies by blast
    ultimately show ?thesis by auto
  qed
qed

theorem server_request_handled_once_witness:
  "\<exists>t. process_incoming_value plain_displays
       (request_frame ''applyPatchApproval'' (IdInteger 7) (JObject [])) ready_client = (t, Ok ())"
proof -
  have "outbound_open ready_client" by simp
  from server_request_handled_once [OF this] show ?thesis by blast
qed

text \<open>
  Notifications keep their order and are never lost or fatal: a run of notification frames
  publishes one event per frame, in order, the unparsable and the unknown ones as \<open>Unknown\<close>,
  and leaves the loop running.
\<close>

theorem notifications_in_order:
  "run_inbound_loop d (map (\<lambda>(m, p). Ok (notification_frame m p)) ns) s =
     (s\<lparr>events := events s @ map (\<lambda>(m, p). Notification (case parse_notification m p of
          Inr n \<Rightarrow> n | Inl _ \<Rightarrow> SN_Unknown m p)) ns\<rparr>, True)"
proof (induction ns arbitrary: s)
  case Nil
  then show ?case by simp
next
  case (Cons n ns)
  then show ?case
    by (cases n) (simp add: process_incoming_value_def classify_notification_frame publish_def Let_def)
qed

text \<open>
  The handshake run by one caller: on a fresh connection whose server answers \<open>initialize\<close>,
  \<open>ensure_ready\<close> sends \<open>initialize\<close> and then \<open>initialized\<close>, leaves the connection ready, and
  when the server answers with an error it returns that error and goes back to \<open>NEW\<close>.
\<close>

theorem ensure_ready_handshake:
  assumes "client_inv s" "handshake_state s = HS_New" "outbound_open s"
    "\<And>i. classify_incoming (answer i) = Ok (Response i r)"
    "r = Ok v \<Longrightarrow> initialize_result_dec v = Ok res"
  shows "\<exists>t. ensure_ready_with d id (answer_env d answer) params s =
      (t, case r of Inl e \<Rightarrow> Err (Rpc e) | Inr v' \<Rightarrow>
            (case initialize_result_dec v' of Inl e \<Rightarrow> Err (UnexpectedResult METHOD_INITIALIZE e)
             | Inr _ \<Rightarrow> Ok ())) \<and>
    (r = Ok v \<longrightarrow> handshake_state t = HS_Ready \<and>
       outbound t = outbound s @ [request_frame METHOD_INITIALIZE (slot_id (next_slot s))
         (initialize_params_enc params), notification_frame METHOD_INITIALIZED empty_params]) \<and>
    (\<forall>e. r = Err e \<longrightarrow> handshake_state t = HS_New)"
proof -
  let ?s = "s\<lparr>handshake_state := HS_Initializing\<rparr>"
  have gate: "request_gate METHOD_INITIALIZE False ?s = None"
    by (simp add: request_gate_def handshake_order)
  have open1: "outbound_open ?s" using assms(3) by simp
  note run = request_answered [where answer = answer, OF gate open1 assms(4)]
  show ?thesis
    using run assms(2,3,5) next_request_id [OF assms(1)]
    by (cases r; cases "\<exists>w. r = Ok w \<and> initialize_result_dec w = Err SerdeError")
      (auto simp: ensure_ready_with_def request_typed_internal_def handshake_order
        request_typed_value_internal_def ensure_ready_notify_def send_notification_def
        send_message_def Let_def split: sum.splits)
qed

theorem ensure_ready_handshake_witness:
  "\<exists>t. ensure_ready_with plain_displays id
      (answer_env plain_displays (\<lambda>i. response_frame i (JObject [])))
      (default_initialize_params ''0.6.0'') (inner_new 5) = (t, Ok ()) \<and>
    handshake_state t = HS_Ready"
proof -
  have inv: "client_inv (inner_new 5)" by simp
  have new: "handshake_state (inner_new 5) = HS_New" "outbound_open (inner_new 5)"
    by (simp_all add: inner_new_def)
  have ans: "\<And>i. classify_incoming (response_frame i (JObject [])) =
    Ok (Response i (Ok (JObject [])))"
    by (rule classify_response_frame)
  have dec: "initialize_result_dec (JObject []) =
    Ok \<lparr>initialize_result_user_agent = None, initialize_result_extra = []\<rparr>"
    by (simp add: initialize_result_dec_def codec get_extra_def)
  from ensure_ready_handshake [where answer = "\<lambda>i. response_frame i (JObject [])" and v = "JObject []",
      OF inv new ans dec]
  show ?thesis using dec by auto
qed

text \<open>
  The debug form of a websocket configuration never depends on the token it holds: two
  configurations that differ only in their tokens print the same.
\<close>

theorem ws_config_debug_hides_token:
  "ws_config_debug quote opts (ws_config_with_auth_token token1 c) =
   ws_config_debug quote opts (ws_config_with_auth_token token2 c)"
  by (simp add: ws_config_debug_def ws_config_with_auth_token_def)

end
