(* ===== verification/Served_Client.thy ===== *)
theory Served_Client
  imports Client_Facts
begin

text \<open>
  The client against a server that answers every request. The locale \<open>rpc_service\<close> is what the
  layers above rely on: a ready client turns a call into one sent frame and the server's
  answer, and stays ready. It is interpreted on the client model, where a request travels
  through the pending map, the outbound queue and the inbound loop.
\<close>

section \<open>The interface\<close>

type_synonym rpc_server = "string \<Rightarrow> json \<Rightarrow> rpc_error + json"

locale rpc_service =
  fixes call :: "string \<Rightarrow> json \<Rightarrow> 's \<Rightarrow> 's \<times> (client_error + json)"
    and usable :: "'s \<Rightarrow> bool"
    and sent :: "'s \<Rightarrow> (string \<times> json) list"
    and srv :: rpc_server
  assumes call_answer: "usable s \<Longrightarrow> snd (call m p s) = map_err Rpc (srv m p)"
    and call_usable: "usable s \<Longrightarrow> usable (fst (call m p s))"
    and call_sent: "usable s \<Longrightarrow> sent (fst (call m p s)) = sent s @ [(m, p)]"
begin

definition typed :: "(json \<Rightarrow> serde_error + 'r) \<Rightarrow> string \<Rightarrow> json \<Rightarrow> 's \<Rightarrow> 's \<times> (client_error + 'r)" where
  "typed dec m p s =
     (let (t, r) = call m p s in (t, and_then r (\<lambda>raw. map_err (UnexpectedResult m) (dec raw))))"

text \<open>A typed call whose answer decodes.\<close>

lemma typed_Ok:
  assumes "usable s" "srv m p = Ok raw" "dec raw = Ok x"
  shows "\<exists>t. typed dec m p s = (t, Ok x) \<and> usable t \<and> sent t = sent s @ [(m, p)]"
proof -
  obtain t r where c: "call m p s = (t, r)" by fastforce
  with assms call_answer [of s m p] call_usable [of s m p] call_sent [of s m p] show ?thesis
    by (simp add: typed_def)
qed

lemma typed_rpc_error:
  assumes "usable s" "srv m p = Err e"
  shows "\<exists>t. typed dec m p s = (t, Err (Rpc e)) \<and> usable t \<and> sent t = sent s @ [(m, p)]"
proof -
  obtain t r where c: "call m p s = (t, r)" by fastforce
  with assms call_answer [of s m p] call_usable [of s m p] call_sent [of s m p] show ?thesis
    by (simp add: typed_def)
qed

end

section \<open>The client as a service\<close>

text \<open>The frame a server answers a request with, and the environment it makes: the server reads
  the last frame the client sent and its answer goes through the inbound loop.\<close>

definition server_frame :: "rpc_server \<Rightarrow> request_id \<Rightarrow> string \<Rightarrow> json \<Rightarrow> json" where
  "server_frame srv i m p =
     (case srv m p of Inr v \<Rightarrow> response_frame i v | Inl e \<Rightarrow> error_frame i (rpc_error_enc e))"

definition server_env :: "displays \<Rightarrow> rpc_server \<Rightarrow> env" where
  "server_env d srv i slot s =
     (case classify_incoming (last (outbound s)) of
        Inr (IncomingServerRequest j m p raw) \<Rightarrow> answer_env d (\<lambda>_. server_frame srv j m p) i slot s
      | _ \<Rightarrow> (s, TimedOutWaiting))"

definition sane_server :: "rpc_server \<Rightarrow> bool" where
  "sane_server srv \<longleftrightarrow> (\<forall>m p e. srv m p = Err e \<longrightarrow> rpc_error_wf e)"

definition usable :: "rpc_server \<Rightarrow> inner \<Rightarrow> bool" where
  "usable srv s \<longleftrightarrow>
     sane_server srv \<and> client_inv s \<and> handshake_state s = HS_Ready \<and> outbound_open s"

text \<open>The calls in a list of sent frames: methods and params of requests and notifications.\<close>

fun frame_call :: "json \<Rightarrow> (string \<times> json) option" where
  "frame_call v =
     (case classify_incoming v of
        Inr (IncomingServerRequest i m p raw) \<Rightarrow> Some (m, p)
      | Inr (IncomingNotification m p raw) \<Rightarrow> Some (m, p)
      | _ \<Rightarrow> None)"

definition sent_calls :: "inner \<Rightarrow> (string \<times> json) list" where
  "sent_calls s = List.map_filter frame_call (outbound s)"

lemma frame_call_simps [simp]:
  "frame_call (request_frame m i p) = Some (m, p)"
  "frame_call (notification_frame m p) = Some (m, p)"
  by (simp_all add: classify_request_frame classify_notification_frame)

declare frame_call.simps [simp del]

lemma server_frame_classifies:
  "sane_server srv \<Longrightarrow> classify_incoming (server_frame srv i m p) = Ok (Response i (srv m p))"
  by (auto simp: server_frame_def sane_server_def classify_response_frame classify_error_frame
      split: sum.splits)

lemma answer_env_frame:
  "frame i = frame' i \<Longrightarrow> answer_env d frame i = answer_env d frame' i"
  by (simp add: answer_env_def fun_eq_iff)

lemma server_env_answers:
  assumes "request_gate m ready s = None" "outbound_open s"
  shows "request_value_internal d (server_env d srv) m p timeout ready s =
    request_value_internal d (answer_env d (\<lambda>i. server_frame srv i m p)) m p timeout ready s"
proof -
  let ?i = "IdInteger (next_id s)"
  have "answer_env d (\<lambda>_. server_frame srv ?i m p) ?i = answer_env d (\<lambda>i. server_frame srv i m p) ?i"
    by (rule answer_env_frame) simp
  then have "server_env d srv ?i slot t = answer_env d (\<lambda>i. server_frame srv i m p) ?i slot t"
    if "outbound t = fs @ [request_frame m ?i p]" for slot t fs
    using that by (simp add: server_env_def classify_request_frame)
  then show ?thesis
    using assms by (simp add: request_value_internal_def request_begin_Ok Let_def)
qed

lemma server_request:
  assumes "sane_server srv" "request_gate m ready s = None" "outbound_open s"
  shows "request_value_internal d (server_env d srv) m p timeout ready s =
    (after_answer m p (srv m p) s, map_err Rpc (srv m p))"
proof -
  have "\<And>i. classify_incoming (server_frame srv i m p) = Ok (Response i (srv m p))"
    using assms(1) by (rule server_frame_classifies)
  from request_answered [where answer = "\<lambda>i. server_frame srv i m p", OF assms(2,3) this]
  show ?thesis by (simp add: server_env_answers [OF assms(2,3)])
qed

lemma usable_gate: "usable srv s \<Longrightarrow> request_gate m True s = None \<and> outbound_open s"
  by (simp add: usable_def request_gate_def)

interpretation served: rpc_service
  "\<lambda>m p s. request_value_internal d (server_env d srv) m p None True s" "usable srv" sent_calls srv
  for d srv
proof
  fix s m p
  assume u: "usable srv s"
  then have run: "request_value_internal d (server_env d srv) m p None True s =
      (after_answer m p (srv m p) s, map_err Rpc (srv m p))"
    by (intro server_request) (simp_all add: usable_def request_gate_def)
  show "snd (request_value_internal d (server_env d srv) m p None True s) = map_err Rpc (srv m p)"
    by (simp add: run)
  show "usable srv (fst (request_value_internal d (server_env d srv) m p None True s))"
    using u by (simp add: run usable_def after_answer_inv)
  show "sent_calls (fst (request_value_internal d (server_env d srv) m p None True s)) =
      sent_calls s @ [(m, p)]"
    by (simp add: run sent_calls_def map_filter_def)
qed

text \<open>The typed calls of the client are the typed calls of the service.\<close>

lemma rpc_typed_method_served:
  "rpc_typed_method d (server_env d srv) enc dec m x s = served.typed d srv dec m (enc x) s"
  by (simp add: rpc_typed_method_def request_typed_internal_def request_typed_value_internal_def
      served.typed_def)

section \<open>The handshake with a server\<close>

lemma served_handshake:
  assumes "sane_server srv" "client_inv s" "handshake_state s = HS_New" "outbound_open s"
    "srv METHOD_INITIALIZE (initialize_params_enc params) = Ok v"
    "initialize_result_dec v = Ok res"
  shows "\<exists>t. ensure_ready_with d id (server_env d srv) params s = (t, Ok ()) \<and> usable srv t \<and>
    sent_calls t = sent_calls s @
      [(METHOD_INITIALIZE, initialize_params_enc params), (METHOD_INITIALIZED, empty_params)] \<and>
    events t = events s"
proof -
  let ?s = "s\<lparr>handshake_state := HS_Initializing\<rparr>"
  let ?p = "initialize_params_enc params"
  let ?t = "(after_answer METHOD_INITIALIZE ?p (Ok v) ?s)\<lparr>handshake_state := HS_Ready,
    outbound := outbound (after_answer METHOD_INITIALIZE ?p (Ok v) ?s) @
      [notification_frame METHOD_INITIALIZED empty_params]\<rparr>"
  have "request_value_internal d (server_env d srv) METHOD_INITIALIZE ?p None False ?s =
      (after_answer METHOD_INITIALIZE ?p (Ok v) ?s, Ok v)"
    using server_request [OF assms(1), of METHOD_INITIALIZE False ?s d ?p None] assms(4,5)
    by (simp add: request_gate_def handshake_order)
  then have "ensure_ready_with d id (server_env d srv) params s = (?t, Ok ())"
    using assms(3,4,6)
    by (simp add: ensure_ready_with_def request_typed_internal_def handshake_order
        request_typed_value_internal_def ensure_ready_notify_def send_notification_def
        send_message_def)
  moreover have "client_inv ?t"
    using after_answer_inv [of ?s METHOD_INITIALIZE ?p "Ok v"] assms(2)
      client_inv_core [of ?t "after_answer METHOD_INITIALIZE ?p (Ok v) ?s"]
    by (simp add: core_def)
  ultimately show ?thesis
    using assms(1,4) by (simp add: usable_def sent_calls_def map_filter_def)
qed

lemma served_ready:
  "usable srv s \<Longrightarrow> ensure_ready_with d w env params s = (s, Ok ())"
  by (simp add: ensure_ready_with_def usable_def)

end
