(* ===== verification/Options.thy ===== *)
theory Options
  imports Wire_Enums Protocol_Requests
begin

text \<open>
  Thread and turn options of \<open>crates/sdk/src/api.rs\<close>: the two option structs with their
  builders (both generated there by \<open>options_builder!\<close>), the merge of per-turn overrides over
  thread defaults, and the three builders that turn options into the params of \<open>thread/start\<close>,
  \<open>thread/resume\<close> and \<open>turn/start\<close>. The properties say what the server sees: the layering of
  the sources of a setting, and that start and resume send the same settings.
\<close>

section \<open>Option values\<close>

record collaboration_mode_settings =
  settings_model :: string
  settings_reasoning_effort :: "model_reasoning_effort option"
  settings_developer_instructions :: "string option"

definition collaboration_mode_settings_new :: "string \<Rightarrow> collaboration_mode_settings" where
  "collaboration_mode_settings_new model =
     \<lparr>settings_model = model, settings_reasoning_effort = None,
      settings_developer_instructions = None\<rparr>"

definition with_reasoning_effort ::
  "model_reasoning_effort \<Rightarrow> collaboration_mode_settings \<Rightarrow> collaboration_mode_settings" where
  "with_reasoning_effort e s = s\<lparr>settings_reasoning_effort := Some e\<rparr>"

definition with_developer_instructions ::
  "string \<Rightarrow> collaboration_mode_settings \<Rightarrow> collaboration_mode_settings" where
  "with_developer_instructions t s = s\<lparr>settings_developer_instructions := Some t\<rparr>"

record collaboration_mode =
  collaboration_kind :: collaboration_mode_kind
  collaboration_settings :: collaboration_mode_settings

definition collaboration_mode_as_value :: "collaboration_mode \<Rightarrow> json" where
  "collaboration_mode_as_value c =
     (let s = collaboration_settings c;
          settings = insert_rows
            [(''model'', Some (JString (settings_model s))),
             (''reasoning_effort'',
               map_option (\<lambda>e. JString (model_reasoning_effort_as_str e)) (settings_reasoning_effort s)),
             (''developer_instructions'', map_option JString (settings_developer_instructions s))] []
      in JObject (insert_rows
            [(''mode'', Some (JString (collaboration_mode_kind_as_str (collaboration_kind c)))),
             (''settings'', Some (JObject settings))] []))"

record dynamic_tool_spec =
  tool_spec_name :: string
  tool_spec_description :: string
  tool_spec_input_schema :: json

definition dynamic_tool_spec_as_value :: "dynamic_tool_spec \<Rightarrow> json" where
  "dynamic_tool_spec_as_value t =
     JObject (insert_rows
       [(''name'', Some (JString (tool_spec_name t))),
        (''description'', Some (JString (tool_spec_description t))),
        (''inputSchema'', Some (tool_spec_input_schema t))] [])"

datatype resume_thread = Latest | ById string

datatype user_input = UI_Text string | UI_LocalImage string

datatype input = Input_Text string | Input_Items "user_input list"

section \<open>Options and builders\<close>

text \<open>
  A builder is the options struct it fills in, every field \<open>None\<close> at first; each setter sets
  one field, \<open>add_directory\<close> pushes on the list and \<open>insert_config\<close>, \<open>insert_extra\<close> insert in
  the map, made on first use.
\<close>

record thread_options =
  thread_opt_model :: "string option"
  thread_opt_model_provider :: "string option"
  thread_opt_sandbox_mode :: "sandbox_mode option"
  thread_opt_sandbox_policy :: "json option"
  thread_opt_working_directory :: "string option"
  thread_opt_skip_git_repo_check :: "bool option"
  thread_opt_model_reasoning_effort :: "model_reasoning_effort option"
  thread_opt_model_reasoning_summary :: "model_reasoning_summary option"
  thread_opt_service_tier :: "service_tier option"
  thread_opt_network_access_enabled :: "bool option"
  thread_opt_web_search_mode :: "web_search_mode option"
  thread_opt_web_search_enabled :: "bool option"
  thread_opt_approval_policy :: "approval_mode option"
  thread_opt_additional_directories :: "(string list) option"
  thread_opt_personality :: "personality option"
  thread_opt_base_instructions :: "string option"
  thread_opt_developer_instructions :: "string option"
  thread_opt_ephemeral :: "bool option"
  thread_opt_collaboration_mode :: "collaboration_mode option"
  thread_opt_config :: "jmap option"
  thread_opt_dynamic_tools :: "(dynamic_tool_spec list) option"
  thread_opt_experimental_raw_events :: "bool option"
  thread_opt_persist_extended_history :: "bool option"

definition thread_options_default :: thread_options where
  "thread_options_default =
     \<lparr>thread_opt_model = None,
      thread_opt_model_provider = None,
      thread_opt_sandbox_mode = None,
      thread_opt_sandbox_policy = None,
      thread_opt_working_directory = None,
      thread_opt_skip_git_repo_check = None,
      thread_opt_model_reasoning_effort = None,
      thread_opt_model_reasoning_summary = None,
      thread_opt_service_tier = None,
      thread_opt_network_access_enabled = None,
      thread_opt_web_search_mode = None,
      thread_opt_web_search_enabled = None,
      thread_opt_approval_policy = None,
      thread_opt_additional_directories = None,
      thread_opt_personality = None,
      thread_opt_base_instructions = None,
      thread_opt_developer_instructions = None,
      thread_opt_ephemeral = None,
      thread_opt_collaboration_mode = None,
      thread_opt_config = None,
      thread_opt_dynamic_tools = None,
      thread_opt_experimental_raw_events = None,
      thread_opt_persist_extended_history = None\<rparr>"

definition thread_opt_set_model :: "string \<Rightarrow> thread_options \<Rightarrow> thread_options" where
  "thread_opt_set_model v b = b\<lparr>thread_opt_model := Some v\<rparr>"

definition thread_opt_set_model_provider :: "string \<Rightarrow> thread_options \<Rightarrow> thread_options" where
  "thread_opt_set_model_provider v b = b\<lparr>thread_opt_model_provider := Some v\<rparr>"

definition thread_opt_set_sandbox_mode :: "sandbox_mode \<Rightarrow> thread_options \<Rightarrow> thread_options" where
  "thread_opt_set_sandbox_mode v b = b\<lparr>thread_opt_sandbox_mode := Some v\<rparr>"

definition thread_opt_set_sandbox_policy :: "json \<Rightarrow> thread_options \<Rightarrow> thread_options" where
  "thread_opt_set_sandbox_policy v b = b\<lparr>thread_opt_sandbox_policy := Some v\<rparr>"

definition thread_opt_set_working_directory :: "string \<Rightarrow> thread_options \<Rightarrow> thread_options" where
  "thread_opt_set_working_directory v b = b\<lparr>thread_opt_working_directory := Some v\<rparr>"

definition thread_opt_set_skip_git_repo_check :: "bool \<Rightarrow> thread_options \<Rightarrow> thread_options" where
  "thread_opt_set_skip_git_repo_check v b = b\<lparr>thread_opt_skip_git_repo_check := Some v\<rparr>"

definition thread_opt_set_model_reasoning_effort :: "model_reasoning_effort \<Rightarrow> thread_options \<Rightarrow> thread_options" where
  "thread_opt_set_model_reasoning_effort v b = b\<lparr>thread_opt_model_reasoning_effort := Some v\<rparr>"

definition thread_opt_set_model_reasoning_summary :: "model_reasoning_summary \<Rightarrow> thread_options \<Rightarrow> thread_options" where
  "thread_opt_set_model_reasoning_summary v b = b\<lparr>thread_opt_model_reasoning_summary := Some v\<rparr>"

definition thread_opt_set_service_tier :: "service_tier \<Rightarrow> thread_options \<Rightarrow> thread_options" where
  "thread_opt_set_service_tier v b = b\<lparr>thread_opt_service_tier := Some v\<rparr>"

definition thread_opt_set_network_access_enabled :: "bool \<Rightarrow> thread_options \<Rightarrow> thread_options" where
  "thread_opt_set_network_access_enabled v b = b\<lparr>thread_opt_network_access_enabled := Some v\<rparr>"

definition thread_opt_set_web_search_mode :: "web_search_mode \<Rightarrow> thread_options \<Rightarrow> thread_options" where
  "thread_opt_set_web_search_mode v b = b\<lparr>thread_opt_web_search_mode := Some v\<rparr>"

definition thread_opt_set_web_search_enabled :: "bool \<Rightarrow> thread_options \<Rightarrow> thread_options" where
  "thread_opt_set_web_search_enabled v b = b\<lparr>thread_opt_web_search_enabled := Some v\<rparr>"

definition thread_opt_set_approval_policy :: "approval_mode \<Rightarrow> thread_options \<Rightarrow> thread_options" where
  "thread_opt_set_approval_policy v b = b\<lparr>thread_opt_approval_policy := Some v\<rparr>"

definition thread_opt_set_additional_directories :: "string list \<Rightarrow> thread_options \<Rightarrow> thread_options" where
  "thread_opt_set_additional_directories v b = b\<lparr>thread_opt_additional_directories := Some v\<rparr>"

definition thread_opt_add_directory :: "string \<Rightarrow> thread_options \<Rightarrow> thread_options" where
  "thread_opt_add_directory entry b = b\<lparr>thread_opt_additional_directories := Some (unwrap_or (thread_opt_additional_directories b) [] @ [entry])\<rparr>"

definition thread_opt_set_personality :: "personality \<Rightarrow> thread_options \<Rightarrow> thread_options" where
  "thread_opt_set_personality v b = b\<lparr>thread_opt_personality := Some v\<rparr>"

definition thread_opt_set_base_instructions :: "string \<Rightarrow> thread_options \<Rightarrow> thread_options" where
  "thread_opt_set_base_instructions v b = b\<lparr>thread_opt_base_instructions := Some v\<rparr>"

definition thread_opt_set_developer_instructions :: "string \<Rightarrow> thread_options \<Rightarrow> thread_options" where
  "thread_opt_set_developer_instructions v b = b\<lparr>thread_opt_developer_instructions := Some v\<rparr>"

definition thread_opt_set_ephemeral :: "bool \<Rightarrow> thread_options \<Rightarrow> thread_options" where
  "thread_opt_set_ephemeral v b = b\<lparr>thread_opt_ephemeral := Some v\<rparr>"

definition thread_opt_set_collaboration_mode :: "collaboration_mode \<Rightarrow> thread_options \<Rightarrow> thread_options" where
  "thread_opt_set_collaboration_mode v b = b\<lparr>thread_opt_collaboration_mode := Some v\<rparr>"

definition thread_opt_set_config :: "jmap \<Rightarrow> thread_options \<Rightarrow> thread_options" where
  "thread_opt_set_config v b = b\<lparr>thread_opt_config := Some v\<rparr>"

definition thread_opt_insert_config :: "string \<Rightarrow> json \<Rightarrow> thread_options \<Rightarrow> thread_options" where
  "thread_opt_insert_config key v b = b\<lparr>thread_opt_config := Some (jinsert key v (unwrap_or (thread_opt_config b) []))\<rparr>"

definition thread_opt_set_dynamic_tools :: "dynamic_tool_spec list \<Rightarrow> thread_options \<Rightarrow> thread_options" where
  "thread_opt_set_dynamic_tools v b = b\<lparr>thread_opt_dynamic_tools := Some v\<rparr>"

definition thread_opt_set_experimental_raw_events :: "bool \<Rightarrow> thread_options \<Rightarrow> thread_options" where
  "thread_opt_set_experimental_raw_events v b = b\<lparr>thread_opt_experimental_raw_events := Some v\<rparr>"

definition thread_opt_set_persist_extended_history :: "bool \<Rightarrow> thread_options \<Rightarrow> thread_options" where
  "thread_opt_set_persist_extended_history v b = b\<lparr>thread_opt_persist_extended_history := Some v\<rparr>"

record turn_options =
  turn_opt_output_schema :: "json option"
  turn_opt_working_directory :: "string option"
  turn_opt_model :: "string option"
  turn_opt_model_provider :: "string option"
  turn_opt_model_reasoning_effort :: "model_reasoning_effort option"
  turn_opt_model_reasoning_summary :: "model_reasoning_summary option"
  turn_opt_service_tier :: "service_tier option"
  turn_opt_personality :: "personality option"
  turn_opt_approval_policy :: "approval_mode option"
  turn_opt_sandbox_policy :: "json option"
  turn_opt_collaboration_mode :: "collaboration_mode option"
  turn_opt_skip_git_repo_check :: "bool option"
  turn_opt_web_search_mode :: "web_search_mode option"
  turn_opt_web_search_enabled :: "bool option"
  turn_opt_network_access_enabled :: "bool option"
  turn_opt_additional_directories :: "(string list) option"
  turn_opt_extra :: "jmap option"

definition turn_options_default :: turn_options where
  "turn_options_default =
     \<lparr>turn_opt_output_schema = None,
      turn_opt_working_directory = None,
      turn_opt_model = None,
      turn_opt_model_provider = None,
      turn_opt_model_reasoning_effort = None,
      turn_opt_model_reasoning_summary = None,
      turn_opt_service_tier = None,
      turn_opt_personality = None,
      turn_opt_approval_policy = None,
      turn_opt_sandbox_policy = None,
      turn_opt_collaboration_mode = None,
      turn_opt_skip_git_repo_check = None,
      turn_opt_web_search_mode = None,
      turn_opt_web_search_enabled = None,
      turn_opt_network_access_enabled = None,
      turn_opt_additional_directories = None,
      turn_opt_extra = None\<rparr>"

definition turn_opt_set_output_schema :: "json \<Rightarrow> turn_options \<Rightarrow> turn_options" where
  "turn_opt_set_output_schema v b = b\<lparr>turn_opt_output_schema := Some v\<rparr>"

definition turn_opt_set_working_directory :: "string \<Rightarrow> turn_options \<Rightarrow> turn_options" where
  "turn_opt_set_working_directory v b = b\<lparr>turn_opt_working_directory := Some v\<rparr>"

definition turn_opt_set_model :: "string \<Rightarrow> turn_options \<Rightarrow> turn_options" where
  "turn_opt_set_model v b = b\<lparr>turn_opt_model := Some v\<rparr>"

definition turn_opt_set_model_provider :: "string \<Rightarrow> turn_options \<Rightarrow> turn_options" where
  "turn_opt_set_model_provider v b = b\<lparr>turn_opt_model_provider := Some v\<rparr>"

definition turn_opt_set_model_reasoning_effort :: "model_reasoning_effort \<Rightarrow> turn_options \<Rightarrow> turn_options" where
  "turn_opt_set_model_reasoning_effort v b = b\<lparr>turn_opt_model_reasoning_effort := Some v\<rparr>"

definition turn_opt_set_model_reasoning_summary :: "model_reasoning_summary \<Rightarrow> turn_options \<Rightarrow> turn_options" where
  "turn_opt_set_model_reasoning_summary v b = b\<lparr>turn_opt_model_reasoning_summary := Some v\<rparr>"

definition turn_opt_set_service_tier :: "service_tier \<Rightarrow> turn_options \<Rightarrow> turn_options" where
  "turn_opt_set_service_tier v b = b\<lparr>turn_opt_service_tier := Some v\<rparr>"

definition turn_opt_set_personality :: "personality \<Rightarrow> turn_options \<Rightarrow> turn_options" where
  "turn_opt_set_personality v b = b\<lparr>turn_opt_personality := Some v\<rparr>"

definition turn_opt_set_approval_policy :: "approval_mode \<Rightarrow> turn_options \<Rightarrow> turn_options" where
  "turn_opt_set_approval_policy v b = b\<lparr>turn_opt_approval_policy := Some v\<rparr>"

definition turn_opt_set_sandbox_policy :: "json \<Rightarrow> turn_options \<Rightarrow> turn_options" where
  "turn_opt_set_sandbox_policy v b = b\<lparr>turn_opt_sandbox_policy := Some v\<rparr>"

definition turn_opt_set_collaboration_mode :: "collaboration_mode \<Rightarrow> turn_options \<Rightarrow> turn_options" where
  "turn_opt_set_collaboration_mode v b = b\<lparr>turn_opt_collaboration_mode := Some v\<rparr>"

definition turn_opt_set_skip_git_repo_check :: "bool \<Rightarrow> turn_options \<Rightarrow> turn_options" where
  "turn_opt_set_skip_git_repo_check v b = b\<lparr>turn_opt_skip_git_repo_check := Some v\<rparr>"

definition turn_opt_set_web_search_mode :: "web_search_mode \<Rightarrow> turn_options \<Rightarrow> turn_options" where
  "turn_opt_set_web_search_mode v b = b\<lparr>turn_opt_web_search_mode := Some v\<rparr>"

definition turn_opt_set_web_search_enabled :: "bool \<Rightarrow> turn_options \<Rightarrow> turn_options" where
  "turn_opt_set_web_search_enabled v b = b\<lparr>turn_opt_web_search_enabled := Some v\<rparr>"

definition turn_opt_set_network_access_enabled :: "bool \<Rightarrow> turn_options \<Rightarrow> turn_options" where
  "turn_opt_set_network_access_enabled v b = b\<lparr>turn_opt_network_access_enabled := Some v\<rparr>"

definition turn_opt_set_additional_directories :: "string list \<Rightarrow> turn_options \<Rightarrow> turn_options" where
  "turn_opt_set_additional_directories v b = b\<lparr>turn_opt_additional_directories := Some v\<rparr>"

definition turn_opt_add_directory :: "string \<Rightarrow> turn_options \<Rightarrow> turn_options" where
  "turn_opt_add_directory entry b = b\<lparr>turn_opt_additional_directories := Some (unwrap_or (turn_opt_additional_directories b) [] @ [entry])\<rparr>"

definition turn_opt_set_extra :: "jmap \<Rightarrow> turn_options \<Rightarrow> turn_options" where
  "turn_opt_set_extra v b = b\<lparr>turn_opt_extra := Some v\<rparr>"

definition turn_opt_insert_extra :: "string \<Rightarrow> json \<Rightarrow> turn_options \<Rightarrow> turn_options" where
  "turn_opt_insert_extra key v b = b\<lparr>turn_opt_extra := Some (jinsert key v (unwrap_or (turn_opt_extra b) []))\<rparr>"

definition turn_opt_clear_output_schema :: "turn_options \<Rightarrow> turn_options" where
  "turn_opt_clear_output_schema b = b\<lparr>turn_opt_output_schema := None\<rparr>"

text \<open>\<open>output_schema_for\<close> takes the schema its type parameter generates.\<close>

definition turn_opt_output_schema_for :: "json \<Rightarrow> turn_options \<Rightarrow> turn_options" where
  "turn_opt_output_schema_for schema b = b\<lparr>turn_opt_output_schema := Some schema\<rparr>"

section \<open>Resolution\<close>

record resolved_options =
  resolved_model :: "string option"
  resolved_model_provider :: "string option"
  resolved_working_directory :: "string option"
  resolved_model_reasoning_effort :: "model_reasoning_effort option"
  resolved_model_reasoning_summary :: "model_reasoning_summary option"
  resolved_service_tier :: "service_tier option"
  resolved_personality :: "personality option"
  resolved_approval_policy :: "approval_mode option"
  resolved_sandbox_policy :: "json option"
  resolved_skip_git_repo_check :: "bool option"
  resolved_web_search_mode :: "web_search_mode option"
  resolved_web_search_enabled :: "bool option"
  resolved_network_access_enabled :: "bool option"
  resolved_additional_directories :: "(string list) option"
  resolved_collaboration_mode :: "collaboration_mode option"

definition resolved_from_thread :: "thread_options \<Rightarrow> resolved_options" where
  "resolved_from_thread opts =
     \<lparr>resolved_model = thread_opt_model opts,
      resolved_model_provider = thread_opt_model_provider opts,
      resolved_working_directory = thread_opt_working_directory opts,
      resolved_model_reasoning_effort = thread_opt_model_reasoning_effort opts,
      resolved_model_reasoning_summary = thread_opt_model_reasoning_summary opts,
      resolved_service_tier = thread_opt_service_tier opts,
      resolved_personality = thread_opt_personality opts,
      resolved_approval_policy = thread_opt_approval_policy opts,
      resolved_sandbox_policy = thread_opt_sandbox_policy opts,
      resolved_skip_git_repo_check = thread_opt_skip_git_repo_check opts,
      resolved_web_search_mode = thread_opt_web_search_mode opts,
      resolved_web_search_enabled = thread_opt_web_search_enabled opts,
      resolved_network_access_enabled = thread_opt_network_access_enabled opts,
      resolved_additional_directories = thread_opt_additional_directories opts,
      resolved_collaboration_mode = thread_opt_collaboration_mode opts\<rparr>"

definition resolved_merge :: "thread_options \<Rightarrow> turn_options \<Rightarrow> resolved_options" where
  "resolved_merge opts turn =
     \<lparr>resolved_model = or_opt (turn_opt_model turn) (thread_opt_model opts),
      resolved_model_provider = or_opt (turn_opt_model_provider turn) (thread_opt_model_provider opts),
      resolved_working_directory = or_opt (turn_opt_working_directory turn) (thread_opt_working_directory opts),
      resolved_model_reasoning_effort = or_opt (turn_opt_model_reasoning_effort turn) (thread_opt_model_reasoning_effort opts),
      resolved_model_reasoning_summary = or_opt (turn_opt_model_reasoning_summary turn) (thread_opt_model_reasoning_summary opts),
      resolved_service_tier = or_opt (turn_opt_service_tier turn) (thread_opt_service_tier opts),
      resolved_personality = or_opt (turn_opt_personality turn) (thread_opt_personality opts),
      resolved_approval_policy = or_opt (turn_opt_approval_policy turn) (thread_opt_approval_policy opts),
      resolved_sandbox_policy = or_opt (turn_opt_sandbox_policy turn) (thread_opt_sandbox_policy opts),
      resolved_skip_git_repo_check = or_opt (turn_opt_skip_git_repo_check turn) (thread_opt_skip_git_repo_check opts),
      resolved_web_search_mode = or_opt (turn_opt_web_search_mode turn) (thread_opt_web_search_mode opts),
      resolved_web_search_enabled = or_opt (turn_opt_web_search_enabled turn) (thread_opt_web_search_enabled opts),
      resolved_network_access_enabled = or_opt (turn_opt_network_access_enabled turn) (thread_opt_network_access_enabled opts),
      resolved_additional_directories = or_opt (turn_opt_additional_directories turn) (thread_opt_additional_directories opts),
      resolved_collaboration_mode = or_opt (turn_opt_collaboration_mode turn) (thread_opt_collaboration_mode opts)\<rparr>"

section \<open>Params\<close>

definition common_rows :: "resolved_options \<Rightarrow> field_row list" where
  "common_rows r =
     [(''serviceTier'', map_option (\<lambda>t. JString (service_tier_as_str t)) (resolved_service_tier r)),
      (''skipGitRepoCheck'', map_option JBool (resolved_skip_git_repo_check r)),
      (''webSearchMode'', map_option (\<lambda>m. JString (web_search_mode_as_str m)) (resolved_web_search_mode r)),
      (''webSearchEnabled'', map_option JBool (resolved_web_search_enabled r)),
      (''networkAccessEnabled'', map_option JBool (resolved_network_access_enabled r)),
      (''additionalDirectories'', map_option (enc_list JString) (resolved_additional_directories r)),
      (''collaborationMode'', map_option collaboration_mode_as_value (resolved_collaboration_mode r))]"

definition insert_common_extras :: "jmap \<Rightarrow> resolved_options \<Rightarrow> jmap" where
  "insert_common_extras extra r = insert_rows (common_rows r) extra"

definition dynamic_tools_value :: "dynamic_tool_spec list \<Rightarrow> json" where
  "dynamic_tools_value tools = JArray (map dynamic_tool_spec_as_value tools)"

definition build_thread_start_params :: "thread_options \<Rightarrow> thread_start_params" where
  "build_thread_start_params opts =
     (let extra = insert_rows
        [(''config'', map_option JObject (thread_opt_config opts)),
         (''dynamicTools'', map_option dynamic_tools_value (thread_opt_dynamic_tools opts)),
         (''experimentalRawEvents'', map_option JBool (thread_opt_experimental_raw_events opts)),
         (''persistExtendedHistory'', map_option JBool (thread_opt_persist_extended_history opts))]
        (insert_common_extras [] (resolved_from_thread opts))
      in \<lparr>thread_start_model = thread_opt_model opts,
          thread_start_model_provider = thread_opt_model_provider opts,
          thread_start_cwd = thread_opt_working_directory opts,
          thread_start_approval_policy = map_option approval_mode_as_str (thread_opt_approval_policy opts),
          thread_start_sandbox = map_option sandbox_mode_as_str (thread_opt_sandbox_mode opts),
          thread_start_sandbox_policy = thread_opt_sandbox_policy opts,
          thread_start_effort =
            map_option model_reasoning_effort_as_str (thread_opt_model_reasoning_effort opts),
          thread_start_summary =
            map_option model_reasoning_summary_as_str (thread_opt_model_reasoning_summary opts),
          thread_start_personality = map_option personality_as_str (thread_opt_personality opts),
          thread_start_ephemeral = thread_opt_ephemeral opts,
          thread_start_base_instructions = thread_opt_base_instructions opts,
          thread_start_developer_instructions = thread_opt_developer_instructions opts,
          thread_start_extra = extra\<rparr>)"

definition build_thread_resume_params :: "string \<Rightarrow> thread_options \<Rightarrow> thread_resume_params" where
  "build_thread_resume_params thread_id opts =
     (let extra = insert_rows
        [(''sandboxPolicy'', thread_opt_sandbox_policy opts),
         (''effort'', map_option (\<lambda>e. JString (model_reasoning_effort_as_str e))
           (thread_opt_model_reasoning_effort opts)),
         (''summary'', map_option (\<lambda>e. JString (model_reasoning_summary_as_str e))
           (thread_opt_model_reasoning_summary opts)),
         (''ephemeral'', map_option JBool (thread_opt_ephemeral opts)),
         (''dynamicTools'', map_option dynamic_tools_value (thread_opt_dynamic_tools opts)),
         (''experimentalRawEvents'', map_option JBool (thread_opt_experimental_raw_events opts))]
        (insert_common_extras [] (resolved_from_thread opts))
      in \<lparr>thread_resume_thread_id = thread_id,
          thread_resume_history = None,
          thread_resume_path = None,
          thread_resume_model = thread_opt_model opts,
          thread_resume_model_provider = thread_opt_model_provider opts,
          thread_resume_cwd = thread_opt_working_directory opts,
          thread_resume_approval_policy = map_option approval_mode_as_str (thread_opt_approval_policy opts),
          thread_resume_sandbox = map_option sandbox_mode_as_str (thread_opt_sandbox_mode opts),
          thread_resume_config = thread_opt_config opts,
          thread_resume_base_instructions = thread_opt_base_instructions opts,
          thread_resume_developer_instructions = thread_opt_developer_instructions opts,
          thread_resume_personality = map_option personality_as_str (thread_opt_personality opts),
          thread_resume_persist_extended_history = thread_opt_persist_extended_history opts,
          thread_resume_extra = extra\<rparr>)"

text \<open>The loop of \<open>normalize_input\<close> with its two vectors, newest entry last.\<close>

fun normalize_loop ::
  "user_input list \<Rightarrow> string list \<Rightarrow> turn_input_item list \<Rightarrow> string list \<times> turn_input_item list" where
  "normalize_loop [] texts items = (texts, items)"
| "normalize_loop (UI_Text t # inps) texts items = normalize_loop inps (texts @ [t]) items"
| "normalize_loop (UI_LocalImage p # inps) texts items =
     normalize_loop inps texts (items @ [TII_LocalImage p])"

fun normalize_input :: "input \<Rightarrow> turn_input_item list" where
  "normalize_input (Input_Text t) = [TII_Text t]"
| "normalize_input (Input_Items inps) =
     (let (texts, items) = normalize_loop inps [] []
      in if texts \<noteq> [] then TII_Text (join_with [lf, lf] texts) # items else items)"

definition build_turn_start_params ::
  "string \<Rightarrow> input \<Rightarrow> thread_options \<Rightarrow> turn_options \<Rightarrow> turn_start_params" where
  "build_turn_start_params thread_id inp opts turn =
     (let r = resolved_merge opts turn;
          extra0 = insert_common_extras [] r;
          extra = (case turn_opt_extra turn of Some e \<Rightarrow> jextend extra0 e | None \<Rightarrow> extra0)
      in \<lparr>turn_start_thread_id = thread_id,
          turn_start_input = normalize_input inp,
          turn_start_cwd = resolved_working_directory r,
          turn_start_model = resolved_model r,
          turn_start_model_provider = resolved_model_provider r,
          turn_start_effort = map_option model_reasoning_effort_as_str (resolved_model_reasoning_effort r),
          turn_start_summary = map_option model_reasoning_summary_as_str (resolved_model_reasoning_summary r),
          turn_start_personality = map_option personality_as_str (resolved_personality r),
          turn_start_output_schema = turn_opt_output_schema turn,
          turn_start_approval_policy = map_option approval_mode_as_str (resolved_approval_policy r),
          turn_start_sandbox_policy = resolved_sandbox_policy r,
          turn_start_extra = extra\<rparr>)"

section \<open>What the server sees\<close>

text \<open>The object a params struct becomes.\<close>

definition wire_object :: "json \<Rightarrow> jmap" where
  "wire_object v = unwrap_or (as_object v) []"

lemma jget_rows_iff:
  assumes "distinct (map fst rows)"
  shows "jget (insert_rows rows []) k = Some v \<longleftrightarrow> (k, Some v) \<in> set rows"
proof (cases "map_of rows k")
  case None
  then have "k \<notin> fst ` set rows" by (simp add: map_of_eq_None_iff)
  then show ?thesis by (force simp: insert_rows_eq jm.get_insert_all_other)
next
  case (Some ov)
  with assms have "jget (insert_rows rows []) k = ov" by (simp add: jget_insert_rows)
  with Some assms show ?thesis by (metis map_of_eq_Some_iff option.inject)
qed

lemma insert_rows_append: "insert_rows (rows @ rows') m = insert_rows rows' (insert_rows rows m)"
  by (induction rows m rule: insert_rows.induct) auto

text \<open>A struct whose \<open>extra\<close> map was itself filled from rows is one list of rows.\<close>

lemma object_of_rows:
  assumes "distinct (map fst (rows @ rows'))"
  shows "object_of rows (insert_rows rows' []) = insert_rows (rows @ rows') []"
proof (rule jmap_ext)
  fix k
  have d: "distinct (map fst rows)" "distinct (map fst rows')"
    "fst ` set rows \<inter> fst ` set rows' = {}"
    using assms by auto
  show "jget (object_of rows (insert_rows rows' [])) k = jget (insert_rows (rows @ rows') []) k"
  proof (cases "k \<in> fst ` set rows'")
    case True
    then obtain ov where ov: "map_of rows' k = Some ov"
      by (metis map_of_eq_None_iff not_None_eq)
    have none: "jget (insert_rows rows []) k = None"
      using True d(3) by (subst insert_rows_eq, subst jm.get_insert_all_other) auto
    have "jget (insert_rows (rows @ rows') []) k = ov"
      unfolding insert_rows_append using none
      by (subst insert_rows_eq) (rule jm.get_insert_all [OF d(2) ov])
    then show ?thesis
      using none jget_insert_rows [OF d(2) ov]
      by (simp add: object_of_def jget_jextend_sorted split: option.splits)
  next
    case False
    have "jget (insert_rows (rows @ rows') []) k = jget (insert_rows rows []) k"
      unfolding insert_rows_append using False
      by (subst insert_rows_eq) (rule jm.get_insert_all_other)
    moreover have "jget (insert_rows rows' []) k = None"
      using False by (simp add: insert_rows_eq jm.get_insert_all_other)
    ultimately show ?thesis by (simp add: object_of_def jget_jextend_sorted)
  qed
qed simp_all

lemma insert_rows_same:
  assumes "distinct (map fst rows)" "distinct (map fst rows')"
    "\<And>k v. (k, Some v) \<in> set rows \<longleftrightarrow> (k, Some v) \<in> set rows'"
  shows "insert_rows rows [] = insert_rows rows' []"
proof (rule jmap_ext)
  fix k
  have "jget (insert_rows rows []) k = Some v \<longleftrightarrow> jget (insert_rows rows' []) k = Some v" for v
    by (simp add: jget_rows_iff assms)
  then show "jget (insert_rows rows []) k = jget (insert_rows rows' []) k"
    by (metis not_None_eq)
qed simp_all

lemma map_option_or_opt: "map_option f (or_opt x y) = or_opt (map_option f x) (map_option f y)"
  by (cases x) auto

section \<open>Properties\<close>

text \<open>The settings both \<open>thread/start\<close> and \<open>turn/start\<close> carry, with what a turn overrides.\<close>

definition turn_override :: "turn_options \<Rightarrow> (string \<times> json option) list" where
  "turn_override turn =
     [(''model'', map_option JString (turn_opt_model turn)),
      (''modelProvider'', map_option JString (turn_opt_model_provider turn)),
      (''cwd'', map_option JString (turn_opt_working_directory turn)),
      (''effort'', map_option (\<lambda>e. JString (model_reasoning_effort_as_str e))
        (turn_opt_model_reasoning_effort turn)),
      (''summary'', map_option (\<lambda>e. JString (model_reasoning_summary_as_str e))
        (turn_opt_model_reasoning_summary turn)),
      (''personality'', map_option (\<lambda>e. JString (personality_as_str e)) (turn_opt_personality turn)),
      (''approvalPolicy'', map_option (\<lambda>e. JString (approval_mode_as_str e))
        (turn_opt_approval_policy turn)),
      (''sandboxPolicy'', turn_opt_sandbox_policy turn),
      (''serviceTier'', map_option (\<lambda>e. JString (service_tier_as_str e)) (turn_opt_service_tier turn)),
      (''skipGitRepoCheck'', map_option JBool (turn_opt_skip_git_repo_check turn)),
      (''webSearchMode'', map_option (\<lambda>e. JString (web_search_mode_as_str e))
        (turn_opt_web_search_mode turn)),
      (''webSearchEnabled'', map_option JBool (turn_opt_web_search_enabled turn)),
      (''networkAccessEnabled'', map_option JBool (turn_opt_network_access_enabled turn)),
      (''additionalDirectories'', map_option (enc_list JString) (turn_opt_additional_directories turn)),
      (''collaborationMode'', map_option collaboration_mode_as_value (turn_opt_collaboration_mode turn))]"

definition start_wire :: "thread_options \<Rightarrow> jmap" where
  "start_wire opts = wire_object (thread_start_params_enc (build_thread_start_params opts))"

definition turn_wire :: "string \<Rightarrow> input \<Rightarrow> thread_options \<Rightarrow> turn_options \<Rightarrow> jmap" where
  "turn_wire thread_id inp opts turn =
     wire_object (turn_start_params_enc (build_turn_start_params thread_id inp opts turn))"

definition resume_wire :: "string \<Rightarrow> thread_options \<Rightarrow> jmap" where
  "resume_wire thread_id opts =
     wire_object (thread_resume_params_enc (build_thread_resume_params thread_id opts))"

definition thread_start_wire_rows :: "thread_options \<Rightarrow> field_row list" where
  "thread_start_wire_rows opts =
     thread_start_params_rows (build_thread_start_params opts) @
     common_rows (resolved_from_thread opts) @
     [(''config'', map_option JObject (thread_opt_config opts)),
      (''dynamicTools'', map_option dynamic_tools_value (thread_opt_dynamic_tools opts)),
      (''experimentalRawEvents'', map_option JBool (thread_opt_experimental_raw_events opts)),
      (''persistExtendedHistory'', map_option JBool (thread_opt_persist_extended_history opts))]"

definition thread_resume_wire_rows :: "string \<Rightarrow> thread_options \<Rightarrow> field_row list" where
  "thread_resume_wire_rows thread_id opts =
     thread_resume_params_rows (build_thread_resume_params thread_id opts) @
     common_rows (resolved_from_thread opts) @
     [(''sandboxPolicy'', thread_opt_sandbox_policy opts),
      (''effort'', map_option (\<lambda>e. JString (model_reasoning_effort_as_str e))
        (thread_opt_model_reasoning_effort opts)),
      (''summary'', map_option (\<lambda>e. JString (model_reasoning_summary_as_str e))
        (thread_opt_model_reasoning_summary opts)),
      (''ephemeral'', map_option JBool (thread_opt_ephemeral opts)),
      (''dynamicTools'', map_option dynamic_tools_value (thread_opt_dynamic_tools opts)),
      (''experimentalRawEvents'', map_option JBool (thread_opt_experimental_raw_events opts))]"

definition turn_start_wire_rows :: "string \<Rightarrow> input \<Rightarrow> thread_options \<Rightarrow> turn_options \<Rightarrow> field_row list" where
  "turn_start_wire_rows thread_id inp opts turn =
     turn_start_params_rows (build_turn_start_params thread_id inp opts turn) @
     common_rows (resolved_merge opts turn)"

lemmas row_tables =
  thread_start_params_rows_def thread_resume_params_rows_def turn_start_params_rows_def
  common_rows_def build_thread_start_params_def build_thread_resume_params_def
  build_turn_start_params_def resolved_from_thread_def resolved_merge_def Let_def

lemma start_rows_eq:
  "thread_start_wire_rows opts =
     [(''model'', map_option JString (thread_opt_model opts)),
      (''modelProvider'', map_option JString (thread_opt_model_provider opts)),
      (''cwd'', map_option JString (thread_opt_working_directory opts)),
      (''approvalPolicy'', map_option (\<lambda>e. JString (approval_mode_as_str e)) (thread_opt_approval_policy opts)),
      (''sandbox'', map_option (\<lambda>e. JString (sandbox_mode_as_str e)) (thread_opt_sandbox_mode opts)),
      (''sandboxPolicy'', thread_opt_sandbox_policy opts),
      (''effort'', map_option (\<lambda>e. JString (model_reasoning_effort_as_str e)) (thread_opt_model_reasoning_effort opts)),
      (''summary'', map_option (\<lambda>e. JString (model_reasoning_summary_as_str e)) (thread_opt_model_reasoning_summary opts)),
      (''personality'', map_option (\<lambda>e. JString (personality_as_str e)) (thread_opt_personality opts)),
      (''ephemeral'', map_option JBool (thread_opt_ephemeral opts)),
      (''baseInstructions'', map_option JString (thread_opt_base_instructions opts)),
      (''developerInstructions'', map_option JString (thread_opt_developer_instructions opts)),
      (''serviceTier'', map_option (\<lambda>t. JString (service_tier_as_str t)) (thread_opt_service_tier opts)),
      (''skipGitRepoCheck'', map_option JBool (thread_opt_skip_git_repo_check opts)),
      (''webSearchMode'', map_option (\<lambda>m. JString (web_search_mode_as_str m)) (thread_opt_web_search_mode opts)),
      (''webSearchEnabled'', map_option JBool (thread_opt_web_search_enabled opts)),
      (''networkAccessEnabled'', map_option JBool (thread_opt_network_access_enabled opts)),
      (''additionalDirectories'', map_option (enc_list JString) (thread_opt_additional_directories opts)),
      (''collaborationMode'', map_option collaboration_mode_as_value (thread_opt_collaboration_mode opts)),
      (''config'', map_option JObject (thread_opt_config opts)),
      (''dynamicTools'', map_option dynamic_tools_value (thread_opt_dynamic_tools opts)),
      (''experimentalRawEvents'', map_option JBool (thread_opt_experimental_raw_events opts)),
      (''persistExtendedHistory'', map_option JBool (thread_opt_persist_extended_history opts))]"
  by (simp add: thread_start_wire_rows_def row_tables option.map_comp comp_def)

lemma resume_rows_eq:
  "thread_resume_wire_rows thread_id opts =
     [(''threadId'', Some (JString thread_id)),
      (''history'', None), (''path'', None),
      (''model'', map_option JString (thread_opt_model opts)),
      (''modelProvider'', map_option JString (thread_opt_model_provider opts)),
      (''cwd'', map_option JString (thread_opt_working_directory opts)),
      (''approvalPolicy'', map_option (\<lambda>e. JString (approval_mode_as_str e)) (thread_opt_approval_policy opts)),
      (''sandbox'', map_option (\<lambda>e. JString (sandbox_mode_as_str e)) (thread_opt_sandbox_mode opts)),
      (''config'', map_option JObject (thread_opt_config opts)),
      (''baseInstructions'', map_option JString (thread_opt_base_instructions opts)),
      (''developerInstructions'', map_option JString (thread_opt_developer_instructions opts)),
      (''personality'', map_option (\<lambda>e. JString (personality_as_str e)) (thread_opt_personality opts)),
      (''persistExtendedHistory'', map_option JBool (thread_opt_persist_extended_history opts)),
      (''serviceTier'', map_option (\<lambda>t. JString (service_tier_as_str t)) (thread_opt_service_tier opts)),
      (''skipGitRepoCheck'', map_option JBool (thread_opt_skip_git_repo_check opts)),
      (''webSearchMode'', map_option (\<lambda>m. JString (web_search_mode_as_str m)) (thread_opt_web_search_mode opts)),
      (''webSearchEnabled'', map_option JBool (thread_opt_web_search_enabled opts)),
      (''networkAccessEnabled'', map_option JBool (thread_opt_network_access_enabled opts)),
      (''additionalDirectories'', map_option (enc_list JString) (thread_opt_additional_directories opts)),
      (''collaborationMode'', map_option collaboration_mode_as_value (thread_opt_collaboration_mode opts)),
      (''sandboxPolicy'', thread_opt_sandbox_policy opts),
      (''effort'', map_option (\<lambda>e. JString (model_reasoning_effort_as_str e)) (thread_opt_model_reasoning_effort opts)),
      (''summary'', map_option (\<lambda>e. JString (model_reasoning_summary_as_str e)) (thread_opt_model_reasoning_summary opts)),
      (''ephemeral'', map_option JBool (thread_opt_ephemeral opts)),
      (''dynamicTools'', map_option dynamic_tools_value (thread_opt_dynamic_tools opts)),
      (''experimentalRawEvents'', map_option JBool (thread_opt_experimental_raw_events opts))]"
  by (simp add: thread_resume_wire_rows_def row_tables option.map_comp comp_def)

lemma turn_rows_eq:
  "turn_start_wire_rows thread_id inp opts turn =
     [(''threadId'', Some (JString thread_id)),
      (''input'', Some (enc_list turn_input_item_enc (normalize_input inp))),
      (''cwd'', map_option JString (or_opt (turn_opt_working_directory turn) (thread_opt_working_directory opts))),
      (''model'', map_option JString (or_opt (turn_opt_model turn) (thread_opt_model opts))),
      (''modelProvider'', map_option JString (or_opt (turn_opt_model_provider turn) (thread_opt_model_provider opts))),
      (''effort'', map_option (\<lambda>e. JString (model_reasoning_effort_as_str e)) (or_opt (turn_opt_model_reasoning_effort turn) (thread_opt_model_reasoning_effort opts))),
      (''summary'', map_option (\<lambda>e. JString (model_reasoning_summary_as_str e)) (or_opt (turn_opt_model_reasoning_summary turn) (thread_opt_model_reasoning_summary opts))),
      (''personality'', map_option (\<lambda>e. JString (personality_as_str e)) (or_opt (turn_opt_personality turn) (thread_opt_personality opts))),
      (''outputSchema'', turn_opt_output_schema turn),
      (''approvalPolicy'', map_option (\<lambda>e. JString (approval_mode_as_str e)) (or_opt (turn_opt_approval_policy turn) (thread_opt_approval_policy opts))),
      (''sandboxPolicy'', or_opt (turn_opt_sandbox_policy turn) (thread_opt_sandbox_policy opts)),
      (''serviceTier'', map_option (\<lambda>t. JString (service_tier_as_str t)) (or_opt (turn_opt_service_tier turn) (thread_opt_service_tier opts))),
      (''skipGitRepoCheck'', map_option JBool (or_opt (turn_opt_skip_git_repo_check turn) (thread_opt_skip_git_repo_check opts))),
      (''webSearchMode'', map_option (\<lambda>m. JString (web_search_mode_as_str m)) (or_opt (turn_opt_web_search_mode turn) (thread_opt_web_search_mode opts))),
      (''webSearchEnabled'', map_option JBool (or_opt (turn_opt_web_search_enabled turn) (thread_opt_web_search_enabled opts))),
      (''networkAccessEnabled'', map_option JBool (or_opt (turn_opt_network_access_enabled turn) (thread_opt_network_access_enabled opts))),
      (''additionalDirectories'', map_option (enc_list JString) (or_opt (turn_opt_additional_directories turn) (thread_opt_additional_directories opts))),
      (''collaborationMode'', map_option collaboration_mode_as_value (or_opt (turn_opt_collaboration_mode turn) (thread_opt_collaboration_mode opts)))]"
  by (simp add: turn_start_wire_rows_def row_tables option.map_comp comp_def)

lemma start_rows_distinct: "distinct (map fst (thread_start_wire_rows opts))"
  by (simp add: start_rows_eq)

lemma resume_rows_distinct: "distinct (map fst (thread_resume_wire_rows thread_id opts))"
  by (simp add: resume_rows_eq)

lemma turn_rows_distinct: "distinct (map fst (turn_start_wire_rows thread_id inp opts turn))"
  by (simp add: turn_rows_eq)

lemma start_wire_rows: "start_wire opts = insert_rows (thread_start_wire_rows opts) []"
proof -
  have "thread_start_extra (build_thread_start_params opts) =
    insert_rows (common_rows (resolved_from_thread opts) @
     [(''config'', map_option JObject (thread_opt_config opts)),
      (''dynamicTools'', map_option dynamic_tools_value (thread_opt_dynamic_tools opts)),
      (''experimentalRawEvents'', map_option JBool (thread_opt_experimental_raw_events opts)),
      (''persistExtendedHistory'', map_option JBool (thread_opt_persist_extended_history opts))]) []"
    by (simp add: build_thread_start_params_def insert_common_extras_def Let_def insert_rows_append)
  then show ?thesis
    using object_of_rows [OF start_rows_distinct [unfolded thread_start_wire_rows_def], of opts]
    by (simp add: start_wire_def wire_object_def thread_start_params_enc_def thread_start_wire_rows_def)
qed

lemma resume_wire_rows: "resume_wire thread_id opts = insert_rows (thread_resume_wire_rows thread_id opts) []"
proof -
  have "thread_resume_extra (build_thread_resume_params thread_id opts) =
    insert_rows (common_rows (resolved_from_thread opts) @
     [(''sandboxPolicy'', thread_opt_sandbox_policy opts),
      (''effort'', map_option (\<lambda>e. JString (model_reasoning_effort_as_str e))
        (thread_opt_model_reasoning_effort opts)),
      (''summary'', map_option (\<lambda>e. JString (model_reasoning_summary_as_str e))
        (thread_opt_model_reasoning_summary opts)),
      (''ephemeral'', map_option JBool (thread_opt_ephemeral opts)),
      (''dynamicTools'', map_option dynamic_tools_value (thread_opt_dynamic_tools opts)),
      (''experimentalRawEvents'', map_option JBool (thread_opt_experimental_raw_events opts))]) []"
    by (simp add: build_thread_resume_params_def insert_common_extras_def Let_def insert_rows_append)
  then show ?thesis
    using object_of_rows [OF resume_rows_distinct [unfolded thread_resume_wire_rows_def], of thread_id opts]
    by (simp add: resume_wire_def wire_object_def thread_resume_params_enc_def thread_resume_wire_rows_def)
qed

text \<open>
  C38: \<open>thread/start\<close> and \<open>thread/resume\<close> send the same settings: the resume params are the start
  params of the same options with the \<open>threadId\<close> added, although the two structs keep them in
  different fields and in \<open>extra\<close>.
\<close>

theorem resume_is_start_plus_id:
  "resume_wire thread_id opts = jinsert ''threadId'' (JString thread_id) (start_wire opts)"
proof -
  have "distinct (map fst (thread_start_wire_rows opts @ [(''threadId'', Some (JString thread_id))]))"
    by (simp add: start_rows_eq)
  moreover have "set (thread_resume_wire_rows thread_id opts) =
    set ([(''history'', None), (''path'', None)] @ thread_start_wire_rows opts @
      [(''threadId'', Some (JString thread_id))])"
    by (simp add: resume_rows_eq start_rows_eq insert_commute)
  then have "(k, Some v) \<in> set (thread_resume_wire_rows thread_id opts) \<longleftrightarrow>
    (k, Some v) \<in> set (thread_start_wire_rows opts @ [(''threadId'', Some (JString thread_id))])" for k v
    by simp
  ultimately have "insert_rows (thread_resume_wire_rows thread_id opts) [] =
    insert_rows (thread_start_wire_rows opts @ [(''threadId'', Some (JString thread_id))]) []"
    by (intro insert_rows_same resume_rows_distinct)
  then show ?thesis by (simp add: resume_wire_rows start_wire_rows insert_rows_append)
qed

lemma turn_rows_lookup:
  "list_all (\<lambda>k. map_of (turn_start_wire_rows thread_id inp opts turn) k =
       Some (or_opt (the (map_of (turn_override turn) k)) (the (map_of (thread_start_wire_rows opts) k))) \<and>
     map_of (thread_start_wire_rows opts) k \<noteq> None) (map fst (turn_override turn))"
  by (simp add: turn_override_def turn_rows_eq start_rows_eq map_option_or_opt)

lemma turn_wire_rows:
  "turn_wire thread_id inp opts turn =
     jextend (insert_rows (turn_start_wire_rows thread_id inp opts turn) []) (unwrap_or (turn_opt_extra turn) [])"
  if "jsorted (unwrap_or (turn_opt_extra turn) [])"
proof -
  let ?c = "insert_rows (common_rows (resolved_merge opts turn)) []"
  let ?f = "turn_start_params_rows (build_turn_start_params thread_id inp opts turn)"
  let ?e = "unwrap_or (turn_opt_extra turn) []"
  have e: "turn_start_extra (build_turn_start_params thread_id inp opts turn) = jextend ?c ?e"
    by (cases "turn_opt_extra turn")
      (simp_all add: build_turn_start_params_def insert_common_extras_def Let_def)
  have "object_of ?f (jextend ?c ?e) = jextend (object_of ?f ?c) ?e"
    using that
    by (intro jmap_ext) (auto simp: object_of_def jget_jextend_sorted split: option.splits)
  moreover have "object_of ?f ?c = insert_rows (turn_start_wire_rows thread_id inp opts turn) []"
    using object_of_rows [OF turn_rows_distinct [unfolded turn_start_wire_rows_def]]
    by (simp add: turn_start_wire_rows_def)
  ultimately show ?thesis
    by (simp add: turn_wire_def wire_object_def turn_start_params_enc_def e)
qed

text \<open>
  C11: the layering of turn settings: each of the fifteen settings a turn shares with its thread
  is on the wire as the entry of the turn's \<open>extra\<close> map if it has one, else as the turn's own
  option, else exactly as \<open>thread/start\<close> of the thread options sends it.
\<close>

theorem turn_setting_precedence:
  assumes "jsorted (unwrap_or (turn_opt_extra turn) [])" "k \<in> fst ` set (turn_override turn)"
  shows "jget (turn_wire thread_id inp opts turn) k =
    or_opt (jget (unwrap_or (turn_opt_extra turn) []) k)
      (or_opt (the (map_of (turn_override turn) k)) (jget (start_wire opts) k))"
proof -
  have "jget (insert_rows (turn_start_wire_rows thread_id inp opts turn) []) k =
    or_opt (the (map_of (turn_override turn) k)) (jget (start_wire opts) k)"
    using turn_rows_lookup [of thread_id inp opts turn] assms(2)
    by (auto simp: start_wire_rows list_all_iff jget_insert_rows [OF turn_rows_distinct]
        jget_insert_rows [OF start_rows_distinct])
  then show ?thesis
    using assms(1) by (simp add: turn_wire_rows jget_jextend_sorted split: option.splits)
qed

theorem turn_setting_precedence_witness:
  "jget (turn_wire ''t'' (Input_Text ''hi'') (thread_opt_set_model ''gpt-5'' thread_options_default)
     turn_options_default) ''model'' = Some (JString ''gpt-5'')"
proof -
  have "jsorted (unwrap_or (turn_opt_extra turn_options_default) [])"
    by (simp add: turn_options_default_def)
  moreover have "''model'' \<in> fst ` set (turn_override turn_options_default)"
    by (simp add: turn_override_def)
  ultimately have "jget (turn_wire ''t'' (Input_Text ''hi'')
      (thread_opt_set_model ''gpt-5'' thread_options_default) turn_options_default) ''model'' =
    jget (start_wire (thread_opt_set_model ''gpt-5'' thread_options_default)) ''model''"
    using turn_setting_precedence [of turn_options_default "''model''"]
    by (simp add: turn_options_default_def turn_override_def)
  also have "\<dots> = Some (JString ''gpt-5'')"
    unfolding start_wire_rows
    by (simp add: jget_insert_rows [OF start_rows_distinct] start_rows_eq
        thread_opt_set_model_def thread_options_default_def jget_Cons)
  finally show ?thesis .
qed

definition text_parts :: "user_input list \<Rightarrow> string list" where
  "text_parts inps = concat (map (\<lambda>i. case i of UI_Text t \<Rightarrow> [t] | UI_LocalImage _ \<Rightarrow> []) inps)"

definition image_parts :: "user_input list \<Rightarrow> turn_input_item list" where
  "image_parts inps =
     concat (map (\<lambda>i. case i of UI_Text _ \<Rightarrow> [] | UI_LocalImage p \<Rightarrow> [TII_LocalImage p]) inps)"

lemma normalize_loop_parts:
  "normalize_loop inps texts items = (texts @ text_parts inps, items @ image_parts inps)"
  by (induction inps texts items rule: normalize_loop.induct)
    (simp_all add: text_parts_def image_parts_def)

text \<open>
  Input normalization: the text parts of an item list become one text item at the front,
  joined by blank lines, and the images follow in their order; a list without text sends only
  its images.
\<close>

theorem normalize_input_layout:
  "normalize_input (Input_Items inps) =
     (if text_parts inps = [] then [] else [TII_Text (join_with [lf, lf] (text_parts inps))])
     @ image_parts inps"
  by (simp add: normalize_loop_parts)

end
