(* ===== verification/Items.thy ===== *)
theory Items
  imports Wire_Enums
begin

text \<open>
  Thread items and token usage of \<open>crates/sdk/src/api.rs\<close>: the item types, \<open>parse_thread_item\<close>
  with its helpers, and the usage parser. Every missing or ill-typed field has a default, so
  parsing is total; the properties say which inputs are \<open>Unknown\<close>, where the identifier of an
  item comes from and what happens to numbers that do not fit.
\<close>

section \<open>Item types\<close>

record thread_error =
  thread_error_message :: string

record agent_message_item =
  agent_message_id :: string
  agent_message_text :: string
  agent_message_phase :: "agent_message_phase option"

definition is_final_answer :: "agent_message_item \<Rightarrow> bool" where
  "is_final_answer m = (agent_message_phase m = Some AMP_FinalAnswer)"

datatype user_message_content_item =
    UMC_Text string
  | UMC_Image string
  | UMC_LocalImage string
  | UMC_Unknown json

record user_message_item =
  user_message_id :: string
  user_message_content :: "user_message_content_item list"

record plan_item =
  plan_id :: string
  plan_text :: string

record reasoning_item =
  reasoning_id :: string
  reasoning_text :: string

record command_execution_item =
  command_id :: string
  command_command :: string
  command_aggregated_output :: string
  command_exit_code :: "i32 option"
  command_status :: command_execution_status

record file_update_change =
  change_path :: string
  change_kind :: patch_change_kind

record file_change_item =
  file_change_id :: string
  file_change_changes :: "file_update_change list"
  file_change_status :: patch_apply_status

record mcp_tool_call_item =
  mcp_call_id :: string
  mcp_call_server :: string
  mcp_call_tool :: string
  mcp_call_arguments :: json
  mcp_call_result :: "json option"
  mcp_call_error :: "thread_error option"
  mcp_call_status :: mcp_tool_call_status

record dynamic_tool_call_item =
  dynamic_call_id :: string
  dynamic_call_tool :: string
  dynamic_call_arguments :: json
  dynamic_call_status :: string
  dynamic_call_content_items :: "json list"
  dynamic_call_success :: "bool option"
  dynamic_call_duration_ms :: "u64 option"

record collab_tool_call_item =
  collab_call_id :: string
  collab_call_tool :: string
  collab_call_status :: string
  collab_call_sender_thread_id :: string
  collab_call_receiver_thread_id :: "string option"
  collab_call_new_thread_id :: "string option"
  collab_call_prompt :: "string option"
  collab_call_agent_status :: "string option"

record web_search_item =
  web_search_id :: string
  web_search_query :: string

record image_view_item =
  image_view_id :: string
  image_view_path :: string

record review_mode_item =
  review_mode_id :: string
  review_mode_review :: string

record context_compaction_item =
  context_compaction_id :: string

record todo_item =
  todo_text :: string
  todo_completed :: bool

record todo_list_item =
  todo_list_id :: string
  todo_list_items :: "todo_item list"

record error_item =
  error_item_id :: string
  error_item_message :: string

record unknown_item =
  unknown_id :: "string option"
  unknown_item_type :: "string option"
  unknown_raw :: json

datatype thread_item =
    TI_AgentMessage agent_message_item
  | TI_UserMessage user_message_item
  | TI_Plan plan_item
  | TI_Reasoning reasoning_item
  | TI_CommandExecution command_execution_item
  | TI_FileChange file_change_item
  | TI_McpToolCall mcp_tool_call_item
  | TI_DynamicToolCall dynamic_tool_call_item
  | TI_CollabToolCall collab_tool_call_item
  | TI_WebSearch web_search_item
  | TI_ImageView image_view_item
  | TI_EnteredReviewMode review_mode_item
  | TI_ExitedReviewMode review_mode_item
  | TI_ContextCompaction context_compaction_item
  | TI_TodoList todo_list_item
  | TI_Error error_item
  | TI_Unknown unknown_item

section \<open>Reading fields\<close>

text \<open>The accessor chains of the parser: a field of a type, if it is there and has it.\<close>

definition field_with :: "(json \<Rightarrow> 'a option) \<Rightarrow> jmap \<Rightarrow> string \<Rightarrow> 'a option" where
  "field_with f m k = Option.bind (jget m k) f"

definition str_field :: "jmap \<Rightarrow> string \<Rightarrow> string" where
  "str_field m k = unwrap_or (field_with as_str m k) []"

definition str_items :: "jmap \<Rightarrow> string \<Rightarrow> string list" where
  "str_items m k =
     (case field_with as_array m k of
        Some vs \<Rightarrow> List.map_filter as_str vs
      | None \<Rightarrow> [])"

definition parse_reasoning_text :: "jmap \<Rightarrow> string" where
  "parse_reasoning_text m =
     (case field_with as_str m ''text'' of
        Some t \<Rightarrow> t
      | None \<Rightarrow>
          (let summary = join_with [lf] (str_items m ''summary'');
               content = join_with [lf] (str_items m ''content'')
           in if summary = [] then content
              else if content = [] then summary
              else summary @ [lf] @ content))"

definition parse_user_message_content_item :: "json \<Rightarrow> user_message_content_item" where
  "parse_user_message_content_item v =
     (case as_object v of
        None \<Rightarrow> UMC_Unknown v
      | Some m \<Rightarrow>
          (case field_with as_str m ''type'' of
             Some t \<Rightarrow>
               if t = ''text'' then UMC_Text (str_field m ''text'')
               else if t = ''image'' then UMC_Image (str_field m ''url'')
               else if t = ''localImage'' then UMC_LocalImage (str_field m ''path'')
               else UMC_Unknown v
           | None \<Rightarrow> UMC_Unknown v))"

definition parse_file_update_change :: "json \<Rightarrow> file_update_change option" where
  "parse_file_update_change v =
     (case as_object v of
        None \<Rightarrow> None
      | Some m \<Rightarrow> Some
          \<lparr>change_path = str_field m ''path'',
           change_kind =
             (case jget m ''kind'' of
                Some (JString k) \<Rightarrow> parse_patch_change_kind k
              | Some (JObject ko) \<Rightarrow>
                  (case field_with as_str ko ''type'' of
                     Some k \<Rightarrow> parse_patch_change_kind k
                   | None \<Rightarrow> PCK_Unknown)
              | _ \<Rightarrow> PCK_Unknown)\<rparr>)"

definition parse_todo_item :: "json \<Rightarrow> todo_item option" where
  "parse_todo_item v =
     (case as_object v of
        None \<Rightarrow> None
      | Some m \<Rightarrow> Some
          \<lparr>todo_text = str_field m ''text'',
           todo_completed = unwrap_or (field_with as_bool m ''completed'') False\<rparr>)"

text \<open>\<open>value as i32\<close> keeps the low 32 bits.\<close>

definition i64_as_i32 :: "i64 \<Rightarrow> i32" where
  "i64_as_i32 n = ucast n"

section \<open>The item parser\<close>

definition parse_agent_message :: "string \<Rightarrow> jmap \<Rightarrow> agent_message_item" where
  "parse_agent_message i m =
     \<lparr>agent_message_id = i, agent_message_text = str_field m ''text'',
      agent_message_phase = map_option parse_agent_message_phase (field_with as_str m ''phase'')\<rparr>"

definition parse_user_message :: "string \<Rightarrow> jmap \<Rightarrow> user_message_item" where
  "parse_user_message i m =
     \<lparr>user_message_id = i,
      user_message_content =
        (case field_with as_array m ''content'' of
           Some vs \<Rightarrow> map parse_user_message_content_item vs
         | None \<Rightarrow> [])\<rparr>"

definition parse_command_execution :: "string \<Rightarrow> jmap \<Rightarrow> command_execution_item" where
  "parse_command_execution i m =
     \<lparr>command_id = i, command_command = str_field m ''command'',
      command_aggregated_output = str_field m ''aggregatedOutput'',
      command_exit_code = map_option i64_as_i32 (field_with as_i64 m ''exitCode''),
      command_status = parse_command_execution_status (str_field m ''status'')\<rparr>"

definition parse_file_change :: "string \<Rightarrow> jmap \<Rightarrow> file_change_item" where
  "parse_file_change i m =
     \<lparr>file_change_id = i,
      file_change_changes =
        (case field_with as_array m ''changes'' of
           Some vs \<Rightarrow> List.map_filter parse_file_update_change vs
         | None \<Rightarrow> []),
      file_change_status = parse_patch_apply_status (str_field m ''status'')\<rparr>"

definition parse_mcp_tool_call :: "string \<Rightarrow> jmap \<Rightarrow> mcp_tool_call_item" where
  "parse_mcp_tool_call i m =
     \<lparr>mcp_call_id = i, mcp_call_server = str_field m ''server'', mcp_call_tool = str_field m ''tool'',
      mcp_call_arguments = unwrap_or (jget m ''arguments'') JNull,
      mcp_call_result = jget m ''result'',
      mcp_call_error =
        map_option (\<lambda>t. \<lparr>thread_error_message = t\<rparr>)
          (Option.bind (field_with as_object m ''error'') (\<lambda>e. field_with as_str e ''message'')),
      mcp_call_status = parse_mcp_tool_call_status (str_field m ''status'')\<rparr>"

definition parse_dynamic_tool_call :: "string \<Rightarrow> jmap \<Rightarrow> dynamic_tool_call_item" where
  "parse_dynamic_tool_call i m =
     \<lparr>dynamic_call_id = i, dynamic_call_tool = str_field m ''tool'',
      dynamic_call_arguments = unwrap_or (jget m ''arguments'') JNull,
      dynamic_call_status = str_field m ''status'',
      dynamic_call_content_items = unwrap_or (field_with as_array m ''contentItems'') [],
      dynamic_call_success = field_with as_bool m ''success'',
      dynamic_call_duration_ms = field_with as_u64 m ''durationMs''\<rparr>"

definition parse_collab_tool_call :: "string \<Rightarrow> jmap \<Rightarrow> collab_tool_call_item" where
  "parse_collab_tool_call i m =
     \<lparr>collab_call_id = i, collab_call_tool = str_field m ''tool'',
      collab_call_status = str_field m ''status'',
      collab_call_sender_thread_id = str_field m ''senderThreadId'',
      collab_call_receiver_thread_id = field_with as_str m ''receiverThreadId'',
      collab_call_new_thread_id = field_with as_str m ''newThreadId'',
      collab_call_prompt = field_with as_str m ''prompt'',
      collab_call_agent_status = field_with as_str m ''agentStatus''\<rparr>"

definition parse_todo_list :: "string \<Rightarrow> jmap \<Rightarrow> todo_list_item" where
  "parse_todo_list i m =
     \<lparr>todo_list_id = i,
      todo_list_items =
        (case field_with as_array m ''items'' of
           Some vs \<Rightarrow> List.map_filter parse_todo_item vs
         | None \<Rightarrow> [])\<rparr>"

text \<open>The sixteen known item types with the parser of each; \<open>i\<close> is the item's id, or empty.\<close>

definition item_parsers :: "(string \<times> (string \<Rightarrow> jmap \<Rightarrow> thread_item)) list" where
  "item_parsers =
     [(''agentMessage'', \<lambda>i m. TI_AgentMessage (parse_agent_message i m)),
      (''userMessage'', \<lambda>i m. TI_UserMessage (parse_user_message i m)),
      (''plan'', \<lambda>i m. TI_Plan \<lparr>plan_id = i, plan_text = str_field m ''text''\<rparr>),
      (''reasoning'', \<lambda>i m. TI_Reasoning
         \<lparr>reasoning_id = i, reasoning_text = parse_reasoning_text m\<rparr>),
      (''commandExecution'', \<lambda>i m. TI_CommandExecution (parse_command_execution i m)),
      (''fileChange'', \<lambda>i m. TI_FileChange (parse_file_change i m)),
      (''mcpToolCall'', \<lambda>i m. TI_McpToolCall (parse_mcp_tool_call i m)),
      (''dynamicToolCall'', \<lambda>i m. TI_DynamicToolCall (parse_dynamic_tool_call i m)),
      (''collabToolCall'', \<lambda>i m. TI_CollabToolCall (parse_collab_tool_call i m)),
      (''webSearch'', \<lambda>i m. TI_WebSearch
         \<lparr>web_search_id = i, web_search_query = str_field m ''query''\<rparr>),
      (''imageView'', \<lambda>i m. TI_ImageView
         \<lparr>image_view_id = i, image_view_path = str_field m ''path''\<rparr>),
      (''enteredReviewMode'', \<lambda>i m. TI_EnteredReviewMode
         \<lparr>review_mode_id = i, review_mode_review = str_field m ''review''\<rparr>),
      (''exitedReviewMode'', \<lambda>i m. TI_ExitedReviewMode
         \<lparr>review_mode_id = i, review_mode_review = str_field m ''review''\<rparr>),
      (''contextCompaction'', \<lambda>i m. TI_ContextCompaction \<lparr>context_compaction_id = i\<rparr>),
      (''todoList'', \<lambda>i m. TI_TodoList (parse_todo_list i m)),
      (''error'', \<lambda>i m. TI_Error
         \<lparr>error_item_id = i, error_item_message = str_field m ''message''\<rparr>)]"

definition parse_thread_item :: "json \<Rightarrow> thread_item" where
  "parse_thread_item v =
     (case as_object v of
        None \<Rightarrow> TI_Unknown \<lparr>unknown_id = None, unknown_item_type = None, unknown_raw = v\<rparr>
      | Some m \<Rightarrow>
          (let item_type = field_with as_str m ''type'';
               i = field_with as_str m ''id''
           in case Option.bind item_type (map_of item_parsers) of
                Some p \<Rightarrow> p (unwrap_or i []) m
              | None \<Rightarrow> TI_Unknown
                  \<lparr>unknown_id = i, unknown_item_type = item_type, unknown_raw = v\<rparr>))"

section \<open>Token usage\<close>

record usage =
  usage_input_tokens :: i64
  usage_cached_input_tokens :: i64
  usage_output_tokens :: i64

lemma jget_size: "jget m k = Some v \<Longrightarrow> size v < size (JObject m)"
proof -
  assume "jget m k = Some v"
  then have "(k, v) \<in> set m" by (simp add: jget_def map_of_SomeD)
  then have "size v < size_list (\<lambda>p. size_prod (\<lambda>x. 0) size p) m"
    by (induction m) auto
  then show ?thesis by simp
qed

function parse_usage_from_value :: "json \<Rightarrow> usage option" where
  "parse_usage_from_value v =
     (case v of
        JObject m \<Rightarrow>
          (case jget m ''last'' of
             Some l \<Rightarrow> parse_usage_from_value l
           | None \<Rightarrow>
               Option.bind (field_with as_i64 m ''inputTokens'') (\<lambda>inp.
                 Option.bind (field_with as_i64 m ''outputTokens'') (\<lambda>out. Some
                   \<lparr>usage_input_tokens = inp,
                    usage_cached_input_tokens = unwrap_or (field_with as_i64 m ''cachedInputTokens'') 0,
                    usage_output_tokens = out\<rparr>)))
      | _ \<Rightarrow> None)"
  by pat_completeness auto
termination
  by (relation "measure size") (auto dest: jget_size)

declare parse_usage_from_value.simps [simp del]

definition parse_usage_from_turn_extra :: "jmap \<Rightarrow> usage option" where
  "parse_usage_from_turn_extra m =
     or_opt (field_with parse_usage_from_value m ''usage'')
       (field_with parse_usage_from_value m ''tokenUsage'')"

section \<open>Properties\<close>

text \<open>The wire type and the id an item shows.\<close>

fun item_type_of :: "thread_item \<Rightarrow> string option" where
  "item_type_of (TI_AgentMessage x) = Some ''agentMessage''"
| "item_type_of (TI_UserMessage x) = Some ''userMessage''"
| "item_type_of (TI_Plan x) = Some ''plan''"
| "item_type_of (TI_Reasoning x) = Some ''reasoning''"
| "item_type_of (TI_CommandExecution x) = Some ''commandExecution''"
| "item_type_of (TI_FileChange x) = Some ''fileChange''"
| "item_type_of (TI_McpToolCall x) = Some ''mcpToolCall''"
| "item_type_of (TI_DynamicToolCall x) = Some ''dynamicToolCall''"
| "item_type_of (TI_CollabToolCall x) = Some ''collabToolCall''"
| "item_type_of (TI_WebSearch x) = Some ''webSearch''"
| "item_type_of (TI_ImageView x) = Some ''imageView''"
| "item_type_of (TI_EnteredReviewMode x) = Some ''enteredReviewMode''"
| "item_type_of (TI_ExitedReviewMode x) = Some ''exitedReviewMode''"
| "item_type_of (TI_ContextCompaction x) = Some ''contextCompaction''"
| "item_type_of (TI_TodoList x) = Some ''todoList''"
| "item_type_of (TI_Error x) = Some ''error''"
| "item_type_of (TI_Unknown x) = unknown_item_type x"

fun item_id_or_empty :: "thread_item \<Rightarrow> string" where
  "item_id_or_empty (TI_AgentMessage x) = agent_message_id x"
| "item_id_or_empty (TI_UserMessage x) = user_message_id x"
| "item_id_or_empty (TI_Plan x) = plan_id x"
| "item_id_or_empty (TI_Reasoning x) = reasoning_id x"
| "item_id_or_empty (TI_CommandExecution x) = command_id x"
| "item_id_or_empty (TI_FileChange x) = file_change_id x"
| "item_id_or_empty (TI_McpToolCall x) = mcp_call_id x"
| "item_id_or_empty (TI_DynamicToolCall x) = dynamic_call_id x"
| "item_id_or_empty (TI_CollabToolCall x) = collab_call_id x"
| "item_id_or_empty (TI_WebSearch x) = web_search_id x"
| "item_id_or_empty (TI_ImageView x) = image_view_id x"
| "item_id_or_empty (TI_EnteredReviewMode x) = review_mode_id x"
| "item_id_or_empty (TI_ExitedReviewMode x) = review_mode_id x"
| "item_id_or_empty (TI_ContextCompaction x) = context_compaction_id x"
| "item_id_or_empty (TI_TodoList x) = todo_list_id x"
| "item_id_or_empty (TI_Error x) = error_item_id x"
| "item_id_or_empty (TI_Unknown x) = unwrap_or (unknown_id x) []"

lemmas item_parser_defs =
  parse_agent_message_def parse_user_message_def parse_command_execution_def
  parse_file_change_def parse_mcp_tool_call_def parse_dynamic_tool_call_def
  parse_collab_tool_call_def parse_todo_list_def

lemma item_parsers_shape:
  assumes "map_of item_parsers t = Some p"
  shows "item_type_of (p i m) = Some t \<and> item_id_or_empty (p i m) = i \<and>
    (\<forall>u. p i m \<noteq> TI_Unknown u)"
  using assms by (auto simp: item_parsers_def item_parser_defs split: if_splits)

text \<open>
  C30: parsing an item loses neither its type nor its id: the item shows the \<open>type\<close> and \<open>id\<close>
  strings of the JSON object, an item is \<open>Unknown\<close> exactly when its type is not one of the
  sixteen known ones, and an unknown item keeps the whole value.
\<close>

theorem parse_thread_item_faithful:
  "item_type_of (parse_thread_item v) = Option.bind (as_object v) (\<lambda>m. field_with as_str m ''type'') \<and>
   item_id_or_empty (parse_thread_item v) =
     (case as_object v of Some m \<Rightarrow> str_field m ''id'' | None \<Rightarrow> []) \<and>
   ((\<exists>u. parse_thread_item v = TI_Unknown u) \<longleftrightarrow>
      (\<forall>t. item_type_of (parse_thread_item v) = Some t \<longrightarrow> t \<notin> fst ` set item_parsers)) \<and>
   (\<forall>u. parse_thread_item v = TI_Unknown u \<longrightarrow> unknown_raw u = v)"
proof (cases "as_object v")
  case None
  then show ?thesis by (simp add: parse_thread_item_def)
next
  case (Some m)
  let ?t = "field_with as_str m ''type''"
  show ?thesis
  proof (cases "Option.bind ?t (map_of item_parsers)")
    case None
    then have "\<forall>t. ?t = Some t \<longrightarrow> t \<notin> fst ` set item_parsers"
      by (metis bind.bind_lunit map_of_eq_None_iff)
    with Some None show ?thesis by (force simp: parse_thread_item_def str_field_def)
  next
    case (Some p)
    then obtain t where t: "?t = Some t" "map_of item_parsers t = Some p"
      by (cases ?t) auto
    then have "t \<in> fst ` set item_parsers" by (metis map_of_eq_None_iff option.distinct(1))
    with \<open>as_object v = Some m\<close> t item_parsers_shape [OF t(2)] show ?thesis
      by (simp add: parse_thread_item_def str_field_def)
  qed
qed

theorem parse_thread_item_faithful_witness:
  "parse_thread_item (JObject [(''id'', JString ''x''), (''type'', JString ''sketch'')]) =
     TI_Unknown \<lparr>unknown_id = Some ''x'', unknown_item_type = Some ''sketch'',
       unknown_raw = JObject [(''id'', JString ''x''), (''type'', JString ''sketch'')]\<rparr>"
proof -
  let ?v = "JObject [(''id'', JString ''x''), (''type'', JString ''sketch'')]"
  have t: "field_with as_str [(''id'', JString ''x''), (''type'', JString ''sketch'')] ''type''
    = Some ''sketch''" by (simp add: field_with_def jget_Cons)
  then have "\<exists>u. parse_thread_item ?v = TI_Unknown u"
    using parse_thread_item_faithful [of ?v] by (simp add: item_parsers_def)
  then show ?thesis
    by (auto simp: parse_thread_item_def field_with_def jget_Cons item_parsers_def)
qed

lemma sint_i64_as_i32: "sint (i64_as_i32 n) = signed_take_bit 31 (sint n)"
  by (simp add: i64_as_i32_def sint_uint unsigned_ucast_eq take_bit_word_eq_self
      signed_take_bit_eq_iff_take_bit_eq)

lemma i64_as_i32_range:
  assumes "- (2 ^ 31) \<le> sint n" "sint n < 2 ^ 31"
  shows "sint (i64_as_i32 n) = sint n"
  using assms by (simp add: sint_i64_as_i32 signed_take_bit_int_eq_self)

lemma i64_as_i32_mod: "sint (i64_as_i32 n) mod 2 ^ 32 = sint n mod 2 ^ 32"
proof -
  have "take_bit 32 (sint (i64_as_i32 n)) = take_bit 32 (sint n)"
    unfolding sint_i64_as_i32 by (simp add: take_bit_signed_take_bit)
  then show ?thesis by (simp add: take_bit_eq_mod)
qed

text \<open>
  The exit code of a command is the JSON integer reduced to 32 bits: it is present exactly
  when the field is an integer, a number that an \<open>i32\<close> holds is kept, and any other changes
  only by a multiple of \<open>2 ^ 32\<close>.
\<close>

theorem exit_code_bounds:
  "(command_exit_code (parse_command_execution i m) = None \<longleftrightarrow> field_with as_i64 m ''exitCode'' = None) \<and>
   (\<forall>c n. command_exit_code (parse_command_execution i m) = Some c \<longrightarrow>
      field_with as_i64 m ''exitCode'' = Some n \<longrightarrow>
      sint c mod 2 ^ 32 = sint n mod 2 ^ 32 \<and>
      (- (2 ^ 31) \<le> sint n \<and> sint n < 2 ^ 31 \<longrightarrow> sint c = sint n))"
proof (intro conjI allI impI)
  show "command_exit_code (parse_command_execution i m) = None \<longleftrightarrow>
    field_with as_i64 m ''exitCode'' = None"
    by (simp add: parse_command_execution_def)
next
  fix c n
  assume c: "command_exit_code (parse_command_execution i m) = Some c"
    and n: "field_with as_i64 m ''exitCode'' = Some n"
  then have eq: "c = i64_as_i32 n" by (simp add: parse_command_execution_def)
  show "sint c mod 2 ^ 32 = sint n mod 2 ^ 32" by (simp only: eq i64_as_i32_mod)
  assume "- (2 ^ 31) \<le> sint n \<and> sint n < 2 ^ 31"
  then show "sint c = sint n" unfolding eq by (intro i64_as_i32_range) simp_all
qed

theorem exit_code_bounds_witness:
  "command_exit_code (parse_command_execution [] [(''exitCode'', JNumber (PosInt 7))]) = Some 7"
proof -
  let ?m = "[(''exitCode'', JNumber (PosInt 7))]"
  have f: "field_with as_i64 ?m ''exitCode'' = Some 7"
    by (simp add: field_with_def jget_Cons)
  then obtain c where c: "command_exit_code (parse_command_execution [] ?m) = Some c"
    using exit_code_bounds [of "[]" ?m] by (cases "command_exit_code (parse_command_execution [] ?m)") auto
  have "sint c = 7" using exit_code_bounds [of "[]" ?m] c f by simp
  then have "of_int (sint c) = (7 :: i32)" by (simp del: of_int_sint)
  then have "c = 7" by simp
  with c show ?thesis by simp
qed

text \<open>
  A command whose exit code is a nonzero multiple of \<open>2 ^ 32\<close> is reported with exit code 0.
\<close>

theorem exit_code_truncation:
  "command_exit_code (parse_command_execution i [(''exitCode'', JNumber (PosInt 4294967296))]) =
     Some 0"
  by (simp add: parse_command_execution_def field_with_def jget_Cons i64_as_i32_def)

end
