(* ===== verification/Turn_Stream.thy ===== *)
theory Turn_Stream
  imports Client Items
begin

text \<open>
  The stream of one turn in \<open>crates/sdk/src/api.rs\<close>: \<open>pump_turn_events\<close> turns the server
  events of a broadcast receiver into thread events for one turn, and \<open>Thread::run\<close> folds
  them into a \<open>Turn\<close>. The pump is modelled over the list of what the receiver returns and the
  number of events the consumer still takes; the properties say that a stream ends with its
  only terminal event, is not disturbed by other turns, and what \<open>run\<close> returns for it.
\<close>

section \<open>Events of a turn\<close>

datatype thread_event =
    TE_ThreadStarted string
  | TE_TurnStarted
  | TE_TurnCompleted "usage option"
  | TE_TurnFailed thread_error
  | TE_ItemStarted thread_item
  | TE_ItemUpdated thread_item
  | TE_ItemCompleted thread_item
  | TE_Error string

type_synonym stream_item = "client_error + thread_event"

definition matches_target_from_extra :: "jmap \<Rightarrow> string \<Rightarrow> string option \<Rightarrow> bool" where
  "matches_target_from_extra extra thr trn =
     (let thread_matches = unwrap_or
            (map_option (\<lambda>incoming. incoming = thr) (field_with as_str extra ''threadId'')) True;
          turn_matches = (case trn of
            Some target \<Rightarrow> unwrap_or
              (map_option (\<lambda>incoming. incoming = target) (field_with as_str extra ''turnId'')) True
          | None \<Rightarrow> True)
      in thread_matches \<and> turn_matches)"

definition delta_item_updated ::
  "delta_notification \<Rightarrow> (string \<Rightarrow> string \<Rightarrow> thread_item) \<Rightarrow> thread_event option" where
  "delta_item_updated delta build =
     (let text = unwrap_or (or_opt (delta_delta delta) (delta_text delta)) []
      in if text = [] then None
         else Some (TE_ItemUpdated (build (unwrap_or (delta_item_id delta) []) text)))"

definition build_agent_message :: "string \<Rightarrow> string \<Rightarrow> thread_item" where
  "build_agent_message i text = TI_AgentMessage
     \<lparr>agent_message_id = i, agent_message_text = text, agent_message_phase = None\<rparr>"

definition build_plan :: "string \<Rightarrow> string \<Rightarrow> thread_item" where
  "build_plan i text = TI_Plan \<lparr>plan_id = i, plan_text = text\<rparr>"

definition build_reasoning :: "string \<Rightarrow> string \<Rightarrow> thread_item" where
  "build_reasoning i text = TI_Reasoning \<lparr>reasoning_id = i, reasoning_text = text\<rparr>"

section \<open>The pump\<close>

text \<open>
  One turn of the loop body: \<open>PumpSkip\<close> goes on (with the remembered usage), \<open>PumpSend\<close> sends
  an event and goes on, \<open>PumpLast\<close> sends an event and breaks.
\<close>

datatype pump_action =
    PumpSkip "usage option"
  | PumpSend thread_event
  | PumpLast stream_item

definition pump_delta ::
  "string \<Rightarrow> string \<Rightarrow> usage option \<Rightarrow> delta_notification \<Rightarrow> (string \<Rightarrow> string \<Rightarrow> thread_item)
    \<Rightarrow> pump_action" where
  "pump_delta thr trn latest delta build =
     (if matches_target_from_extra (delta_extra delta) thr (Some trn)
      then (case delta_item_updated delta build of
              Some e \<Rightarrow> PumpSend e
            | None \<Rightarrow> PumpSkip latest)
      else PumpSkip latest)"

definition pump_turn_completed ::
  "string \<Rightarrow> string \<Rightarrow> usage option \<Rightarrow> turn \<Rightarrow> pump_action" where
  "pump_turn_completed thr trn latest t =
     (if turn_id t = trn \<and>
         matches_target_from_extra (turn_extra t) thr (Some trn)
      then (let status = to_ascii_lowercase (unwrap_or (turn_status t) [])
            in if status = ''failed''
               then PumpLast (Ok (TE_TurnFailed
                      \<lparr>thread_error_message =
                         unwrap_or (map_option turn_error_message (turn_error t)) ''turn failed''\<rparr>))
               else PumpLast (Ok (TE_TurnCompleted
                      (or_opt (parse_usage_from_turn_extra (turn_extra t)) latest))))
      else PumpSkip latest)"

definition pump_token_usage ::
  "string \<Rightarrow> string \<Rightarrow> usage option \<Rightarrow> thread_token_usage_updated_notification \<Rightarrow> pump_action" where
  "pump_token_usage thr trn latest p =
     (if unwrap_or (map_option (\<lambda>incoming. incoming = thr)
            (thread_token_usage_updated_thread_id p)) True
      then if \<not> matches_target_from_extra (thread_token_usage_updated_extra p) thr (Some trn)
           then PumpSkip latest
           else PumpSkip
             (or_opt (Option.bind (thread_token_usage_updated_usage p) parse_usage_from_value)
               (field_with parse_usage_from_value (thread_token_usage_updated_extra p) ''tokenUsage''))
      else PumpSkip latest)"

fun pump_notification ::
  "string \<Rightarrow> string \<Rightarrow> usage option \<Rightarrow> server_notification \<Rightarrow> pump_action" where
  "pump_notification thr trn latest (SN_ItemStarted p) =
     (if matches_target_from_extra (item_lifecycle_extra p) thr (Some trn)
      then PumpSend (TE_ItemStarted (parse_thread_item (item_lifecycle_item p)))
      else PumpSkip latest)"
| "pump_notification thr trn latest (SN_ItemCompleted p) =
     (if matches_target_from_extra (item_lifecycle_extra p) thr (Some trn)
      then PumpSend (TE_ItemCompleted (parse_thread_item (item_lifecycle_item p)))
      else PumpSkip latest)"
| "pump_notification thr trn latest (SN_ItemAgentMessageDelta d) =
     pump_delta thr trn latest d build_agent_message"
| "pump_notification thr trn latest (SN_ItemPlanDelta d) =
     pump_delta thr trn latest d build_plan"
| "pump_notification thr trn latest (SN_ItemReasoningSummaryTextDelta d) =
     pump_delta thr trn latest d build_reasoning"
| "pump_notification thr trn latest (SN_ItemReasoningTextDelta d) =
     pump_delta thr trn latest d build_reasoning"
| "pump_notification thr trn latest (SN_TurnCompleted p) =
     pump_turn_completed thr trn latest (turn_completed_turn p)"
| "pump_notification thr trn latest (SN_ThreadTokenUsageUpdated p) =
     pump_token_usage thr trn latest p"
| "pump_notification thr trn latest (SN_Error p) =
     (if matches_target_from_extra (error_extra p) thr (Some trn)
      then PumpSend (TE_Error (turn_error_message (error_error p)))
      else PumpSkip latest)"
| "pump_notification thr trn latest _ = PumpSkip latest"

fun pump_event :: "string \<Rightarrow> string \<Rightarrow> usage option \<Rightarrow> recv \<Rightarrow> pump_action" where
  "pump_event thr trn latest (Received (Notification n)) =
     pump_notification thr trn latest n"
| "pump_event thr trn latest (Received EventTransportClosed) = PumpLast (Err TransportClosed)"
| "pump_event thr trn latest (Received (ServerRequest r)) = PumpSkip latest"
| "pump_event thr trn latest RecvClosed = PumpLast (Err TransportClosed)"
| "pump_event thr trn latest (Lagged n) = PumpSkip latest"

text \<open>
  The loop. \<open>room\<close> is the consumer of the channel (\<open>take_slot\<close>): a send to a consumer that is
  gone fails and breaks. The result is what was
  sent and whether the loop is still waiting when the list is used up.
\<close>

fun pump_turn_events ::
  "string \<Rightarrow> string \<Rightarrow> nat option \<Rightarrow> usage option \<Rightarrow> recv list \<Rightarrow> stream_item list \<times> bool" where
  "pump_turn_events thr trn room latest [] = ([], True)"
| "pump_turn_events thr trn room latest (r # rs) =
     (case pump_event thr trn latest r of
        PumpSkip latest' \<Rightarrow> pump_turn_events thr trn room latest' rs
      | PumpSend e \<Rightarrow>
          (case take_slot room of
             None \<Rightarrow> ([], False)
           | Some room' \<Rightarrow>
               (let (out, running) = pump_turn_events thr trn room' latest rs
                in (Ok e # out, running)))
      | PumpLast e \<Rightarrow>
          (case take_slot room of None \<Rightarrow> ([], False) | Some _ \<Rightarrow> ([e], False)))"

text \<open>What \<open>run_streamed\<close> puts in the channel before it starts the pump.\<close>

definition stream_prefix :: "string option \<Rightarrow> stream_item list" where
  "stream_prefix emit_thread_started =
     (case emit_thread_started of
        Some i \<Rightarrow> [Ok (TE_ThreadStarted i), Ok TE_TurnStarted]
      | None \<Rightarrow> [Ok TE_TurnStarted])"

section \<open>Running a turn to its end\<close>

record finished_turn =
  finished_items :: "thread_item list"
  finished_final_response :: string
  finished_usage :: "usage option"

datatype thread_run_error = RunClient client_error | RunTurnFailed string

definition update_final_response_candidates ::
  "thread_item \<Rightarrow> string option \<times> string option \<Rightarrow> string option \<times> string option" where
  "update_final_response_candidates item cands =
     (case (item, cands) of
        (TI_AgentMessage m, (final, fallback)) \<Rightarrow>
          (if is_final_answer m then (Some (agent_message_text m), fallback)
           else (final, Some (agent_message_text m)))
      | _ \<Rightarrow> cands)"

text \<open>
  The loop of \<open>Thread::run\<close> over the channel, with its \<open>items\<close> (in order) and the two response
  candidates. The list is what the channel holds; when it is used up the channel is closed if
  the pump has stopped, and otherwise the call is still waiting, \<open>None\<close>.
\<close>

fun run_loop ::
  "bool \<Rightarrow> thread_item list \<Rightarrow> string option \<times> string option \<Rightarrow> stream_item list
    \<Rightarrow> (thread_run_error + finished_turn) option" where
  "run_loop closed items cands [] =
     (if closed then Some (Err (RunClient TransportClosed)) else None)"
| "run_loop closed items cands (Inl e # es) = Some (Err (RunClient e))"
| "run_loop closed items cands (Inr (TE_ItemCompleted item) # es) =
     run_loop closed (items @ [item]) (update_final_response_candidates item cands) es"
| "run_loop closed items cands (Inr (TE_TurnCompleted u) # es) =
     Some (Ok \<lparr>finished_items = items,
               finished_final_response = unwrap_or (or_opt (fst cands) (snd cands)) [],
               finished_usage = u\<rparr>)"
| "run_loop closed items cands (Inr (TE_TurnFailed e) # es) =
     Some (Err (RunTurnFailed (thread_error_message e)))"
| "run_loop closed items cands (Inr (TE_Error m) # es) = Some (Err (RunTurnFailed m))"
| "run_loop closed items cands (Inr (TE_ThreadStarted i) # es) = run_loop closed items cands es"
| "run_loop closed items cands (Inr TE_TurnStarted # es) = run_loop closed items cands es"
| "run_loop closed items cands (Inr (TE_ItemStarted i) # es) = run_loop closed items cands es"
| "run_loop closed items cands (Inr (TE_ItemUpdated i) # es) = run_loop closed items cands es"

definition run_turn ::
  "string \<Rightarrow> string \<Rightarrow> string option \<Rightarrow> recv list \<Rightarrow> (thread_run_error + finished_turn) option" where
  "run_turn thr trn emit_thread_started recvs =
     (let (out, running) = pump_turn_events thr trn None None recvs
      in run_loop (\<not> running) [] (None, None) (stream_prefix emit_thread_started @ out))"

section \<open>Facts about the pump\<close>

fun is_terminal :: "stream_item \<Rightarrow> bool" where
  "is_terminal (Inl e) = True"
| "is_terminal (Inr (TE_TurnCompleted u)) = True"
| "is_terminal (Inr (TE_TurnFailed e)) = True"
| "is_terminal (Inr e) = False"

lemmas pump_action_defs = pump_delta_def pump_turn_completed_def pump_token_usage_def
  delta_item_updated_def Let_def

lemma pump_notification_terminal:
  "(pump_notification thr trn latest n = PumpSend e \<longrightarrow> \<not> is_terminal (Ok e)) \<and>
   (pump_notification thr trn latest n = PumpLast l \<longrightarrow> is_terminal l)"
  by (cases n) (auto simp: pump_action_defs split: if_splits)

lemma pump_event_terminal:
  "pump_event thr trn latest r = PumpSend e \<Longrightarrow> \<not> is_terminal (Ok e)"
  "pump_event thr trn latest r = PumpLast l \<Longrightarrow> is_terminal l"
  using pump_notification_terminal
  by (induction thr trn latest r rule: pump_event.induct) auto

text \<open>What an event sends does not depend on the remembered usage.\<close>

lemma pump_notification_send_any:
  "pump_notification thr trn latest n = PumpSend e \<longleftrightarrow> pump_notification thr trn None n = PumpSend e"
  by (cases n) (auto simp: pump_action_defs split: if_splits)

lemma pump_event_send_any:
  "pump_event thr trn latest r = PumpSend e \<longleftrightarrow> pump_event thr trn None r = PumpSend e"
  using pump_notification_send_any
  by (induction thr trn latest r rule: pump_event.induct) auto

lemma pump_notification_stops_any:
  "(\<exists>l. pump_notification thr trn latest n = PumpLast l) \<longleftrightarrow>
   (\<exists>l. pump_notification thr trn None n = PumpLast l)"
  by (cases n) (auto simp: pump_action_defs split: if_splits)

lemma pump_event_stops_any:
  "(\<exists>l. pump_event thr trn latest r = PumpLast l) \<longleftrightarrow> (\<exists>l. pump_event thr trn None r = PumpLast l)"
  using pump_notification_stops_any
  by (induction thr trn latest r rule: pump_event.induct) auto

text \<open>
  A turn's stream has at most one terminal event (completion, failure or a transport error)
  and it is the last one; for a consumer that stays, the pump stops exactly when it has sent it.
\<close>

theorem stream_ends_once:
  assumes "pump_turn_events thr trn room latest rs = (out, running)"
  shows "(\<forall>e \<in> set (butlast out). \<not> is_terminal e) \<and>
    (room = None \<longrightarrow> (running \<longleftrightarrow> out = [] \<or> \<not> is_terminal (last out)))"
  using assms
proof (induction thr trn room latest rs arbitrary: out running rule: pump_turn_events.induct)
  case (1 thr trn room latest)
  then show ?case by simp
next
  case (2 thr trn room latest r rs)
  show ?case
  proof (cases "pump_event thr trn latest r")
    case (PumpSkip l)
    with 2(1) [OF PumpSkip] 2(3) show ?thesis by auto
  next
    case (PumpLast e)
    with 2(3) pump_event_terminal(2) [OF PumpLast] show ?thesis
      by (cases room) (auto split: option.splits)
  next
    case (PumpSend e)
    show ?thesis
    proof (cases "take_slot room")
      case None
      with 2(3) PumpSend show ?thesis by (cases room) auto
    next
      case (Some room')
      obtain o1 r1 where rec: "pump_turn_events thr trn room' latest rs = (o1, r1)" by fastforce
      have room: "room = None \<Longrightarrow> room' = None" using Some by simp
      from 2(3) PumpSend Some rec have out: "out = Ok e # o1" "running = r1" by auto
      from 2(2) [OF PumpSend Some rec] pump_event_terminal(1) [OF PumpSend] room
      show ?thesis by (auto simp: out)
    qed
  qed
qed

theorem stream_ends_once_witness:
  "\<not> snd (pump_turn_events ''t'' ''u'' None None [Lagged 3, RecvClosed])"
proof -
  obtain out running
    where p: "pump_turn_events ''t'' ''u'' None None [Lagged 3, RecvClosed] = (out, running)"
    by fastforce
  then have "out = [Err TransportClosed]" by simp
  with stream_ends_once [OF p] p show ?thesis by simp
qed

text \<open>
  A consumer that goes away after taking \<open>n\<close> events has received the first \<open>n\<close> events of the
  full stream, no others.
\<close>

theorem dropped_consumer_prefix:
  "fst (pump_turn_events thr trn (Some n) latest rs) =
   take n (fst (pump_turn_events thr trn None latest rs))"
proof (induction rs arbitrary: n latest)
  case Nil
  then show ?case by simp
next
  case (Cons r rs)
  show ?case
  proof (cases "pump_event thr trn latest r")
    case (PumpSkip l)
    with Cons show ?thesis by simp
  next
    case (PumpLast e)
    then show ?thesis by (cases n) auto
  next
    case (PumpSend e)
    with Cons [of _ latest] show ?thesis
      by (cases n) (auto simp: case_prod_beta Let_def)
  qed
qed

section \<open>Other turns\<close>

text \<open>An \<open>extra\<close> map that names another thread or another turn.\<close>

definition names_other :: "string \<Rightarrow> string \<Rightarrow> jmap \<Rightarrow> bool" where
  "names_other thr trn extra \<longleftrightarrow>
     (\<exists>t. field_with as_str extra ''threadId'' = Some t \<and> t \<noteq> thr) \<or>
     (\<exists>t. field_with as_str extra ''turnId'' = Some t \<and> t \<noteq> trn)"

fun foreign_notification :: "string \<Rightarrow> string \<Rightarrow> server_notification \<Rightarrow> bool" where
  "foreign_notification thr trn (SN_ItemStarted p) = names_other thr trn (item_lifecycle_extra p)"
| "foreign_notification thr trn (SN_ItemCompleted p) = names_other thr trn (item_lifecycle_extra p)"
| "foreign_notification thr trn (SN_ItemAgentMessageDelta d) = names_other thr trn (delta_extra d)"
| "foreign_notification thr trn (SN_ItemPlanDelta d) = names_other thr trn (delta_extra d)"
| "foreign_notification thr trn (SN_ItemReasoningSummaryTextDelta d) = names_other thr trn (delta_extra d)"
| "foreign_notification thr trn (SN_ItemReasoningTextDelta d) = names_other thr trn (delta_extra d)"
| "foreign_notification thr trn (SN_Error p) = names_other thr trn (error_extra p)"
| "foreign_notification thr trn (SN_TurnCompleted p) = (turn_id (turn_completed_turn p) \<noteq> trn)"
| "foreign_notification thr trn (SN_ThreadTokenUsageUpdated p) =
     (names_other thr trn (thread_token_usage_updated_extra p) \<or>
      (\<exists>t. thread_token_usage_updated_thread_id p = Some t \<and> t \<noteq> thr))"
| "foreign_notification thr trn _ = True"

fun foreign :: "string \<Rightarrow> string \<Rightarrow> recv \<Rightarrow> bool" where
  "foreign thr trn (Received (Notification n)) = foreign_notification thr trn n"
| "foreign thr trn (Received (ServerRequest r)) = True"
| "foreign thr trn (Lagged n) = True"
| "foreign thr trn _ = False"

lemma names_other_iff: "names_other thr trn extra \<longleftrightarrow> \<not> matches_target_from_extra extra thr (Some trn)"
  by (cases "field_with as_str extra ''threadId''"; cases "field_with as_str extra ''turnId''")
    (auto simp: names_other_def matches_target_from_extra_def Let_def)

lemma foreign_skips: "foreign thr trn r \<Longrightarrow> pump_event thr trn latest r = PumpSkip latest"
proof (induction thr trn r rule: foreign.induct)
  case (1 thr trn n)
  then show ?case by (cases n) (auto simp: names_other_iff pump_action_defs)
qed simp_all

text \<open>
  C12: streams do not disturb each other: the stream of a turn is the same when every event of
  another thread or turn, every server request and every other notification is taken out.
\<close>

theorem stream_ignores_other_turns:
  "pump_turn_events thr trn room latest (filter (\<lambda>r. \<not> foreign thr trn r) rs) =
   pump_turn_events thr trn room latest rs"
proof (induction rs arbitrary: room latest)
  case Nil
  then show ?case by simp
next
  case (Cons r rs)
  show ?case
  proof (cases "foreign thr trn r")
    case True
    with Cons show ?thesis by (simp add: foreign_skips)
  next
    case False
    have "(\<lambda>x. pump_turn_events thr trn room x (filter (\<lambda>r. \<not> foreign thr trn r) rs)) =
      (\<lambda>x. pump_turn_events thr trn room x rs)" for room
      by (rule ext) (rule Cons)
    with False show ?thesis
      by (auto split: pump_action.split option.split simp: Cons)
  qed
qed

section \<open>The result of a run\<close>

text \<open>
  The specification of \<open>run\<close>: the completed items of the turn in order, the text of the last
  final-answer message, else of the last other agent message, else nothing, and the usage of
  the completed turn, else the last usage update of the turn.
\<close>

definition sent_events :: "string \<Rightarrow> string \<Rightarrow> recv list \<Rightarrow> thread_event list" where
  "sent_events thr trn rs =
     concat (map (\<lambda>r. case pump_event thr trn None r of PumpSend e \<Rightarrow> [e] | _ \<Rightarrow> []) rs)"

definition completed_items :: "thread_event list \<Rightarrow> thread_item list" where
  "completed_items es = concat (map (\<lambda>e. case e of TE_ItemCompleted i \<Rightarrow> [i] | _ \<Rightarrow> []) es)"

definition last_usage :: "string \<Rightarrow> string \<Rightarrow> usage option \<Rightarrow> recv list \<Rightarrow> usage option" where
  "last_usage thr trn u rs =
     foldl (\<lambda>u r. case pump_event thr trn u r of PumpSkip u' \<Rightarrow> u' | _ \<Rightarrow> u) u rs"

definition agent_texts :: "bool \<Rightarrow> thread_item list \<Rightarrow> string list" where
  "agent_texts final items =
     concat (map (\<lambda>i. case i of
       TI_AgentMessage m \<Rightarrow> (if is_final_answer m = final then [agent_message_text m] else [])
     | _ \<Rightarrow> []) items)"

definition final_response_of :: "thread_item list \<Rightarrow> string" where
  "final_response_of items =
     (if agent_texts True items \<noteq> [] then last (agent_texts True items)
      else if agent_texts False items \<noteq> [] then last (agent_texts False items)
      else [])"

text \<open>An event that neither ends the stream nor fails the run.\<close>

definition quiet :: "string \<Rightarrow> string \<Rightarrow> recv \<Rightarrow> bool" where
  "quiet thr trn r \<longleftrightarrow>
     (case pump_event thr trn None r of
        PumpSkip _ \<Rightarrow> True | PumpSend (TE_Error _) \<Rightarrow> False | PumpSend _ \<Rightarrow> True | PumpLast _ \<Rightarrow> False)"

fun plain_event :: "thread_event \<Rightarrow> bool" where
  "plain_event (TE_TurnCompleted u) = False"
| "plain_event (TE_TurnFailed e) = False"
| "plain_event (TE_Error m) = False"
| "plain_event e = True"

lemma agent_texts_snoc:
  "agent_texts b (items @ [i]) = agent_texts b items @ agent_texts b [i]"
  by (simp add: agent_texts_def)

lemma candidates:
  "foldl (\<lambda>c i. update_final_response_candidates i c) (None, None) items =
     (last_opt (agent_texts True items), last_opt (agent_texts False items))"
proof (induction items rule: rev_induct)
  case Nil
  then show ?case by (simp add: agent_texts_def last_opt_def)
next
  case (snoc i items)
  then show ?case
    by (cases i) (auto simp: agent_texts_snoc update_final_response_candidates_def,
        auto simp: agent_texts_def)
qed

lemma final_response:
  "unwrap_or (or_opt (last_opt (agent_texts True items)) (last_opt (agent_texts False items))) [] =
   final_response_of items"
  by (simp add: last_opt_def final_response_of_def)

lemma run_loop_plain:
  "list_all plain_event es \<Longrightarrow>
   run_loop closed items cands (map Ok es @ rest) =
     run_loop closed (items @ completed_items es)
       (foldl (\<lambda>c i. update_final_response_candidates i c) cands (completed_items es)) rest"
proof (induction es arbitrary: items cands)
  case Nil
  then show ?case by (simp add: completed_items_def)
next
  case (Cons e es)
  then show ?case by (cases e) (simp_all add: completed_items_def)
qed

lemma quiet_action:
  assumes "quiet thr trn r"
  shows "(\<exists>u. pump_event thr trn latest r = PumpSkip u \<and> sent_events thr trn [r] = []) \<or>
    (\<exists>e. pump_event thr trn latest r = PumpSend e \<and> sent_events thr trn [r] = [e] \<and> plain_event e)"
proof (cases "pump_event thr trn latest r")
  case (PumpSkip u)
  then have "pump_event thr trn None r \<noteq> PumpSend e" for e
    using pump_event_send_any [of thr trn latest r e] by simp
  then have "sent_events thr trn [r] = []"
    by (cases "pump_event thr trn None r") (auto simp: sent_events_def)
  with PumpSkip show ?thesis by blast
next
  case (PumpSend e)
  then have "pump_event thr trn None r = PumpSend e" by (rule pump_event_send_any [THEN iffD1])
  moreover from this have "\<not> is_terminal (Ok e)" by (rule pump_event_terminal)
  ultimately show ?thesis
    using assms PumpSend by (cases e) (auto simp: sent_events_def quiet_def)
next
  case (PumpLast l)
  then have "\<exists>l. pump_event thr trn None r = PumpLast l" using pump_event_stops_any by blast
  with assms show ?thesis by (auto simp: quiet_def)
qed

lemma pump_quiet_prefix:
  assumes "list_all (quiet thr trn) body"
  shows "pump_turn_events thr trn None latest (body @ rest) =
    (let (out, running) = pump_turn_events thr trn None (last_usage thr trn latest body) rest
     in (map Ok (sent_events thr trn body) @ out, running)) \<and>
    list_all plain_event (sent_events thr trn body)"
  using assms
proof (induction body arbitrary: latest)
  case Nil
  then show ?case by (simp add: sent_events_def last_usage_def)
next
  case (Cons r body)
  have s: "sent_events thr trn (r # body) = sent_events thr trn [r] @ sent_events thr trn body"
    by (simp add: sent_events_def)
  have u: "last_usage thr trn latest (r # body) = last_usage thr trn
      (case pump_event thr trn latest r of PumpSkip u' \<Rightarrow> u' | _ \<Rightarrow> latest) body"
    by (simp add: last_usage_def)
  have r: "quiet thr trn r" and body: "list_all (quiet thr trn) body" using Cons(2) by simp_all
  from quiet_action [OF r, of latest] show ?case
  proof (elim disjE exE conjE)
    fix w
    assume "pump_event thr trn latest r = PumpSkip w" "sent_events thr trn [r] = []"
    with Cons(1) [OF body, of w] show ?thesis unfolding s u by simp
  next
    fix e
    assume "pump_event thr trn latest r = PumpSend e" "sent_events thr trn [r] = [e]" "plain_event e"
    with Cons(1) [OF body, of latest] show ?thesis
      unfolding s u by (simp add: case_prod_beta Let_def)
  qed
qed

text \<open>
  C8: what \<open>run\<close> returns for a turn that completes: whatever else the connection delivers
  before, the turn holds the completed items of this turn in order, the last final answer (or,
  without one, the last agent message) as its response, and the usage of the completed turn or
  else of the last usage update.
\<close>

theorem run_turn_completed:
  assumes "list_all (quiet thr trn) body"
    "turn_id (turn_completed_turn p) = trn"
    "\<not> names_other thr trn (turn_extra (turn_completed_turn p))"
    "\<not> eq_ignore_ascii_case (unwrap_or (turn_status (turn_completed_turn p)) []) ''failed''"
  shows "run_turn thr trn started (body @ Received (Notification (SN_TurnCompleted p)) # rest) =
    Some (Ok
      \<lparr>finished_items = completed_items (sent_events thr trn body),
       finished_final_response = final_response_of (completed_items (sent_events thr trn body)),
       finished_usage = or_opt (parse_usage_from_turn_extra (turn_extra (turn_completed_turn p)))
         (last_usage thr trn None body)\<rparr>)"
proof -
  let ?u = "or_opt (parse_usage_from_turn_extra (turn_extra (turn_completed_turn p)))
         (last_usage thr trn None body)"
  let ?es = "sent_events thr trn body"
  have "to_ascii_lowercase ''failed'' = ''failed''"
    by (simp add: to_ascii_lowercase_def ascii_lower_char_def)
  with assms have last: "pump_event thr trn (last_usage thr trn None body)
      (Received (Notification (SN_TurnCompleted p))) = PumpLast (Ok (TE_TurnCompleted ?u))"
    by (auto simp: pump_turn_completed_def names_other_iff eq_ignore_ascii_case_def Let_def)
  note pre = pump_quiet_prefix [OF assms(1), of None]
  have out: "pump_turn_events thr trn None None
      (body @ Received (Notification (SN_TurnCompleted p)) # rest) =
    (map Ok ?es @ [Ok (TE_TurnCompleted ?u)], False)"
    using pre last by simp
  have plain: "list_all plain_event ?es" using pre by simp
  have head: "run_loop c [] (None, None) (stream_prefix started @ xs) =
    run_loop c [] (None, None) xs" for c xs
    by (cases started) (simp_all add: stream_prefix_def)
  show ?thesis
    unfolding run_turn_def out by (simp add: head run_loop_plain [OF plain] candidates final_response)
qed

theorem run_turn_completed_witness:
  "\<exists>p. run_turn ''t'' ''u'' None [Lagged 2, Received (Notification (SN_TurnCompleted p))] =
     Some (Ok \<lparr>finished_items = [], finished_final_response = [], finished_usage = None\<rparr>)"
proof -
  let ?t = "\<lparr>turn_id = ''u'', turn_status = Some ''completed'', turn_items = [], turn_error = None,
    turn_extra = []\<rparr>"
  let ?p = "\<lparr>turn_completed_turn = ?t, turn_completed_extra = []\<rparr>"
  have q: "list_all (quiet ''t'' ''u'') [Lagged 2]" by (simp add: quiet_def)
  have n: "\<not> names_other ''t'' ''u'' (turn_extra (turn_completed_turn ?p))"
    by (simp add: names_other_def field_with_def)
  have f: "\<not> eq_ignore_ascii_case (unwrap_or (turn_status (turn_completed_turn ?p)) []) ''failed''"
    by (simp add: eq_ignore_ascii_case_def to_ascii_lowercase_def)
  from run_turn_completed [OF q _ n f, of None "[]"] show ?thesis
    by (auto simp: sent_events_def completed_items_def final_response_of_def agent_texts_def
        last_usage_def parse_usage_from_turn_extra_def field_with_def)
qed

lemma pump_completed_source:
  assumes "pump_event thr trn latest r = PumpLast (Ok (TE_TurnCompleted u))"
  shows "\<exists>p. r = Received (Notification (SN_TurnCompleted p)) \<and>
    turn_id (turn_completed_turn p) = trn \<and>
    to_ascii_lowercase (unwrap_or (turn_status (turn_completed_turn p)) []) \<noteq> ''failed''"
  using assms
proof (induction thr trn latest r rule: pump_event.induct)
  case (1 thr trn latest n)
  then show ?case by (cases n) (auto simp: pump_action_defs split: if_splits)
qed simp_all

lemma pump_completed_in:
  "Ok (TE_TurnCompleted u) \<in> set (fst (pump_turn_events thr trn room latest rs)) \<Longrightarrow>
   \<exists>p. Received (Notification (SN_TurnCompleted p)) \<in> set rs \<and>
    turn_id (turn_completed_turn p) = trn \<and>
    to_ascii_lowercase (unwrap_or (turn_status (turn_completed_turn p)) []) \<noteq> ''failed''"
proof (induction thr trn room latest rs rule: pump_turn_events.induct)
  case (1 thr trn room latest)
  then show ?case by simp
next
  case (2 thr trn room latest r rs)
  show ?case
  proof (cases "pump_event thr trn latest r")
    case (PumpSkip l)
    with 2(1) [OF PumpSkip] 2(3) show ?thesis by auto
  next
    case (PumpLast e)
    with 2(3) pump_completed_source [of thr trn latest r u] show ?thesis
      by (auto split: option.splits)
  next
    case (PumpSend e)
    have "e \<noteq> TE_TurnCompleted u" using pump_event_terminal(1) [OF PumpSend] by auto
    with 2(2) [OF PumpSend] 2(3) PumpSend show ?thesis
      by (auto simp: case_prod_beta Let_def split: option.splits)
  qed
qed

lemma run_loop_Ok:
  "run_loop closed items cands es = Some (Ok t) \<Longrightarrow> Ok (TE_TurnCompleted (finished_usage t)) \<in> set es"
  by (induction closed items cands es rule: run_loop.induct) (auto split: if_splits)

text \<open>
  C30: \<open>run\<close> succeeds only for a turn the server has completed: a result means that the
  connection delivered a \<open>turn/completed\<close> notification with the id of this turn and a status
  other than failed.
\<close>

theorem run_success_means_completed:
  assumes "run_turn thr trn started rs = Some (Ok t)"
  shows "\<exists>p. Received (Notification (SN_TurnCompleted p)) \<in> set rs \<and>
    turn_id (turn_completed_turn p) = trn \<and>
    to_ascii_lowercase (unwrap_or (turn_status (turn_completed_turn p)) []) \<noteq> ''failed''"
proof -
  obtain out running where o: "pump_turn_events thr trn None None rs = (out, running)" by fastforce
  with assms have "Ok (TE_TurnCompleted (finished_usage t)) \<in> set (stream_prefix started @ out)"
    by (auto simp: run_turn_def dest: run_loop_Ok)
  then have "Ok (TE_TurnCompleted (finished_usage t)) \<in> set out"
    by (auto simp: stream_prefix_def split: option.splits)
  with o show ?thesis using pump_completed_in [of "finished_usage t" thr trn None None rs] by simp
qed

theorem run_success_means_completed_witness:
  "\<exists>p t. run_turn ''t'' ''u'' None [Received (Notification (SN_TurnCompleted p))] = Some (Ok t) \<and>
     turn_id (turn_completed_turn p) = ''u''"
proof -
  let ?t = "\<lparr>turn_id = ''u'', turn_status = None, turn_items = [], turn_error = None,
    turn_extra = []\<rparr>"
  let ?p = "\<lparr>turn_completed_turn = ?t, turn_completed_extra = []\<rparr>"
  let ?r = "Received (Notification (SN_TurnCompleted ?p))"
  obtain t where t: "run_turn ''t'' ''u'' None [?r] = Some (Ok t)"
    by (simp add: run_turn_def pump_turn_completed_def matches_target_from_extra_def
        field_with_def to_ascii_lowercase_def stream_prefix_def Let_def)
  from run_success_means_completed [OF t] t show ?thesis by auto
qed

text \<open>
  C32: \<open>run\<close> never hangs on a connection that has closed: once the transport is closed, by the
  client's own event or by the channel, it has returned, and if the turn's terminal event had
  not arrived before, with an error.
\<close>

theorem run_returns_after_close:
  "run_turn thr trn started (body @ c # rest) \<noteq> None"
  if "c = RecvClosed \<or> c = Received EventTransportClosed"
proof -
  have "\<not> snd (pump_turn_events thr trn room latest (body @ c # rest))" for room latest
    using that
  proof (induction body arbitrary: room latest)
    case Nil
    then show ?case by (auto split: option.splits)
  next
    case (Cons r body)
    then show ?case by (auto simp: case_prod_beta Let_def split: pump_action.split option.split)
  qed
  moreover have "run_loop True items cands es \<noteq> None" for items cands es
    by (induction True items cands es rule: run_loop.induct) auto
  ultimately show ?thesis by (auto simp: run_turn_def case_prod_beta)
qed

theorem run_returns_after_close_witness:
  "run_turn ''t'' ''u'' None [Lagged 1, RecvClosed] \<noteq> None"
  using run_returns_after_close [of RecvClosed "''t''" "''u''" None "[Lagged 1]" "[]"] by simp

end
