(* ===== verification/Rpc_Table.thy ===== *)
theory Rpc_Table
  imports Sdk_Prelude
begin

text \<open>
  The client-to-server method table of \<open>crates/sdk/src/protocol/methods.rs\<close>. The macro
  \<open>codex_rpc_table!\<close> expands every row into a method of \<open>CodexClient\<close> and a forward of
  \<open>Codex\<close>; the table here has the same rows in the same order, and \<open>rpc_wire_method\<close> is the
  wire method a generated Rust method ends up sending, aliases followed.
\<close>

datatype rpc_row =
    TypedRow string string
  | NullRow string string
  | AliasRow string string

fun row_name :: "rpc_row \<Rightarrow> string" where
  "row_name (TypedRow f m) = f"
| "row_name (NullRow f m) = f"
| "row_name (AliasRow f g) = f"

fun row_wire :: "rpc_row \<Rightarrow> string option" where
  "row_wire (TypedRow f m) = Some m"
| "row_wire (NullRow f m) = Some m"
| "row_wire (AliasRow f g) = None"

definition codex_rpc_table :: "rpc_row list" where
  "codex_rpc_table =
     [TypedRow ''thread_start'' ''thread/start'',
      TypedRow ''thread_resume'' ''thread/resume'',
      TypedRow ''thread_fork'' ''thread/fork'',
      TypedRow ''thread_archive'' ''thread/archive'',
      TypedRow ''thread_name_set'' ''thread/name/set'',
      TypedRow ''thread_unarchive'' ''thread/unarchive'',
      TypedRow ''thread_compact_start'' ''thread/compact/start'',
      TypedRow ''thread_background_terminals_clean'' ''thread/backgroundTerminals/clean'',
      TypedRow ''thread_rollback'' ''thread/rollback'',
      TypedRow ''thread_list'' ''thread/list'',
      TypedRow ''thread_loaded_list'' ''thread/loaded/list'',
      TypedRow ''thread_read'' ''thread/read'',
      TypedRow ''skills_list'' ''skills/list'',
      TypedRow ''skills_remote_list'' ''skills/remote/list'',
      TypedRow ''skills_remote_export'' ''skills/remote/export'',
      TypedRow ''app_list'' ''app/list'',
      TypedRow ''skills_config_write'' ''skills/config/write'',
      TypedRow ''turn_start'' ''turn/start'',
      TypedRow ''turn_steer'' ''turn/steer'',
      TypedRow ''turn_interrupt'' ''turn/interrupt'',
      TypedRow ''review_start'' ''review/start'',
      TypedRow ''model_list'' ''model/list'',
      TypedRow ''experimental_feature_list'' ''experimentalFeature/list'',
      TypedRow ''collaboration_mode_list'' ''collaborationMode/list'',
      TypedRow ''mock_experimental_method'' ''mock/experimentalMethod'',
      TypedRow ''mcp_server_oauth_login'' ''mcpServer/oauth/login'',
      TypedRow ''mcp_server_status_list'' ''mcpServerStatus/list'',
      TypedRow ''windows_sandbox_setup_start'' ''windowsSandbox/setupStart'',
      TypedRow ''account_login_start'' ''account/login/start'',
      TypedRow ''account_login_cancel'' ''account/login/cancel'',
      TypedRow ''feedback_upload'' ''feedback/upload'',
      TypedRow ''command_exec'' ''command/exec'',
      TypedRow ''config_read'' ''config/read'',
      TypedRow ''config_value_write'' ''config/value/write'',
      TypedRow ''config_batch_write'' ''config/batchWrite'',
      TypedRow ''account_read'' ''account/read'',
      TypedRow ''fuzzy_file_search_session_start'' ''fuzzyFileSearch/sessionStart'',
      TypedRow ''fuzzy_file_search_session_update'' ''fuzzyFileSearch/sessionUpdate'',
      TypedRow ''fuzzy_file_search_session_stop'' ''fuzzyFileSearch/sessionStop'',
      NullRow ''config_mcp_server_reload'' ''config/mcpServer/reload'',
      NullRow ''account_logout'' ''account/logout'',
      NullRow ''account_rate_limits_read'' ''account/rateLimits/read'',
      NullRow ''config_requirements_read'' ''configRequirements/read'',
      AliasRow ''skills_remote_read'' ''skills_remote_list'',
      AliasRow ''skills_remote_write'' ''skills_remote_export'']"

definition find_row :: "string \<Rightarrow> rpc_row option" where
  "find_row f = List.find (\<lambda>r. row_name r = f) codex_rpc_table"

text \<open>An alias delegates to the method of another row, which carries the wire string.\<close>

definition rpc_wire_method :: "string \<Rightarrow> string option" where
  "rpc_wire_method f =
     (case find_row f of
        None \<Rightarrow> None
      | Some (AliasRow _ g) \<Rightarrow> Option.bind (find_row g) row_wire
      | Some r \<Rightarrow> row_wire r)"

definition wire_methods :: "string list" where
  "wire_methods = List.map_filter row_wire codex_rpc_table"

text \<open>The shape the test of the table asks for: at least two \<open>/\<close>-separated segments, each a
  non-empty run of ASCII letters and digits.\<close>

fun split_slash :: "string \<Rightarrow> string \<Rightarrow> string list" where
  "split_slash acc [] = [rev acc]"
| "split_slash acc (c # s) =
     (if c = CHR 0x2F then rev acc # split_slash [] s else split_slash (c # acc) s)"

definition wellformed_method :: "string \<Rightarrow> bool" where
  "wellformed_method m =
     (let segments = split_slash [] m
      in 2 \<le> length segments \<and>
         list_all (\<lambda>s. s \<noteq> [] \<and> list_all is_ascii_alphanumeric s) segments)"

section \<open>Properties\<close>

lemma wire_methods_count: "length wire_methods = 43"
  by code_simp

lemma wire_methods_distinct: "distinct wire_methods"
  by code_simp

lemma wire_methods_wellformed: "list_all wellformed_method wire_methods"
  by code_simp

lemma rows_distinct: "distinct (map row_name codex_rpc_table)"
  by code_simp

lemma rows_resolve:
  "list_all (\<lambda>r. case rpc_wire_method (row_name r) of
       Some m \<Rightarrow> List.member wire_methods m | None \<Rightarrow> False) codex_rpc_table"
  by code_simp

lemma handshake_methods_apart:
  "\<not> List.member wire_methods ''initialize'' \<and> \<not> List.member wire_methods ''initialized''"
  by code_simp

text \<open>
  The method table: its 43 wire methods are distinct and well formed, no two rows generate
  the same Rust method, every row (an alias through its target) reaches a wire method, and the
  handshake methods are not among them, so that no generated method can bypass the handshake.
\<close>

theorem rpc_table_sound:
  "length wire_methods = 43 \<and> distinct wire_methods \<and> list_all wellformed_method wire_methods \<and>
   distinct (map row_name codex_rpc_table) \<and>
   list_all (\<lambda>r. case rpc_wire_method (row_name r) of
       Some m \<Rightarrow> List.member wire_methods m | None \<Rightarrow> False) codex_rpc_table \<and>
   \<not> List.member wire_methods ''initialize'' \<and> \<not> List.member wire_methods ''initialized''"
  by (intro conjI wire_methods_count wire_methods_distinct wire_methods_wellformed rows_distinct
      rows_resolve) (use handshake_methods_apart in blast)+

end
