(* ===== verification/Threads.thy ===== *)
theory Threads
  imports Served_Client Options Turn_Stream Rpc_Table
begin

text \<open>
  \<open>Codex\<close> and \<open>Thread\<close> of \<open>crates/sdk/src/api.rs\<close>: the high-level handle whose every operation
  first completes the handshake, and the thread object that starts or resumes its server-side
  thread on first use. State is passed explicitly: the client's \<open>inner\<close> and the thread. The
  properties cover the choice of the latest thread, the page loop, and what a thread object
  guarantees across failures.
\<close>

section \<open>The handle\<close>

text \<open>
  A handle with the environment its calls run in: how errors print, what other tasks do while
  a call waits for the handshake lock, and how the peer reacts while a call waits for a reply.
\<close>

record codex =
  codex_displays :: displays
  codex_lock_wait :: "inner \<Rightarrow> inner"
  codex_env :: env
  codex_initialize_params :: initialize_params

definition ensure_initialized :: "codex \<Rightarrow> inner \<Rightarrow> inner \<times> (client_error + unit)" where
  "ensure_initialized c s =
     ensure_ready_with (codex_displays c) (codex_lock_wait c) (codex_env c)
       (codex_initialize_params c) s"

text \<open>A method of the client, and the forward of \<open>Codex\<close> that completes the handshake first.\<close>

definition client_call ::
  "codex \<Rightarrow> ('p \<Rightarrow> json) \<Rightarrow> (json \<Rightarrow> serde_error + 'r) \<Rightarrow> string \<Rightarrow> 'p \<Rightarrow> inner \<Rightarrow>
   inner \<times> (client_error + 'r)" where
  "client_call c enc dec method params s =
     rpc_typed_method (codex_displays c) (codex_env c) enc dec method params s"

definition codex_typed_forward ::
  "codex \<Rightarrow> ('p \<Rightarrow> json) \<Rightarrow> (json \<Rightarrow> serde_error + 'r) \<Rightarrow> string \<Rightarrow> 'p \<Rightarrow> inner \<Rightarrow>
   inner \<times> (client_error + 'r)" where
  "codex_typed_forward c enc dec method params s =
     (case ensure_initialized c s of
        (s1, Inl e) \<Rightarrow> (s1, Err e)
      | (s1, Inr _) \<Rightarrow> client_call c enc dec method params s1)"

definition codex_null_forward ::
  "codex \<Rightarrow> (json \<Rightarrow> serde_error + 'r) \<Rightarrow> string \<Rightarrow> inner \<Rightarrow> inner \<times> (client_error + 'r)" where
  "codex_null_forward c dec method s =
     (case ensure_initialized c s of
        (s1, Inl e) \<Rightarrow> (s1, Err e)
      | (s1, Inr _) \<Rightarrow> rpc_null_method (codex_displays c) (codex_env c) dec method s1)"

definition codex_send_raw_request ::
  "codex \<Rightarrow> string \<Rightarrow> json \<Rightarrow> nat option \<Rightarrow> inner \<Rightarrow> inner \<times> (client_error + json)" where
  "codex_send_raw_request c method params timeout s =
     (case ensure_initialized c s of
        (s1, Inl e) \<Rightarrow> (s1, Err e)
      | (s1, Inr _) \<Rightarrow>
          send_raw_request (codex_displays c) (codex_env c) method params timeout s1)"

definition codex_send_raw_notification ::
  "codex \<Rightarrow> string \<Rightarrow> json \<Rightarrow> inner \<Rightarrow> inner \<times> (client_error + unit)" where
  "codex_send_raw_notification c method params s =
     (case ensure_initialized c s of
        (s1, Inl e) \<Rightarrow> (s1, Err e)
      | (s1, Inr _) \<Rightarrow> send_raw_notification (codex_displays c) method params s1)"

section \<open>Threads\<close>

record thread =
  th_id :: "string option"
  th_pending_resume :: "resume_thread option"
  th_last_turn_id :: "string option"
  th_options :: thread_options

definition start_thread :: "thread_options \<Rightarrow> thread" where
  "start_thread opts =
     \<lparr>th_id = None, th_pending_resume = None, th_last_turn_id = None, th_options = opts\<rparr>"

definition resume_thread :: "resume_thread \<Rightarrow> thread_options \<Rightarrow> thread" where
  "resume_thread target opts =
     \<lparr>th_id = (case target of Latest \<Rightarrow> None | ById i \<Rightarrow> Some i),
      th_pending_resume = Some target, th_last_turn_id = None, th_options = opts\<rparr>"

definition resume_thread_by_id :: "string \<Rightarrow> thread_options \<Rightarrow> thread" where
  "resume_thread_by_id i opts = resume_thread (ById i) opts"

definition resume_latest_thread :: "thread_options \<Rightarrow> thread" where
  "resume_latest_thread opts = resume_thread Latest opts"

subsection \<open>The latest thread\<close>

definition THREAD_LIST_PAGE_LIMIT :: u32 where "THREAD_LIST_PAGE_LIMIT = 100"
definition MAX_THREAD_LIST_PAGES :: nat where "MAX_THREAD_LIST_PAGES = 100"

definition parse_timestamp :: "json option \<Rightarrow> i64 option" where
  "parse_timestamp value =
     (case value of
        Some (JNumber n) \<Rightarrow>
          or_opt (number_as_i64 n)
            (Option.bind (number_as_u64 n) (\<lambda>raw. if unat raw < 2 ^ 63 then Some raw else None))
      | Some (JString raw) \<Rightarrow> parse_i64 raw
      | _ \<Rightarrow> None)"

definition thread_recency_score :: "thread_summary \<Rightarrow> i64 option" where
  "thread_recency_score t =
     or_opt (parse_timestamp (jget (thread_summary_extra t) ''updatedAt''))
       (parse_timestamp (jget (thread_summary_extra t) ''createdAt''))"

definition thread_matches_working_directory :: "thread_summary \<Rightarrow> string option \<Rightarrow> bool" where
  "thread_matches_working_directory t wd =
     (case wd of
        None \<Rightarrow> True
      | Some d \<Rightarrow> field_with as_str (thread_summary_extra t) ''cwd'' = Some d)"

fun select_loop ::
  "string option \<Rightarrow> (i64 option \<times> string) option \<Rightarrow> thread_summary list
    \<Rightarrow> (i64 option \<times> string) option" where
  "select_loop wd selected [] = selected"
| "select_loop wd selected (t # ts) =
     (if \<not> thread_matches_working_directory t wd then select_loop wd selected ts
      else
        (let candidate = (thread_recency_score t, thread_summary_id t)
         in case selected of
              None \<Rightarrow> select_loop wd (Some candidate) ts
            | Some (Some best, _) \<Rightarrow>
                (case fst candidate of
                   Some score \<Rightarrow>
                     select_loop wd (if sint best < sint score then Some candidate else selected) ts
                 | None \<Rightarrow> select_loop wd selected ts)
            | Some _ \<Rightarrow> select_loop wd selected ts))"

definition select_latest_thread_id :: "thread_summary list \<Rightarrow> string option \<Rightarrow> string option" where
  "select_latest_thread_id threads wd = map_option snd (select_loop wd None threads)"

text \<open>
  The page loop, over the remaining number of pages and the operation that lists one. The
  message is the one of the hundredth page.
\<close>

definition pages_exhausted :: client_error where
  "pages_exhausted = TransportSend
     (''could not resolve latest thread after scanning '' @ show_nat MAX_THREAD_LIST_PAGES @ '' pages'')"

fun scan_pages ::
  "nat \<Rightarrow> (string option \<Rightarrow> 's \<Rightarrow> 's \<times> (client_error + thread_list_result)) \<Rightarrow> string option \<Rightarrow>
   thread_summary list \<Rightarrow> 's \<Rightarrow> 's \<times> (client_error + thread_summary list)" where
  "scan_pages 0 list_page cursor threads s = (s, Err pages_exhausted)"
| "scan_pages (Suc n) list_page cursor threads s =
     (case list_page cursor s of
        (s1, Inl e) \<Rightarrow> (s1, Err e)
      | (s1, Inr result) \<Rightarrow>
          (let threads1 = threads @ thread_list_result_data result
           in case thread_list_result_next_cursor result of
                Some next \<Rightarrow> scan_pages n list_page (Some next) threads1 s1
              | None \<Rightarrow> (s1, Ok threads1)))"

definition list_params :: "string option \<Rightarrow> thread_list_params" where
  "list_params cursor =
     \<lparr>thread_list_limit = Some THREAD_LIST_PAGE_LIMIT, thread_list_cursor = cursor,
      thread_list_archived = None, thread_list_source_kinds = None,
      thread_list_model_providers = None, thread_list_extra = []\<rparr>"

definition list_page ::
  "codex \<Rightarrow> string option \<Rightarrow> inner \<Rightarrow> inner \<times> (client_error + thread_list_result)" where
  "list_page c cursor s =
     client_call c thread_list_params_enc thread_list_result_dec ''thread/list'' (list_params cursor) s"

definition no_thread_found :: "string option \<Rightarrow> client_error" where
  "no_thread_found wd =
     (case wd of
        Some d \<Rightarrow> TransportSend
          (''no recorded thread found for working directory `'' @ d @ ''`'')
      | None \<Rightarrow> TransportSend ''no recorded thread found'')"

definition resolve_latest_thread_id ::
  "codex \<Rightarrow> thread \<Rightarrow> inner \<Rightarrow> inner \<times> (client_error + string)" where
  "resolve_latest_thread_id c th s =
     (case scan_pages MAX_THREAD_LIST_PAGES (list_page c) None [] s of
        (s1, Inl e) \<Rightarrow> (s1, Err e)
      | (s1, Inr threads) \<Rightarrow>
          (let wd = thread_opt_working_directory (th_options th)
           in (s1, case select_latest_thread_id threads wd of
                     Some i \<Rightarrow> Ok i
                   | None \<Rightarrow> Err (no_thread_found wd))))"

subsection \<open>Starting or resuming\<close>

definition resume_target ::
  "codex \<Rightarrow> thread \<Rightarrow> resume_thread \<Rightarrow> inner \<Rightarrow> inner \<times> (client_error + string)" where
  "resume_target c th target s =
     (case target of
        ById i \<Rightarrow> (s, Ok i)
      | Latest \<Rightarrow> resolve_latest_thread_id c th s)"

definition ensure_thread_started_or_resumed ::
  "codex \<Rightarrow> thread \<Rightarrow> inner \<Rightarrow> inner \<times> thread \<times> (client_error + string \<times> string option)" where
  "ensure_thread_started_or_resumed c th s =
     (case ensure_initialized c s of
        (s1, Inl e) \<Rightarrow> (s1, th, Err e)
      | (s1, Inr _) \<Rightarrow>
          (case th_pending_resume th of
             Some target \<Rightarrow>
               (case resume_target c th target s1 of
                  (s2, Inl e) \<Rightarrow> (s2, th, Err e)
                | (s2, Inr i) \<Rightarrow>
                    (case client_call c thread_resume_params_enc thread_result_dec ''thread/resume''
                            (build_thread_resume_params i (th_options th)) s2 of
                       (s3, Inl e) \<Rightarrow> (s3, th, Err e)
                     | (s3, Inr resumed) \<Rightarrow>
                         (let i' = thread_summary_id (thread_result_thread resumed)
                          in (s3, th\<lparr>th_id := Some i', th_pending_resume := None,
                                th_last_turn_id := None\<rparr>, Ok (i', None)))))
           | None \<Rightarrow>
               (case th_id th of
                  Some i \<Rightarrow> (s1, th, Ok (i, None))
                | None \<Rightarrow>
                    (case client_call c thread_start_params_enc thread_result_dec ''thread/start''
                            (build_thread_start_params (th_options th)) s1 of
                       (s2, Inl e) \<Rightarrow> (s2, th, Err e)
                     | (s2, Inr started) \<Rightarrow>
                         (let i = thread_summary_id (thread_result_thread started)
                          in (s2, th\<lparr>th_id := Some i, th_last_turn_id := None\<rparr>,
                              Ok (i, Some i)))))))"

subsection \<open>Operations on the thread\<close>

text \<open>The shape they share: make sure the thread exists, then one request that names it.\<close>

definition thread_call ::
  "codex \<Rightarrow> ('p \<Rightarrow> json) \<Rightarrow> (json \<Rightarrow> serde_error + 'r) \<Rightarrow> string \<Rightarrow> (string \<Rightarrow> 'p) \<Rightarrow> thread \<Rightarrow> inner
    \<Rightarrow> inner \<times> thread \<times> (client_error + 'r)" where
  "thread_call c enc dec method params th s =
     (case ensure_thread_started_or_resumed c th s of
        (s1, th1, Inl e) \<Rightarrow> (s1, th1, Err e)
      | (s1, th1, Inr (i, _)) \<Rightarrow>
          (let (s2, r) = client_call c enc dec method (params i) s1 in (s2, th1, r)))"

definition thread_set_name ::
  "codex \<Rightarrow> string \<Rightarrow> thread \<Rightarrow> inner \<Rightarrow> inner \<times> thread \<times> (client_error + opaque_struct)" where
  "thread_set_name c name = thread_call c thread_set_name_params_enc opaque_struct_dec
     ''thread/name/set''
     (\<lambda>i. \<lparr>thread_set_name_thread_id = i, thread_set_name_name = name, thread_set_name_extra = []\<rparr>)"

definition thread_read ::
  "codex \<Rightarrow> bool option \<Rightarrow> thread \<Rightarrow> inner \<Rightarrow> inner \<times> thread \<times> (client_error + opaque_struct)" where
  "thread_read c include_turns = thread_call c thread_read_params_enc opaque_struct_dec ''thread/read''
     (\<lambda>i. \<lparr>thread_read_thread_id = i, thread_read_include_turns = include_turns,
          thread_read_extra = []\<rparr>)"

definition id_params :: "string \<Rightarrow> thread_id_params" where
  "id_params i = \<lparr>thread_id_thread_id = i, thread_id_extra = []\<rparr>"

definition thread_archive ::
  "codex \<Rightarrow> thread \<Rightarrow> inner \<Rightarrow> inner \<times> thread \<times> (client_error + opaque_struct)" where
  "thread_archive c = thread_call c thread_id_params_enc opaque_struct_dec ''thread/archive'' id_params"

definition thread_unarchive ::
  "codex \<Rightarrow> thread \<Rightarrow> inner \<Rightarrow> inner \<times> thread \<times> (client_error + opaque_struct)" where
  "thread_unarchive c =
     thread_call c thread_id_params_enc opaque_struct_dec ''thread/unarchive'' id_params"

definition thread_rollback ::
  "codex \<Rightarrow> u32 \<Rightarrow> thread \<Rightarrow> inner \<Rightarrow> inner \<times> thread \<times> (client_error + opaque_struct)" where
  "thread_rollback c count = thread_call c thread_rollback_params_enc opaque_struct_dec
     ''thread/rollback''
     (\<lambda>i. \<lparr>thread_rollback_thread_id = i, thread_rollback_count = count, thread_rollback_extra = []\<rparr>)"

definition thread_compact_start ::
  "codex \<Rightarrow> thread \<Rightarrow> inner \<Rightarrow> inner \<times> thread \<times> (client_error + opaque_struct)" where
  "thread_compact_start c =
     thread_call c thread_id_params_enc opaque_struct_dec ''thread/compact/start'' id_params"

definition steer_without_turn :: client_error where
  "steer_without_turn = TransportSend
     ''turn/steer requires expected_turn_id or a previously started turn''"

definition thread_steer ::
  "codex \<Rightarrow> input \<Rightarrow> string option \<Rightarrow> thread \<Rightarrow> inner \<Rightarrow>
   inner \<times> thread \<times> (client_error + turn_steer_result)" where
  "thread_steer c inp expected th s =
     (case ensure_thread_started_or_resumed c th s of
        (s1, th1, Inl e) \<Rightarrow> (s1, th1, Err e)
      | (s1, th1, Inr (i, _)) \<Rightarrow>
          (case or_opt expected (th_last_turn_id th1) of
             None \<Rightarrow> (s1, th1, Err steer_without_turn)
           | Some t \<Rightarrow>
               (let (s2, r) = client_call c turn_steer_params_enc turn_steer_result_dec ''turn/steer''
                      \<lparr>turn_steer_thread_id = i, turn_steer_input = normalize_input inp,
                       turn_steer_expected_turn_id = Some t, turn_steer_extra = []\<rparr> s1
                in (s2, th1, r))))"

definition thread_interrupt ::
  "codex \<Rightarrow> string \<Rightarrow> thread \<Rightarrow> inner \<Rightarrow> inner \<times> thread \<times> (client_error + unit)" where
  "thread_interrupt c turn th s =
     (let (s1, th1, r) = thread_call c turn_interrupt_params_enc empty_object_dec ''turn/interrupt''
            (\<lambda>i. \<lparr>turn_interrupt_thread_id = i, turn_interrupt_turn_id = turn,
                 turn_interrupt_extra = []\<rparr>) th s
      in (s1, th1, map_ok (\<lambda>_. ()) r))"

subsection \<open>Turns\<close>

text \<open>
  A streamed turn: its id, the thread, what is in its channel already, and the position of its
  broadcast receiver, which was subscribed before \<open>turn/start\<close> was sent.
\<close>

record streamed_turn =
  streamed_turn_id :: string
  streamed_thread_id :: string
  streamed_started :: "string option"
  streamed_from :: nat

definition run_streamed ::
  "codex \<Rightarrow> input \<Rightarrow> turn_options \<Rightarrow> thread \<Rightarrow> inner \<Rightarrow>
   inner \<times> thread \<times> (client_error + streamed_turn)" where
  "run_streamed c inp turn_opts th s =
     (case ensure_thread_started_or_resumed c th s of
        (s1, th1, Inl e) \<Rightarrow> (s1, th1, Err e)
      | (s1, th1, Inr (i, started)) \<Rightarrow>
          (let position = length (events s1) in
           case client_call c turn_start_params_enc turn_result_dec ''turn/start''
                  (build_turn_start_params i inp (th_options th1) turn_opts) s1 of
             (s2, Inl e) \<Rightarrow> (s2, th1, Err e)
           | (s2, Inr response) \<Rightarrow>
               (let t = turn_id (turn_result_turn response)
                in (s2, th1\<lparr>th_last_turn_id := Some t\<rparr>,
                    Ok \<lparr>streamed_turn_id = t, streamed_thread_id = i, streamed_started = started,
                        streamed_from = position\<rparr>))))"

text \<open>
  \<open>run\<close>: the stream folded into a turn. \<open>recvs\<close> is what the broadcast receiver returns from its
  position on; \<open>None\<close> is a call that is still waiting.
\<close>

definition thread_run ::
  "codex \<Rightarrow> input \<Rightarrow> turn_options \<Rightarrow> (streamed_turn \<Rightarrow> inner \<Rightarrow> recv list) \<Rightarrow> thread \<Rightarrow> inner \<Rightarrow>
   inner \<times> thread \<times> (thread_run_error + finished_turn) option" where
  "thread_run c inp turn_opts recvs th s =
     (case run_streamed c inp turn_opts th s of
        (s1, th1, Inl e) \<Rightarrow> (s1, th1, Some (Err (RunClient e)))
      | (s1, th1, Inr st) \<Rightarrow>
          (s1, th1, run_turn (streamed_thread_id st) (streamed_turn_id st) (streamed_started st)
             (recvs st s1)))"

definition thread_ask ::
  "codex \<Rightarrow> input \<Rightarrow> turn_options \<Rightarrow> (streamed_turn \<Rightarrow> inner \<Rightarrow> recv list) \<Rightarrow> thread \<Rightarrow> inner \<Rightarrow>
   inner \<times> thread \<times> (thread_run_error + string) option" where
  "thread_ask c inp turn_opts recvs th s =
     (case thread_run c inp turn_opts recvs th s of
        (s1, th1, r) \<Rightarrow> (s1, th1, map_option (map_ok finished_final_response) r))"

definition codex_ask_with_options ::
  "codex \<Rightarrow> input \<Rightarrow> thread_options \<Rightarrow> turn_options \<Rightarrow> (streamed_turn \<Rightarrow> inner \<Rightarrow> recv list) \<Rightarrow>
   inner \<Rightarrow> inner \<times> (thread_run_error + string) option" where
  "codex_ask_with_options c inp opts turn_opts recvs s =
     (case thread_ask c inp turn_opts recvs (start_thread opts) s of (s1, _, r) \<Rightarrow> (s1, r))"

definition codex_ask ::
  "codex \<Rightarrow> input \<Rightarrow> (streamed_turn \<Rightarrow> inner \<Rightarrow> recv list) \<Rightarrow> inner \<Rightarrow>
   inner \<times> (thread_run_error + string) option" where
  "codex_ask c inp recvs s =
     codex_ask_with_options c inp thread_options_default turn_options_default recvs s"

section \<open>Choosing the latest thread\<close>

lemma select_loop_filter:
  "select_loop wd sel ts =
     select_loop None sel (filter (\<lambda>t. thread_matches_working_directory t wd) ts)"
  by (induction ts arbitrary: sel)
    (auto simp: thread_matches_working_directory_def Let_def split: option.splits)

lemma any_directory [simp]: "thread_matches_working_directory t None"
  by (simp add: thread_matches_working_directory_def)

lemma select_loop_append: "select_loop wd sel (xs @ ys) = select_loop wd (select_loop wd sel xs) ys"
  by (induction xs arbitrary: sel) (auto simp: Let_def split: option.splits)

lemma select_loop_unscored: "select_loop None (Some (None, i)) ts = Some (None, i)"
  by (induction ts) (auto simp: Let_def)

text \<open>The first of the threads with the greatest timestamp.\<close>

definition recency :: "thread_summary \<Rightarrow> int" where
  "recency t = sint (the (thread_recency_score t))"

definition first_newest :: "thread_summary list \<Rightarrow> thread_summary \<Rightarrow> bool" where
  "first_newest ts t \<longleftrightarrow>
     (\<exists>pre post. ts = pre @ t # post \<and> (\<forall>u \<in> set pre. recency u < recency t) \<and>
        (\<forall>u \<in> set post. recency u \<le> recency t))"

lemma first_newest_keep:
  "first_newest ts t \<Longrightarrow> recency u \<le> recency t \<Longrightarrow> first_newest (ts @ [u]) t"
  unfolding first_newest_def
  by (elim exE conjE, rename_tac pre post) (rule_tac x = pre in exI, rule_tac x = "post @ [u]" in exI, auto)

lemma first_newest_replace:
  "first_newest ts t \<Longrightarrow> recency t < recency u \<Longrightarrow> first_newest (ts @ [u]) u"
  unfolding first_newest_def by (rule exI [of _ ts], rule exI [of _ "[]"]) force

lemma select_loop_newest:
  "ts \<noteq> [] \<Longrightarrow> \<forall>t \<in> set ts. thread_recency_score t \<noteq> None \<Longrightarrow>
   \<exists>t. first_newest ts t \<and> t \<in> set ts \<and>
     select_loop None None ts = Some (thread_recency_score t, thread_summary_id t)"
proof (induction ts rule: rev_induct)
  case Nil
  then show ?case by simp
next
  case (snoc u ts)
  then obtain c where c: "thread_recency_score u = Some c" by auto
  show ?case
  proof (cases "ts = []")
    case True
    have "first_newest [u] u" unfolding first_newest_def by (rule exI [of _ "[]"]) simp
    with True show ?thesis by simp
  next
    case False
    then obtain t where t: "first_newest ts t" "t \<in> set ts"
      "select_loop None None ts = Some (thread_recency_score t, thread_summary_id t)"
      using snoc by auto
    then obtain b where b: "thread_recency_score t = Some b" using snoc.prems by auto
    show ?thesis
    proof (cases "sint b < sint c")
      case True
      then have "first_newest (ts @ [u]) u"
        using first_newest_replace [OF t(1), of u] b c by (simp add: recency_def)
      with True t(3) b c show ?thesis by (intro exI [of _ u]) (simp add: select_loop_append)
    next
      case False
      then have "first_newest (ts @ [u]) t"
        using first_newest_keep [OF t(1), of u] b c by (simp add: recency_def)
      with False t(2,3) b c show ?thesis by (intro exI [of _ t]) (simp add: select_loop_append)
    qed
  qed
qed

lemma select_loop_some: "select_loop None (Some x) us \<noteq> None"
proof (induction us arbitrary: x)
  case Nil
  then show ?case by simp
next
  case (Cons u us)
  then show ?case by (cases x) (auto simp: Let_def split: option.split)
qed

text \<open>
  The latest thread: no thread is found exactly when none matches the working directory;
  when every matching thread has a timestamp the choice is the first of those with the
  greatest one; and a first match without a timestamp is chosen whatever follows it.
\<close>

theorem select_latest_thread:
  assumes "ms = filter (\<lambda>t. thread_matches_working_directory t wd) ts"
  shows "(select_latest_thread_id ts wd = None \<longleftrightarrow> ms = []) \<and>
    (ms \<noteq> [] \<and> (\<forall>t \<in> set ms. thread_recency_score t \<noteq> None) \<longrightarrow>
       (\<exists>t. first_newest ms t \<and> select_latest_thread_id ts wd = Some (thread_summary_id t))) \<and>
    (ms \<noteq> [] \<and> thread_recency_score (hd ms) = None \<longrightarrow>
       select_latest_thread_id ts wd = Some (thread_summary_id (hd ms)))"
proof -
  have run: "select_latest_thread_id ts wd = map_option snd (select_loop None None ms)"
    unfolding select_latest_thread_id_def assms by (subst select_loop_filter) rule
  show ?thesis
  proof (cases ms)
    case Nil
    with run show ?thesis by simp
  next
    case (Cons t rest)
    then have "select_loop None None ms \<noteq> None" by (simp add: select_loop_some)
    moreover have "thread_recency_score t = None \<longrightarrow>
        select_loop None None ms = Some (None, thread_summary_id t)"
      using Cons by (simp add: select_loop_unscored)
    ultimately show ?thesis using run Cons select_loop_newest [of ms] by auto
  qed
qed

definition summary_at :: "string \<Rightarrow> i64 \<Rightarrow> thread_summary" where
  "summary_at i t =
     \<lparr>thread_summary_id = i, thread_summary_model = None, thread_summary_title = None,
      thread_summary_source_kind = None, thread_summary_archived = None,
      thread_summary_extra = [(''updatedAt'', JNumber (PosInt t))]\<rparr>"

theorem select_latest_thread_witness:
  "select_latest_thread_id [summary_at ''a'' 1, summary_at ''b'' 2, summary_at ''c'' 2] None = Some ''b''"
proof -
  let ?ts = "[summary_at ''a'' 1, summary_at ''b'' 2, summary_at ''c'' 2]"
  have score: "thread_recency_score (summary_at i t) = Some t" if "unat t < 2 ^ 63" for i t
    using that by (simp add: thread_recency_score_def parse_timestamp_def summary_at_def jget_Cons)
  have id: "thread_summary_id (summary_at i t) = i" for i t by (simp add: summary_at_def)
  have ms: "?ts = filter (\<lambda>t. thread_matches_working_directory t None) ?ts" by simp
  from select_latest_thread [OF ms] obtain t where
    t: "first_newest ?ts t" "select_latest_thread_id ?ts None = Some (thread_summary_id t)"
    by (auto simp: score)
  from t(1) have "t = summary_at ''b'' 2"
    by (auto simp: first_newest_def recency_def score Cons_eq_append_conv)
  with t(2) show ?thesis by (simp add: id)
qed

section \<open>Scanning pages\<close>

text \<open>The threads on the pages from a cursor on, if the last page comes within \<open>n\<close>.\<close>

fun page_chain ::
  "nat \<Rightarrow> (string option \<Rightarrow> thread_list_result) \<Rightarrow> string option \<Rightarrow> thread_summary list option" where
  "page_chain 0 page cursor = None"
| "page_chain (Suc n) page cursor =
     (case thread_list_result_next_cursor (page cursor) of
        None \<Rightarrow> Some (thread_list_result_data (page cursor))
      | Some next \<Rightarrow>
          map_option (append (thread_list_result_data (page cursor))) (page_chain n page (Some next)))"

text \<open>
  What the loop needs of the operation that lists a page: it returns the page of its cursor, it
  can be used again, and it costs one request.
\<close>

locale paged_source =
  fixes list_page :: "string option \<Rightarrow> 's \<Rightarrow> 's \<times> (client_error + thread_list_result)"
    and page :: "string option \<Rightarrow> thread_list_result"
    and ok :: "'s \<Rightarrow> bool"
    and cost :: "'s \<Rightarrow> nat"
  assumes lists: "ok s \<Longrightarrow>
    \<exists>t. list_page cursor s = (t, Ok (page cursor)) \<and> ok t \<and> cost t = Suc (cost s)"
begin

lemma scan_pages_chain:
  "ok s \<Longrightarrow> \<exists>t. scan_pages n list_page cursor threads s =
     (t, case page_chain n page cursor of
           Some ts \<Rightarrow> Ok (threads @ ts) | None \<Rightarrow> Err pages_exhausted) \<and>
     ok t \<and> cost t \<le> cost s + n"
proof (induction n arbitrary: cursor threads s)
  case 0
  then show ?case by simp
next
  case (Suc n)
  obtain t where t: "list_page cursor s = (t, Ok (page cursor))" "ok t" "cost t = Suc (cost s)"
    using lists [OF Suc.prems, of cursor] by blast
  show ?case
  proof (cases "thread_list_result_next_cursor (page cursor)")
    case None
    with t show ?thesis by simp
  next
    case (Some nxt)
    from Suc.IH [OF t(2), of "Some nxt" "threads @ thread_list_result_data (page cursor)"] t Some
    show ?thesis by (auto simp: Let_def split: option.splits)
  qed
qed

end

text \<open>A handle on a server that lists the given pages.\<close>

definition served_codex :: "displays \<Rightarrow> rpc_server \<Rightarrow> initialize_params \<Rightarrow> codex" where
  "served_codex d srv params =
     \<lparr>codex_displays = d, codex_lock_wait = id, codex_env = server_env d srv,
      codex_initialize_params = params\<rparr>"

lemma served_client_call:
  "client_call (served_codex d srv params) enc dec m x s = served.typed d srv dec m (enc x) s"
  by (simp add: client_call_def served_codex_def rpc_typed_method_served)

definition invalid_params :: rpc_error where
  "invalid_params = rpc_error_make (- 32602) ''invalid params'' None"

definition listing_server ::
  "(string option \<Rightarrow> thread_list_result) \<Rightarrow> rpc_server \<Rightarrow> rpc_server" where
  "listing_server page srv m p =
     (if m = ''thread/list''
      then (case thread_list_params_dec p of
              Inr q \<Rightarrow> Ok (thread_list_result_enc (page (thread_list_cursor q)))
            | Inl _ \<Rightarrow> Err invalid_params)
      else srv m p)"

definition pages_usable ::
  "(string option \<Rightarrow> thread_list_result) \<Rightarrow> rpc_server \<Rightarrow> inner \<Rightarrow> bool" where
  "pages_usable page srv s \<longleftrightarrow>
     usable (listing_server page srv) s \<and> (\<forall>cursor. thread_list_result_wf (page cursor))"

interpretation listed: paged_source
  "list_page (served_codex d (listing_server page srv) params)" page "pages_usable page srv"
  "\<lambda>s. length (sent_calls s)"
  for d page srv params
proof
  fix s cursor
  assume ok: "pages_usable page srv s"
  have wf: "thread_list_params_wf (list_params cursor)"
    by (simp add: thread_list_params_wf_def list_params_def)
  have srv: "listing_server page srv ''thread/list'' (thread_list_params_enc (list_params cursor)) =
      Ok (thread_list_result_enc (page cursor))"
    by (simp add: listing_server_def thread_list_params.roundtrip [OF wf]) (simp add: list_params_def)
  have dec: "thread_list_result_dec (thread_list_result_enc (page cursor)) = Ok (page cursor)"
    using ok by (simp add: pages_usable_def thread_list_result.roundtrip)
  have "usable (listing_server page srv) s" using ok by (simp add: pages_usable_def)
  from served.typed_Ok [OF this srv, of thread_list_result_dec, OF dec, of d] ok
  show "\<exists>t. list_page (served_codex d (listing_server page srv) params) cursor s =
      (t, Ok (page cursor)) \<and> pages_usable page srv t \<and>
      length (sent_calls t) = Suc (length (sent_calls s))"
    by (auto simp: list_page_def served_client_call pages_usable_def)
qed

text \<open>
  Resolving the latest thread over the wire: against a server that lists the given pages,
  the result is the choice over the concatenation of the pages, or the exhaustion error when
  the last page does not come within a hundred, after at most a hundred requests.
\<close>

theorem resolve_latest_over_pages:
  assumes "pages_usable page srv s"
  shows "\<exists>t. resolve_latest_thread_id (served_codex d (listing_server page srv) params) th s =
      (t, case page_chain 100 page None of
            None \<Rightarrow> Err pages_exhausted
          | Some ts \<Rightarrow>
              (case select_latest_thread_id ts (thread_opt_working_directory (th_options th)) of
                 Some i \<Rightarrow> Ok i
               | None \<Rightarrow> Err (no_thread_found (thread_opt_working_directory (th_options th))))) \<and>
    length (sent_calls t) \<le> length (sent_calls s) + 100"
proof -
  obtain t where t: "scan_pages 100 (list_page (served_codex d (listing_server page srv) params)) None [] s =
     (t, case page_chain 100 page None of Some ts \<Rightarrow> Ok ts | None \<Rightarrow> Err pages_exhausted)"
     "length (sent_calls t) \<le> length (sent_calls s) + 100"
    using listed.scan_pages_chain [OF assms, of 100 d params None "[]", unfolded append_Nil]
    by blast
  then show ?thesis
    by (intro exI [of _ t])
      (simp add: resolve_latest_thread_id_def MAX_THREAD_LIST_PAGES_def Let_def split: option.split)
qed

definition one_page :: "string option \<Rightarrow> thread_list_result" where
  "one_page cursor =
     \<lparr>thread_list_result_data = [summary_at ''a'' 1, summary_at ''b'' 2],
      thread_list_result_next_cursor = None, thread_list_result_extra = []\<rparr>"

lemma one_page_usable: "pages_usable one_page (\<lambda>m p. Ok JNull) ready_client"
proof -
  have "sane_server (listing_server one_page (\<lambda>m p. Ok JNull))"
    by (auto simp: sane_server_def listing_server_def invalid_params_def rpc_error_wf_def
        rpc_error_make_def split: if_splits sum.splits)
  moreover have "thread_list_result_wf (one_page cursor)" for cursor
    by (simp add: thread_list_result_wf_def one_page_def thread_summary_wf_def summary_at_def
        thread_summary_fields_def)
  ultimately show ?thesis by (simp add: pages_usable_def usable_def ready_client_inv)
qed

theorem resolve_latest_over_pages_witness:
  "\<exists>t. resolve_latest_thread_id
      (served_codex plain_displays (listing_server one_page (\<lambda>m p. Ok JNull)) (default_initialize_params ''1''))
      (resume_latest_thread thread_options_default) ready_client = (t, Ok ''b'')"
proof -
  have chain: "page_chain 100 one_page None = Some [summary_at ''a'' 1, summary_at ''b'' 2]"
    by (simp add: one_page_def numeral_eq_Suc)
  have "select_loop None None [summary_at ''a'' 1, summary_at ''b'' 2] = Some (Some 2, ''b'')"
    by (simp add: thread_recency_score_def parse_timestamp_def summary_at_def jget_Cons)
  then have sel: "select_latest_thread_id [summary_at ''a'' 1, summary_at ''b'' 2] None = Some ''b''"
    by (simp add: select_latest_thread_id_def)
  from resolve_latest_over_pages [OF one_page_usable, of plain_displays "default_initialize_params ''1''"
      "resume_latest_thread thread_options_default"]
  show ?thesis
    by (auto simp: chain resume_latest_thread_def resume_thread_def thread_options_default_def sel)
qed

section \<open>What a thread object guarantees\<close>

text \<open>
  The thread object across failures: when starting or resuming fails, for whatever reason,
  the object is unchanged, so that the next operation tries the same again; when it succeeds
  the object names the thread the server returned, nothing is left to resume, and the started
  id is reported exactly when a new thread was started.
\<close>

theorem ensure_thread_outcome:
  assumes "ensure_thread_started_or_resumed c th s = (s1, th1, r)"
  shows "case r of
      Inl e \<Rightarrow> th1 = th
    | Inr (i, started) \<Rightarrow>
        th_id th1 = Some i \<and> th_pending_resume th1 = None \<and> th_options th1 = th_options th \<and>
        started = (if th_pending_resume th = None \<and> th_id th = None then Some i else None)"
  using assms
  by (auto simp: ensure_thread_started_or_resumed_def Let_def
      split: prod.splits sum.splits option.splits)

theorem ensure_thread_outcome_witness:
  "\<exists>s1 r. ensure_thread_started_or_resumed
      \<lparr>codex_displays = plain_displays, codex_lock_wait = id,
       codex_env = (\<lambda>i n s. (s, TimedOutWaiting)),
       codex_initialize_params = default_initialize_params ''1''\<rparr>
      (start_thread thread_options_default) ready_client = (s1, start_thread thread_options_default, Err r)"
proof -
  let ?c = "\<lparr>codex_displays = plain_displays, codex_lock_wait = id,
       codex_env = (\<lambda>i n s. (s, TimedOutWaiting)),
       codex_initialize_params = default_initialize_params ''1''\<rparr>"
  let ?th = "start_thread thread_options_default"
  obtain s1 th1 r where e: "ensure_thread_started_or_resumed ?c ?th ready_client = (s1, th1, r)"
    by (metis prod_cases3)
  then obtain err where "r = Err err"
    by (auto simp: ensure_thread_started_or_resumed_def ensure_initialized_def ensure_ready_with_def
        start_thread_def client_call_def rpc_typed_method_def request_typed_internal_def
        request_typed_value_internal_def request_value_internal_def request_begin_Ok
        request_gate_def request_finish_def Let_def handshake_order)
  with ensure_thread_outcome [OF e] e show ?thesis by auto
qed

text \<open>
  C18: a thread is started or resumed once: after it has succeeded on a connection that is ready,
  doing it again sends nothing, changes nothing and returns the same id.
\<close>

theorem ensure_thread_once:
  assumes "ensure_thread_started_or_resumed c th s = (s1, th1, Ok (i, started))"
    "handshake_state s1 = HS_Ready"
  shows "ensure_thread_started_or_resumed c th1 s1 = (s1, th1, Ok (i, None))"
  using ensure_thread_outcome [OF assms(1)] assms(2)
  by (auto simp: ensure_thread_started_or_resumed_def ensure_initialized_def ensure_ready_with_def)

section \<open>A whole session\<close>

text \<open>A server that accepts the handshake, starts the thread \<open>tr\<close> and the turn \<open>ur\<close>.\<close>

definition accepts :: "rpc_server \<Rightarrow> initialize_params \<Rightarrow> thread_result \<Rightarrow> turn_result \<Rightarrow> bool" where
  "accepts srv params tr ur \<longleftrightarrow>
     sane_server srv \<and>
     (\<exists>v res. srv METHOD_INITIALIZE (initialize_params_enc params) = Ok v \<and>
        initialize_result_dec v = Ok res) \<and>
     (\<forall>p. srv ''thread/start'' p = Ok (thread_result_enc tr)) \<and> thread_result_wf tr \<and>
     (\<forall>p. srv ''turn/start'' p = Ok (turn_result_enc ur)) \<and> turn_result_wf ur"

lemma served_thread_start:
  assumes "accepts srv params tr ur" "client_inv s" "handshake_state s = HS_New" "outbound_open s"
  shows "\<exists>t. ensure_thread_started_or_resumed (served_codex d srv params) (start_thread opts) s =
      (t, (start_thread opts)\<lparr>th_id := Some (thread_summary_id (thread_result_thread tr))\<rparr>,
       Ok (thread_summary_id (thread_result_thread tr),
           Some (thread_summary_id (thread_result_thread tr)))) \<and>
    usable srv t \<and>
    sent_calls t = sent_calls s @
      [(METHOD_INITIALIZE, initialize_params_enc params), (METHOD_INITIALIZED, empty_params),
       (''thread/start'', thread_start_params_enc (build_thread_start_params opts))]"
proof -
  have sane: "sane_server srv" and start: "\<And>p. srv ''thread/start'' p = Ok (thread_result_enc tr)"
    and wf: "thread_result_wf tr" using assms(1) by (simp_all add: accepts_def)
  obtain v res where v: "srv METHOD_INITIALIZE (initialize_params_enc params) = Ok v"
    "initialize_result_dec v = Ok res" using assms(1) by (auto simp: accepts_def)
  obtain t where t: "ensure_ready_with d id (server_env d srv) params s = (t, Ok ())" "usable srv t"
    "sent_calls t = sent_calls s @
      [(METHOD_INITIALIZE, initialize_params_enc params), (METHOD_INITIALIZED, empty_params)]"
    using served_handshake [OF sane assms(2,3,4) v, of d] by blast
  have init: "ensure_initialized (served_codex d srv params) s = (t, Ok ())"
    using t(1) by (simp add: ensure_initialized_def served_codex_def)
  obtain u where u: "served.typed d srv thread_result_dec ''thread/start''
      (thread_start_params_enc (build_thread_start_params opts)) t = (u, Ok tr)" "usable srv u"
    "sent_calls u = sent_calls t @
      [(''thread/start'', thread_start_params_enc (build_thread_start_params opts))]"
    using served.typed_Ok [OF t(2) start, of thread_result_dec, OF thread_result.roundtrip [OF wf]]
    by blast
  show ?thesis
    using u t(3)
    by (intro exI [of _ u])
      (simp add: ensure_thread_started_or_resumed_def init start_thread_def served_client_call Let_def)
qed

text \<open>
  C9: a whole session: \<open>ask\<close> on a fresh connection to a server that accepts it sends exactly
  \<open>initialize\<close>, \<open>initialized\<close>, \<open>thread/start\<close> with the thread options and \<open>turn/start\<close> with the
  merged turn options and the new thread's id, in this order, and returns the final response
  of the turn the server started, as its stream delivers it.
\<close>

theorem ask_end_to_end:
  assumes "accepts srv params tr ur" "client_inv s" "handshake_state s = HS_New" "outbound_open s"
  shows "\<exists>t st. codex_ask_with_options (served_codex d srv params) inp opts topts recvs s =
      (t, map_option (map_ok finished_final_response)
            (run_turn (thread_summary_id (thread_result_thread tr)) (turn_id (turn_result_turn ur))
               (Some (thread_summary_id (thread_result_thread tr))) (recvs st t))) \<and>
    sent_calls t = sent_calls s @
      [(METHOD_INITIALIZE, initialize_params_enc params), (METHOD_INITIALIZED, empty_params),
       (''thread/start'', thread_start_params_enc (build_thread_start_params opts)),
       (''turn/start'', turn_start_params_enc
          (build_turn_start_params (thread_summary_id (thread_result_thread tr)) inp opts topts))]"
proof -
  let ?i = "thread_summary_id (thread_result_thread tr)"
  have turn: "\<And>p. srv ''turn/start'' p = Ok (turn_result_enc ur)" and wf: "turn_result_wf ur"
    using assms(1) by (simp_all add: accepts_def)
  obtain t where t: "ensure_thread_started_or_resumed (served_codex d srv params) (start_thread opts) s =
      (t, (start_thread opts)\<lparr>th_id := Some ?i\<rparr>, Ok (?i, Some ?i))" "usable srv t"
    "sent_calls t = sent_calls s @
      [(METHOD_INITIALIZE, initialize_params_enc params), (METHOD_INITIALIZED, empty_params),
       (''thread/start'', thread_start_params_enc (build_thread_start_params opts))]"
    using served_thread_start [OF assms, of d opts] by blast
  obtain u where u: "served.typed d srv turn_result_dec ''turn/start''
      (turn_start_params_enc (build_turn_start_params ?i inp opts topts)) t = (u, Ok ur)"
    "sent_calls u = sent_calls t @
      [(''turn/start'', turn_start_params_enc (build_turn_start_params ?i inp opts topts))]"
    using served.typed_Ok [OF t(2) turn, of turn_result_dec, OF turn_result.roundtrip [OF wf]]
    by blast
  let ?st = "\<lparr>streamed_turn_id = turn_id (turn_result_turn ur), streamed_thread_id = ?i,
    streamed_started = Some ?i, streamed_from = length (events t)\<rparr>"
  have "run_streamed (served_codex d srv params) inp topts (start_thread opts) s =
    (u, (start_thread opts)\<lparr>th_id := Some ?i, th_last_turn_id := Some (turn_id (turn_result_turn ur))\<rparr>,
     Ok ?st)"
    using t(1) u(1) by (simp add: run_streamed_def served_client_call start_thread_def Let_def)
  then show ?thesis
    using t(3) u(2)
    by (intro exI [of _ u] exI [of _ ?st])
      (simp add: codex_ask_with_options_def thread_ask_def thread_run_def)
qed

lemma fresh_client:
  "client_inv (inner_new n)" "handshake_state (inner_new n) = HS_New"
  "outbound_open (inner_new n)" "sent_calls (inner_new n) = []"
  by (rule client_inv_new) (simp_all add: inner_new_def sent_calls_def map_filter_def)

definition demo_server :: rpc_server where
  "demo_server m p =
     (if m = METHOD_INITIALIZE then Ok (JObject [])
      else if m = ''thread/start'' then Ok (thread_result_enc
        \<lparr>thread_result_thread = summary_at ''t1'' 1, thread_result_extra = []\<rparr>)
      else if m = ''turn/start'' then Ok (turn_result_enc
        \<lparr>turn_result_turn = \<lparr>turn_id = ''u1'', turn_status = None, turn_items = [],
           turn_error = None, turn_extra = []\<rparr>, turn_result_extra = []\<rparr>)
      else Err invalid_params)"

lemma demo_server_accepts:
  "accepts demo_server params
     \<lparr>thread_result_thread = summary_at ''t1'' 1, thread_result_extra = []\<rparr>
     \<lparr>turn_result_turn = \<lparr>turn_id = ''u1'', turn_status = None, turn_items = [],
        turn_error = None, turn_extra = []\<rparr>, turn_result_extra = []\<rparr>"
proof -
  have "sane_server demo_server"
    by (auto simp: sane_server_def demo_server_def invalid_params_def rpc_error_wf_def
        rpc_error_make_def split: if_splits)
  moreover have "\<exists>res. initialize_result_dec (JObject []) = Ok res"
    by (simp add: initialize_result_dec_def codec get_extra_def)
  ultimately show ?thesis
    by (auto simp: accepts_def demo_server_def METHOD_INITIALIZE_def thread_result_wf_def
        turn_result_wf_def turn_wf_def thread_summary_wf_def summary_at_def thread_summary_fields_def)
qed

theorem ask_end_to_end_witness:
  "\<exists>t. codex_ask (served_codex plain_displays demo_server (default_initialize_params ''1''))
      (Input_Text ''hi'') (\<lambda>st t. [RecvClosed]) (inner_new 5) =
      (t, Some (Err (RunClient TransportClosed))) \<and>
    map fst (sent_calls t) = [''initialize'', ''initialized'', ''thread/start'', ''turn/start'']"
proof -
  note new = fresh_client [of 5]
  have "run_turn i u st [RecvClosed] = Some (Err (RunClient TransportClosed))" for i u st
    by (cases st) (simp_all add: run_turn_def stream_prefix_def)
  with ask_end_to_end [OF demo_server_accepts new(1,2,3), of plain_displays
      "default_initialize_params ''1''" "Input_Text ''hi''" thread_options_default
      turn_options_default "\<lambda>st t. [RecvClosed]"]
  show ?thesis
    by (auto simp: codex_ask_def new(4) METHOD_INITIALIZE_def METHOD_INITIALIZED_def)
qed

theorem ensure_thread_once_witness:
  "\<exists>s th. ensure_thread_started_or_resumed
      (served_codex plain_displays demo_server (default_initialize_params ''1'')) th s =
      (s, th, Ok (''t1'', None)) \<and> length (sent_calls s) = 3"
proof -
  let ?c = "served_codex plain_displays demo_server (default_initialize_params ''1'')"
  note new = fresh_client [of 5]
  obtain t th1 where t: "ensure_thread_started_or_resumed ?c (start_thread thread_options_default)
      (inner_new 5) = (t, th1, Ok (''t1'', Some ''t1''))" "usable demo_server t"
    "length (sent_calls t) = 3"
    using served_thread_start [OF demo_server_accepts new(1,2,3), of plain_displays
        "default_initialize_params ''1''" thread_options_default] new(4)
    by (auto simp: summary_at_def)
  have "handshake_state t = HS_Ready" using t(2) by (simp add: usable_def)
  from ensure_thread_once [OF t(1) this] t(3) show ?thesis by blast
qed

end
