(* ===== verification/Schema.thy ===== *)
theory Schema
  imports Json
begin

text \<open>
  \<open>crates/sdk/src/schema.rs\<close>: \<open>enforce_openai_object_constraints\<close>, which closes every object
  schema of a generated JSON schema. The generator itself (schemars) is a parameter: it gives
  the schema that \<open>openai_json_schema_for\<close> post-processes.
\<close>

section \<open>The walk over a schema\<close>

definition is_object_schema :: "jmap \<Rightarrow> bool" where
  "is_object_schema m = (Option.bind (jget m ''type'') as_str = Some ''object'')"

definition close_object :: "jmap \<Rightarrow> jmap" where
  "close_object m =
     (if is_object_schema m \<and> jget m ''additionalProperties'' = None
      then jinsert ''additionalProperties'' (JBool False) m else m)"

function (sequential)
      enforce_value :: "json \<Rightarrow> json"
  and enforce_entries :: "jmap \<Rightarrow> jmap"
  and enforce_list :: "json list \<Rightarrow> json list" where
  "enforce_value (JObject m) = JObject (close_object (enforce_entries m))"
| "enforce_value (JArray vs) = JArray (enforce_list vs)"
| "enforce_value v = v"
| "enforce_entries [] = []"
| "enforce_entries ((k, v) # m) = (k, enforce_value v) # enforce_entries m"
| "enforce_list [] = []"
| "enforce_list (v # vs) = enforce_value v # enforce_list vs"
  by pat_completeness auto
termination
  by (relation "measure (case_sum size
       (case_sum (size_list (size_prod (\<lambda>_. 0) size)) (size_list size)))") auto

text \<open>\<open>openai_json_schema_for\<close> of the schema that the generator made, without a meta schema.\<close>

definition openai_json_schema_for :: "json \<Rightarrow> json" where
  "openai_json_schema_for generated = enforce_value generated"

section \<open>Properties\<close>

lemma jget_enforce_entries: "jget (enforce_entries m) k = map_option enforce_value (jget m k)"
  by (induction m rule: jsorted.induct) (auto simp: jget_Cons)

lemma enforce_as_str [simp]: "as_str (enforce_value v) = as_str v"
  by (cases v) auto

lemma is_object_schema_enforce [simp]: "is_object_schema (enforce_entries m) = is_object_schema m"
  by (cases "jget m ''type''") (simp_all add: is_object_schema_def jget_enforce_entries)

lemma jget_close_object:
  "jget (close_object m) k =
     (if k = ''additionalProperties'' \<and> is_object_schema m \<and> jget m k = None
      then Some (JBool False) else jget m k)"
  by (auto simp: close_object_def jget_jinsert)

lemma enforce_entries_jinsert:
  "enforce_entries (jinsert k v m) = jinsert k (enforce_value v) (enforce_entries m)"
  by (induction k v m rule: jinsert.induct) auto

lemma close_object_idem [simp]: "close_object (close_object m) = close_object m"
proof -
  have "jget (close_object m) ''additionalProperties'' \<noteq> None" if "is_object_schema (close_object m)"
    using that by (auto simp: jget_close_object is_object_schema_def)
  then show ?thesis by (auto simp: close_object_def [of "close_object m"])
qed

lemma enforce_entries_close: "enforce_entries (close_object m) = close_object (enforce_entries m)"
  by (simp add: close_object_def jget_enforce_entries enforce_entries_jinsert)

lemma enforce_idem:
  "enforce_value (enforce_value v) = enforce_value v"
  "enforce_entries (enforce_entries m) = enforce_entries m"
  "enforce_list (enforce_list vs) = enforce_list vs"
  by (induction v and m and vs rule: enforce_value_enforce_entries_enforce_list.induct)
    (simp_all add: enforce_entries_close)

text \<open>Every object of a value, at any depth.\<close>

inductive within :: "jmap \<Rightarrow> json \<Rightarrow> bool" where
  within_here: "within m (JObject m)"
| within_entry: "(k, v) \<in> set m' \<Longrightarrow> within m v \<Longrightarrow> within m (JObject m')"
| within_item: "v \<in> set vs \<Longrightarrow> within m v \<Longrightarrow> within m (JArray vs)"

inductive_cases within_ObjectE: "within m (JObject m')"
inductive_cases within_ArrayE: "within m (JArray vs)"
inductive_simps within_scalar:
  "within m JNull" "within m (JBool b)" "within m (JNumber n)" "within m (JString s)"

definition closed_schema :: "jmap \<Rightarrow> bool" where
  "closed_schema m \<longleftrightarrow> (is_object_schema m \<longrightarrow> jget m ''additionalProperties'' \<noteq> None)"

lemma close_object_closed: "closed_schema (close_object m)"
  by (auto simp: closed_schema_def jget_close_object is_object_schema_def)

lemma set_jinsert: "set (jinsert k v m) \<subseteq> insert (k, v) (set m)"
  by (induction k v m rule: jinsert.induct) auto

lemma set_close_object: "set (close_object m) \<subseteq> insert (''additionalProperties'', JBool False) (set m)"
  using set_jinsert [of "''additionalProperties''" "JBool False" m] by (simp add: close_object_def)
    blast

lemma enforce_closes:
  "within o' (enforce_value v) \<Longrightarrow> closed_schema o'"
  "(k, w) \<in> set (enforce_entries m) \<Longrightarrow> within o' w \<Longrightarrow> closed_schema o'"
  "w' \<in> set (enforce_list vs) \<Longrightarrow> within o' w' \<Longrightarrow> closed_schema o'"
proof (induction v and m and vs arbitrary: o' and k w o' and w' o'
    rule: enforce_value_enforce_entries_enforce_list.induct)
  case (1 m)
  from 1(2) have "within o' (JObject (close_object (enforce_entries m)))" by simp
  then consider "o' = close_object (enforce_entries m)"
    | k v where "(k, v) \<in> set (close_object (enforce_entries m))" "within o' v"
    by (auto elim: within_ObjectE)
  then show ?case
  proof cases
    case a: 1
    then show ?thesis by (simp add: close_object_closed)
  next
    case e: (2 k v)
    have "(k, v) \<in> set (enforce_entries m)"
      using e set_close_object [of "enforce_entries m"] by (auto simp: within_scalar)
    then show ?thesis using 1(1) e(2) by blast
  qed
next
  case (2 vs)
  then show ?case by (auto elim: within_ArrayE)
qed (auto simp: within_scalar)

text \<open>
  After the pass every object schema, at any depth, says whether it admits additional
  properties; an object schema that said so keeps its value, every other entry of an object is
  only processed in turn, and a second pass changes nothing.
\<close>

theorem enforce_object_constraints:
  "(\<forall>o'. within o' (openai_json_schema_for v) \<longrightarrow> closed_schema o') \<and>
   (\<forall>m m' k. v = JObject m \<longrightarrow> openai_json_schema_for v = JObject m' \<longrightarrow>
      jget m' k = (case jget m k of
          Some w \<Rightarrow> Some (enforce_value w)
        | None \<Rightarrow> if k = ''additionalProperties'' \<and> is_object_schema m then Some (JBool False) else None)) \<and>
   openai_json_schema_for (openai_json_schema_for v) = openai_json_schema_for v"
  using enforce_closes(1) enforce_idem(1)
  by (auto simp: openai_json_schema_for_def jget_close_object jget_enforce_entries split: option.split)

theorem enforce_object_constraints_witness:
  "jget [(''additionalProperties'', JBool False), (''type'', JString ''object'')]
     ''additionalProperties'' = Some (JBool False) \<and>
   openai_json_schema_for (JObject [(''type'', JString ''object'')]) =
     JObject [(''additionalProperties'', JBool False), (''type'', JString ''object'')]"
proof -
  let ?v = "JObject [(''type'', JString ''object'')]"
  let ?m = "[(''additionalProperties'', JBool False), (''type'', JString ''object'')]"
  have run: "openai_json_schema_for ?v = JObject ?m"
    by (simp add: openai_json_schema_for_def close_object_def is_object_schema_def jget_Cons)
  have "jget ?m ''additionalProperties'' =
    (case jget [(''type'', JString ''object'')] ''additionalProperties'' of
       Some w \<Rightarrow> Some (enforce_value w)
     | None \<Rightarrow> if ''additionalProperties'' = ''additionalProperties'' \<and>
         is_object_schema [(''type'', JString ''object'')] then Some (JBool False) else None)"
    using enforce_object_constraints [of ?v] run by blast
  with run show ?thesis by (simp add: is_object_schema_def jget_Cons)
qed

end
