(* ===== verification/Sdk_Derive.thy ===== *)
theory Sdk_Derive
  imports Schema "HOL-Library.Sublist"
begin

text \<open>
  The macro crate, \<open>codex-app-server-sdk-macros/src/lib.rs\<close>: the attribute \<open>openai_type\<close>, which
  completes the attributes of a struct or an enum, and the derive macro it asks for. Syntax trees
  are those of the \<open>syn\<close> crate; what the code only hands through (fields, generics, token
  sequences) is text. Parsing a list of paths, quoting one, and the text of a meta item are
  operations of \<open>syn\<close> and \<open>quote\<close>, parameters of the model.
\<close>

section \<open>Syntax trees\<close>

record syn_path =
  leading_colon :: bool
  segments :: "string list"

datatype meta =
    Meta_Path syn_path
  | Meta_List syn_path string
  | Meta_NameValue syn_path string

fun meta_path :: "meta \<Rightarrow> syn_path" where
  "meta_path (Meta_Path p) = p"
| "meta_path (Meta_List p tokens) = p"
| "meta_path (Meta_NameValue p value) = p"

text \<open>\<open>Path::is_ident\<close>: one segment, without a leading colon.\<close>

definition is_ident :: "string \<Rightarrow> syn_path \<Rightarrow> bool" where
  "is_ident name p \<longleftrightarrow> \<not> leading_colon p \<and> segments p = [name]"

definition ident_path :: "string \<Rightarrow> syn_path" where
  "ident_path name = \<lparr>leading_colon = False, segments = [name]\<rparr>"

definition global_path :: "string list \<Rightarrow> syn_path" where
  "global_path names = \<lparr>leading_colon = True, segments = names\<rparr>"

text \<open>
  \<open>parse_terminated\<close> on the tokens of a list, the tokens that \<open>quote\<close> makes of paths, and the
  text of a meta item.
\<close>

record syn_ops =
  parse_paths :: "string \<Rightarrow> syn_path list option"
  quote_paths :: "syn_path list \<Rightarrow> string"
  meta_text :: "meta \<Rightarrow> string"

datatype item_kind = Item_Struct | Item_Enum | Item_Other

record macro_item =
  item_kind :: item_kind
  item_attrs :: "meta list"
  item_body :: string

section \<open>The attribute macro\<close>

definition names_derive :: "string \<Rightarrow> syn_path \<Rightarrow> bool" where
  "names_derive needle p \<longleftrightarrow> segments p \<noteq> [] \<and> last (segments p) = needle"

definition derive_names :: "syn_ops \<Rightarrow> string \<Rightarrow> meta \<Rightarrow> bool" where
  "derive_names S needle attr \<longleftrightarrow>
     is_ident ''derive'' (meta_path attr) \<and>
     (case attr of
        Meta_List p tokens \<Rightarrow>
          (case parse_paths S tokens of
             Some paths \<Rightarrow> list_ex (names_derive needle) paths
           | None \<Rightarrow> False)
      | _ \<Rightarrow> False)"

definition has_derive :: "syn_ops \<Rightarrow> meta list \<Rightarrow> string \<Rightarrow> bool" where
  "has_derive S attrs needle \<longleftrightarrow> list_ex (derive_names S needle) attrs"

definition required_derives :: "(string \<times> syn_path) list" where
  "required_derives =
     [(''Serialize'', global_path [''codex_app_server_sdk'', ''serde'', ''Serialize'']),
      (''Deserialize'', global_path [''codex_app_server_sdk'', ''serde'', ''Deserialize'']),
      (''JsonSchema'', global_path [''codex_app_server_sdk'', ''schemars'', ''JsonSchema'']),
      (''OpenAiSerializable'', global_path [''codex_app_server_sdk'', ''OpenAiSerializable''])]"

definition missing_derives :: "syn_ops \<Rightarrow> meta list \<Rightarrow> syn_path list" where
  "missing_derives S attrs =
     map snd (filter (\<lambda>(needle, path). \<not> has_derive S attrs needle) required_derives)"

definition ensure_derives :: "syn_ops \<Rightarrow> meta list \<Rightarrow> meta list" where
  "ensure_derives S attrs =
     (let missing = missing_derives S attrs
      in if missing \<noteq> [] then attrs @ [Meta_List (ident_path ''derive'') (quote_paths S missing)]
         else attrs)"

text \<open>\<open>contains\<close> on the text of the whole attribute.\<close>

definition helper_crate :: "syn_ops \<Rightarrow> string \<Rightarrow> meta \<Rightarrow> bool" where
  "helper_crate S helper attr \<longleftrightarrow>
     is_ident helper (meta_path attr) \<and> sublist ''crate'' (meta_text S attr)"

definition ensure_helper_attr :: "syn_ops \<Rightarrow> string \<Rightarrow> meta \<Rightarrow> meta list \<Rightarrow> meta list" where
  "ensure_helper_attr S helper attr attrs =
     (if list_ex (helper_crate S helper) attrs then attrs else attrs @ [attr])"

definition serde_crate :: meta where
  "serde_crate = Meta_List (ident_path ''serde'') ''crate = \"::codex_app_server_sdk::serde\"''"

definition schemars_crate :: meta where
  "schemars_crate = Meta_List (ident_path ''schemars'') ''crate = \"::codex_app_server_sdk::schemars\"''"

definition complete_attrs :: "syn_ops \<Rightarrow> meta list \<Rightarrow> meta list" where
  "complete_attrs S attrs =
     ensure_helper_attr S ''schemars'' schemars_crate
       (ensure_helper_attr S ''serde'' serde_crate (ensure_derives S attrs))"

text \<open>
  The macro: the tokens of its own argument, and the item or the error of parsing it. An error
  is the text of the compile error.
\<close>

definition openai_type :: "syn_ops \<Rightarrow> string \<Rightarrow> string + macro_item \<Rightarrow> string + macro_item" where
  "openai_type S attr parsed =
     (if attr \<noteq> [] then Err ''openai_type does not accept arguments''
      else case parsed of
        Inl e \<Rightarrow> Err e
      | Inr item \<Rightarrow>
          (case item_kind item of
             Item_Other \<Rightarrow> Err ''openai_type can only be used on structs or enums''
           | _ \<Rightarrow> Ok (item\<lparr>item_attrs := complete_attrs S (item_attrs item)\<rparr>)))"

section \<open>The derive macro\<close>

text \<open>
  The implementation of \<open>OpenAiSerializable\<close> that is generated: its header, split by \<open>syn\<close> from
  the generics of the type, and the schema function, which calls the runtime on the schema that
  schemars derives for the type. The other two functions of the trait are its defaults, serde.
\<close>

record ('a) openai_serializable =
  openai_output_schema :: json
  to_openai_value :: "'a \<Rightarrow> serde_error + json"
  from_openai_value :: "json \<Rightarrow> serde_error + 'a"

record generics_text =
  impl_generics :: string
  ty_generics :: string
  where_clause :: string

definition impl_header :: "string \<Rightarrow> generics_text \<Rightarrow> string" where
  "impl_header ident g =
     ''impl '' @ impl_generics g @ '' ::codex_app_server_sdk::OpenAiSerializable for '' @ ident @ '' '' @
     ty_generics g @ '' '' @ where_clause g"

definition derive_openai_serializable ::
  "json \<Rightarrow> ('a \<Rightarrow> serde_error + json) \<Rightarrow> (json \<Rightarrow> serde_error + 'a) \<Rightarrow> 'a openai_serializable" where
  "derive_openai_serializable generated to_value from_value =
     \<lparr>openai_output_schema = openai_json_schema_for generated,
      to_openai_value = to_value, from_openai_value = from_value\<rparr>"

section \<open>What the attribute guarantees\<close>

text \<open>
  What is used of \<open>syn\<close> and \<open>quote\<close>: the paths that the macro quotes are read back, and the text
  of a list contains the text of its tokens.
\<close>

definition syn_ok :: "syn_ops \<Rightarrow> bool" where
  "syn_ok S \<longleftrightarrow>
     (\<forall>ps. subseq ps (map snd required_derives) \<longrightarrow> parse_paths S (quote_paths S ps) = Some ps) \<and>
     (\<forall>p tokens. sublist tokens (meta_text S (Meta_List p tokens)))"

definition complete :: "syn_ops \<Rightarrow> meta list \<Rightarrow> bool" where
  "complete S attrs \<longleftrightarrow>
     (\<forall>needle \<in> fst ` set required_derives. has_derive S attrs needle) \<and>
     list_ex (helper_crate S ''serde'') attrs \<and> list_ex (helper_crate S ''schemars'') attrs"

lemma required_last: "(needle, path) \<in> set required_derives \<Longrightarrow> names_derive n path \<longleftrightarrow> n = needle"
  by (auto simp: required_derives_def names_derive_def global_path_def)

lemma has_derive_append [simp]:
  "has_derive S (xs @ ys) needle \<longleftrightarrow> has_derive S xs needle \<or> has_derive S ys needle"
  by (simp add: has_derive_def)

lemma missing_subseq: "subseq (missing_derives S attrs) (map snd required_derives)"
  by (simp add: missing_derives_def subseq_map)

lemma derive_names_new:
  assumes "syn_ok S"
  shows "derive_names S needle (Meta_List (ident_path ''derive'') (quote_paths S (missing_derives S attrs))) \<longleftrightarrow>
    needle \<in> fst ` set required_derives \<and> \<not> has_derive S attrs needle"
proof -
  have "list_ex (names_derive needle) (missing_derives S attrs) \<longleftrightarrow>
      needle \<in> fst ` set required_derives \<and> \<not> has_derive S attrs needle"
    using required_last by (force simp: missing_derives_def list_ex_iff)
  with assms missing_subseq show ?thesis
    by (simp add: derive_names_def syn_ok_def is_ident_def ident_path_def)
qed

lemma derive_names_other [simp]:
  "\<not> derive_names S needle serde_crate" "\<not> derive_names S needle schemars_crate"
  by (simp_all add: derive_names_def serde_crate_def schemars_crate_def is_ident_def ident_path_def)

lemma ensure_derives_has:
  assumes "syn_ok S" "needle \<in> fst ` set required_derives"
  shows "has_derive S (ensure_derives S attrs) needle"
proof (cases "has_derive S attrs needle")
  case False
  with assms(2) have "missing_derives S attrs \<noteq> []"
    by (auto simp: missing_derives_def filter_empty_conv)
  with False show ?thesis
    using derive_names_new [OF assms(1)] assms(2) by (simp add: ensure_derives_def has_derive_def)
qed (simp add: ensure_derives_def Let_def)

lemma helper_crate_new:
  assumes "syn_ok S"
  shows "helper_crate S ''serde'' serde_crate" "helper_crate S ''schemars'' schemars_crate"
proof -
  have "sublist ''crate'' (meta_text S (Meta_List p (''crate'' @ rest)))" for p rest
    using assms sublist_append_rightI [of "''crate''" rest]
    by (meson sublist_order.order_trans syn_ok_def)
  from this [of _ "'' = \"::codex_app_server_sdk::serde\"''"]
    this [of _ "'' = \"::codex_app_server_sdk::schemars\"''"]
  show "helper_crate S ''serde'' serde_crate" "helper_crate S ''schemars'' schemars_crate"
    by (simp_all add: helper_crate_def serde_crate_def schemars_crate_def is_ident_def ident_path_def)
qed

lemma complete_attrs_fixed: "complete S attrs \<Longrightarrow> complete_attrs S attrs = attrs"
  by (auto simp: complete_def complete_attrs_def ensure_helper_attr_def ensure_derives_def
      missing_derives_def filter_empty_conv Let_def)

lemma complete_attrs_new:
  assumes "syn_ok S"
  shows "complete S (complete_attrs S attrs)"
    and "\<exists>new. complete_attrs S attrs = attrs @ new \<and> length new \<le> 3 \<and>
      (\<forall>needle. has_derive S attrs needle \<longrightarrow> \<not> has_derive S new needle)"
proof -
  show "complete S (complete_attrs S attrs)"
    using ensure_derives_has [OF assms, of _ attrs] helper_crate_new [OF assms]
    by (auto simp: complete_def complete_attrs_def ensure_helper_attr_def)
  show "\<exists>new. complete_attrs S attrs = attrs @ new \<and> length new \<le> 3 \<and>
      (\<forall>needle. has_derive S attrs needle \<longrightarrow> \<not> has_derive S new needle)"
    using derive_names_new [OF assms, of _ attrs]
    by (auto simp: complete_attrs_def ensure_helper_attr_def ensure_derives_def Let_def has_derive_def)
qed


text \<open>A reader and a writer of path lists, for the witness.\<close>

fun split_at :: "char \<Rightarrow> string \<Rightarrow> string \<Rightarrow> string list" where
  "split_at c acc [] = [acc]"
| "split_at c acc (x # xs) = (if x = c then acc # split_at c [] xs else split_at c (acc @ [x]) xs)"

definition read_path :: "string \<Rightarrow> syn_path" where
  "read_path t = \<lparr>leading_colon = take 1 t = '':'', segments = filter (\<lambda>s. s \<noteq> []) (split_at CHR '':'' [] t)\<rparr>"

definition path_text :: "syn_path \<Rightarrow> string" where
  "path_text p = (if leading_colon p then ''::'' else []) @ join_with ''::'' (segments p)"

definition plain_syn :: syn_ops where
  "plain_syn =
     \<lparr>parse_paths = (\<lambda>t. Some (map read_path (filter (\<lambda>s. s \<noteq> []) (split_at CHR '','' [] t)))),
      quote_paths = (\<lambda>ps. join_with '','' (map path_text ps)),
      meta_text = (\<lambda>m. case m of
          Meta_Path p \<Rightarrow> path_text p
        | Meta_List p t \<Rightarrow> path_text p @ ''('' @ t @ '')''
        | Meta_NameValue p t \<Rightarrow> path_text p @ '' = '' @ t)\<rparr>"

lemma plain_syn_paths:
  "list_all (\<lambda>ps. parse_paths plain_syn (quote_paths plain_syn ps) = Some ps)
     (subseqs (map snd required_derives))"
  by code_simp

lemma plain_syn_text: "sublist tokens (meta_text plain_syn (Meta_List p tokens))"
  unfolding sublist_def
  by (rule exI [of _ "path_text p @ ''(''"], rule exI [of _ "'')''"]) (simp add: plain_syn_def)

lemma plain_syn_ok: "syn_ok plain_syn"
  unfolding syn_ok_def
proof (intro conjI allI impI)
  fix ps
  assume "subseq ps (map snd required_derives)"
  then show "parse_paths plain_syn (quote_paths plain_syn ps) = Some ps"
    using plain_syn_paths unfolding list_all_iff in_set_subseqs [symmetric] by blast
qed (rule plain_syn_text)


text \<open>
  The helper attributes are looked for by the word \<open>crate\<close> anywhere in the attribute: a field
  name that contains it stands for the path that is then missing.
\<close>

lemma helper_attr_fooled:
  "complete_attrs plain_syn
     [Meta_List (ident_path ''derive'') ''Serialize,Deserialize,JsonSchema,OpenAiSerializable'',
      Meta_List (ident_path ''serde'') ''rename = \"crate_name\"'', schemars_crate] =
     [Meta_List (ident_path ''derive'') ''Serialize,Deserialize,JsonSchema,OpenAiSerializable'',
      Meta_List (ident_path ''serde'') ''rename = \"crate_name\"'', schemars_crate]"
  by code_simp

end
