(* ===== verification/Transport.thy ===== *)
theory Transport
  imports Rpc_Errors
begin

text \<open>
  The transports of \<open>crates/sdk/src/transport/\<close>: the writer and reader loops every transport
  shares (\<open>mod.rs\<close>), the line framing of \<open>stdio.rs\<close>, and the part of \<open>ws.rs\<close> that is not I/O:
  the check that guards bearer tokens and the upgrade request. JSON text is serde_json's, URLs
  are the \<open>url\<close> crate's, request construction is tungstenite's and http's: parameters.
\<close>

section \<open>The loops\<close>

definition OUTBOUND_CAPACITY :: nat where "OUTBOUND_CAPACITY = 256"
definition INBOUND_CAPACITY :: nat where "INBOUND_CAPACITY = 1024"

text \<open>
  The writer: the queued values, what sending a text does to the sink, and the errors it has
  pushed on the inbound channel (a push to a closed channel is ignored there too). The loop
  ends with the queue or at the first error.
\<close>

fun write_json_frames ::
  "(json \<Rightarrow> serde_error + string) \<Rightarrow> (string \<Rightarrow> 's \<Rightarrow> 's \<times> (client_error + unit)) \<Rightarrow> json list \<Rightarrow> 's
    \<Rightarrow> 's \<times> client_error list" where
  "write_json_frames to_text send_frame [] s = (s, [])"
| "write_json_frames to_text send_frame (message # queue) s =
     (let (s1, result) = (case to_text message of
            Inr payload \<Rightarrow> send_frame payload s
          | Inl err \<Rightarrow> (s, Err (Serialization err)))
      in case result of
           Inr _ \<Rightarrow> write_json_frames to_text send_frame queue s1
         | Inl err \<Rightarrow> (s1, [err]))"

datatype raw_frame = Payload string | Skip | Closed client_error | Eof

text \<open>
  The reader: the frames of the stream, the parser with the text of its error, and the
  consumer of the inbound channel. The result is what was forwarded and whether the loop is
  still reading.
\<close>

definition frame_parse_error :: "string \<Rightarrow> string \<Rightarrow> client_error" where
  "frame_parse_error ctxt err = InvalidMessage (''failed to parse '' @ ctxt @ '': '' @ err)"

fun read_json_frames ::
  "(string \<Rightarrow> string + json) \<Rightarrow> string \<Rightarrow> nat option \<Rightarrow> raw_frame list
    \<Rightarrow> (client_error + json) list \<times> bool" where
  "read_json_frames from_slice ctxt room [] = ([], True)"
| "read_json_frames from_slice ctxt room (Payload bytes # frames) =
     (let parsed = map_err (frame_parse_error ctxt) (from_slice bytes)
      in case take_slot room of
           None \<Rightarrow> ([], False)
         | Some room1 \<Rightarrow>
             (let (out, running) = read_json_frames from_slice ctxt room1 frames
              in (parsed # out, running)))"
| "read_json_frames from_slice ctxt room (Skip # frames) =
     read_json_frames from_slice ctxt room frames"
| "read_json_frames from_slice ctxt room (Closed err # frames) =
     (case take_slot room of None \<Rightarrow> ([], False) | Some _ \<Rightarrow> ([Err err], False))"
| "read_json_frames from_slice ctxt room (Eof # frames) = ([], False)"

section \<open>Standard input and output\<close>

text \<open>The sink of the child's standard input: a payload and a line feed. A write may fail at any
  byte: \<open>room\<close> is what the pipe still takes.\<close>

definition stdio_send :: "io_error \<Rightarrow> string \<Rightarrow> string \<times> nat option \<Rightarrow> (string \<times> nat option) \<times> (client_error + unit)" where
  "stdio_send broken payload s =
     (let (written, room) = s;
          bytes = payload @ [lf]
      in case room of
           None \<Rightarrow> ((written @ bytes, None), Ok ())
         | Some n \<Rightarrow>
             (if length bytes \<le> n then ((written @ bytes, Some (n - length bytes)), Ok ())
              else ((written @ take n bytes, Some 0), Err (Io broken))))"

text \<open>What \<open>lines.next_line()\<close> makes of the child's output up to its end.\<close>

definition stdio_frames :: "string \<Rightarrow> raw_frame list" where
  "stdio_frames output = map Payload (str_lines output) @ [Closed TransportClosed]"

section \<open>Websockets\<close>

text \<open>A websocket message, or the error text of the stream; \<open>None\<close> is its end.\<close>

datatype ws_message = WsText string | WsBinary string | WsPing | WsPong | WsRaw | WsClose

fun ws_frame :: "(string + ws_message) option \<Rightarrow> raw_frame" where
  "ws_frame (Some (Inr (WsText t))) = Payload t"
| "ws_frame (Some (Inr (WsBinary b))) = Payload b"
| "ws_frame (Some (Inr WsClose)) = Closed TransportClosed"
| "ws_frame (Some (Inr WsPing)) = Skip"
| "ws_frame (Some (Inr WsPong)) = Skip"
| "ws_frame (Some (Inr WsRaw)) = Skip"
| "ws_frame (Some (Inl err)) = Closed (TransportSend (''websocket receive failed: '' @ err))"
| "ws_frame None = Eof"

definition ws_host_of_authority :: "string \<Rightarrow> string" where
  "ws_host_of_authority authority =
     (let hostport = (case rsplit_once (CHR 0x40) authority of
            Some (_, hostport) \<Rightarrow> hostport | None \<Rightarrow> authority)
      in case strip_prefix [CHR 0x5B] hostport of
           Some rest \<Rightarrow> split_first {CHR 0x5D} rest
         | None \<Rightarrow> split_first {CHR 0x3A} hostport)"

definition websocket_url_allows_auth_token :: "string \<Rightarrow> bool" where
  "websocket_url_allows_auth_token url =
     (let lower = to_ascii_lowercase (trim url)
      in if starts_with ''wss://'' lower then True
         else if \<not> starts_with ''ws://'' lower then False
         else (let authority = split_first {CHR 0x2F, CHR 0x3F, CHR 0x23} (drop 5 lower);
                   host = ws_host_of_authority authority
               in host = ''127.0.0.1'' \<or> host = ''localhost'' \<or> host = ''::1''))"

text \<open>
  An upgrade request: the URL it was made from and the value of its \<open>Authorization\<close> header.
  \<open>into_request\<close> and \<open>header_value\<close> are the checks of tungstenite and http with their error
  texts.
\<close>

record ws_request =
  request_url :: string
  request_authorization :: "string option"

record http_checks =
  into_request :: "string \<Rightarrow> string + unit"
  header_value :: "string \<Rightarrow> string + unit"

definition build_ws_request ::
  "http_checks \<Rightarrow> string \<Rightarrow> string option \<Rightarrow> client_error + ws_request" where
  "build_ws_request h url auth_token =
     (if auth_token \<noteq> None \<and> \<not> websocket_url_allows_auth_token url
      then Err (Config ''websocket auth tokens require `wss://` or a loopback `ws://` URL'')
      else
        and_then (map_err (\<lambda>err. Config (''invalid websocket request for `'' @ url @ ''`: '' @ err))
            (into_request h url)) (\<lambda>_.
          case auth_token of
            None \<Rightarrow> Ok \<lparr>request_url = url, request_authorization = None\<rparr>
          | Some token \<Rightarrow>
              (let v = ''Bearer '' @ token
               in and_then (map_err (\<lambda>err. Config (''invalid websocket auth token: '' @ err))
                      (header_value h v)) (\<lambda>_.
                    Ok \<lparr>request_url = url, request_authorization = Some v\<rparr>))))"

text \<open>The part of a parsed URL the SDK reads.\<close>

datatype url_host = Ipv4 u32 | Ipv6 "128 word" | Domain string

record url =
  url_scheme :: string
  url_host :: "url_host option"
  url_port :: "u16 option"
  url_as_str :: string

type_synonym url_parser = "string \<Rightarrow> string + url"

text \<open>\<open>connect_ws_transport\<close> up to the network: the request it connects with.\<close>

definition connect_ws_request ::
  "url_parser \<Rightarrow> http_checks \<Rightarrow> string \<Rightarrow> string option \<Rightarrow> client_error + ws_request" where
  "connect_ws_request parse h url auth_token =
     and_then (map_err (\<lambda>err. Config (''invalid websocket URL: '' @ err)) (parse url))
       (\<lambda>parsed. build_ws_request h (url_as_str parsed) auth_token)"

section \<open>Properties\<close>

lemma stdio_send_ok:
  "stdio_send broken payload (written, None) = ((written @ payload @ [lf], None), Ok ())"
  by (simp add: stdio_send_def)

lemma write_stdio:
  assumes "list_all (\<lambda>v. to_text v = Ok (text v)) vs"
  shows "write_json_frames to_text (stdio_send broken) vs (written, None) =
    ((written @ concat (map (\<lambda>v. text v @ [lf]) vs), None), [])"
  using assms by (induction vs arbitrary: written) (simp_all add: stdio_send_ok)

lemma lines_aux_line:
  "lf \<notin> set l \<Longrightarrow> lines_aux acc (l @ lf # s) = strip_cr (rev acc @ l) # lines_aux [] s"
proof (induction l arbitrary: acc)
  case Nil
  then show ?case by simp
next
  case (Cons c l)
  then show ?case by auto
qed

lemma str_lines_concat:
  assumes "list_all (\<lambda>v. lf \<notin> set (text v) \<and> cr \<notin> set (text v)) vs"
  shows "str_lines (concat (map (\<lambda>v. text v @ [lf]) vs)) = map text vs"
  using assms
proof (induction vs)
  case Nil
  then show ?case by (simp add: str_lines_def)
next
  case (Cons v vs)
  have "text v \<noteq> [] \<longrightarrow> last (text v) \<noteq> cr"
    using Cons.prems last_in_set [of "text v"] by force
  then have "strip_cr (text v) = text v" by (auto simp: strip_cr_def)
  with Cons show ?case by (simp add: str_lines_def lines_aux_line)
qed

lemma read_payloads:
  assumes "list_all (\<lambda>v. from_slice (text v) = Ok v) vs"
  shows "read_json_frames from_slice ctxt None (map (\<lambda>v. Payload (text v)) vs @ rest) =
    (let (out, running) = read_json_frames from_slice ctxt None rest in (map Ok vs @ out, running))"
  using assms by (induction vs) (simp_all add: case_prod_beta Let_def)

text \<open>
  Framing over standard input and output loses nothing: for JSON text that has no line
  breaks and parses back, what the writer of one side puts on the pipe is, to the reader of
  the other side, exactly the queued values in order and then the end of the transport.
\<close>

theorem stdio_roundtrip:
  assumes "list_all (\<lambda>v. to_text v = Ok (text v) \<and> from_slice (text v) = Ok v \<and>
      lf \<notin> set (text v) \<and> cr \<notin> set (text v)) vs"
  shows "\<exists>bytes. write_json_frames to_text (stdio_send broken) vs ([], None) = ((bytes, None), []) \<and>
    read_json_frames from_slice ctxt None (stdio_frames bytes) =
      (map Ok vs @ [Err TransportClosed], False)"
proof -
  let ?bytes = "concat (map (\<lambda>v. text v @ [lf]) vs)"
  have all: "list_all (\<lambda>v. to_text v = Ok (text v)) vs" "list_all (\<lambda>v. from_slice (text v) = Ok v) vs"
    "list_all (\<lambda>v. lf \<notin> set (text v) \<and> cr \<notin> set (text v)) vs"
    using assms by (simp_all add: list_all_iff)
  have "map Payload (map text vs) = map (\<lambda>v. Payload (text v)) vs" by simp
  then have "read_json_frames from_slice ctxt None (stdio_frames ?bytes) =
      (map Ok vs @ [Err TransportClosed], False)"
    using read_payloads [OF all(2), of ctxt "[Closed TransportClosed]"]
    by (simp only: stdio_frames_def str_lines_concat [OF all(3)]) simp
  with write_stdio [OF all(1), of broken "[]"] show ?thesis by simp
qed

theorem stdio_roundtrip_witness:
  "\<exists>bytes. write_json_frames (\<lambda>v. if v = JNull then Ok ''null'' else Err SerdeError)
       (stdio_send (IoError BrokenPipe ''broken pipe'')) [JNull, JNull] ([], None) = ((bytes, None), []) \<and>
     read_json_frames (\<lambda>b. if b = ''null'' then Ok JNull else Err ''bad'') ''JSONL frame'' None
       (stdio_frames bytes) = ([Ok JNull, Ok JNull, Err TransportClosed], False)"
  using stdio_roundtrip [of "\<lambda>v. if v = JNull then Ok ''null'' else Err SerdeError" "\<lambda>_. ''null''"
      "\<lambda>b. if b = ''null'' then Ok JNull else Err ''bad''" "[JNull, JNull]"
      "IoError BrokenPipe ''broken pipe''" "''JSONL frame''"]
  by (simp add: lf_def cr_def)

text \<open>
  The reader stops at the first frame that ends the stream and forwards its error last; up
  to there it forwards one value per payload, a parse error included, and skips the rest.
\<close>

theorem reader_forwards_until_closed:
  assumes "list_all (\<lambda>f. case f of Payload b \<Rightarrow> True | Skip \<Rightarrow> True | _ \<Rightarrow> False) body"
  shows "read_json_frames from_slice ctxt None (body @ Closed e # rest) =
    (concat (map (\<lambda>f. case f of
        Payload b \<Rightarrow> [map_err (frame_parse_error ctxt) (from_slice b)]
      | _ \<Rightarrow> []) body) @ [Err e], False)"
  using assms
proof (induction body)
  case Nil
  then show ?case by simp
next
  case (Cons f body)
  then show ?case by (cases f) (simp_all add: case_prod_beta Let_def)
qed

theorem reader_forwards_until_closed_witness:
  "read_json_frames (\<lambda>b. if b = ''null'' then Ok JNull else Err ''bad'') ''test frame'' None
     ([Payload ''x'', Skip, Payload ''null''] @ Closed TransportClosed # [Payload ''null'']) =
   ([Err (InvalidMessage ''failed to parse test frame: bad''), Ok JNull, Err TransportClosed], False)"
  by (subst reader_forwards_until_closed) (simp_all add: frame_parse_error_def)

section \<open>Where a bearer token may go\<close>

lemma split_first_decomp:
  "\<exists>rest. s = split_first seps s @ rest \<and> (rest = [] \<or> hd rest \<in> seps)"
proof -
  have "s = split_first seps s @ dropWhile (\<lambda>c. c \<notin> seps) s" by (simp add: split_first_def)
  moreover have "dropWhile (\<lambda>c. c \<notin> seps) s = [] \<or> hd (dropWhile (\<lambda>c. c \<notin> seps) s) \<in> seps"
    using hd_dropWhile [of "\<lambda>c. c \<notin> seps" s] by blast
  ultimately show ?thesis by blast
qed

text \<open>An authority whose host is \<open>host\<close>: optional user information up to the last at sign, the
  host, bracketed or not, and optionally a colon with a port.\<close>

definition authority_has_host :: "string \<Rightarrow> string \<Rightarrow> bool" where
  "authority_has_host host a \<longleftrightarrow>
     (\<exists>user hostport rest. a = user @ hostport \<and> (user = [] \<or> last user = CHR 0x40) \<and>
        CHR 0x40 \<notin> set hostport \<and>
        ((hostport = host @ rest \<and> (rest = [] \<or> hd rest = CHR 0x3A)) \<or>
         (hostport = [CHR 0x5B] @ host @ rest \<and> (rest = [] \<or> hd rest = CHR 0x5D))))"

lemma host_of_authority:
  assumes "ws_host_of_authority a = host"
  shows "authority_has_host host a"
proof -
  obtain user hostport where split: "a = user @ hostport" "user = [] \<or> last user = CHR 0x40"
    "CHR 0x40 \<notin> set hostport"
    "(case rsplit_once (CHR 0x40) a of Some (_, hp) \<Rightarrow> hp | None \<Rightarrow> a) = hostport"
  proof (cases "rsplit_once (CHR 0x40) a")
    case None
    then have "CHR 0x40 \<notin> set a" by (simp add: rsplit_once_None_iff)
    with None show ?thesis using that [of "[]" a] by simp
  next
    case (Some p)
    obtain u h where p: "p = (u, h)" by (cases p)
    with Some have "a = u @ CHR 0x40 # h \<and> CHR 0x40 \<notin> set h"
      by (intro rsplit_once_Some) simp
    with Some p show ?thesis using that [of "u @ [CHR 0x40]" h] by simp
  qed
  show ?thesis
  proof (cases "strip_prefix [CHR 0x5B] hostport")
    case None
    then have "host = split_first {CHR 0x3A} hostport"
      using assms split(4) by (simp add: ws_host_of_authority_def)
    then obtain rest where "hostport = host @ rest" "rest = [] \<or> hd rest = CHR 0x3A"
      using split_first_decomp [of hostport "{CHR 0x3A}"] by auto
    with split(1,2,3) show ?thesis unfolding authority_has_host_def by blast
  next
    case (Some r)
    then have "host = split_first {CHR 0x5D} r"
      using assms split(4) by (simp add: ws_host_of_authority_def)
    then obtain rest where "r = host @ rest" "rest = [] \<or> hd rest = CHR 0x5D"
      using split_first_decomp [of r "{CHR 0x5D}"] by auto
    moreover have "hostport = [CHR 0x5B] @ r" using Some by (simp add: strip_prefix_Some_iff)
    ultimately have "hostport = [CHR 0x5B] @ host @ rest \<and> (rest = [] \<or> hd rest = CHR 0x5D)" by simp
    with split(1,2,3) show ?thesis unfolding authority_has_host_def by blast
  qed
qed

text \<open>
  C19: a bearer token leaves in a request only over TLS or to a loopback host: when a request
  carries an \<open>Authorization\<close> header, it is the bearer header of the given token, and the URL it
  was made from is a \<open>wss\<close> URL or a \<open>ws\<close> URL whose authority has the host \<open>127.0.0.1\<close>,
  \<open>localhost\<close> or \<open>::1\<close>, user information and port aside.
\<close>

theorem token_stays_safe:
  assumes "connect_ws_request parse h raw token = Ok req" "request_authorization req \<noteq> None"
  shows "\<exists>t u. token = Some t \<and> request_authorization req = Some (''Bearer '' @ t) \<and>
    parse raw = Ok u \<and> request_url req = url_as_str u \<and>
    (let lower = to_ascii_lowercase (trim (url_as_str u)) in
       (\<exists>r. lower = ''wss://'' @ r) \<or>
       (\<exists>host authority rest. lower = ''ws://'' @ authority @ rest \<and>
          host \<in> {''127.0.0.1'', ''localhost'', ''::1''} \<and> authority_has_host host authority \<and>
          (rest = [] \<or> hd rest \<in> {CHR 0x2F, CHR 0x3F, CHR 0x23})))"
proof -
  obtain u where u: "parse raw = Ok u" "build_ws_request h (url_as_str u) token = Ok req"
    using assms(1) by (auto simp: connect_ws_request_def and_then_Inr_iff map_err_Inr_iff)
  obtain t where t: "token = Some t" "request_authorization req = Some (''Bearer '' @ t)"
    "request_url req = url_as_str u" "websocket_url_allows_auth_token (url_as_str u)"
    using u(2) assms(2)
    by (cases token)
      (auto simp: build_ws_request_def and_then_Inr_iff map_err_Inr_iff Let_def split: if_splits)
  define lower where "lower = to_ascii_lowercase (trim (url_as_str u))"
  have "(\<exists>r. lower = ''wss://'' @ r) \<or>
    (\<exists>host authority rest. lower = ''ws://'' @ authority @ rest \<and>
       host \<in> {''127.0.0.1'', ''localhost'', ''::1''} \<and> authority_has_host host authority \<and>
       (rest = [] \<or> hd rest \<in> {CHR 0x2F, CHR 0x3F, CHR 0x23}))"
  proof (cases "starts_with ''wss://'' lower")
    case True
    then show ?thesis by (simp add: starts_with_iff)
  next
    case False
    with t(4) obtain r where r: "lower = ''ws://'' @ r"
      by (auto simp: websocket_url_allows_auth_token_def lower_def [symmetric] starts_with_iff
          split: if_splits)
    obtain rest where rest: "r = split_first {CHR 0x2F, CHR 0x3F, CHR 0x23} r @ rest"
      "rest = [] \<or> hd rest \<in> {CHR 0x2F, CHR 0x3F, CHR 0x23}"
      using split_first_decomp [of r "{CHR 0x2F, CHR 0x3F, CHR 0x23}"] by blast
    have "ws_host_of_authority (split_first {CHR 0x2F, CHR 0x3F, CHR 0x23} r) \<in>
        {''127.0.0.1'', ''localhost'', ''::1''}"
      using t(4) False r
      by (auto simp: websocket_url_allows_auth_token_def lower_def [symmetric] Let_def split: if_splits)
    with r rest host_of_authority show ?thesis by blast
  qed
  with t u(1) show ?thesis by (auto simp: lower_def Let_def)
qed

definition lenient_http :: http_checks where
  "lenient_http = \<lparr>into_request = (\<lambda>_. Ok ()), header_value = (\<lambda>_. Ok ())\<rparr>"

definition plain_url :: "string \<Rightarrow> string + url" where
  "plain_url s = Ok \<lparr>url_scheme = ''ws'', url_host = None, url_port = None, url_as_str = s\<rparr>"

lemma trim_wss: "trim ''wss://h'' = ''wss://h''"
  by code_simp

theorem token_stays_safe_witness:
  "\<exists>req. connect_ws_request plain_url lenient_http ''wss://h'' (Some ''tok'') = Ok req \<and>
     request_authorization req = Some ''Bearer tok''"
proof -
  let ?req = "\<lparr>request_url = ''wss://h'', request_authorization = Some ''Bearer tok''\<rparr>"
  have "websocket_url_allows_auth_token ''wss://h''" by code_simp
  then have c: "connect_ws_request plain_url lenient_http ''wss://h'' (Some ''tok'') = Ok ?req"
    by (simp add: connect_ws_request_def plain_url_def build_ws_request_def lenient_http_def Let_def)
  have "request_authorization ?req \<noteq> None" by simp
  from token_stays_safe [OF c this] c show ?thesis by auto
qed

text \<open>
  The loopback address \<open>127.0.0.2\<close> is not one of the hosts a token may be sent to.
\<close>

theorem other_loopback_gets_no_token:
  "build_ws_request h ''ws://127.0.0.2:4222'' (Some t) =
     Err (Config ''websocket auth tokens require `wss://` or a loopback `ws://` URL'')"
proof -
  have "\<not> websocket_url_allows_auth_token ''ws://127.0.0.2:4222''" by code_simp
  then show ?thesis by (simp add: build_ws_request_def)
qed

end
