(* ===== verification/Ws_Daemon.thy ===== *)
theory Ws_Daemon
  imports Client Transport
begin

text \<open>
  \<open>crates/sdk/src/transport/ws_daemon.rs\<close>: the life of a managed \<open>codex app-server --listen\<close>
  process, on a unix host. Everything outside the program (network, processes, clock) is a
  \<open>machine\<close> whose answers may depend on all that was done before; what the program does is the
  list of its actions, so a property can speak about every signal, spawn and sleep. The file
  system is a lookup function and the list of operations done on it.
\<close>

section \<open>Targets\<close>

record ws_target =
  target_host :: url_host
  target_port :: u16

text \<open>How the standard library prints addresses.\<close>

definition ipv4_text :: "u32 \<Rightarrow> string" where
  "ipv4_text ip = join_with ''.''
     (map (\<lambda>i. show_nat (nat (uint (drop_bit i ip) mod 256))) [24, 16, 8, 0])"

definition hex_digit :: "nat \<Rightarrow> char" where
  "hex_digit n = (if n < 10 then char_of (48 + n) else char_of (87 + n))"

fun show_hex :: "nat \<Rightarrow> string" where
  "show_hex n = (if n < 16 then [hex_digit n] else show_hex (n div 16) @ [hex_digit (n mod 16)])"

declare show_hex.simps [simp del]

definition ipv6_segments :: "128 word \<Rightarrow> nat list" where
  "ipv6_segments ip = map (\<lambda>i. nat (uint (drop_bit i ip) mod 65536)) [112, 96, 80, 64, 48, 32, 16, 0]"

text \<open>The longest run of zero segments, the first of that length, as start and length.\<close>

fun zero_run :: "nat \<Rightarrow> nat list \<Rightarrow> nat \<times> nat \<Rightarrow> nat \<times> nat \<Rightarrow> nat \<times> nat" where
  "zero_run i [] current longest = longest"
| "zero_run i (s # ss) current longest =
     (if s = 0
      then (let start = (if snd current = 0 then i else fst current);
                current1 = (start, snd current + 1)
            in zero_run (i + 1) ss current1
                 (if snd longest < snd current1 then current1 else longest))
      else zero_run (i + 1) ss (0, 0) longest)"

definition ipv6_text :: "128 word \<Rightarrow> string" where
  "ipv6_text ip =
     (let ss = ipv6_segments ip;
          show_part = (\<lambda>part. join_with '':'' (map show_hex part));
          (start, len) = zero_run 0 ss (0, 0) (0, 0)
      in if take 6 ss = [0, 0, 0, 0, 0, 65535] then ''::ffff:'' @ ipv4_text (ucast ip)
         else if 1 < len
         then show_part (take start ss) @ ''::'' @ show_part (drop (start + len) ss)
         else show_part ss)"

definition ws_target_parse :: "url_parser \<Rightarrow> string \<Rightarrow> string \<Rightarrow> client_error + ws_target" where
  "ws_target_parse parse label url =
     and_then (map_err (\<lambda>err. Config (''invalid websocket '' @ label @ '': '' @ err)) (parse url))
       (\<lambda>parsed.
          if url_scheme parsed \<noteq> ''ws''
          then Err (Config (''websocket '' @ label @ '' must use the `ws` scheme: `'' @ url @ ''`''))
          else case url_host parsed of
            None \<Rightarrow> Err (Config (''invalid websocket '' @ label @ '': missing host in `'' @ url @ ''`''))
          | Some host \<Rightarrow>
              (case url_port parsed of
                 None \<Rightarrow> Err (Config (''websocket '' @ label @ '' must include explicit port: `''
                           @ url @ ''`''))
               | Some port \<Rightarrow> Ok \<lparr>target_host = host, target_port = port\<rparr>))"

fun host_is_loopback :: "url_host \<Rightarrow> bool" where
  "host_is_loopback (Ipv4 ip) = (uint (drop_bit 24 ip) = 127)"
| "host_is_loopback (Ipv6 ip) = (ip = 1)"
| "host_is_loopback (Domain d) = eq_ignore_ascii_case d ''localhost''"

definition is_loopback :: "ws_target \<Rightarrow> bool" where
  "is_loopback t = host_is_loopback (target_host t)"

definition host_authority :: "ws_target \<Rightarrow> string" where
  "host_authority t =
     (case target_host t of
        Ipv4 ip \<Rightarrow> ipv4_text ip
      | Ipv6 ip \<Rightarrow> ''['' @ ipv6_text ip @ '']''
      | Domain d \<Rightarrow> d)"

definition target_url :: "ws_target \<Rightarrow> string" where
  "target_url t = ''ws://'' @ host_authority t @ '':'' @ show_int (uint (target_port t))"

definition localhost_v4 :: u32 where "localhost_v4 = 0x7F000001"

definition normalized :: "ws_target \<Rightarrow> ws_target" where
  "normalized t =
     (case target_host t of
        Domain d \<Rightarrow> if eq_ignore_ascii_case d ''localhost''
                    then t\<lparr>target_host := Ipv4 localhost_v4\<rparr> else t
      | _ \<Rightarrow> t)"

text \<open>The domains of the \<open>url\<close> crate are ASCII, so \<open>to_lowercase\<close> is the ASCII one.\<close>

definition host_label :: "ws_target \<Rightarrow> string" where
  "host_label t =
     (case target_host t of
        Ipv4 ip \<Rightarrow> ipv4_text ip
      | Ipv6 ip \<Rightarrow> ipv6_text ip
      | Domain d \<Rightarrow> to_ascii_lowercase d)"

definition log_file_name :: "ws_target \<Rightarrow> string" where
  "log_file_name t =
     ''app-server-'' @
     map (\<lambda>c. if is_ascii_alphanumeric c then c else CHR ''_'') (host_label t) @ ''-'' @
     show_int (uint (target_port t)) @ ''.log''"

text \<open>\<open>Path::join\<close> with a relative path.\<close>

definition path_join :: "string \<Rightarrow> string \<Rightarrow> string" where
  "path_join dir name =
     (if dir = [] \<or> last dir = CHR 0x2F then dir @ name else dir @ [CHR 0x2F] @ name)"

definition daemon_log_dir :: "string \<Rightarrow> string" where
  "daemon_log_dir temp_dir = path_join temp_dir ''codex-app-server-sdk''"

definition log_path :: "string \<Rightarrow> ws_target \<Rightarrow> string" where
  "log_path temp_dir t = path_join (daemon_log_dir temp_dir) (log_file_name t)"

definition lock_key :: "ws_target \<Rightarrow> string \<times> u16" where
  "lock_key t = (to_ascii_lowercase (host_authority (normalized t)), target_port (normalized t))"

record ws_start_target =
  st_connect_url :: string
  st_listen_url :: string
  st_listen :: ws_target
  st_log_path :: string

definition parse_managed_ws_target ::
  "url_parser \<Rightarrow> string \<Rightarrow> string \<Rightarrow> client_error + ws_start_target option" where
  "parse_managed_ws_target parse temp_dir url =
     and_then (map_err (\<lambda>err. Config (''invalid websocket URL: '' @ err)) (parse url))
       (\<lambda>parsed.
          if url_scheme parsed \<noteq> ''ws'' then Ok None
          else case url_host parsed of
            None \<Rightarrow> Err (Config (''invalid websocket URL: missing host in `'' @ url @ ''`''))
          | Some host \<Rightarrow>
              (if \<not> is_loopback \<lparr>target_host = host, target_port = 0\<rparr> then Ok None
               else case url_port parsed of
                 None \<Rightarrow> Err (Config (''loopback websocket URL must include explicit port: `''
                           @ url @ ''`''))
               | Some port \<Rightarrow>
                   (let connect = \<lparr>target_host = host, target_port = port\<rparr>;
                        listen = normalized connect
                    in Ok (Some \<lparr>st_connect_url = url, st_listen_url = target_url listen,
                         st_listen = listen, st_log_path = log_path temp_dir connect\<rparr>))))"

definition build_start_target ::
  "url_parser \<Rightarrow> string \<Rightarrow> ws_start_config \<Rightarrow> client_error + ws_start_target" where
  "build_start_target parse temp_dir config =
     and_then (ws_target_parse parse ''listen_url'' (start_listen_url config)) (\<lambda>listen.
     and_then (ws_target_parse parse ''connect_url'' (start_connect_url config)) (\<lambda>_.
     Ok \<lparr>st_connect_url = start_connect_url config, st_listen_url = start_listen_url config,
         st_listen = listen, st_log_path = log_path temp_dir listen\<rparr>))"

definition codex_binary :: "(string \<rightharpoonup> string) \<Rightarrow> string option \<Rightarrow> string" where
  "codex_binary env process_env =
     (let non_empty = (\<lambda>v. if v = Some [] then None else v)
      in unwrap_or (or_opt (non_empty (env ''CODEX_BINARY'')) (non_empty process_env)) ''codex'')"

section \<open>The log file\<close>

datatype file_kind = Symlink | Directory | RegularFile nat

datatype fs_action =
    CreateDirAll string
  | OpenLog string bool
  | SetMode string nat

definition MAX_DAEMON_LOG_BYTES :: nat where "MAX_DAEMON_LOG_BYTES = 10 * 1024 * 1024"

definition fs_refused :: "string \<Rightarrow> io_error" where
  "fs_refused m = IoError OtherKind m"

definition prepare_daemon_log_dir ::
  "(string \<Rightarrow> file_kind option) \<Rightarrow> string \<Rightarrow> io_error + fs_action list" where
  "prepare_daemon_log_dir lookup dir =
     (case lookup dir of
        Some Symlink \<Rightarrow> Err (fs_refused
          (''refusing symlinked app-server log directory `'' @ dir @ ''`''))
      | Some (RegularFile n) \<Rightarrow> Err (fs_refused
          (''app-server log path is not a directory: `'' @ dir @ ''`''))
      | Some Directory \<Rightarrow> Ok [SetMode dir 448]
      | None \<Rightarrow> Ok [CreateDirAll dir, SetMode dir 448])"

definition open_daemon_log ::
  "(string \<Rightarrow> file_kind option) \<Rightarrow> string \<Rightarrow> io_error + fs_action list" where
  "open_daemon_log lookup path =
     (if lookup path = Some Symlink
      then Err (fs_refused (''refusing symlinked app-server log file `'' @ path @ ''`''))
      else (let rotate = (case lookup path of
                  Some (RegularFile n) \<Rightarrow> MAX_DAEMON_LOG_BYTES \<le> n | _ \<Rightarrow> False)
            in Ok [OpenLog path rotate, SetMode path 384]))"

section \<open>The machine\<close>

datatype ws_error =
    WsIo io_error_kind string
  | WsConnectionClosed
  | WsAlreadyClosed
  | WsHttp string
  | WsOther string

datatype connect_result = Connected | ConnectFailed ws_error | ConnectTimedOut

datatype action =
    AConnect ws_request
  | ALock "string \<times> u16"
  | AFs fs_action
  | ASpawnDaemon string string
  | ASpawnOwned string string
  | ATryWait
  | ASignal int int
  | AKillChild
  | AWaitChild
  | ASleep nat

text \<open>The answers: a connection attempt, the start of a process (an owned one has a process id),
  the exit status of the child, the wait after a kill, file operations and the clock in
  milliseconds.\<close>

record machine =
  m_connect :: "action list \<Rightarrow> connect_result"
  m_spawn :: "action list \<Rightarrow> io_error + u32"
  m_try_wait :: "action list \<Rightarrow> io_error + string option"
  m_wait :: "action list \<Rightarrow> io_error + unit"
  m_fs :: "action list \<Rightarrow> io_error + unit"
  m_lookup :: "action list \<Rightarrow> string \<Rightarrow> file_kind option"
  m_now :: "action list \<Rightarrow> nat"

text \<open>What the module is given from outside: how errors print, the URL and header checks, the
  parser, the temporary directory and the process environment's \<open>CODEX_BINARY\<close>.\<close>

record host_env =
  he_displays :: displays
  he_http :: http_checks
  he_parse :: url_parser
  he_temp_dir :: string
  he_codex_binary :: "string option"

section \<open>Probing\<close>

datatype probe_state = Reachable | Unavailable

definition is_retryable_connect_error :: "io_error_kind \<Rightarrow> bool" where
  "is_retryable_connect_error k =
     (k \<in> {ConnectionRefused, ConnectionAborted, ConnectionReset, NotConnected, TimedOut,
        AddrNotAvailable, BrokenPipe})"

definition probe_failed :: "string \<Rightarrow> string \<Rightarrow> string" where
  "probe_failed url m = ''websocket probe failed for `'' @ url @ ''`: '' @ m"

fun classify_probe_error :: "string \<Rightarrow> ws_error \<Rightarrow> string + probe_state" where
  "classify_probe_error url (WsIo k m) =
     (if is_retryable_connect_error k then Ok Unavailable else Err (probe_failed url m))"
| "classify_probe_error url WsConnectionClosed = Ok Unavailable"
| "classify_probe_error url WsAlreadyClosed = Ok Unavailable"
| "classify_probe_error url (WsHttp status) =
     Err (probe_failed url (''unexpected HTTP status '' @ status))"
| "classify_probe_error url (WsOther m) = Err (probe_failed url m)"

definition probe_app_server ::
  "host_env \<Rightarrow> machine \<Rightarrow> string \<Rightarrow> string option \<Rightarrow> action list \<Rightarrow> action list \<times> (string + probe_state)"
where
  "probe_app_server he m url auth_token log =
     (case build_ws_request (he_http he) url auth_token of
        Inl err \<Rightarrow> (log, Err (client_error_display (he_displays he) err))
      | Inr request \<Rightarrow>
          (log @ [AConnect request],
           case m_connect m log of
             Connected \<Rightarrow> Ok Reachable
           | ConnectFailed err \<Rightarrow> classify_probe_error url err
           | ConnectTimedOut \<Rightarrow> Ok Unavailable))"

section \<open>The handle and its shutdown\<close>

datatype ws_start_mode = Daemon | Blocking

record ws_server_handle =
  h_listen_url :: string
  h_connect_url :: string
  h_mode :: ws_start_mode
  h_reused_existing :: bool
  h_log_path :: "string option"
  h_process_group_id :: "u32 option"
  h_child :: bool

definition owns_process :: "ws_server_handle \<Rightarrow> bool" where
  "owns_process h = h_child h"

definition from_reused_existing ::
  "string \<Rightarrow> string \<Rightarrow> ws_start_mode \<Rightarrow> string option \<Rightarrow> ws_server_handle" where
  "from_reused_existing listen connect mode log =
     \<lparr>h_listen_url = listen, h_connect_url = connect, h_mode = mode, h_reused_existing = True,
      h_log_path = log, h_process_group_id = None, h_child = False\<rparr>"

definition daemon_started :: "string \<Rightarrow> string \<Rightarrow> string \<Rightarrow> ws_server_handle" where
  "daemon_started listen connect log =
     \<lparr>h_listen_url = listen, h_connect_url = connect, h_mode = Daemon, h_reused_existing = False,
      h_log_path = Some log, h_process_group_id = None, h_child = False\<rparr>"

definition blocking_started :: "string \<Rightarrow> string \<Rightarrow> u32 \<Rightarrow> ws_server_handle" where
  "blocking_started listen connect pid =
     \<lparr>h_listen_url = listen, h_connect_url = connect, h_mode = Blocking, h_reused_existing = False,
      h_log_path = None, h_process_group_id = Some pid, h_child = True\<rparr>"

text \<open>\<open>signal_process_group\<close>: a group id that is no \<open>i32\<close> is an error before the call; the callers
  ignore the result.\<close>

definition signal_process_group :: "u32 \<Rightarrow> int \<Rightarrow> action list \<Rightarrow> action list" where
  "signal_process_group pg signal log =
     (if uint pg < 2 ^ 31 then log @ [ASignal (- uint pg) signal] else log)"

definition terminate_process_group :: "u32 option \<Rightarrow> action list \<Rightarrow> action list" where
  "terminate_process_group pg log =
     (case pg of Some g \<Rightarrow> signal_process_group g 15 log | None \<Rightarrow> log)"

definition kill_process_group :: "u32 option \<Rightarrow> action list \<Rightarrow> action list" where
  "kill_process_group pg log =
     (case pg of Some g \<Rightarrow> signal_process_group g 9 log | None \<Rightarrow> log)"

definition SHUTDOWN_POLL_ATTEMPTS :: nat where "SHUTDOWN_POLL_ATTEMPTS = 20"
definition SHUTDOWN_POLL_INTERVAL :: nat where "SHUTDOWN_POLL_INTERVAL = 100"

definition connect_target_released ::
  "host_env \<Rightarrow> machine \<Rightarrow> string \<Rightarrow> action list \<Rightarrow> action list \<times> bool" where
  "connect_target_released he m url log =
     (let (log1, r) = probe_app_server he m url None log in (log1, r \<noteq> Ok Reachable))"

text \<open>
  One round of the first polling loop of \<open>shutdown\<close>: \<open>try_wait\<close> unless the child has been seen to
  exit, then the probe of the connect URL once it has. The result is an I/O error of \<open>try_wait\<close>,
  or whether the server is gone and whether the child has been seen to exit.
\<close>

definition shutdown_round ::
  "host_env \<Rightarrow> machine \<Rightarrow> string \<Rightarrow> bool \<Rightarrow> action list
    \<Rightarrow> action list \<times> (io_error + bool \<times> bool)" where
  "shutdown_round he m url exited log =
     (let (log1, waited) = (if exited then (log, Ok (Some []))
                            else (log @ [ATryWait], m_try_wait m log))
      in case waited of
           Inl e \<Rightarrow> (log1, Err e)
         | Inr None \<Rightarrow> (log1, Ok (False, False))
         | Inr (Some _) \<Rightarrow>
             (let (log2, released) = connect_target_released he m url log1
              in (log2, Ok (released, True))))"

text \<open>The loop, from attempt \<open>a\<close> with \<open>n\<close> attempts left: attempt 5 sends another \<open>SIGTERM\<close>.\<close>

fun shutdown_poll ::
  "host_env \<Rightarrow> machine \<Rightarrow> string \<Rightarrow> u32 option \<Rightarrow> nat \<Rightarrow> nat \<Rightarrow> bool \<Rightarrow> action list
    \<Rightarrow> action list \<times> (io_error + bool \<times> bool)" where
  "shutdown_poll he m url pg 0 a exited log = (log, Ok (False, exited))"
| "shutdown_poll he m url pg (Suc n) a exited log =
     (case shutdown_round he m url exited log of
        (log1, Inl e) \<Rightarrow> (log1, Err e)
      | (log1, Inr (True, exited1)) \<Rightarrow> (log1, Ok (True, exited1))
      | (log1, Inr (False, exited1)) \<Rightarrow>
          (let log2 = (if a = 5 then terminate_process_group pg log1 else log1)
           in shutdown_poll he m url pg n (a + 1) exited1 (log2 @ [ASleep SHUTDOWN_POLL_INTERVAL])))"

fun release_poll ::
  "host_env \<Rightarrow> machine \<Rightarrow> string \<Rightarrow> nat \<Rightarrow> action list \<Rightarrow> action list \<times> bool" where
  "release_poll he m url 0 log = (log, False)"
| "release_poll he m url (Suc n) log =
     (case connect_target_released he m url log of
        (log1, True) \<Rightarrow> (log1, True)
      | (log1, False) \<Rightarrow> release_poll he m url n (log1 @ [ASleep SHUTDOWN_POLL_INTERVAL]))"

definition shutdown_escalate ::
  "host_env \<Rightarrow> machine \<Rightarrow> ws_server_handle \<Rightarrow> u32 option \<Rightarrow> bool \<Rightarrow> action list
    \<Rightarrow> action list \<times> (client_error + unit)" where
  "shutdown_escalate he m h pg exited log =
     (let log1 = kill_process_group pg log;
          (log2, waited) = (if exited then (log1, Ok ())
             else (log1 @ [AKillChild, AWaitChild], m_wait m (log1 @ [AKillChild])))
      in case waited of
           Inl e \<Rightarrow> (log2, Err (Io e))
         | Inr _ \<Rightarrow>
             (case release_poll he m (h_connect_url h) SHUTDOWN_POLL_ATTEMPTS log2 of
                (log3, True) \<Rightarrow> (log3, Ok ())
              | (log3, False) \<Rightarrow> (log3, Err (Startup
                  (''websocket app-server did not release `'' @ h_connect_url h @
                   ''` during shutdown'') (h_log_path h)))))"

definition shutdown ::
  "host_env \<Rightarrow> machine \<Rightarrow> ws_server_handle \<Rightarrow> action list
    \<Rightarrow> ws_server_handle \<times> action list \<times> (client_error + unit)" where
  "shutdown he m h log =
     (let pg = h_process_group_id h;
          h1 = h\<lparr>h_process_group_id := None, h_child := False\<rparr>
      in if \<not> h_child h then (h1, log, Ok ())
         else (let log1 = terminate_process_group pg log
               in case shutdown_poll he m (h_connect_url h) pg SHUTDOWN_POLL_ATTEMPTS 0 False log1 of
                    (log2, Inl e) \<Rightarrow> (h1, log2, Err (Io e))
                  | (log2, Inr (True, exited)) \<Rightarrow> (h1, log2, Ok ())
                  | (log2, Inr (False, exited)) \<Rightarrow>
                      (let (log3, r) = shutdown_escalate he m h pg exited log2 in (h1, log3, r))))"

definition drop_handle :: "ws_server_handle \<Rightarrow> action list \<Rightarrow> action list" where
  "drop_handle h log =
     (let log1 = terminate_process_group (h_process_group_id h) log
      in if h_child h then log1 @ [ATryWait] else log1)"

section \<open>Starting\<close>

definition STARTUP_TIMEOUT :: nat where "STARTUP_TIMEOUT = 10000"
definition PROBE_INTERVAL :: nat where "PROBE_INTERVAL = 150"

text \<open>A file operation and, when it succeeds, the ones after it.\<close>

fun run_fs ::
  "machine \<Rightarrow> fs_action list \<Rightarrow> action list \<Rightarrow> action list \<times> (io_error + unit)" where
  "run_fs m [] log = (log, Ok ())"
| "run_fs m (f # fs) log =
     (let log1 = log @ [AFs f]
      in case m_fs m log of Inl e \<Rightarrow> (log1, Err e) | Inr _ \<Rightarrow> run_fs m fs log1)"

definition fs_step ::
  "machine \<Rightarrow> io_error + fs_action list \<Rightarrow> action list \<Rightarrow> action list \<times> (io_error + unit)" where
  "fs_step m plan log = (case plan of Inl e \<Rightarrow> (log, Err e) | Inr fs \<Rightarrow> run_fs m fs log)"

definition spawn_daemon_process ::
  "host_env \<Rightarrow> machine \<Rightarrow> ws_start_target \<Rightarrow> (string \<rightharpoonup> string) \<Rightarrow> action list
    \<Rightarrow> action list \<times> (io_error + unit)" where
  "spawn_daemon_process he m target env log =
     (case fs_step m (prepare_daemon_log_dir (m_lookup m log) (daemon_log_dir (he_temp_dir he))) log of
        (log1, Inl e) \<Rightarrow> (log1, Err e)
      | (log1, Inr _) \<Rightarrow>
          (case fs_step m (open_daemon_log (m_lookup m log1) (st_log_path target)) log1 of
             (log2, Inl e) \<Rightarrow> (log2, Err e)
           | (log2, Inr _) \<Rightarrow>
               (log2 @ [ASpawnDaemon (codex_binary env (he_codex_binary he)) (st_listen_url target)],
                map_ok (\<lambda>_. ()) (m_spawn m log2))))"

text \<open>A task that panics (\<open>JoinError\<close>) is not modelled: the task has no panicking call.\<close>

definition spawn_daemon ::
  "host_env \<Rightarrow> machine \<Rightarrow> ws_start_target \<Rightarrow> (string \<rightharpoonup> string) \<Rightarrow> action list
    \<Rightarrow> action list \<times> (client_error + unit)" where
  "spawn_daemon he m target env log =
     (case spawn_daemon_process he m target env log of
        (log1, Inr _) \<Rightarrow> (log1, Ok ())
      | (log1, Inl (IoError k detail)) \<Rightarrow>
          (log1, Err (Startup
            (''failed to start websocket app-server daemon for `'' @ st_connect_url target @ ''`: '' @
             detail) (Some (st_log_path target)))))"

definition spawn_owned_process ::
  "host_env \<Rightarrow> machine \<Rightarrow> ws_start_target \<Rightarrow> (string \<rightharpoonup> string) \<Rightarrow> action list
    \<Rightarrow> action list \<times> (io_error + u32)" where
  "spawn_owned_process he m target env log =
     (log @ [ASpawnOwned (codex_binary env (he_codex_binary he)) (st_listen_url target)],
      m_spawn m log)"

text \<open>
  One round of the readiness loop: \<open>None\<close> means that nothing answers yet and the deadline has
  not passed. \<open>owned\<close> says whether there is a child to watch.
\<close>

definition exited_early :: "ws_start_target \<Rightarrow> string \<Rightarrow> client_error" where
  "exited_early target status = Startup
     (''websocket app-server for `'' @ st_connect_url target @
      ''` exited before becoming ready with status '' @ status) None"

definition readiness_failed :: "ws_start_target \<Rightarrow> string \<Rightarrow> client_error" where
  "readiness_failed target failure = Startup
     (''websocket app-server readiness probe failed for `'' @ st_connect_url target @ ''`: '' @ failure)
     (Some (st_log_path target))"

definition startup_timed_out :: "ws_start_target \<Rightarrow> client_error" where
  "startup_timed_out target = Startup
     (''timed out waiting for websocket app-server at `'' @ st_connect_url target @ ''`'')
     (Some (st_log_path target))"

definition wait_round ::
  "host_env \<Rightarrow> machine \<Rightarrow> ws_start_target \<Rightarrow> bool \<Rightarrow> string option \<Rightarrow> nat \<Rightarrow> action list
    \<Rightarrow> action list \<times> (client_error + unit) option" where
  "wait_round he m target owned auth_token deadline log =
     (let (log1, child) = (if owned then (log @ [ATryWait], m_try_wait m log) else (log, Ok None))
      in case child of
           Inl e \<Rightarrow> (log1, Some (Err (Io e)))
         | Inr (Some status) \<Rightarrow> (log1, Some (Err (exited_early target status)))
         | Inr None \<Rightarrow>
             (case probe_app_server he m (st_connect_url target) auth_token log1 of
                (log2, Inr Reachable) \<Rightarrow> (log2, Some (Ok ()))
              | (log2, Inl failure) \<Rightarrow> (log2, Some (Err (readiness_failed target failure)))
              | (log2, Inr Unavailable) \<Rightarrow>
                  (log2, if deadline \<le> m_now m log2
                         then Some (Err (startup_timed_out target)) else None)))"

text \<open>The loop; \<open>None\<close> is fuel that ran out.\<close>

fun wait_for_ready ::
  "nat \<Rightarrow> host_env \<Rightarrow> machine \<Rightarrow> ws_start_target \<Rightarrow> bool \<Rightarrow> string option \<Rightarrow> nat \<Rightarrow> action list
    \<Rightarrow> (action list \<times> (client_error + unit)) option" where
  "wait_for_ready 0 he m target owned auth_token deadline log = None"
| "wait_for_ready (Suc fuel) he m target owned auth_token deadline log =
     (case wait_round he m target owned auth_token deadline log of
        (log1, Some r) \<Rightarrow> Some (log1, r)
      | (log1, None) \<Rightarrow> wait_for_ready fuel he m target owned auth_token deadline
                          (log1 @ [ASleep PROBE_INTERVAL]))"

definition existing_server_handle ::
  "host_env \<Rightarrow> machine \<Rightarrow> ws_start_target \<Rightarrow> bool \<Rightarrow> ws_start_mode \<Rightarrow> string option \<Rightarrow> action list
    \<Rightarrow> action list \<times> (client_error + ws_server_handle option)" where
  "existing_server_handle he m target reuse_existing mode auth_token log =
     (case probe_app_server he m (st_connect_url target) auth_token log of
        (log1, Inr Reachable) \<Rightarrow>
          (log1,
           if reuse_existing
           then Ok (Some (from_reused_existing (st_listen_url target) (st_connect_url target) mode
                      (Some (st_log_path target))))
           else Err (Startup
             (''websocket app-server already running at `'' @ st_connect_url target @
              ''` and reuse_existing is disabled'') (Some (st_log_path target))))
      | (log1, Inr Unavailable) \<Rightarrow> (log1, Ok None)
      | (log1, Inl failure) \<Rightarrow>
          (log1, Err (Startup
             (''websocket startup conflict at `'' @ st_connect_url target @ ''`: '' @ failure)
             (Some (st_log_path target)))))"

definition launch ::
  "nat \<Rightarrow> host_env \<Rightarrow> machine \<Rightarrow> ws_start_target \<Rightarrow> (string \<rightharpoonup> string) \<Rightarrow> ws_start_mode \<Rightarrow> string option
    \<Rightarrow> action list \<Rightarrow> (action list \<times> (client_error + ws_server_handle)) option" where
  "launch fuel he m target env mode auth_token log =
     (case mode of
        Daemon \<Rightarrow>
          (case spawn_daemon he m target env log of
             (log1, Inl e) \<Rightarrow> Some (log1, Err e)
           | (log1, Inr _) \<Rightarrow>
               map_option (\<lambda>(log2, r). (log2, map_ok (\<lambda>_. daemon_started (st_listen_url target)
                   (st_connect_url target) (st_log_path target)) r))
                 (wait_for_ready fuel he m target False auth_token
                    (m_now m log1 + STARTUP_TIMEOUT) log1))
      | Blocking \<Rightarrow>
          (case spawn_owned_process he m target env log of
             (log1, Inl e) \<Rightarrow> Some (log1, Err (Io e))
           | (log1, Inr pid) \<Rightarrow>
               map_option (\<lambda>(log2, r). (log2, map_ok (\<lambda>_. blocking_started (st_listen_url target)
                   (st_connect_url target) pid) r))
                 (wait_for_ready fuel he m target True auth_token
                    (m_now m log1 + STARTUP_TIMEOUT) log1)))"

definition start_ws_server_internal ::
  "nat \<Rightarrow> host_env \<Rightarrow> machine \<Rightarrow> ws_start_target \<Rightarrow> (string \<rightharpoonup> string) \<Rightarrow> bool \<Rightarrow> ws_start_mode \<Rightarrow>
   string option \<Rightarrow> action list \<Rightarrow> (action list \<times> (client_error + ws_server_handle)) option" where
  "start_ws_server_internal fuel he m target env reuse_existing mode auth_token log =
     (case existing_server_handle he m target reuse_existing mode auth_token log of
        (log1, Inl e) \<Rightarrow> Some (log1, Err e)
      | (log1, Inr (Some h)) \<Rightarrow> Some (log1, Ok h)
      | (log1, Inr None) \<Rightarrow>
          (case existing_server_handle he m target reuse_existing mode auth_token
                  (log1 @ [ALock (lock_key (st_listen target))]) of
             (log2, Inl e) \<Rightarrow> Some (log2, Err e)
           | (log2, Inr (Some h)) \<Rightarrow> Some (log2, Ok h)
           | (log2, Inr None) \<Rightarrow> launch fuel he m target env mode auth_token log2))"

definition start_ws_server ::
  "nat \<Rightarrow> host_env \<Rightarrow> machine \<Rightarrow> ws_start_config \<Rightarrow> ws_start_mode \<Rightarrow> action list
    \<Rightarrow> (action list \<times> (client_error + ws_server_handle)) option" where
  "start_ws_server fuel he m config mode log =
     (case build_start_target (he_parse he) (he_temp_dir he) config of
        Inl e \<Rightarrow> Some (log, Err e)
      | Inr target \<Rightarrow>
          start_ws_server_internal fuel he m target (start_env config) (start_reuse_existing config)
            mode None log)"

definition ensure_local_ws_app_server ::
  "nat \<Rightarrow> host_env \<Rightarrow> machine \<Rightarrow> string \<Rightarrow> (string \<rightharpoonup> string) \<Rightarrow> string option \<Rightarrow> action list
    \<Rightarrow> (action list \<times> (client_error + unit)) option" where
  "ensure_local_ws_app_server fuel he m url env auth_token log =
     (case parse_managed_ws_target (he_parse he) (he_temp_dir he) url of
        Inl e \<Rightarrow> Some (log, Err e)
      | Inr None \<Rightarrow> Some (log, Ok ())
      | Inr (Some target) \<Rightarrow>
          map_option (\<lambda>(log1, r). (log1, map_ok (\<lambda>_. ()) r))
            (start_ws_server_internal fuel he m target env True Daemon auth_token log))"

text \<open>\<open>CodexClient::start_and_connect_ws\<close> up to its connection attempt.\<close>

definition start_and_connect_ws ::
  "nat \<Rightarrow> host_env \<Rightarrow> machine \<Rightarrow> ws_config \<Rightarrow> (string \<rightharpoonup> string) \<Rightarrow> action list
    \<Rightarrow> (action list \<times> (client_error + ws_request)) option" where
  "start_and_connect_ws fuel he m config env log =
     map_option (\<lambda>(log1, r).
       (log1, and_then r (\<lambda>_. connect_ws_request (he_parse he) (he_http he) (ws_url config)
          (ws_auth_token config))))
       (ensure_local_ws_app_server fuel he m (ws_url config) env (ws_auth_token config) log)"

section \<open>What is done, step by step\<close>

text \<open>A log extends another by actions of a kind.\<close>

definition extends :: "(action \<Rightarrow> bool) \<Rightarrow> action list \<Rightarrow> action list \<Rightarrow> bool" where
  "extends P log log1 \<longleftrightarrow> (\<exists>new. log1 = log @ new \<and> list_all P new)"

lemma extends_refl [simp]: "extends P log log"
  by (simp add: extends_def)

lemma extends_snoc [simp]: "P a \<Longrightarrow> extends P log (log @ [a])"
  by (simp add: extends_def)

lemma extends_trans: "extends P a b \<Longrightarrow> extends P b c \<Longrightarrow> extends P a c"
  by (auto simp: extends_def)

lemma extends_step: "extends P a b \<Longrightarrow> P x \<Longrightarrow> extends P a (b @ [x])"
  using extends_trans extends_snoc by blast

lemma extends_mono: "extends P a b \<Longrightarrow> (\<And>x. P x \<Longrightarrow> Q x) \<Longrightarrow> extends Q a b"
  by (auto simp: extends_def list_all_iff)

lemma extends_in: "extends P log log1 \<Longrightarrow> a \<in> set log1 \<Longrightarrow> a \<in> set log \<or> P a"
  by (auto simp: extends_def list_all_iff)

lemma probe_extends:
  "(\<And>r. P (AConnect r)) \<Longrightarrow> extends P log (fst (probe_app_server he m url auth log))"
  by (auto simp: probe_app_server_def split: sum.splits)

lemma released_extends:
  "(\<And>r. P (AConnect r)) \<Longrightarrow> extends P log (fst (connect_target_released he m url log))"
  using probe_extends [of P log he m url None]
  by (simp add: connect_target_released_def case_prod_beta)

section \<open>Targets: properties\<close>

lemma normalized_cases:
  "normalized t = t \<or>
   (\<exists>d. target_host t = Domain d \<and> eq_ignore_ascii_case d ''localhost'' \<and>
      normalized t = t\<lparr>target_host := Ipv4 localhost_v4\<rparr>)"
  by (cases "target_host t") (auto simp: normalized_def)

lemma localhost_v4_loopback: "host_is_loopback (Ipv4 localhost_v4)"
  by (simp add: localhost_v4_def)

text \<open>
  \<open>localhost\<close> and \<open>127.0.0.1\<close> are one server: normalizing a target changes neither its port
  nor whether it is loopback nor its startup lock, a second time it changes nothing, and a
  \<open>localhost\<close> target has the lock of \<open>127.0.0.1\<close> on its port.
\<close>

theorem target_normalization:
  "normalized (normalized t) = normalized t \<and> target_port (normalized t) = target_port t \<and>
   is_loopback (normalized t) = is_loopback t \<and> lock_key (normalized t) = lock_key t \<and>
   (\<forall>d. target_host t = Domain d \<longrightarrow> eq_ignore_ascii_case d ''localhost'' \<longrightarrow>
      lock_key t = lock_key \<lparr>target_host = Ipv4 localhost_v4, target_port = target_port t\<rparr>)"
proof -
  have "normalized (t\<lparr>target_host := Ipv4 localhost_v4\<rparr>) = t\<lparr>target_host := Ipv4 localhost_v4\<rparr>"
    by (simp add: normalized_def)
  then have idem: "normalized (normalized t) = normalized t"
    using normalized_cases [of t] by auto
  moreover have "target_port (normalized t) = target_port t"
    using normalized_cases [of t] by auto
  moreover have "is_loopback (normalized t) = is_loopback t"
    using normalized_cases [of t] localhost_v4_loopback by (auto simp: is_loopback_def)
  moreover have "lock_key (normalized t) = lock_key t"
    using idem by (simp add: lock_key_def)
  moreover have "lock_key t = lock_key \<lparr>target_host = Ipv4 localhost_v4, target_port = target_port t\<rparr>"
    if "target_host t = Domain d" "eq_ignore_ascii_case d ''localhost''" for d
    using that by (simp add: lock_key_def normalized_def host_authority_def)
  ultimately show ?thesis by blast
qed

theorem target_normalization_witness:
  "lock_key \<lparr>target_host = Domain ''LocalHost'', target_port = 4222\<rparr> =
   lock_key \<lparr>target_host = Ipv4 localhost_v4, target_port = 4222\<rparr>"
proof -
  have "eq_ignore_ascii_case ''LocalHost'' ''localhost''" by code_simp
  then show ?thesis
    using target_normalization [of "\<lparr>target_host = Domain ''LocalHost'', target_port = 4222\<rparr>"] by simp
qed

lemma show_nat_chars: "list_all is_ascii_alphanumeric (show_nat n)"
proof -
  have "is_ascii_digit c \<Longrightarrow> is_ascii_alphanumeric c" for c
    by (simp add: is_ascii_digit_def is_ascii_alphanumeric_def Let_def)
  then show ?thesis using show_nat_digits [of n] by (auto simp: list_all_iff)
qed

text \<open>
  The log file of a target stays in the SDK's own directory: its path is that directory and
  a name made of letters, digits, dots, dashes and underscores only, whatever the host.
\<close>

theorem log_path_confined:
  "\<exists>name. log_path temp_dir t = path_join (daemon_log_dir temp_dir) name \<and> name \<noteq> [] \<and>
     (\<forall>c \<in> set name. is_ascii_alphanumeric c \<or> c \<in> {CHR ''-'', CHR ''.'', CHR ''_''}) \<and>
     CHR 0x2F \<notin> set name"
proof -
  let ?ok = "\<lambda>c. is_ascii_alphanumeric c \<or> c \<in> {CHR ''-'', CHR ''.'', CHR ''_''}"
  have lit: "list_all ?ok ''app-server-''" "list_all ?ok ''.log''"
    by (simp_all add: is_ascii_alphanumeric_def)
  have name: "\<forall>c \<in> set (log_file_name t). ?ok c"
    using lit show_nat_chars [of "nat (uint (target_port t))"]
    unfolding log_file_name_def list_all_iff set_append ball_Un by (auto simp: show_int_def)
  moreover have "\<not> ?ok (CHR 0x2F)" by (simp add: is_ascii_alphanumeric_def)
  ultimately have "CHR 0x2F \<notin> set (log_file_name t)" by blast
  moreover have "log_file_name t \<noteq> []" by (simp add: log_file_name_def)
  ultimately show ?thesis using name unfolding log_path_def by blast
qed

theorem log_path_confined_witness:
  "\<exists>name. log_path ''/tmp'' \<lparr>target_host = Domain ''../../etc'', target_port = 1\<rparr> =
     ''/tmp/codex-app-server-sdk'' @ [CHR 0x2F] @ name \<and> CHR 0x2F \<notin> set name"
proof -
  have "path_join (daemon_log_dir ''/tmp'') name = ''/tmp/codex-app-server-sdk'' @ [CHR 0x2F] @ name" for name
    by (simp add: path_join_def daemon_log_dir_def)
  with log_path_confined [of "''/tmp''" "\<lparr>target_host = Domain ''../../etc'', target_port = 1\<rparr>"]
  show ?thesis by metis
qed

section \<open>Starting: properties\<close>

fun is_spawn :: "action \<Rightarrow> bool" where
  "is_spawn (ASpawnDaemon b l) = True"
| "is_spawn (ASpawnOwned b l) = True"
| "is_spawn a = False"

fun is_kill :: "action \<Rightarrow> bool" where
  "is_kill (ASignal g s) = True"
| "is_kill AKillChild = True"
| "is_kill a = False"

text \<open>What starting may do besides: probe, take the lock, touch files, watch the child, sleep.\<close>

definition start_action :: "action \<Rightarrow> bool" where
  "start_action a \<longleftrightarrow> \<not> is_spawn a \<and> \<not> is_kill a"

lemma start_action_simps [simp]:
  "start_action (AConnect r)" "start_action (ALock k)" "start_action (AFs f)"
  "start_action ATryWait" "start_action (ASleep n)"
  by (simp_all add: start_action_def)

lemma wait_round_facts:
  assumes "wait_round he m target owned auth deadline log = (log1, r)"
  shows "extends start_action log log1" "r = None \<Longrightarrow> m_now m log1 < deadline"
proof -
  define w where "w = (if owned then (log @ [ATryWait], m_try_wait m log) else (log, Ok None))"
  define p where "p = probe_app_server he m (st_connect_url target) auth (fst w)"
  have w: "extends start_action log (fst w)" by (simp add: w_def)
  have "extends start_action (fst w) (fst p)"
    unfolding p_def by (rule probe_extends) simp
  then have p: "extends start_action log (fst p)" using w extends_trans by blast
  have "log1 = fst w \<or> log1 = fst p"
    using assms unfolding wait_round_def w_def [symmetric]
    by (cases w; cases p) (auto simp: p_def split: sum.splits option.splits probe_state.splits)
  with w p show "extends start_action log log1" by blast
  show "r = None \<Longrightarrow> m_now m log1 < deadline"
    using assms unfolding wait_round_def w_def [symmetric]
    by (cases w) (auto split: sum.splits option.splits prod.splits probe_state.splits if_splits)
qed

lemma wait_for_ready_extends:
  "wait_for_ready fuel he m target owned auth deadline log = Some (log1, r) \<Longrightarrow>
   extends start_action log log1"
proof (induction fuel arbitrary: log)
  case 0
  then show ?case by simp
next
  case (Suc fuel)
  obtain l x where w: "wait_round he m target owned auth deadline log = (l, x)" by fastforce
  have e: "extends start_action log (l @ [ASleep PROBE_INTERVAL])"
    using wait_round_facts(1) [OF w] by (rule extends_step) simp
  show ?case
  proof (cases x)
    case None
    with Suc w show ?thesis using extends_trans [OF e] by auto
  next
    case (Some y)
    with Suc.prems w show ?thesis using wait_round_facts(1) [OF w] by simp
  qed
qed

lemma run_fs_extends: "extends start_action log (fst (run_fs m fs log))"
proof (induction fs arbitrary: log)
  case Nil
  then show ?case by simp
next
  case (Cons f fs)
  have "extends start_action log (fst (run_fs m fs (log @ [AFs f])))"
    using Cons [of "log @ [AFs f]"] extends_trans [of start_action log "log @ [AFs f]"] by simp
  then show ?case by (simp add: Let_def split: sum.splits)
qed

lemma fs_step_extends: "extends start_action log (fst (fs_step m plan log))"
  by (cases plan) (simp_all add: fs_step_def run_fs_extends)

text \<open>One start does at most one spawn, of the target's listen URL.\<close>

definition one_spawn :: "ws_start_target \<Rightarrow> action list \<Rightarrow> action list \<Rightarrow> bool" where
  "one_spawn target log log1 \<longleftrightarrow>
     extends start_action log log1 \<or>
     (\<exists>log0 a b. extends start_action log log0 \<and> extends start_action (log0 @ [a]) log1 \<and>
        (a = ASpawnDaemon b (st_listen_url target) \<or> a = ASpawnOwned b (st_listen_url target)))"

lemma one_spawn_extend:
  "one_spawn target log log1 \<Longrightarrow> extends start_action log1 log2 \<Longrightarrow> one_spawn target log log2"
  using extends_trans unfolding one_spawn_def by blast

lemma spawn_daemon_one: "one_spawn target log (fst (spawn_daemon he m target env log))"
proof -
  define l1 where "l1 = fs_step m
    (prepare_daemon_log_dir (m_lookup m log) (daemon_log_dir (he_temp_dir he))) log"
  define l2 where "l2 = fs_step m (open_daemon_log (m_lookup m (fst l1)) (st_log_path target)) (fst l1)"
  have e1: "extends start_action log (fst l1)" unfolding l1_def by (rule fs_step_extends)
  have e2: "extends start_action log (fst l2)"
    using extends_trans [OF e1 fs_step_extends] by (simp add: l2_def)
  have spawned: "one_spawn target log (fst l2 @ [ASpawnDaemon b (st_listen_url target)])" for b
    using e2 extends_refl unfolding one_spawn_def by blast
  have plain: "one_spawn target log (fst l1)" "one_spawn target log (fst l2)"
    using e1 e2 by (simp_all add: one_spawn_def)
  have "spawn_daemon_process he m target env log =
      (case l1 of (log1, Inl e) \<Rightarrow> (log1, Err e)
       | (log1, Inr _) \<Rightarrow> (case l2 of (log2, Inl e) \<Rightarrow> (log2, Err e)
          | (log2, Inr _) \<Rightarrow> (log2 @ [ASpawnDaemon (codex_binary env (he_codex_binary he))
               (st_listen_url target)], map_ok (\<lambda>_. ()) (m_spawn m log2))))"
    unfolding spawn_daemon_process_def l1_def [symmetric] l2_def
    by (cases l1; cases "snd l1") simp_all
  then have "one_spawn target log (fst (spawn_daemon_process he m target env log))"
    using plain spawned by (cases l1; cases l2) (auto split: sum.splits)
  then show ?thesis
    by (auto simp: spawn_daemon_def split: prod.splits sum.splits io_error.splits)
qed

lemma launch_one:
  "launch fuel he m target env mode auth log = Some (log1, r) \<Longrightarrow> one_spawn target log log1"
proof (cases mode)
  case Daemon
  assume l: "launch fuel he m target env mode auth log = Some (log1, r)"
  obtain l1 d where d: "spawn_daemon he m target env log = (l1, d)" by fastforce
  then have "one_spawn target log l1" using spawn_daemon_one [of target log he m env] by simp
  with l d Daemon show ?thesis
    by (cases d) (auto simp: launch_def dest!: wait_for_ready_extends intro: one_spawn_extend)
next
  case Blocking
  assume l: "launch fuel he m target env mode auth log = Some (log1, r)"
  obtain l1 d where d: "spawn_owned_process he m target env log = (l1, d)" by fastforce
  then have "one_spawn target log l1"
    unfolding spawn_owned_process_def one_spawn_def using extends_refl by blast
  with l d Blocking show ?thesis
    by (cases d) (auto simp: launch_def dest!: wait_for_ready_extends intro: one_spawn_extend)
qed

lemma existing_extends:
  "extends start_action log (fst (existing_server_handle he m target reuse mode auth log))"
  using probe_extends [of start_action log he m "st_connect_url target" auth]
  by (auto simp: existing_server_handle_def split: prod.splits sum.splits probe_state.splits)

lemma start_one:
  assumes "start_ws_server_internal fuel he m target env reuse mode auth log = Some (log1, r)"
  shows "one_spawn target log log1"
proof -
  obtain l1 x where x: "existing_server_handle he m target reuse mode auth log = (l1, x)" by fastforce
  let ?l = "l1 @ [ALock (lock_key (st_listen target))]"
  obtain l2 y where y: "existing_server_handle he m target reuse mode auth ?l = (l2, y)" by fastforce
  have e1: "extends start_action log l1"
    using existing_extends [of log he m target reuse mode auth] x by simp
  then have "extends start_action log ?l" by (rule extends_step) simp
  then have e2: "extends start_action log l2"
    using existing_extends [of ?l he m target reuse mode auth] y extends_trans by fastforce
  have "one_spawn target log l1" "one_spawn target log l2"
    using e1 e2 by (simp_all add: one_spawn_def)
  moreover have "one_spawn target log log1" if "one_spawn target l2 log1"
    using that extends_trans [OF e2] unfolding one_spawn_def by blast
  ultimately show ?thesis
    using assms x y
    by (auto simp: start_ws_server_internal_def split: sum.splits option.splits dest!: launch_one)
qed

text \<open>
  A daemon is only ever started for a loopback URL: when connecting starts a process, the
  URL is a \<open>ws\<close> URL with a loopback host and an explicit port, and the process listens on that
  loopback address.
\<close>

theorem daemon_only_for_loopback:
  assumes "ensure_local_ws_app_server fuel he m url env auth [] = Some (log, r)"
    "a \<in> set log" "is_spawn a"
  shows "\<exists>u host port b. he_parse he url = Ok u \<and> url_scheme u = ''ws'' \<and>
    url_host u = Some host \<and> host_is_loopback host \<and> url_port u = Some port \<and>
    is_loopback (normalized \<lparr>target_host = host, target_port = port\<rparr>) \<and>
    a \<in> {ASpawnDaemon b (target_url (normalized \<lparr>target_host = host, target_port = port\<rparr>)),
         ASpawnOwned b (target_url (normalized \<lparr>target_host = host, target_port = port\<rparr>))}"
proof -
  obtain target where target: "parse_managed_ws_target (he_parse he) (he_temp_dir he) url = Ok (Some target)"
    "one_spawn target [] log"
    using assms
    by (auto simp: ensure_local_ws_app_server_def split: sum.splits option.splits dest!: start_one)
  then obtain b where b: "a = ASpawnDaemon b (st_listen_url target) \<or> a = ASpawnOwned b (st_listen_url target)"
    using assms(2,3) by (auto simp: one_spawn_def start_action_def dest!: extends_in)
  from target(1) obtain u host port where u: "he_parse he url = Ok u" "url_scheme u = ''ws''"
    "url_host u = Some host" "host_is_loopback host" "url_port u = Some port"
    "st_listen_url target = target_url (normalized \<lparr>target_host = host, target_port = port\<rparr>)"
    by (auto simp: parse_managed_ws_target_def and_then_Inr_iff map_err_Inr_iff is_loopback_def Let_def
        split: if_splits option.splits)
  moreover have "is_loopback (normalized \<lparr>target_host = host, target_port = port\<rparr>)"
    using u(4) normalized_cases [of "\<lparr>target_host = host, target_port = port\<rparr>"] localhost_v4_loopback
    by (auto simp: is_loopback_def)
  ultimately show ?thesis using b by auto
qed

text \<open>A machine on which a server answers once a process was started, for the witnesses.\<close>

definition plain_env :: host_env where
  "plain_env =
     \<lparr>he_displays = \<lparr>display_serde = (\<lambda>_. []), debug_rpc_error = rpc_error_message,
        display_send_error = []\<rparr>,
      he_http = lenient_http,
      he_parse = (\<lambda>s. Ok \<lparr>url_scheme = ''ws'', url_host = Some (Ipv4 localhost_v4),
        url_port = Some 4222, url_as_str = s\<rparr>),
      he_temp_dir = ''/tmp'', he_codex_binary = None\<rparr>"

definition machine_after :: "(action list \<Rightarrow> connect_result) \<Rightarrow> (action list \<Rightarrow> string option) \<Rightarrow> machine" where
  "machine_after connect exit_status =
     \<lparr>m_connect = connect, m_spawn = (\<lambda>_. Ok 100), m_try_wait = (\<lambda>log. Ok (exit_status log)),
      m_wait = (\<lambda>_. Ok ()), m_fs = (\<lambda>_. Ok ()), m_lookup = (\<lambda>_ _. None),
      m_now = (\<lambda>log. length log)\<rparr>"

definition good_machine :: machine where
  "good_machine = machine_after
     (\<lambda>log. if list_ex is_spawn log then Connected
            else ConnectFailed (WsIo ConnectionRefused ''refused'')) (\<lambda>_. None)"

definition probe_request :: ws_request where
  "probe_request = \<lparr>request_url = ''ws://127.0.0.1:4222'', request_authorization = None\<rparr>"

definition loopback_target :: ws_start_target where
  "loopback_target =
     \<lparr>st_connect_url = ''ws://127.0.0.1:4222'', st_listen_url = ''ws://127.0.0.1:4222'',
      st_listen = \<lparr>target_host = Ipv4 localhost_v4, target_port = 4222\<rparr>, st_log_path = ''log''\<rparr>"

lemmas start_run_defs =
  probe_app_server_def build_ws_request_def plain_env_def good_machine_def machine_after_def
  lenient_http_def is_retryable_connect_error_def existing_server_handle_def launch_def
  spawn_daemon_def spawn_daemon_process_def spawn_owned_process_def fs_step_def
  prepare_daemon_log_dir_def open_daemon_log_def codex_binary_def wait_round_def
  start_ws_server_internal_def Let_def

lemma good_target_url: "target_url \<lparr>target_host = Ipv4 localhost_v4, target_port = 4222\<rparr> = ''ws://127.0.0.1:4222''"
  by code_simp

lemma good_start:
  "\<exists>log r. ensure_local_ws_app_server 1 plain_env good_machine ''ws://127.0.0.1:4222'' Map.empty None [] =
     Some (log, r) \<and> ASpawnDaemon ''codex'' ''ws://127.0.0.1:4222'' \<in> set log"
proof -
  have parse: "parse_managed_ws_target (he_parse plain_env) (he_temp_dir plain_env) ''ws://127.0.0.1:4222'' =
    Ok (Some \<lparr>st_connect_url = ''ws://127.0.0.1:4222'', st_listen_url = ''ws://127.0.0.1:4222'',
      st_listen = \<lparr>target_host = Ipv4 localhost_v4, target_port = 4222\<rparr>,
      st_log_path = log_path ''/tmp'' \<lparr>target_host = Ipv4 localhost_v4, target_port = 4222\<rparr>\<rparr>)"
    using localhost_v4_loopback
    by (simp add: parse_managed_ws_target_def plain_env_def is_loopback_def normalized_def good_target_url
        Let_def)
  show ?thesis
    by (simp add: ensure_local_ws_app_server_def parse, simp add: start_run_defs)
qed

theorem daemon_only_for_loopback_witness:
  "\<exists>log r. ensure_local_ws_app_server 1 plain_env good_machine ''ws://127.0.0.1:4222'' Map.empty None [] =
     Some (log, r) \<and> ASpawnDaemon ''codex'' ''ws://127.0.0.1:4222'' \<in> set log"
proof -
  let ?a = "ASpawnDaemon ''codex'' ''ws://127.0.0.1:4222''"
  obtain log r where run: "ensure_local_ws_app_server 1 plain_env good_machine ''ws://127.0.0.1:4222''
      Map.empty None [] = Some (log, r)" and a: "?a \<in> set log"
    using good_start by blast
  have "is_spawn ?a" by simp
  from daemon_only_for_loopback [OF run a this] run a show ?thesis by blast
qed

lemma start_action_no_spawn: "extends start_action log log1 \<Longrightarrow> filter is_spawn log1 = filter is_spawn log"
  by (auto simp: extends_def start_action_def list_all_iff filter_empty_conv)

lemma one_spawn_filter:
  assumes "one_spawn target log log1"
  shows "filter is_spawn log1 = filter is_spawn log \<or>
    (\<exists>a. filter is_spawn log1 = filter is_spawn log @ [a])"
proof -
  consider "extends start_action log log1"
    | log0 a where "extends start_action log log0" "extends start_action (log0 @ [a]) log1" "is_spawn a"
    using assms unfolding one_spawn_def by fastforce
  then show ?thesis
  proof cases
    case 1
    then show ?thesis by (simp add: start_action_no_spawn)
  next
    case 2
    from start_action_no_spawn [OF 2(1)] start_action_no_spawn [OF 2(2)] 2(3) show ?thesis by simp
  qed
qed

text \<open>
  A server is started only where none answers: when starting spawns a process, the target
  was probed and found free twice, the second time with the startup lock of the target taken,
  and only one process is spawned.
\<close>

theorem start_spawns_once_when_free:
  assumes "start_ws_server_internal fuel he m target env reuse mode auth log = Some (log1, r)"
    "filter is_spawn log1 \<noteq> filter is_spawn log"
  shows "\<exists>l1 l2 a. probe_app_server he m (st_connect_url target) auth log = (l1, Ok Unavailable) \<and>
    probe_app_server he m (st_connect_url target) auth (l1 @ [ALock (lock_key (st_listen target))]) =
      (l2, Ok Unavailable) \<and>
    filter is_spawn log1 = filter is_spawn log @ [a]"
proof -
  obtain l1 x where x: "existing_server_handle he m target reuse mode auth log = (l1, x)" by fastforce
  let ?l = "l1 @ [ALock (lock_key (st_listen target))]"
  obtain l2 y where y: "existing_server_handle he m target reuse mode auth ?l = (l2, y)" by fastforce
  have e1: "filter is_spawn l1 = filter is_spawn log"
    using start_action_no_spawn existing_extends [of log he m target reuse mode auth] x by fastforce
  have e2: "filter is_spawn l2 = filter is_spawn l1"
    using start_action_no_spawn existing_extends [of ?l he m target reuse mode auth] y by fastforce
  have free: "x = Ok None" "y = Ok None"
    using assms x y e1 e2
    by (auto simp: start_ws_server_internal_def split: sum.splits option.splits)
  then have "probe_app_server he m (st_connect_url target) auth log = (l1, Ok Unavailable)"
    "probe_app_server he m (st_connect_url target) auth ?l = (l2, Ok Unavailable)"
    using x y
    by (auto simp: existing_server_handle_def split: prod.splits sum.splits probe_state.splits if_splits)
  moreover have "\<exists>a. filter is_spawn log1 = filter is_spawn log @ [a]"
  proof -
    have "one_spawn target l2 log1"
      using assms(1) x y free by (auto simp: start_ws_server_internal_def dest: launch_one)
    with one_spawn_filter [OF this] assms(2) e1 e2 show ?thesis by auto
  qed
  ultimately show ?thesis by blast
qed

theorem start_spawns_once_when_free_witness:
  "\<exists>log1 r a. start_ws_server_internal 1 plain_env good_machine loopback_target Map.empty True Daemon None [] =
     Some (log1, r) \<and> filter is_spawn log1 = [a]"
proof -
  obtain log1 r where run: "start_ws_server_internal 1 plain_env good_machine loopback_target Map.empty True
      Daemon None [] = Some (log1, r)" and spawn: "filter is_spawn log1 \<noteq> []"
    by (simp add: start_run_defs)
  have "filter is_spawn log1 \<noteq> filter is_spawn []" using spawn by simp
  from start_spawns_once_when_free [OF run this] run show ?thesis by auto
qed

lemma clock_extends:
  assumes "\<And>l a. m_now m l \<le> m_now m (l @ [a])" "extends P log log1"
  shows "m_now m log \<le> m_now m log1"
proof -
  obtain new where "log1 = log @ new" using assms(2) by (auto simp: extends_def)
  moreover have "m_now m log \<le> m_now m (log @ new)"
  proof (induction new rule: rev_induct)
    case Nil
    then show ?case by simp
  next
    case (snoc a new)
    have "m_now m (log @ new) \<le> m_now m ((log @ new) @ [a])" by (rule assms(1))
    with snoc show ?case by simp
  qed
  ultimately show ?thesis by simp
qed

lemma wait_for_ready_returns:
  assumes clock: "\<And>l a. m_now m l \<le> m_now m (l @ [a])"
    "\<And>l n. m_now m l + n \<le> m_now m (l @ [ASleep n])"
    and "deadline \<le> m_now m log + PROBE_INTERVAL * fuel"
  shows "wait_for_ready (Suc fuel) he m target owned auth deadline log \<noteq> None"
  using assms(3)
proof (induction fuel arbitrary: log)
  case 0
  obtain l x where w: "wait_round he m target owned auth deadline log = (l, x)" by fastforce
  have "m_now m log \<le> m_now m l" using clock_extends [OF clock(1) wait_round_facts(1) [OF w]] .
  then have "x \<noteq> None" using wait_round_facts(2) [OF w] 0 by auto
  with w show ?case by auto
next
  case (Suc fuel)
  obtain l x where w: "wait_round he m target owned auth deadline log = (l, x)" by fastforce
  have "m_now m log \<le> m_now m l" using clock_extends [OF clock(1) wait_round_facts(1) [OF w]] .
  with clock(2) [of l PROBE_INTERVAL] Suc.prems
  have "deadline \<le> m_now m (l @ [ASleep PROBE_INTERVAL]) + PROBE_INTERVAL * fuel" by simp
  from Suc.IH [OF this] w show ?case
    by (cases x) (simp_all del: wait_for_ready.simps add: wait_for_ready.simps(2) [of "Suc fuel"])
qed



lemma no_kill_start: "one_spawn target log log1 \<Longrightarrow> filter is_kill log1 = filter is_kill log"
proof -
  have keep: "filter is_kill b = filter is_kill a" if "extends start_action a b" for a b
    using that by (auto simp: extends_def start_action_def list_all_iff filter_empty_conv)
  assume "one_spawn target log log1"
  then consider "extends start_action log log1"
    | log0 a where "extends start_action log log0" "extends start_action (log0 @ [a]) log1" "\<not> is_kill a"
    unfolding one_spawn_def by fastforce
  then show ?thesis
  proof cases
    case 1
    then show ?thesis by (rule keep)
  next
    case 2
    from keep [OF 2(1)] keep [OF 2(2)] 2(3) show ?thesis by simp
  qed
qed

definition busy_machine :: machine where
  "busy_machine = machine_after
     (\<lambda>log. if list_ex is_spawn log then ConnectFailed (WsHttp ''401 Unauthorized'')
            else ConnectFailed (WsIo ConnectionRefused ''refused'')) (\<lambda>_. None)"

text \<open>
  A start never stops a process: not even the owned process it has spawned when that one
  does not become ready, so that a failed blocking start can leave its process running.
\<close>

theorem failed_start_leaves_process:
  "(\<forall>fuel he m target env reuse mode auth log log1 r.
      start_ws_server_internal fuel he m target env reuse mode auth log = Some (log1, r) \<longrightarrow>
      filter is_kill log1 = filter is_kill log) \<and>
   (\<exists>log e. start_ws_server_internal 1 plain_env busy_machine loopback_target Map.empty True Blocking
        None [] = Some (log, Err e) \<and> list_ex is_spawn log \<and> filter is_kill log = [])"
proof
  show "\<forall>fuel he m target env reuse mode auth log log1 r.
      start_ws_server_internal fuel he m target env reuse mode auth log = Some (log1, r) \<longrightarrow>
      filter is_kill log1 = filter is_kill log"
    using start_one no_kill_start by blast
  show "\<exists>log e. start_ws_server_internal 1 plain_env busy_machine loopback_target Map.empty True Blocking
        None [] = Some (log, Err e) \<and> list_ex is_spawn log \<and> filter is_kill log = []"
    by (simp add: start_run_defs busy_machine_def)
qed

theorem failed_start_leaves_process_witness:
  "\<exists>log r. start_ws_server_internal 1 plain_env good_machine loopback_target Map.empty True Daemon None [] =
     Some (log, r) \<and> filter is_kill log = []"
proof -
  obtain log r where run: "start_ws_server_internal 1 plain_env good_machine loopback_target Map.empty
      True Daemon None [] = Some (log, r)"
    by (simp add: start_run_defs)
  with failed_start_leaves_process show ?thesis by fastforce
qed

section \<open>Shutting down: properties\<close>

text \<open>A signal to a process group; the only ones a shutdown of the group \<open>pg\<close> may send are
  \<open>SIGTERM\<close> and \<open>SIGKILL\<close> to that group.\<close>

definition own_signal :: "u32 option \<Rightarrow> action \<Rightarrow> bool" where
  "own_signal pg a \<longleftrightarrow> \<not> is_spawn a \<and>
     (\<forall>g s. a = ASignal g s \<longrightarrow> (s = 15 \<or> s = 9) \<and> (\<exists>p. pg = Some p \<and> g = - uint p))"

lemma own_signal_simps [simp]:
  "own_signal pg (AConnect r)" "own_signal pg ATryWait" "own_signal pg AKillChild"
  "own_signal pg AWaitChild" "own_signal pg (ASleep n)"
  by (simp_all add: own_signal_def)

lemma signal_extends:
  "extends (own_signal pg) log (terminate_process_group pg log)"
  "extends (own_signal pg) log (kill_process_group pg log)"
  by (auto simp: terminate_process_group_def kill_process_group_def signal_process_group_def
      own_signal_def split: option.split intro!: extends_snoc)

definition sleeps :: "action list \<Rightarrow> nat" where
  "sleeps log = length (filter (\<lambda>a. \<exists>n. a = ASleep n) log)"

lemma sleeps_snoc [simp]:
  "sleeps (log @ [ASleep n]) = Suc (sleeps log)" "sleeps (log @ [ATryWait]) = sleeps log"
  "sleeps (log @ [AConnect r]) = sleeps log"
  "sleeps (log @ [AKillChild, AWaitChild]) = sleeps log"
  by (simp_all add: sleeps_def)

lemma sleeps_signal [simp]:
  "sleeps (terminate_process_group pg log) = sleeps log"
  "sleeps (kill_process_group pg log) = sleeps log"
  by (auto simp: terminate_process_group_def kill_process_group_def signal_process_group_def
      sleeps_def split: option.split)

lemma sleeps_released [simp]: "sleeps (fst (connect_target_released he m url log)) = sleeps log"
  by (simp add: connect_target_released_def probe_app_server_def case_prod_beta split: sum.split)

lemma release_poll_facts:
  "release_poll he m url n log = (log1, b) \<Longrightarrow>
   extends (own_signal pg) log log1 \<and> sleeps log1 \<le> sleeps log + n \<and>
   (b \<longrightarrow> (\<exists>log0. connect_target_released he m url log0 = (log1, True)))"
proof (induction n arbitrary: log)
  case 0
  then show ?case by simp
next
  case (Suc n)
  obtain l c where c: "connect_target_released he m url log = (l, c)" by fastforce
  have e: "extends (own_signal pg) log l" "sleeps l = sleeps log"
    using released_extends [of "own_signal pg" log he m url] sleeps_released [of he m url log] c
    by simp_all
  show ?case
  proof (cases c)
    case True
    with Suc.prems c e show ?thesis by auto
  next
    case False
    with Suc.prems c have "release_poll he m url n (l @ [ASleep SHUTDOWN_POLL_INTERVAL]) = (log1, b)"
      by simp
    from Suc.IH [OF this] e extends_trans [OF extends_step [OF e(1), of "ASleep SHUTDOWN_POLL_INTERVAL"]]
    show ?thesis by auto
  qed
qed

lemma shutdown_round_facts:
  assumes "shutdown_round he m url exited log = (log1, r)"
  shows "extends (own_signal pg) log log1 \<and> sleeps log1 = sleeps log \<and>
   (\<forall>x. r = Ok (True, x) \<longrightarrow> x \<and> (\<exists>log0. connect_target_released he m url log0 = (log1, True))) \<and>
   (\<forall>x. r = Ok (x, True) \<longrightarrow> exited \<or> (\<exists>log0 st. m_try_wait m log0 = Ok (Some st)))"
proof -
  define w where "w = (if exited then (log, Ok (Some [])) else (log @ [ATryWait], m_try_wait m log))"
  obtain l y where wl: "w = (l, y)" by fastforce
  obtain l2 c where c: "connect_target_released he m url l = (l2, c)" by fastforce
  have l: "extends (own_signal pg) log l" "sleeps l = sleeps log"
    using wl by (auto simp: w_def split: if_splits)
  have l2: "extends (own_signal pg) log l2" "sleeps l2 = sleeps log"
    using extends_trans [OF l(1) released_extends [of "own_signal pg" l he m url]]
      sleeps_released [of he m url l] c l(2) by simp_all
  have ran: "exited \<or> (\<exists>log0 st. m_try_wait m log0 = Ok (Some st))" if "y = Ok (Some st)" for st
    using that wl by (auto simp: w_def split: if_splits)
  have "shutdown_round he m url exited log = (case y of Inl e \<Rightarrow> (l, Err e)
      | Inr None \<Rightarrow> (l, Ok (False, False)) | Inr (Some _) \<Rightarrow> (l2, Ok (c, True)))"
    unfolding shutdown_round_def w_def [symmetric] wl
    by (simp add: c split: sum.split option.split)
  with assms l l2 ran c show ?thesis by (auto split: sum.splits option.splits)
qed

lemma shutdown_poll_facts:
  "shutdown_poll he m url pg n a exited log = (log1, r) \<Longrightarrow>
   extends (own_signal pg) log log1 \<and> sleeps log1 \<le> sleeps log + n \<and>
   (\<forall>x. r = Ok (True, x) \<longrightarrow> x \<and> (\<exists>log0. connect_target_released he m url log0 = (log1, True))) \<and>
   (\<forall>x. r = Ok (x, True) \<longrightarrow> exited \<or> (\<exists>log0 st. m_try_wait m log0 = Ok (Some st)))"
proof (induction n arbitrary: a exited log)
  case 0
  then show ?case by auto
next
  case (Suc n)
  obtain l x where w: "shutdown_round he m url exited log = (l, x)" by fastforce
  note round = shutdown_round_facts [OF w, of pg]
  consider e where "x = Inl e" | z where "x = Inr (True, z)" | z where "x = Inr (False, z)"
    by (cases x) auto
  then show ?case
  proof cases
    case 1
    with Suc.prems w round show ?thesis by auto
  next
    case 2
    with Suc.prems w have "log1 = l" "r = Ok (True, z)" by auto
    with 2 round show ?thesis by auto
  next
    case 3
    define k where "k = (if a = 5 then terminate_process_group pg l else l)"
    have k: "extends (own_signal pg) log (k @ [ASleep SHUTDOWN_POLL_INTERVAL])" "sleeps k = sleeps log"
      using round extends_trans [of "own_signal pg" log l] signal_extends(1) [of pg l]
      by (auto simp: k_def intro: extends_step)
    have "shutdown_poll he m url pg n (a + 1) z (k @ [ASleep SHUTDOWN_POLL_INTERVAL]) = (log1, r)"
      using Suc.prems w 3 by (simp add: k_def Let_def)
    note ih = Suc.IH [OF this]
    have "extends (own_signal pg) log log1" using ih extends_trans [OF k(1)] by blast
    with ih k(2) round 3 show ?thesis by auto
  qed
qed

lemma shutdown_escalate_facts:
  assumes "shutdown_escalate he m h pg exited log = (log1, r)"
  shows "extends (own_signal pg) log log1 \<and> sleeps log1 \<le> sleeps log + SHUTDOWN_POLL_ATTEMPTS \<and>
    (r = Ok () \<longrightarrow> (exited \<or> AKillChild \<in> set log1) \<and>
       (\<exists>log0. connect_target_released he m (h_connect_url h) log0 = (log1, True)))"
proof -
  define l1 where "l1 = kill_process_group pg log"
  define l2 where "l2 = (if exited then l1 else l1 @ [AKillChild, AWaitChild])"
  have l1: "extends (own_signal pg) log l1" "sleeps l1 = sleeps log"
    using signal_extends(2) by (simp_all add: l1_def)
  have "extends (own_signal pg) l1 l2" by (auto simp: l2_def extends_def)
  then have l2: "extends (own_signal pg) log l2" "sleeps l2 = sleeps log"
    using extends_trans [OF l1(1)] l1(2) by (auto simp: l2_def)
  have killed: "exited \<or> AKillChild \<in> set l2" by (simp add: l2_def)
  obtain l3 b where poll: "release_poll he m (h_connect_url h) SHUTDOWN_POLL_ATTEMPTS l2 = (l3, b)"
    by fastforce
  note p = release_poll_facts [OF poll, of pg]
  have in3: "AKillChild \<in> set l2 \<longrightarrow> AKillChild \<in> set l3" using p by (auto simp: extends_def)
  have run: "log1 = l2 \<and> r \<noteq> Ok () \<or> log1 = l3 \<and> (r = Ok () \<longrightarrow> b)"
    using assms poll
    unfolding shutdown_escalate_def l1_def [symmetric]
    by (cases exited; cases b) (auto simp: l2_def split: sum.splits)
  have "extends (own_signal pg) log l3" using p extends_trans [OF l2(1)] by blast
  with run p l2 killed in3 show ?thesis by auto
qed



end
