(* ===== verification/Sdk_Connect.thy ===== *)
theory Sdk_Connect
  imports Threads Ws_Daemon
begin

text \<open>
  From a transport to a client: the spawning and connecting operations of
  \<open>crates/sdk/src/transport/stdio.rs\<close> and \<open>ws.rs\<close>, the constructors of \<open>CodexClient\<close> and \<open>Codex\<close>
  over them, and what a request is to the peer at the other end of the bytes. Starting the
  process and dialing the server are operations of the machine, given as functions.
\<close>

section \<open>Opening a transport\<close>

record stdio_child =
  child_stdin :: bool
  child_stdout :: bool

text \<open>\<open>spawn_stdio_transport\<close>: the child must have both of its pipes.\<close>

definition spawn_stdio_transport ::
  "(string \<Rightarrow> string list \<Rightarrow> (string \<rightharpoonup> string) \<Rightarrow> io_error + stdio_child)
    \<Rightarrow> string \<Rightarrow> string list \<Rightarrow> (string \<rightharpoonup> string) \<Rightarrow> client_error + stdio_child" where
  "spawn_stdio_transport spawn binary args env =
     and_then (map_err Io (spawn binary args env)) (\<lambda>child.
       if \<not> child_stdin child then Err (TransportSend ''missing child stdin'')
       else if \<not> child_stdout child then Err (TransportSend ''missing child stdout'')
       else Ok child)"

text \<open>
  \<open>connect_ws_transport\<close>: for a \<open>wss\<close> URL a crypto provider is installed in the process before
  anything is sent. The result is the request that was accepted.
\<close>

definition ensure_rustls_crypto_provider :: "bool \<Rightarrow> bool" where
  "ensure_rustls_crypto_provider installed = (if \<not> installed then True else installed)"

definition connect_ws_transport ::
  "url_parser \<Rightarrow> http_checks \<Rightarrow> (bool \<Rightarrow> ws_request \<Rightarrow> string + unit) \<Rightarrow> string \<Rightarrow> string option \<Rightarrow> bool
    \<Rightarrow> bool \<times> (client_error + ws_request)" where
  "connect_ws_transport parse h dial url auth_token installed =
     (case parse url of
        Inl err \<Rightarrow> (installed, Err (Config (''invalid websocket URL: '' @ err)))
      | Inr parsed \<Rightarrow>
          (let provider =
             (if url_scheme parsed = ''wss'' then ensure_rustls_crypto_provider installed else installed)
           in (provider,
               and_then (build_ws_request h (url_as_str parsed) auth_token) (\<lambda>request.
               and_then (map_err (\<lambda>err. TransportSend (''websocket connect failed: '' @ err))
                   (dial provider request)) (\<lambda>_. Ok request)))))"

section \<open>Clients\<close>

text \<open>\<open>from_transport\<close> is \<open>inner_new\<close>; the state of the transport is not part of the client's.\<close>

definition client_spawn_stdio ::
  "(string \<Rightarrow> string list \<Rightarrow> (string \<rightharpoonup> string) \<Rightarrow> io_error + stdio_child) \<Rightarrow> stdio_config
    \<Rightarrow> client_error + inner" where
  "client_spawn_stdio spawn config =
     map_ok (\<lambda>_. inner_new (default_timeout (stdio_options config)))
       (spawn_stdio_transport spawn (stdio_codex_binary config) (stdio_args config) (stdio_env config))"

definition client_connect_ws ::
  "url_parser \<Rightarrow> http_checks \<Rightarrow> (bool \<Rightarrow> ws_request \<Rightarrow> string + unit) \<Rightarrow> ws_config \<Rightarrow> bool
    \<Rightarrow> bool \<times> (client_error + inner)" where
  "client_connect_ws parse h dial config installed =
     (let (provider, r) = connect_ws_transport parse h dial (ws_url config) (ws_auth_token config) installed
      in (provider, map_ok (\<lambda>_. inner_new (default_timeout (ws_options config))) r))"

definition client_start_and_connect_ws ::
  "nat \<Rightarrow> host_env \<Rightarrow> machine \<Rightarrow> (bool \<Rightarrow> ws_request \<Rightarrow> string + unit) \<Rightarrow> ws_config
    \<Rightarrow> (string \<rightharpoonup> string) \<Rightarrow> bool \<Rightarrow> (action list \<times> bool \<times> (client_error + inner)) option" where
  "client_start_and_connect_ws fuel he m dial config env installed =
     map_option (\<lambda>(log, started).
         (case started of
            Inl e \<Rightarrow> (log, installed, Err e)
          | Inr _ \<Rightarrow> (log, client_connect_ws (he_parse he) (he_http he) dial config installed)))
       (ensure_local_ws_app_server fuel he m (ws_url config) env (ws_auth_token config) [])"

text \<open>A handle on a client: how errors print, what other tasks do, and the package version.\<close>

definition with_initialize_params ::
  "displays \<Rightarrow> (inner \<Rightarrow> inner) \<Rightarrow> env \<Rightarrow> initialize_params \<Rightarrow> codex" where
  "with_initialize_params d w env params =
     \<lparr>codex_displays = d, codex_lock_wait = w, codex_env = env, codex_initialize_params = params\<rparr>"

definition codex_from_client :: "displays \<Rightarrow> (inner \<Rightarrow> inner) \<Rightarrow> env \<Rightarrow> string \<Rightarrow> codex" where
  "codex_from_client d w env version =
     with_initialize_params d w env (default_initialize_params version)"

definition codex_spawn_stdio ::
  "(string \<Rightarrow> string list \<Rightarrow> (string \<rightharpoonup> string) \<Rightarrow> io_error + stdio_child) \<Rightarrow> stdio_config
    \<Rightarrow> displays \<Rightarrow> (inner \<Rightarrow> inner) \<Rightarrow> env \<Rightarrow> string \<Rightarrow> client_error + (codex \<times> inner)" where
  "codex_spawn_stdio spawn config d w env version =
     map_ok (\<lambda>s. (codex_from_client d w env version, s)) (client_spawn_stdio spawn config)"

definition codex_connect_ws ::
  "url_parser \<Rightarrow> http_checks \<Rightarrow> (bool \<Rightarrow> ws_request \<Rightarrow> string + unit) \<Rightarrow> ws_config \<Rightarrow> bool
    \<Rightarrow> displays \<Rightarrow> (inner \<Rightarrow> inner) \<Rightarrow> env \<Rightarrow> string \<Rightarrow> bool \<times> (client_error + (codex \<times> inner))" where
  "codex_connect_ws parse h dial config installed d w env version =
     (let (provider, r) = client_connect_ws parse h dial config installed
      in (provider, map_ok (\<lambda>s. (codex_from_client d w env version, s)) r))"

section \<open>A request over a transport\<close>

text \<open>
  What happens while a request waits: the writer carries the frame that was queued, the peer
  reacts, the reader forwards what comes back and the inbound loop handles it, the errors of the
  writer first. \<open>carry\<close> is the writer and the peer of one transport.
\<close>

definition exchange ::
  "displays \<Rightarrow> (json \<Rightarrow> client_error list \<times> raw_frame list) \<Rightarrow> (string \<Rightarrow> string + json) \<Rightarrow> string \<Rightarrow> env"
where
  "exchange d carry from_slice ctxt i slot s =
     (let (errs, frames) = carry (last (outbound s));
          (out, reading) = read_json_frames from_slice ctxt None frames;
          (t, running) = run_inbound_loop d (map Err errs @ out) s
      in (t, case replies t slot of Some r \<Rightarrow> Replied r | None \<Rightarrow> TimedOutWaiting))"

text \<open>
  The standard input and output of a child: \<open>peer\<close> maps the bytes written to the bytes it
  prints; \<open>room\<close> is what the pipe takes, and \<open>ended\<close> whether the child then closes its output.
\<close>

definition carry_stdio ::
  "(json \<Rightarrow> serde_error + string) \<Rightarrow> io_error \<Rightarrow> nat option \<Rightarrow> (string \<Rightarrow> string) \<Rightarrow> bool \<Rightarrow> json
    \<Rightarrow> client_error list \<times> raw_frame list" where
  "carry_stdio to_text broken room peer ended v =
     (let ((bytes, left), errs) = write_json_frames to_text (stdio_send broken) [v] ([], room)
      in (errs, map Payload (str_lines (peer bytes)) @ (if ended then [Closed TransportClosed] else [])))"

text \<open>The sink of a websocket: each text is one message, or the error of sending it.\<close>

definition ws_send :: "string option \<Rightarrow> string \<Rightarrow> ws_message list \<Rightarrow> ws_message list \<times> (client_error + unit)" where
  "ws_send failure payload sent =
     (case failure of
        None \<Rightarrow> (sent @ [WsText payload], Ok ())
      | Some err \<Rightarrow> (sent, Err (TransportSend (''websocket send failed: '' @ err))))"

definition carry_ws ::
  "(json \<Rightarrow> serde_error + string) \<Rightarrow> string option \<Rightarrow> (ws_message list \<Rightarrow> (string + ws_message) option list)
    \<Rightarrow> json \<Rightarrow> client_error list \<times> raw_frame list" where
  "carry_ws to_text failure peer v =
     (let (sent, errs) = write_json_frames to_text (ws_send failure) [v] []
      in (errs, map ws_frame (peer sent)))"

section \<open>A server behind bytes\<close>

text \<open>The line a server prints for a line it reads: the answer to a request, nothing otherwise.\<close>

definition answer_text ::
  "(json \<Rightarrow> serde_error + string) \<Rightarrow> (string \<Rightarrow> string + json) \<Rightarrow> rpc_server \<Rightarrow> string \<Rightarrow> string option" where
  "answer_text to_text from_slice srv text_in =
     (case from_slice text_in of
        Inl e \<Rightarrow> None
      | Inr v \<Rightarrow>
          (case classify_incoming v of
             Inr (IncomingServerRequest i m p raw) \<Rightarrow>
               (case to_text (server_frame srv i m p) of Inr t \<Rightarrow> Some t | Inl e \<Rightarrow> None)
           | _ \<Rightarrow> None))"

definition stdio_server ::
  "(json \<Rightarrow> serde_error + string) \<Rightarrow> (string \<Rightarrow> string + json) \<Rightarrow> rpc_server \<Rightarrow> string \<Rightarrow> string" where
  "stdio_server to_text from_slice srv bytes =
     concat (map (\<lambda>t. t @ [lf]) (List.map_filter (answer_text to_text from_slice srv) (str_lines bytes)))"

text \<open>A websocket server that sends the messages \<open>before\<close>, say pings, ahead of each answer.\<close>

definition ws_server ::
  "(json \<Rightarrow> serde_error + string) \<Rightarrow> (string \<Rightarrow> string + json) \<Rightarrow> rpc_server \<Rightarrow> ws_message list
    \<Rightarrow> ws_message list \<Rightarrow> (string + ws_message) option list" where
  "ws_server to_text from_slice srv before messages =
     concat (map (\<lambda>msg. case msg of
         WsText t \<Rightarrow>
           (case answer_text to_text from_slice srv t of
              Some a \<Rightarrow> map (Some \<circ> Inr) (before @ [WsText a])
            | None \<Rightarrow> [])
       | _ \<Rightarrow> []) messages)"

text \<open>What is used of the text of a JSON value: it has no line break and reads back.\<close>

definition line_text ::
  "(json \<Rightarrow> serde_error + string) \<Rightarrow> (string \<Rightarrow> string + json) \<Rightarrow> json \<Rightarrow> bool" where
  "line_text to_text from_slice v \<longleftrightarrow>
     (\<exists>t. to_text v = Ok t \<and> from_slice t = Ok v \<and> lf \<notin> set t \<and> cr \<notin> set t)"

lemma str_lines_one: "lf \<notin> set t \<Longrightarrow> cr \<notin> set t \<Longrightarrow> str_lines (t @ [lf]) = [t]"
  using str_lines_concat [of id "[t]"] by simp

lemma answer_text_request:
  assumes "line_text to_text from_slice (server_frame srv i m p)"
    "from_slice t = Ok (request_frame m i p)"
  shows "\<exists>a. answer_text to_text from_slice srv t = Some a \<and>
    from_slice a = Ok (server_frame srv i m p) \<and> lf \<notin> set a \<and> cr \<notin> set a"
  using assms by (auto simp: line_text_def answer_text_def classify_request_frame)

lemma stdio_server_answers:
  assumes "line_text to_text from_slice (request_frame m i p)"
    "line_text to_text from_slice (server_frame srv i m p)"
  shows "\<exists>a. carry_stdio to_text broken None (stdio_server to_text from_slice srv) False (request_frame m i p) =
      ([], [Payload a]) \<and> from_slice a = Ok (server_frame srv i m p)"
proof -
  obtain t where t: "to_text (request_frame m i p) = Ok t" "from_slice t = Ok (request_frame m i p)"
    "lf \<notin> set t" "cr \<notin> set t" using assms(1) by (auto simp: line_text_def)
  obtain a where a: "answer_text to_text from_slice srv t = Some a"
    "from_slice a = Ok (server_frame srv i m p)" "lf \<notin> set a" "cr \<notin> set a"
    using answer_text_request [OF assms(2) t(2)] by blast
  with t show ?thesis
    by (simp add: carry_stdio_def stdio_send_ok stdio_server_def str_lines_one map_filter_simps)
qed

definition control_message :: "ws_message \<Rightarrow> bool" where
  "control_message msg \<longleftrightarrow> msg \<in> {WsPing, WsPong, WsRaw}"

lemma control_skipped:
  "list_all control_message before \<Longrightarrow>
   read_json_frames from_slice ctxt room (map (ws_frame \<circ> (Some \<circ> Inr)) before @ frames) =
     read_json_frames from_slice ctxt room frames"
  by (induction before) (auto simp: control_message_def)

lemma ws_server_answers:
  assumes "line_text to_text from_slice (request_frame m i p)"
    "line_text to_text from_slice (server_frame srv i m p)"
  shows "\<exists>a. carry_ws to_text None (ws_server to_text from_slice srv before) (request_frame m i p) =
      ([], map (ws_frame \<circ> (Some \<circ> Inr)) before @ [Payload a]) \<and> from_slice a = Ok (server_frame srv i m p)"
proof -
  obtain t where t: "to_text (request_frame m i p) = Ok t" "from_slice t = Ok (request_frame m i p)"
    using assms(1) by (auto simp: line_text_def)
  obtain a where a: "answer_text to_text from_slice srv t = Some a"
    "from_slice a = Ok (server_frame srv i m p)"
    using answer_text_request [OF assms(2) t(2)] by blast
  with t show ?thesis by (simp add: carry_ws_def ws_send_def ws_server_def)
qed

text \<open>
  An exchange in which the answer is the one frame that comes back is the environment of a
  server that answers directly.
\<close>

lemma exchange_answers:
  assumes "request_gate m ready s = None" "outbound_open s"
    "carry (request_frame m (IdInteger (next_id s)) p) = ([], frames)"
    "fst (read_json_frames from_slice ctxt None frames) = [Ok (server_frame srv (IdInteger (next_id s)) m p)]"
  shows "request_value_internal d (exchange d carry from_slice ctxt) m p timeout ready s =
    request_value_internal d (server_env d srv) m p timeout ready s"
proof -
  obtain reading where
    "read_json_frames from_slice ctxt None frames = ([Ok (server_frame srv (IdInteger (next_id s)) m p)], reading)"
    using assms(4) by (metis prod.collapse)
  then have "exchange d carry from_slice ctxt (IdInteger (next_id s)) slot t =
      server_env d srv (IdInteger (next_id s)) slot t"
    if "outbound t = fs @ [request_frame m (IdInteger (next_id s)) p]" for slot t fs
    using that assms(3)
    by (simp add: exchange_def server_env_def answer_env_def classify_request_frame Let_def)
  then show ?thesis
    using assms(1,2) by (simp add: request_value_internal_def request_begin_Ok Let_def)
qed

text \<open>
  C3: a request over a real transport: when the text of the two frames has no line breaks and
  reads back, a server behind the standard input and output of a child, or behind a websocket
  that sends control messages ahead of its answers, gives the request the result or the error
  that it computes, and the client is left as if the server had been called directly.
\<close>

theorem request_over_transport:
  assumes "request_gate m ready s = None" "outbound_open s" "sane_server srv"
    and "line_text to_text from_slice (request_frame m (IdInteger (next_id s)) p)"
    and "line_text to_text from_slice (server_frame srv (IdInteger (next_id s)) m p)"
    and "list_all control_message before"
  shows "request_value_internal d
      (exchange d (carry_stdio to_text broken None (stdio_server to_text from_slice srv) False)
         from_slice ''JSONL frame'') m p timeout ready s =
      (after_answer m p (srv m p) s, map_err Rpc (srv m p)) \<and>
    request_value_internal d
      (exchange d (carry_ws to_text None (ws_server to_text from_slice srv before))
         from_slice ''websocket frame as JSON'') m p timeout ready s =
      (after_answer m p (srv m p) s, map_err Rpc (srv m p))"
proof -
  let ?i = "IdInteger (next_id s)"
  obtain a where stdio: "carry_stdio to_text broken None (stdio_server to_text from_slice srv) False
      (request_frame m ?i p) = ([], [Payload a])" "from_slice a = Ok (server_frame srv ?i m p)"
    using stdio_server_answers [OF assms(4,5)] by blast
  obtain b where ws: "carry_ws to_text None (ws_server to_text from_slice srv before)
      (request_frame m ?i p) = ([], map (ws_frame \<circ> (Some \<circ> Inr)) before @ [Payload b])"
    "from_slice b = Ok (server_frame srv ?i m p)"
    using ws_server_answers [OF assms(4,5)] by blast
  show ?thesis
    using exchange_answers [where carry = "carry_stdio to_text broken None (stdio_server to_text from_slice srv) False",
        OF assms(1,2) stdio(1), of from_slice "''JSONL frame''" srv d timeout]
      exchange_answers [where carry = "carry_ws to_text None (ws_server to_text from_slice srv before)",
        OF assms(1,2) ws(1), of from_slice "''websocket frame as JSON''" srv d timeout]
      server_request [OF assms(3,1,2), of d p timeout] stdio(2) ws(2)
    by (simp add: control_skipped [OF assms(6)])
qed

text \<open>A transport that is lost answers every request that waits, with the error of the loss.\<close>

lemma exchange_lost:
  assumes "request_gate m ready s = None" "outbound_open s"
    "carry (request_frame m (IdInteger (next_id s)) p) = (errs, frames)"
    "map Err errs @ fst (read_json_frames from_slice ctxt None frames) = Err e # rest"
  shows "\<exists>t. request_value_internal d (exchange d carry from_slice ctxt) m p timeout ready s =
      (t, Err (Rpc (transport_failure (''transport error: '' @ client_error_display d e)))) \<and> pending t = []"
proof -
  let ?i = "IdInteger (next_id s)"
  let ?s1 = "pending_insert ?i (next_slot s) (s\<lparr>next_id := next_id s + 1, next_slot := next_slot s + 1\<rparr>)"
  let ?s2 = "?s1\<lparr>outbound := outbound s @ [request_frame m ?i p]\<rparr>"
  let ?msg = "''transport error: '' @ client_error_display d e"
  obtain out reading where out: "read_json_frames from_slice ctxt None frames = (out, reading)" by fastforce
  have "(?i, next_slot s) \<in> set (pending ?s2)"
    using map_of_SomeD [of "pending ?s1" ?i "next_slot s"] by (simp add: pending_insert_lookup)
  then have "replies (loop_abort ?msg ?s2) (next_slot s) = Some (Delivered (Err (transport_failure ?msg)))"
    by (force simp: loop_abort_def publish_def fail_all_pending_def foldl_fail)
  moreover have "pending (loop_abort ?msg ?s2) = []"
    by (simp add: loop_abort_def publish_def fail_all_pending_def)
  moreover have "run_inbound_loop d (map Err errs @ out) ?s2 = (loop_abort ?msg ?s2, False)"
    using assms(4) out by simp
  ultimately show ?thesis
    using assms(1-3) out
    by (simp add: request_value_internal_def request_begin_Ok Let_def exchange_def request_finish_def)
qed

definition lost_request ::
  "displays \<Rightarrow> env \<Rightarrow> string \<Rightarrow> json \<Rightarrow> nat option \<Rightarrow> bool \<Rightarrow> inner \<Rightarrow> client_error \<Rightarrow> bool" where
  "lost_request d env m p timeout ready s cause \<longleftrightarrow>
     (\<exists>t. request_value_internal d env m p timeout ready s =
        (t, Err (Rpc (transport_failure (''transport error: '' @ client_error_display d cause)))) \<and>
      pending t = [])"

text \<open>
  C14: a request over a transport that is lost does not wait for its timeout: when the pipe takes
  less than the line, when the child ends its output without an answer, when sending on the
  websocket fails or when its first frame is a close, the request returns the transport
  failure with the text of the cause, and nothing stays pending.
\<close>

theorem lost_transport_fails_request:
  assumes "request_gate m ready s = None" "outbound_open s"
    and "to_text (request_frame m (IdInteger (next_id s)) p) = Ok t"
  shows "(n \<le> length t \<longrightarrow>
      lost_request d (exchange d (carry_stdio to_text broken (Some n) peer ended) from_slice ctxt)
        m p timeout ready s (Io broken)) \<and>
    lost_request d (exchange d (carry_stdio to_text broken None (\<lambda>_. []) True) from_slice ctxt)
      m p timeout ready s TransportClosed \<and>
    lost_request d (exchange d (carry_ws to_text (Some err) ws_peer) from_slice ctxt)
      m p timeout ready s (TransportSend (''websocket send failed: '' @ err)) \<and>
    lost_request d (exchange d (carry_ws to_text None (\<lambda>_. Some (Ok WsClose) # later)) from_slice ctxt)
      m p timeout ready s TransportClosed"
    (is "?pipe \<and> ?ended \<and> ?send \<and> ?close")
proof (intro conjI)
  note lost = exchange_lost [OF assms(1,2), folded lost_request_def]
  show ?pipe
    by (intro impI lost [where errs = "[Io broken]"])
      (use assms(3) in \<open>simp add: carry_stdio_def stdio_send_def Let_def\<close>, simp)
  show ?ended
    by (rule lost [where errs = "[]" and frames = "[Closed TransportClosed]"])
      (use assms(3) in \<open>simp_all add: carry_stdio_def stdio_send_def str_lines_def Let_def\<close>)
  show ?send
    by (rule lost [where errs = "[TransportSend (''websocket send failed: '' @ err)]"])
      (use assms(3) in \<open>simp add: carry_ws_def ws_send_def Let_def\<close>, simp)
  show ?close
    by (rule lost [where errs = "[]"])
      (use assms(3) in \<open>simp add: carry_ws_def ws_send_def Let_def\<close>, simp)
qed

text \<open>A server that echoes the params, and the texts of its two frames.\<close>

definition echo_server :: rpc_server where
  "echo_server m p = Ok p"

definition demo_text :: "json \<Rightarrow> serde_error + string" where
  "demo_text v =
     (if v = request_frame ''model/list'' (IdInteger 1) JNull then Ok ''request''
      else if v = response_frame (IdInteger 1) JNull then Ok ''response'' else Err SerdeError)"

definition demo_slice :: "string \<Rightarrow> string + json" where
  "demo_slice t =
     (if t = ''request'' then Ok (request_frame ''model/list'' (IdInteger 1) JNull)
      else if t = ''response'' then Ok (response_frame (IdInteger 1) JNull) else Err ''bad'')"

lemma demo_frames_differ: "request_frame m i p \<noteq> response_frame j v"
  using classify_request_frame [of m i p] classify_response_frame [of j v] by auto

lemma demo_line_text:
  "line_text demo_text demo_slice (request_frame ''model/list'' (IdInteger 1) JNull)"
  "line_text demo_text demo_slice (response_frame (IdInteger 1) JNull)"
  using demo_frames_differ [of "''model/list''" "IdInteger 1" JNull "IdInteger 1" JNull]
  by (auto simp: line_text_def demo_text_def demo_slice_def lf_def cr_def)

definition fresh_ready :: inner where
  "fresh_ready = (inner_new 5)\<lparr>handshake_state := HS_Ready\<rparr>"

lemma fresh_ready_gate:
  "request_gate ''model/list'' True fresh_ready = None" "outbound_open fresh_ready" "next_id fresh_ready = 1"
  by (simp_all add: fresh_ready_def request_gate_def inner_new_def)

theorem request_over_transport_witness:
  "\<exists>t. request_value_internal plain_displays
      (exchange plain_displays (carry_ws demo_text None (ws_server demo_text demo_slice echo_server [WsPing]))
         demo_slice ''websocket frame as JSON'') ''model/list'' JNull None True fresh_ready = (t, Ok JNull)"
proof -
  have frames: "line_text demo_text demo_slice (request_frame ''model/list'' (IdInteger (next_id fresh_ready)) JNull)"
    "line_text demo_text demo_slice (server_frame echo_server (IdInteger (next_id fresh_ready)) ''model/list'' JNull)"
    using demo_line_text by (simp_all add: fresh_ready_gate(3) server_frame_def echo_server_def)
  have "sane_server echo_server" by (simp add: sane_server_def echo_server_def)
  from request_over_transport [OF fresh_ready_gate(1,2) this frames, of "[WsPing]"] show ?thesis
    by (auto simp: control_message_def echo_server_def)
qed

theorem lost_transport_fails_request_witness:
  "\<exists>t e. request_value_internal plain_displays
      (exchange plain_displays (carry_stdio demo_text (IoError BrokenPipe ''broken pipe'') None (\<lambda>_. []) True)
         demo_slice ''JSONL frame'') ''model/list'' JNull None True fresh_ready = (t, Err (Rpc e)) \<and>
     pending t = []"
proof -
  have wire: "demo_text (request_frame ''model/list'' (IdInteger (next_id fresh_ready)) JNull) = Ok ''request''"
    by (simp add: demo_text_def fresh_ready_gate(3))
  from lost_transport_fails_request [where to_text = demo_text, OF fresh_ready_gate(1,2) wire] show ?thesis
    unfolding lost_request_def by blast
qed

section \<open>Opening a connection\<close>

lemma build_ws_request_facts:
  assumes "build_ws_request h url token = Ok request"
  shows "request_url request = url"
    and "request_authorization request \<noteq> None \<Longrightarrow> token \<noteq> None \<and> websocket_url_allows_auth_token url"
  using assms
  by (auto simp: build_ws_request_def and_then_Inr_iff map_err_Inr_iff Let_def
      split: if_splits option.splits)

text \<open>
  A client exists only over a transport that was opened: a child that was spawned with both
  pipes, or a server that accepted the upgrade request; an encrypted connection is only tried
  once a crypto provider is installed, the token goes only into a request whose URL allows
  one, and a new client has sent nothing, has nothing pending and has not begun its handshake.
\<close>

theorem client_needs_open_transport:
  "(client_spawn_stdio spawn stdio = Ok s \<longrightarrow>
      spawn (stdio_codex_binary stdio) (stdio_args stdio) (stdio_env stdio) =
        Ok \<lparr>child_stdin = True, child_stdout = True\<rparr> \<and>
      s = inner_new (default_timeout (stdio_options stdio))) \<and>
   (client_connect_ws parse h dial ws installed = (provider, Ok s) \<longrightarrow>
      (\<exists>url request. parse (ws_url ws) = Ok url \<and> request_url request = url_as_str url \<and>
         dial provider request = Ok () \<and> (url_scheme url = ''wss'' \<longrightarrow> provider) \<and>
         (request_authorization request \<noteq> None \<longrightarrow>
            ws_auth_token ws \<noteq> None \<and> websocket_url_allows_auth_token (url_as_str url)) \<and>
         s = inner_new (default_timeout (ws_options ws)))) \<and>
   outbound (inner_new n) = [] \<and> pending (inner_new n) = [] \<and> handshake_state (inner_new n) = HS_New"
proof -
  have "\<exists>url request. parse (ws_url ws) = Ok url \<and> request_url request = url_as_str url \<and>
         dial provider request = Ok () \<and> (url_scheme url = ''wss'' \<longrightarrow> provider) \<and>
         (request_authorization request \<noteq> None \<longrightarrow>
            ws_auth_token ws \<noteq> None \<and> websocket_url_allows_auth_token (url_as_str url)) \<and>
         s = inner_new (default_timeout (ws_options ws))"
    if opened: "client_connect_ws parse h dial ws installed = (provider, Ok s)"
  proof -
    obtain url request where "parse (ws_url ws) = Ok url"
      "build_ws_request h (url_as_str url) (ws_auth_token ws) = Ok request"
      "dial provider request = Ok ()" "url_scheme url = ''wss'' \<longrightarrow> provider"
      "s = inner_new (default_timeout (ws_options ws))"
      using opened
      by (auto simp: client_connect_ws_def connect_ws_transport_def ensure_rustls_crypto_provider_def
          and_then_Inr_iff map_ok_Inr_iff map_err_Inr_iff Let_def
          split: sum.splits prod.splits if_splits)
    with build_ws_request_facts [of h "url_as_str url" "ws_auth_token ws" request] show ?thesis by blast
  qed
  moreover have "child = \<lparr>child_stdin = True, child_stdout = True\<rparr>"
    if "child_stdin child" "child_stdout child" for child :: stdio_child
    using that by simp
  ultimately show ?thesis
    by (auto simp: client_spawn_stdio_def spawn_stdio_transport_def and_then_Inr_iff map_ok_Inr_iff
        map_err_Inr_iff inner_new_def split: if_splits)
qed

definition secure_url :: url_parser where
  "secure_url s = Ok \<lparr>url_scheme = ''wss'', url_host = None, url_port = None, url_as_str = s\<rparr>"

theorem client_needs_open_transport_witness:
  "client_spawn_stdio (\<lambda>_ _ _. Ok \<lparr>child_stdin = True, child_stdout = True\<rparr>) stdio_config_default =
     Ok (inner_new 30000) \<and>
   client_connect_ws secure_url lenient_http (\<lambda>provider _. if provider then Ok () else Err ''no provider'')
     (ws_config_default\<lparr>ws_url := ''wss://h''\<rparr>) False = (True, Ok (inner_new 30000)) \<and>
   (\<exists>url. secure_url ''wss://h'' = Ok url)"
proof -
  let ?spawn = "\<lambda>_ _ _. Ok \<lparr>child_stdin = True, child_stdout = True\<rparr>"
  let ?dial = "\<lambda>provider _. if provider then Ok () else Err ''no provider''"
  let ?ws = "ws_config_default\<lparr>ws_url := ''wss://h''\<rparr>"
  have ws: "client_connect_ws secure_url lenient_http ?dial ?ws False = (True, Ok (inner_new 30000))"
    by (simp add: client_connect_ws_def connect_ws_transport_def ensure_rustls_crypto_provider_def
        secure_url_def build_ws_request_def ws_config_default_def lenient_http_def
        client_options_default_def Let_def)
  have stdio: "client_spawn_stdio ?spawn stdio_config_default = Ok (inner_new 30000)"
    by (simp add: client_spawn_stdio_def spawn_stdio_transport_def stdio_config_default_def
        client_options_default_def)
  from client_needs_open_transport [where parse = secure_url and h = lenient_http and dial = ?dial
      and ws = ?ws and installed = False and provider = True and s = "inner_new 30000"
      and stdio = stdio_config_default and spawn = ?spawn] ws stdio
  show ?thesis by auto
qed

section \<open>Connecting to a server that was started\<close>

definition connect_config :: "ws_server_handle \<Rightarrow> client_options \<Rightarrow> ws_config" where
  "connect_config h options = ws_config_new (h_connect_url h) options"

definition client_start_ws_daemon ::
  "nat \<Rightarrow> host_env \<Rightarrow> machine \<Rightarrow> ws_start_config \<Rightarrow> (action list \<times> (client_error + ws_server_handle)) option"
where
  "client_start_ws_daemon fuel he m config = start_ws_server fuel he m config Daemon []"

definition client_start_ws_blocking ::
  "nat \<Rightarrow> host_env \<Rightarrow> machine \<Rightarrow> ws_start_config \<Rightarrow> (action list \<times> (client_error + ws_server_handle)) option"
where
  "client_start_ws_blocking fuel he m config = start_ws_server fuel he m config Blocking []"

definition codex_start_and_connect_ws ::
  "nat \<Rightarrow> host_env \<Rightarrow> machine \<Rightarrow> (bool \<Rightarrow> ws_request \<Rightarrow> string + unit) \<Rightarrow> ws_config
    \<Rightarrow> (string \<rightharpoonup> string) \<Rightarrow> bool \<Rightarrow> displays \<Rightarrow> (inner \<Rightarrow> inner) \<Rightarrow> env \<Rightarrow> string
    \<Rightarrow> (action list \<times> bool \<times> (client_error + (codex \<times> inner))) option" where
  "codex_start_and_connect_ws fuel he m dial config env installed d w peer version =
     map_option (\<lambda>(log, provider, r). (log, provider, map_ok (\<lambda>s. (codex_from_client d w peer version, s)) r))
       (client_start_and_connect_ws fuel he m dial config env installed)"

lemma existing_handle_url:
  "existing_server_handle he m target reuse mode auth log = (log1, Ok (Some h)) \<Longrightarrow>
   h_connect_url h = st_connect_url target"
  by (auto simp: existing_server_handle_def from_reused_existing_def
      split: prod.splits sum.splits probe_state.splits if_splits)

lemma launch_handle_url:
  "launch fuel he m target env mode auth log = Some (log1, Ok h) \<Longrightarrow> h_connect_url h = st_connect_url target"
  by (auto simp: launch_def daemon_started_def blocking_started_def map_ok_Inr_iff
      split: ws_start_mode.splits prod.splits sum.splits)

lemma started_handle_url:
  "start_ws_server_internal fuel he m target env reuse mode auth log = Some (log1, Ok h) \<Longrightarrow>
   h_connect_url h = st_connect_url target"
  by (auto simp: start_ws_server_internal_def dest: existing_handle_url launch_handle_url
      split: prod.splits sum.splits option.splits)

text \<open>
  The configuration of the handle of a started server leads to a client whenever the server accepts
  the request: its URL has been parsed and checked when the server was started, it is not
  encrypted, so no crypto provider is touched, and no token goes with it.
\<close>

lemma started_server_accepts_client:
  assumes "start_ws_server fuel he m config mode log = Some (log1, Ok h)"
  shows "\<exists>url. he_parse he (start_connect_url config) = Ok url \<and> url_scheme url = ''ws'' \<and>
    client_connect_ws (he_parse he) (he_http he) dial (connect_config h options) installed =
      (installed, and_then (build_ws_request (he_http he) (url_as_str url) None) (\<lambda>request.
         map_ok (\<lambda>_. inner_new (default_timeout options))
           (map_err (\<lambda>err. TransportSend (''websocket connect failed: '' @ err)) (dial installed request))))"
proof -
  obtain target where target: "build_start_target (he_parse he) (he_temp_dir he) config = Ok target"
    and start: "start_ws_server_internal fuel he m target (start_env config) (start_reuse_existing config)
      mode None log = Some (log1, Ok h)"
    using assms by (auto simp: start_ws_server_def split: sum.splits)
  from target obtain url where url: "he_parse he (start_connect_url config) = Ok url" "url_scheme url = ''ws''"
    and st: "st_connect_url target = start_connect_url config"
    by (auto simp: build_start_target_def ws_target_parse_def and_then_Inr_iff map_err_Inr_iff
        split: if_splits)
  have "h_connect_url h = start_connect_url config"
    using started_handle_url [OF start] st by simp
  with url show ?thesis
    by (auto simp: client_connect_ws_def connect_ws_transport_def connect_config_def ws_config_new_def
        map_ok_and_then and_then_const map_ok_const)
qed

end
