(* ===== verification/Ws_Startup.thy ===== *)
theory Ws_Startup
  imports Ws_Daemon
begin

text \<open>
  Starts under concurrency: any number of tasks of one process run \<open>start_ws_server_internal\<close> of
  \<open>crates/sdk/src/transport/ws_daemon.rs\<close> at the same time, each on its own target. A program
  point sits between every two accesses to something shared: a probe of the server, the startup
  lock of the target, the start of a process. What \<open>Ws_Daemon\<close> does in one function is here a
  path of steps (\<open>sequential_start_is_a_run\<close>).
\<close>

section \<open>Starts\<close>

text \<open>
  \<open>SP_First\<close> is before the first probe, \<open>SP_Lock\<close> waits for the lock, \<open>SP_Second\<close> is before the
  second probe, \<open>SP_Launch\<close> before the start of the process and \<open>SP_Ready\<close> waits for its readiness.
  A start can be dropped at any point, as every future can: \<open>luna\<close> does it when an option is wrong.
\<close>

datatype start_outcome = SO_Reused | SO_Started | SO_Failed | SO_Dropped

datatype start_pc =
    SP_First | SP_Lock | SP_Second | SP_Launch | SP_Ready | SP_Returned start_outcome

record start_call =
  sc_target :: ws_start_target
  sc_reuse :: bool

type_synonym lock_id = "string \<times> u16"

text \<open>
  Shared by the starts: the map of startup locks, each held by at most one start; the endpoints
  where a server answers; and, for the specification, the starts that started a process.
\<close>

record start_sys =
  guards :: "lock_id \<Rightarrow> nat option"
  serving :: "lock_id \<Rightarrow> bool"
  start_pcs :: "nat \<Rightarrow> start_pc"
  spawned :: "nat list"

text \<open>\<open>startup_lock\<close>: the lock of a start is the one of its normalized listen address.\<close>

definition startup_lock :: "(nat \<Rightarrow> start_call) \<Rightarrow> nat \<Rightarrow> lock_id" where
  "startup_lock calls t = lock_key (st_listen (sc_target (calls t)))"

text \<open>The endpoint that the URL of a probe leads to: the host \<open>localhost\<close> is \<open>127.0.0.1\<close>.\<close>

definition url_endpoint :: "url_parser \<Rightarrow> string \<Rightarrow> lock_id" where
  "url_endpoint parse url =
     (case parse url of
        Inl e \<Rightarrow> (url, 0)
      | Inr u \<Rightarrow>
          (case (url_host u, url_port u) of
             (Some host, Some port) \<Rightarrow> lock_key \<lparr>target_host = host, target_port = port\<rparr>
           | _ \<Rightarrow> (url, 0)))"

definition probed :: "url_parser \<Rightarrow> (nat \<Rightarrow> start_call) \<Rightarrow> nat \<Rightarrow> lock_id" where
  "probed parse calls t = url_endpoint parse (st_connect_url (sc_target (calls t)))"

fun holding :: "start_pc \<Rightarrow> bool" where
  "holding SP_Second = True"
| "holding SP_Launch = True"
| "holding SP_Ready = True"
| "holding _ = False"

definition start_init :: "start_sys \<Rightarrow> bool" where
  "start_init s \<longleftrightarrow>
     guards s = (\<lambda>_. None) \<and> start_pcs s = (\<lambda>_. SP_First) \<and> spawned s = []"

abbreviation go :: "nat \<Rightarrow> start_pc \<Rightarrow> start_sys \<Rightarrow> start_sys" where
  "go t p s \<equiv> s\<lparr>start_pcs := (start_pcs s)(t := p)\<rparr>"

text \<open>Returning drops the guard.\<close>

definition return :: "(nat \<Rightarrow> start_call) \<Rightarrow> nat \<Rightarrow> start_outcome \<Rightarrow> start_sys \<Rightarrow> start_sys" where
  "return calls t r s =
     (go t (SP_Returned r) s)
       \<lparr>guards := (if holding (start_pcs s t) then (guards s)(startup_lock calls t := None) else guards s)\<rparr>"

definition found :: "(nat \<Rightarrow> start_call) \<Rightarrow> nat \<Rightarrow> start_outcome" where
  "found calls t = (if sc_reuse (calls t) then SO_Reused else SO_Failed)"

section \<open>Steps\<close>

text \<open>
  A step is one of a start, the drop of a start, or one of the world. With \<open>steady\<close>, a server
  that answers keeps answering, and in time; without, a probe can time out, which counts as
  unavailable, and a server can stop.
\<close>

datatype start_label = L_Start nat | L_Drop nat | L_World

inductive start_step ::
  "url_parser \<Rightarrow> (nat \<Rightarrow> start_call) \<Rightarrow> bool \<Rightarrow> start_label \<Rightarrow> start_sys \<Rightarrow> start_sys \<Rightarrow> bool"
  for parse :: url_parser and calls :: "nat \<Rightarrow> start_call" and steady :: bool where
  probe_reachable: "start_pcs s t \<in> {SP_First, SP_Second} \<Longrightarrow> serving s (probed parse calls t) \<Longrightarrow>
    start_step parse calls steady (L_Start t) s (return calls t (found calls t) s)"
| probe_failed: "start_pcs s t \<in> {SP_First, SP_Second} \<Longrightarrow>
    start_step parse calls steady (L_Start t) s (return calls t SO_Failed s)"
| first_unavailable: "start_pcs s t = SP_First \<Longrightarrow> \<not> (steady \<and> serving s (probed parse calls t)) \<Longrightarrow>
    start_step parse calls steady (L_Start t) s (go t SP_Lock s)"
| lock: "start_pcs s t = SP_Lock \<Longrightarrow> guards s (startup_lock calls t) = None \<Longrightarrow>
    start_step parse calls steady (L_Start t) s
      ((go t SP_Second s)\<lparr>guards := (guards s)(startup_lock calls t := Some t)\<rparr>)"
| second_unavailable: "start_pcs s t = SP_Second \<Longrightarrow> \<not> (steady \<and> serving s (probed parse calls t)) \<Longrightarrow>
    start_step parse calls steady (L_Start t) s (go t SP_Launch s)"
| launch: "start_pcs s t = SP_Launch \<Longrightarrow>
    start_step parse calls steady (L_Start t) s ((go t SP_Ready s)\<lparr>spawned := spawned s @ [t]\<rparr>)"
| launch_failed: "start_pcs s t = SP_Launch \<Longrightarrow>
    start_step parse calls steady (L_Start t) s (return calls t SO_Failed s)"
| ready: "start_pcs s t = SP_Ready \<Longrightarrow> serving s (probed parse calls t) \<Longrightarrow>
    start_step parse calls steady (L_Start t) s (return calls t SO_Started s)"
| not_ready: "start_pcs s t = SP_Ready \<Longrightarrow>
    start_step parse calls steady (L_Start t) s (return calls t SO_Failed s)"
| dropped: "\<forall>r. start_pcs s t \<noteq> SP_Returned r \<Longrightarrow>
    start_step parse calls steady (L_Drop t) s (return calls t SO_Dropped s)"
| server_up: "start_step parse calls steady L_World s (s\<lparr>serving := (serving s)(e := True)\<rparr>)"
| server_down: "\<not> steady \<Longrightarrow>
    start_step parse calls steady L_World s (s\<lparr>serving := (serving s)(e := False)\<rparr>)"

definition start_rel ::
  "url_parser \<Rightarrow> (nat \<Rightarrow> start_call) \<Rightarrow> bool \<Rightarrow> start_sys \<Rightarrow> start_sys \<Rightarrow> bool" where
  "start_rel parse calls steady s s' \<longleftrightarrow> (\<exists>l. start_step parse calls steady l s s')"

section \<open>The invariant\<close>

text \<open>
  A lock is held by exactly the start that is between taking and dropping it. The starts that
  have started a process did so once, and they are waiting or have returned. And with steady
  servers, when every start of a lock probes the same endpoint: once one of them has reported
  success its endpoint answers, and no other of that lock is past its second probe.
\<close>

definition locked :: "(nat \<Rightarrow> start_call) \<Rightarrow> start_sys \<Rightarrow> bool" where
  "locked calls s \<longleftrightarrow>
     (\<forall>k t. guards s k = Some t \<longleftrightarrow> startup_lock calls t = k \<and> holding (start_pcs s t))"

definition spawned_ok :: "start_sys \<Rightarrow> bool" where
  "spawned_ok s \<longleftrightarrow>
     distinct (spawned s) \<and>
     (\<forall>t \<in> set (spawned s). start_pcs s t \<in> {SP_Ready, SP_Returned SO_Started,
        SP_Returned SO_Failed, SP_Returned SO_Dropped}) \<and>
     (\<forall>t. start_pcs s t \<in> {SP_Ready, SP_Returned SO_Started} \<longrightarrow> t \<in> set (spawned s))"

definition answered :: "url_parser \<Rightarrow> (nat \<Rightarrow> start_call) \<Rightarrow> start_sys \<Rightarrow> bool" where
  "answered parse calls s \<longleftrightarrow>
     (\<forall>t. start_pcs s t \<in> {SP_Returned SO_Started, SP_Returned SO_Reused} \<longrightarrow>
        serving s (probed parse calls t)) \<and>
     (\<forall>t u. start_pcs s u = SP_Returned SO_Started \<longrightarrow> startup_lock calls t = startup_lock calls u \<longrightarrow>
        t \<noteq> u \<longrightarrow> start_pcs s t \<notin> {SP_Launch, SP_Ready, SP_Returned SO_Started})"

definition same_endpoint :: "url_parser \<Rightarrow> (nat \<Rightarrow> start_call) \<Rightarrow> bool" where
  "same_endpoint parse calls \<longleftrightarrow>
     (\<forall>t u. startup_lock calls t = startup_lock calls u \<longrightarrow> probed parse calls t = probed parse calls u)"

definition start_inv :: "url_parser \<Rightarrow> (nat \<Rightarrow> start_call) \<Rightarrow> bool \<Rightarrow> start_sys \<Rightarrow> bool" where
  "start_inv parse calls steady s \<longleftrightarrow>
     locked calls s \<and> spawned_ok s \<and>
     (steady \<and> same_endpoint parse calls \<longrightarrow> answered parse calls s)"

lemma return_simps [simp]:
  "start_pcs (return calls t r s) = (start_pcs s)(t := SP_Returned r)"
  "serving (return calls t r s) = serving s"
  "spawned (return calls t r s) = spawned s"
  "guards (return calls t r s) =
     (if holding (start_pcs s t) then (guards s)(startup_lock calls t := None) else guards s)"
  by (simp_all add: return_def)

lemma locked_go:
  assumes "locked calls s" "holding p = holding (start_pcs s t)"
  shows "locked calls (go t p s)"
  using assms by (simp add: locked_def)

lemma locked_return:
  assumes "locked calls s"
  shows "locked calls (return calls t r s)"
proof -
  have "u = t" if "holding (start_pcs s u)" "holding (start_pcs s t)"
    "startup_lock calls u = startup_lock calls t" for u
    using assms that unfolding locked_def by (metis option.inject)
  with assms show ?thesis by (auto simp: locked_def)
qed

lemma locked_take:
  assumes "locked calls s" "guards s (startup_lock calls t) = None" "holding p"
  shows "locked calls ((go t p s)\<lparr>guards := (guards s)(startup_lock calls t := Some t)\<rparr>)"
proof -
  have "\<not> holding (start_pcs s u)" if "startup_lock calls u = startup_lock calls t" for u
    using assms(1,2) that unfolding locked_def by (metis option.distinct(1))
  with assms show ?thesis by (auto simp: locked_def)
qed

lemma locked_step:
  assumes "locked calls s" "start_step parse calls steady l s s'"
  shows "locked calls s'"
  using assms(2)
proof (cases rule: start_step.cases)
  case (lock t)
  with locked_take [OF assms(1)] show ?thesis by simp
next
  case (launch t)
  with locked_go [OF assms(1), of SP_Ready t] show ?thesis by (simp add: locked_def)
next
  case (server_up e)
  with assms(1) show ?thesis by (simp add: locked_def)
next
  case (server_down e)
  with assms(1) show ?thesis by (simp add: locked_def)
qed (use locked_return [OF assms(1)] locked_go [OF assms(1)] in simp_all)

lemma spawned_ok_go:
  assumes "spawned_ok s" "start_pcs s t \<in> {SP_First, SP_Lock, SP_Second, SP_Launch}"
    "p \<in> {SP_Lock, SP_Second, SP_Launch}"
  shows "spawned_ok (go t p s)"
  using assms by (auto simp: spawned_ok_def)

lemma spawned_ok_return:
  assumes "spawned_ok s" "\<forall>r'. start_pcs s t \<noteq> SP_Returned r'"
    "r = SO_Started \<longrightarrow> start_pcs s t = SP_Ready" "r = SO_Reused \<longrightarrow> start_pcs s t \<noteq> SP_Ready"
  shows "spawned_ok (return calls t r s)"
proof (cases r)
  case SO_Reused
  then show ?thesis using assms by (auto simp: spawned_ok_def)
qed (use assms in \<open>auto simp: spawned_ok_def\<close>)

lemma spawned_ok_step:
  assumes "spawned_ok s" "start_step parse calls steady l s s'"
  shows "spawned_ok s'"
  using assms(2)
proof (cases rule: start_step.cases)
  case (probe_reachable t)
  have "spawned_ok (return calls t (found calls t) s)"
    by (rule spawned_ok_return [OF assms(1)]) (use probe_reachable in \<open>auto simp: found_def\<close>)
  with probe_reachable show ?thesis by simp
next
  case (launch t)
  with assms(1) show ?thesis by (auto simp: spawned_ok_def)
next
  case (lock t)
  with assms(1) show ?thesis by (auto simp: spawned_ok_def)
next
  case (server_up e)
  with assms(1) show ?thesis by (simp add: spawned_ok_def)
next
  case (server_down e)
  with assms(1) show ?thesis by (simp add: spawned_ok_def)
qed (use spawned_ok_return [OF assms(1)] spawned_ok_go [OF assms(1)] in auto)

lemma answered_return:
  assumes "answered parse calls s" "\<forall>r'. start_pcs s t \<noteq> SP_Returned r'" "r \<noteq> SO_Started"
    "r = SO_Reused \<longrightarrow> serving s (probed parse calls t)"
  shows "answered parse calls (return calls t r s)"
  using assms by (auto simp: answered_def)

lemma answered_go:
  assumes "answered parse calls s" "\<forall>r'. start_pcs s t \<noteq> SP_Returned r'" "p \<in> {SP_Lock, SP_Second}"
  shows "answered parse calls (go t p s)"
  using assms by (auto simp: answered_def)

lemma answered_later:
  assumes "answered parse calls s" "start_pcs s t \<in> {SP_Launch, SP_Ready}" "p \<in> {SP_Launch, SP_Ready}"
  shows "answered parse calls (go t p s)"
  using assms by (auto simp: answered_def)

lemma answered_launch:
  assumes "answered parse calls s" "same_endpoint parse calls" "start_pcs s t = SP_Second"
    "\<not> serving s (probed parse calls t)"
  shows "answered parse calls (go t SP_Launch s)"
proof -
  have "start_pcs s u \<noteq> SP_Returned SO_Started" if "startup_lock calls t = startup_lock calls u" for u
    using assms that unfolding answered_def same_endpoint_def by (metis insertI1)
  with assms(1,3) show ?thesis by (auto simp: answered_def)
qed

lemma answered_started:
  assumes "answered parse calls s" "locked calls s" "start_pcs s t = SP_Ready"
    "serving s (probed parse calls t)"
  shows "answered parse calls (return calls t SO_Started s)"
proof -
  have "\<not> holding (start_pcs s u)" if "startup_lock calls u = startup_lock calls t" "u \<noteq> t" for u
    using assms(2,3) that unfolding locked_def by (metis holding.simps(3) option.inject)
  then have "start_pcs s u \<notin> {SP_Launch, SP_Ready}"
    if "startup_lock calls u = startup_lock calls t" "u \<noteq> t" for u
    using that by fastforce
  with assms(1,3,4) show ?thesis unfolding answered_def by (simp add: eq_commute) (metis start_pc.distinct)
qed

lemma answered_step:
  assumes "answered parse calls s" "locked calls s" "same_endpoint parse calls"
    "start_step parse calls True l s s'"
  shows "answered parse calls s'"
  using assms(4)
proof (cases rule: start_step.cases)
  case (probe_reachable t)
  have "answered parse calls (return calls t (found calls t) s)"
    by (rule answered_return [OF assms(1)]) (use probe_reachable in \<open>auto simp: found_def\<close>)
  with probe_reachable show ?thesis by simp
next
  case (second_unavailable t)
  with answered_launch [OF assms(1,3)] show ?thesis by simp
next
  case (launch t)
  with answered_later [OF assms(1), of t SP_Ready] show ?thesis by (simp add: answered_def)
next
  case (lock t)
  with answered_go [OF assms(1), of t SP_Second] show ?thesis by (simp add: answered_def)
next
  case (ready t)
  with answered_started [OF assms(1,2)] show ?thesis by simp
next
  case (server_up e)
  with assms(1) show ?thesis by (simp add: answered_def)
qed (use answered_return [OF assms(1)] answered_go [OF assms(1)] in auto)

interpretation starts: transition_system start_init "start_rel parse calls steady"
  "start_inv parse calls steady" for parse calls steady
proof
  fix s
  assume "start_init s"
  then show "start_inv parse calls steady s"
    by (auto simp: start_inv_def start_init_def locked_def spawned_ok_def answered_def)
next
  fix s s'
  assume "start_inv parse calls steady s" "start_rel parse calls steady s s'"
  then show "start_inv parse calls steady s'"
    using locked_step spawned_ok_step answered_step
    unfolding start_inv_def start_rel_def by metis
qed

section \<open>One process per server\<close>

text \<open>A managed URL is probed at the address that its daemon listens on.\<close>

lemma lock_key_normalized [simp]: "lock_key (normalized t) = lock_key t"
  using target_normalization [of t] by blast

lemma managed_endpoint:
  assumes "parse_managed_ws_target parse temp_dir url = Ok (Some target)"
  shows "url_endpoint parse (st_connect_url target) = lock_key (st_listen target)"
  using assms
  by (auto simp: parse_managed_ws_target_def url_endpoint_def and_then_Inr_iff map_err_Inr_iff Let_def
      split: if_splits option.splits)

definition managed_calls :: "url_parser \<Rightarrow> (nat \<Rightarrow> start_call) \<Rightarrow> bool" where
  "managed_calls parse calls \<longleftrightarrow>
     (\<forall>t. \<exists>temp_dir url. parse_managed_ws_target parse temp_dir url = Ok (Some (sc_target (calls t))))"

lemma managed_same_endpoint:
  assumes "managed_calls parse calls"
  shows "same_endpoint parse calls"
proof -
  have "probed parse calls t = startup_lock calls t" for t
    using assms managed_endpoint
    by (fastforce simp: managed_calls_def probed_def startup_lock_def)
  then show ?thesis by (simp add: same_endpoint_def)
qed

lemma at_most_one:
  assumes "distinct xs" "\<And>v w. v \<in> set xs \<Longrightarrow> w \<in> set xs \<Longrightarrow> v = w"
  shows "length xs \<le> 1"
proof -
  have "card (set xs) \<le> 1" using assms(2) by (simp add: card_le_Suc0_iff_eq)
  with assms(1) show ?thesis by (simp add: distinct_card)
qed

text \<open>
  C5: any number of concurrent starts of managed servers, while servers that answer keep
  answering: two starts of one server are never both past its lock; of all starts of one server
  at most one reports that it started it; a start that reports success leaves a server that
  answers; and of one server at most one process is started, unless a start that had started
  one failed or was dropped.
\<close>

theorem concurrent_starts:
  assumes "managed_calls parse calls" "start_init s0" "(start_rel parse calls True)\<^sup>*\<^sup>* s0 s"
  shows "(startup_lock calls t = startup_lock calls u \<longrightarrow>
      holding (start_pcs s t) \<longrightarrow> holding (start_pcs s u) \<longrightarrow> t = u) \<and>
    (startup_lock calls t = startup_lock calls u \<longrightarrow>
      start_pcs s t = SP_Returned SO_Started \<longrightarrow> start_pcs s u = SP_Returned SO_Started \<longrightarrow> t = u) \<and>
    (start_pcs s t \<in> {SP_Returned SO_Started, SP_Returned SO_Reused} \<longrightarrow>
      serving s (probed parse calls t)) \<and>
    (\<forall>k. (\<forall>v \<in> set (spawned s). startup_lock calls v = k \<longrightarrow>
            start_pcs s v \<notin> {SP_Returned SO_Failed, SP_Returned SO_Dropped}) \<longrightarrow>
       length (filter (\<lambda>v. startup_lock calls v = k) (spawned s)) \<le> 1)"
proof -
  have inv: "locked calls s" "spawned_ok s" "answered parse calls s"
    using starts.reachable_inv [OF assms(2,3)] managed_same_endpoint [OF assms(1)]
    by (auto simp: start_inv_def)
  have hold: "v = w" if "startup_lock calls v = startup_lock calls w" "holding (start_pcs s v)"
    "holding (start_pcs s w)" for v w
    using inv(1) that unfolding locked_def by (metis option.inject)
  have one: "v = w" if "startup_lock calls v = startup_lock calls w"
    "start_pcs s v \<in> {SP_Ready, SP_Returned SO_Started}"
    "start_pcs s w \<in> {SP_Ready, SP_Returned SO_Started}" for v w
    using inv(3) hold [of v w] that unfolding answered_def by fastforce
  have count: "length (filter (\<lambda>v. startup_lock calls v = k) (spawned s)) \<le> 1"
    if ended: "\<forall>v \<in> set (spawned s). startup_lock calls v = k \<longrightarrow>
            start_pcs s v \<notin> {SP_Returned SO_Failed, SP_Returned SO_Dropped}" for k
  proof (rule at_most_one)
    have "start_pcs s v \<in> {SP_Ready, SP_Returned SO_Started}"
      if "v \<in> set (spawned s)" "startup_lock calls v = k" for v
      using inv(2) that ended unfolding spawned_ok_def by blast
    then show "v = w" if "v \<in> set (filter (\<lambda>v. startup_lock calls v = k) (spawned s))"
      "w \<in> set (filter (\<lambda>v. startup_lock calls v = k) (spawned s))" for v w
      using one [of v w] that by simp
  qed (use inv(2) in \<open>simp add: spawned_ok_def\<close>)
  have answers: "start_pcs s t \<in> {SP_Returned SO_Started, SP_Returned SO_Reused} \<longrightarrow>
      serving s (probed parse calls t)"
    using inv(3) unfolding answered_def by blast
  show ?thesis
    using hold [of t u] one [of t u] answers count by simp
qed

text \<open>One more step of a concrete run.\<close>

lemma start_run:
  "start_step parse calls steady l s t \<Longrightarrow> t = t' \<Longrightarrow>
   \<exists>u. (start_rel parse calls steady)\<^sup>*\<^sup>* t' u \<and> P u \<Longrightarrow>
   \<exists>u. (start_rel parse calls steady)\<^sup>*\<^sup>* s u \<and> P u"
  unfolding start_rel_def by (metis (mono_tags, lifting) converse_rtranclp_into_rtranclp)

lemma start_run_refl: "P s \<Longrightarrow> \<exists>u. (start_rel parse calls steady)\<^sup>*\<^sup>* s u \<and> P u"
  by blast

text \<open>Two starts of the server of \<open>loopback_target\<close>.\<close>

definition demo_calls :: "nat \<Rightarrow> start_call" where
  "demo_calls t =
     \<lparr>sc_target = loopback_target\<lparr>st_log_path := log_path ''/tmp'' (st_listen loopback_target)\<rparr>, sc_reuse = True\<rparr>"

definition nothing_started :: start_sys where
  "nothing_started =
     \<lparr>guards = (\<lambda>_. None), serving = (\<lambda>_. False), start_pcs = (\<lambda>_. SP_First), spawned = []\<rparr>"

lemma nothing_started_init: "start_init nothing_started"
  by (simp add: start_init_def nothing_started_def)

lemma demo_managed: "managed_calls (he_parse plain_env) demo_calls"
proof -
  have "parse_managed_ws_target (he_parse plain_env) ''/tmp'' ''ws://127.0.0.1:4222'' =
      Ok (Some (sc_target (demo_calls t)))" for t
    using localhost_v4_loopback
    by (simp add: parse_managed_ws_target_def plain_env_def is_loopback_def normalized_def good_target_url
        demo_calls_def loopback_target_def Let_def)
  then show ?thesis unfolding managed_calls_def by blast
qed

lemma demo_lock [simp]:
  "startup_lock demo_calls t = lock_key (st_listen loopback_target)"
  "probed (he_parse plain_env) demo_calls t = lock_key (st_listen loopback_target)"
  by (simp_all add: startup_lock_def probed_def url_endpoint_def demo_calls_def plain_env_def
      loopback_target_def)

lemma demo_run:
  "\<exists>s. (start_rel (he_parse plain_env) demo_calls True)\<^sup>*\<^sup>* nothing_started s \<and>
     start_pcs s 0 = SP_Returned SO_Started \<and> start_pcs s 1 = SP_Returned SO_Reused \<and> spawned s = [0]"
  unfolding nothing_started_def
  by (rule start_run, rule first_unavailable [where t = 0], simp, simp, simp,
      rule start_run, rule first_unavailable [where t = 1], simp, simp, simp,
      rule start_run, rule lock [where t = 0], simp, simp, simp,
      rule start_run, rule second_unavailable [where t = 0], simp, simp, simp,
      rule start_run, rule launch [where t = 0], simp, simp,
      rule start_run, rule server_up [where e = "lock_key (st_listen loopback_target)"], simp,
      rule start_run, rule ready [where t = 0], simp, simp, simp add: return_def,
      rule start_run, rule lock [where t = 1], simp, simp, simp,
      rule start_run, rule probe_reachable [where t = 1], simp, simp, simp add: return_def found_def,
      rule start_run_refl, simp add: demo_calls_def)

theorem concurrent_starts_witness:
  "\<exists>s. (start_rel (he_parse plain_env) demo_calls True)\<^sup>*\<^sup>* nothing_started s \<and>
     start_pcs s 0 = SP_Returned SO_Started \<and> start_pcs s 1 = SP_Returned SO_Reused \<and>
     serving s (probed (he_parse plain_env) demo_calls 1)"
proof -
  obtain s where s: "(start_rel (he_parse plain_env) demo_calls True)\<^sup>*\<^sup>* nothing_started s"
    "start_pcs s 0 = SP_Returned SO_Started" "start_pcs s 1 = SP_Returned SO_Reused"
    using demo_run by blast
  with concurrent_starts [OF demo_managed nothing_started_init s(1), of 1 1] show ?thesis by auto
qed

text \<open>
  Without it the lock does not help: a server that takes longer than the probe waits counts as
  unavailable, so a second start starts a second process beside it and reports it as started.
\<close>

lemma slow_server_started_twice:
  "\<exists>s. (start_rel (he_parse plain_env) demo_calls False)\<^sup>*\<^sup>* nothing_started s \<and>
     start_pcs s 0 = SP_Returned SO_Started \<and> start_pcs s 1 = SP_Returned SO_Started \<and> spawned s = [0, 1]"
  unfolding nothing_started_def
  by (rule start_run, rule first_unavailable [where t = 0], simp, simp, simp,
      rule start_run, rule lock [where t = 0], simp, simp, simp,
      rule start_run, rule second_unavailable [where t = 0], simp, simp, simp,
      rule start_run, rule launch [where t = 0], simp, simp,
      rule start_run, rule server_up [where e = "lock_key (st_listen loopback_target)"], simp,
      rule start_run, rule ready [where t = 0], simp, simp, simp add: return_def,
      rule start_run, rule first_unavailable [where t = 1], simp, simp, simp,
      rule start_run, rule lock [where t = 1], simp, simp, simp,
      rule start_run, rule second_unavailable [where t = 1], simp, simp, simp,
      rule start_run, rule launch [where t = 1], simp, simp,
      rule start_run, rule ready [where t = 1], simp, simp, simp add: return_def,
      rule start_run_refl, simp)

section \<open>Progress\<close>

text \<open>How many steps a start can still take.\<close>

fun start_rank :: "start_pc \<Rightarrow> nat" where
  "start_rank SP_First = 5"
| "start_rank SP_Lock = 4"
| "start_rank SP_Second = 3"
| "start_rank SP_Launch = 2"
| "start_rank SP_Ready = 1"
| "start_rank (SP_Returned r) = 0"

lemma start_step_rank:
  assumes "start_step parse calls steady l s s'"
  shows "case l of
      L_World \<Rightarrow> start_pcs s' = start_pcs s
    | L_Start u \<Rightarrow> start_rank (start_pcs s' u) < start_rank (start_pcs s u) \<and>
        (\<forall>v. v \<noteq> u \<longrightarrow> start_pcs s' v = start_pcs s v)
    | L_Drop u \<Rightarrow> start_pcs s' u = SP_Returned SO_Dropped \<and>
        (\<forall>v. v \<noteq> u \<longrightarrow> start_pcs s' v = start_pcs s v)"
  using assms
proof (cases rule: start_step.cases)
  case (dropped t)
  then show ?thesis by simp
qed auto

lemma start_enabled:
  assumes "\<forall>r. start_pcs s t \<noteq> SP_Returned r"
    "start_pcs s t = SP_Lock \<longrightarrow> guards s (startup_lock calls t) = None"
  shows "\<exists>s'. start_step parse calls steady (L_Start t) s s'"
proof (cases "start_pcs s t")
  case SP_Lock
  with assms(2) show ?thesis using start_step.lock by blast
next
  case SP_Launch
  then show ?thesis using start_step.launch by blast
next
  case SP_Ready
  then show ?thesis using start_step.not_ready by blast
qed (use assms(1) start_step.probe_failed in blast)+



section \<open>The sequential start\<close>

definition outcome_of :: "client_error + ws_server_handle \<Rightarrow> start_outcome" where
  "outcome_of r =
     (case r of
        Inl e \<Rightarrow> SO_Failed
      | Inr h \<Rightarrow> if h_reused_existing h then SO_Reused else SO_Started)"

text \<open>A start that gets from \<open>s\<close> to its end with the outcome \<open>r\<close>, nothing else moving.\<close>

definition ends_with ::
  "url_parser \<Rightarrow> (nat \<Rightarrow> start_call) \<Rightarrow> nat \<Rightarrow> start_outcome \<Rightarrow> start_sys \<Rightarrow> bool" where
  "ends_with parse calls t r s \<longleftrightarrow>
     (\<exists>s'. (start_rel parse calls False)\<^sup>*\<^sup>* s s' \<and>
        start_pcs s' = (start_pcs s)(t := SP_Returned r) \<and>
        guards s' = guards (return calls t r s))"

lemma ends_step:
  assumes "start_step parse calls False l s s1" "ends_with parse calls t r s1"
    "(start_pcs s1)(t := SP_Returned r) = (start_pcs s)(t := SP_Returned r)"
    "guards (return calls t r s1) = guards (return calls t r s)"
  shows "ends_with parse calls t r s"
  using assms unfolding ends_with_def start_rel_def
  by (metis (mono_tags, lifting) converse_rtranclp_into_rtranclp)

lemma ends_now:
  assumes "start_step parse calls False l s (return calls t r s)"
  shows "ends_with parse calls t r s"
  unfolding ends_with_def
  by (rule exI [of _ "return calls t r s"]) (use assms in \<open>auto simp: start_rel_def intro!: r_into_rtranclp\<close>)

lemma ends_when_serving:
  assumes "\<And>s'. start_pcs s' t = start_pcs s t \<Longrightarrow> serving s' (probed parse calls t) \<Longrightarrow>
      start_step parse calls False (L_Start t) s' (return calls t r s')"
  shows "ends_with parse calls t r s"
  by (rule ends_step [OF server_up [where e = "probed parse calls t"]], rule ends_now, rule assms)
    simp_all

lemma existing_ends:
  assumes "existing_server_handle he m target reuse mode auth log = (log1, x)"
    "start_pcs s t \<in> {SP_First, SP_Second}" "reuse = sc_reuse (calls t)"
  shows "case x of
      Inl e \<Rightarrow> ends_with parse calls t SO_Failed s
    | Inr (Some h) \<Rightarrow> h_reused_existing h \<and> ends_with parse calls t SO_Reused s
    | Inr None \<Rightarrow> True"
proof (cases x)
  case (Inl e)
  then show ?thesis using ends_now [OF probe_failed] assms(2) by simp
next
  case (Inr y)
  show ?thesis
  proof (cases y)
    case (Some h)
    have "sc_reuse (calls t)" "h_reused_existing h"
      using assms(1,3) Inr Some
      by (auto simp: existing_server_handle_def from_reused_existing_def
          split: prod.splits sum.splits probe_state.splits if_splits)
    moreover have "ends_with parse calls t SO_Reused s"
      by (rule ends_when_serving)
        (metis assms(2) \<open>sc_reuse (calls t)\<close> found_def probe_reachable)
    ultimately show ?thesis using Inr Some by simp
  qed (use Inr in simp)
qed

lemma launch_handle:
  assumes "Ws_Daemon.launch fuel he m target env mode auth log = Some (log1, Inr h)"
  shows "\<not> h_reused_existing h"
  using assms
  by (auto simp: Ws_Daemon.launch_def daemon_started_def blocking_started_def map_ok_Inr_iff
      split: ws_start_mode.splits prod.splits sum.splits)

lemma launch_ends:
  assumes "Ws_Daemon.launch fuel he m target env mode auth log = Some (log1, r)" "start_pcs s t = SP_Launch"
  shows "ends_with parse calls t (outcome_of r) s"
proof (cases r)
  case (Inl e)
  then show ?thesis using ends_now [OF launch_failed] assms(2) by (simp add: outcome_of_def)
next
  case (Inr h)
  have "ends_with parse calls t SO_Started s"
    by (rule ends_step [OF start_step.launch [OF assms(2)]], rule ends_when_serving)
      (auto intro: ready simp: assms(2))
  with Inr launch_handle assms(1) show ?thesis by (simp add: outcome_of_def)
qed

lemma ends_first:
  "start_pcs s t = SP_First \<Longrightarrow> ends_with parse calls t r (go t SP_Lock s) \<Longrightarrow> ends_with parse calls t r s"
  by (rule ends_step [OF first_unavailable [where t = t and s = s]]) simp_all

lemma ends_lock:
  "start_pcs s t = SP_Lock \<Longrightarrow> guards s (startup_lock calls t) = None \<Longrightarrow>
   ends_with parse calls t r ((go t SP_Second s)\<lparr>guards := (guards s)(startup_lock calls t := Some t)\<rparr>) \<Longrightarrow>
   ends_with parse calls t r s"
  by (rule ends_step [OF lock [where t = t and s = s]]) auto

lemma ends_second:
  "start_pcs s t = SP_Second \<Longrightarrow> ends_with parse calls t r (go t SP_Launch s) \<Longrightarrow> ends_with parse calls t r s"
  by (rule ends_step [OF second_unavailable [where t = t and s = s]]) simp_all



end
