(* ===== verification/Ws_Token.thy ===== *)
theory Ws_Token
  imports Ws_Daemon
begin

text \<open>
  What a start of a websocket server may do, whatever it does: every action it adds to the log
  is one of the kinds of the module, and its connection attempts are requests that
  \<open>build_ws_request\<close> made. The locale proves this once for any predicate of actions; it is
  interpreted on the predicate that a token goes only to a URL that allows one.
\<close>

section \<open>Any predicate of actions\<close>

locale start_steps =
  fixes P :: "action \<Rightarrow> bool"
  assumes connect: "build_ws_request h url auth = Ok r \<Longrightarrow> P (AConnect r)"
    and others: "P (ALock k)" "P (AFs f)" "P (ASpawnDaemon b l)" "P (ASpawnOwned b l)" "P ATryWait"
      "P (ASleep n)"
begin

lemma probe: "extends P log (fst (probe_app_server he m url auth log))"
  by (cases "build_ws_request (he_http he) url auth")
    (simp_all add: probe_app_server_def connect)

lemma wait_round:
  assumes "wait_round he m target owned auth deadline log = (log1, r)"
  shows "extends P log log1"
proof -
  define w where "w = (if owned then (log @ [ATryWait], m_try_wait m log) else (log, Ok None))"
  define p where "p = probe_app_server he m (st_connect_url target) auth (fst w)"
  have w: "extends P log (fst w)" by (simp add: w_def others)
  have "extends P (fst w) (fst p)" unfolding p_def by (rule probe)
  then have p: "extends P log (fst p)" using w extends_trans by blast
  have "log1 = fst w \<or> log1 = fst p"
    using assms unfolding wait_round_def w_def [symmetric]
    by (cases w; cases p) (auto simp: p_def split: sum.splits option.splits probe_state.splits)
  with w p show ?thesis by blast
qed

lemma wait_for_ready:
  "wait_for_ready fuel he m target owned auth deadline log = Some (log1, r) \<Longrightarrow> extends P log log1"
proof (induction fuel arbitrary: log)
  case 0
  then show ?case by simp
next
  case (Suc fuel)
  obtain l x where w: "wait_round he m target owned auth deadline log = (l, x)" by fastforce
  have e: "extends P log (l @ [ASleep PROBE_INTERVAL])"
    using wait_round [OF w] by (rule extends_step) (rule others)
  show ?case
  proof (cases x)
    case None
    with Suc w show ?thesis using extends_trans [OF e] by auto
  next
    case (Some y)
    with Suc.prems w show ?thesis using wait_round [OF w] by simp
  qed
qed

lemma run_fs: "extends P log (fst (run_fs m fs log))"
proof (induction fs arbitrary: log)
  case Nil
  then show ?case by simp
next
  case (Cons f fs)
  have "extends P log (log @ [AFs f])" by (simp add: others)
  from extends_trans [OF this Cons [of "log @ [AFs f]"]] show ?case
    by (simp add: Let_def others split: sum.splits)
qed

lemma fs_step: "fs_step m plan log = (log1, r) \<Longrightarrow> extends P log log1"
  using run_fs [of log m] by (cases plan) (auto simp: fs_step_def, metis fst_conv)

lemma spawn_daemon:
  assumes "spawn_daemon he m target env log = (log1, r)"
  shows "extends P log log1"
proof -
  obtain l1 a where a: "fs_step m (prepare_daemon_log_dir (m_lookup m log) (daemon_log_dir (he_temp_dir he))) log
      = (l1, a)" by fastforce
  obtain l2 b where b: "fs_step m (open_daemon_log (m_lookup m l1) (st_log_path target)) l1 = (l2, b)"
    by fastforce
  have 1: "extends P log l1" by (rule fs_step [OF a])
  have 2: "extends P log l2" by (rule extends_trans [OF 1 fs_step [OF b]])
  have 3: "extends P log (l2 @ [ASpawnDaemon (codex_binary env (he_codex_binary he)) (st_listen_url target)])"
    using 2 by (rule extends_step) (rule others)
  obtain l r' where p: "spawn_daemon_process he m target env log = (l, r')" by fastforce
  then have "extends P log l"
    using 1 2 3 by (auto simp: spawn_daemon_process_def a b split: sum.splits)
  moreover have "log1 = l"
    using assms p by (auto simp: spawn_daemon_def split: sum.splits io_error.splits)
  ultimately show ?thesis by simp
qed

lemma launch:
  assumes "launch fuel he m target env mode auth log = Some (log1, r)"
  shows "extends P log log1"
proof (cases mode)
  case Daemon
  obtain l x where s: "spawn_daemon he m target env log = (l, x)" by fastforce
  note 1 = spawn_daemon [OF s]
  show ?thesis
  proof (cases x)
    case (Inl e)
    with assms Daemon s 1 show ?thesis by (simp add: launch_def)
  next
    case (Inr u)
    with assms Daemon s obtain r' where
      "wait_for_ready fuel he m target False auth (m_now m l + STARTUP_TIMEOUT) l = Some (log1, r')"
      by (auto simp: launch_def)
    from extends_trans [OF 1 wait_for_ready [OF this]] show ?thesis .
  qed
next
  case Blocking
  obtain l x where s: "spawn_owned_process he m target env log = (l, x)" by fastforce
  have 1: "extends P log l" using s by (auto simp: spawn_owned_process_def others)
  show ?thesis
  proof (cases x)
    case (Inl e)
    with assms Blocking s 1 show ?thesis by (simp add: launch_def)
  next
    case (Inr u)
    with assms Blocking s obtain r' where
      "wait_for_ready fuel he m target True auth (m_now m l + STARTUP_TIMEOUT) l = Some (log1, r')"
      by (auto simp: launch_def)
    from extends_trans [OF 1 wait_for_ready [OF this]] show ?thesis .
  qed
qed

lemma existing:
  "existing_server_handle he m target reuse mode auth log = (log1, r) \<Longrightarrow> extends P log log1"
  using probe [of log he m "st_connect_url target" auth]
  by (auto simp: existing_server_handle_def split: prod.splits sum.splits probe_state.splits)

lemma start:
  assumes "start_ws_server_internal fuel he m target env reuse mode auth log = Some (log1, r)"
  shows "extends P log log1"
proof -
  obtain l x where x: "existing_server_handle he m target reuse mode auth log = (l, x)" by fastforce
  note 1 = existing [OF x]
  let ?l = "l @ [ALock (lock_key (st_listen target))]"
  have 2: "extends P log ?l" using 1 by (rule extends_step) (rule others)
  obtain l2 y where y: "existing_server_handle he m target reuse mode auth ?l = (l2, y)" by fastforce
  have 3: "extends P log l2" by (rule extends_trans [OF 2 existing [OF y]])
  consider "log1 = l" | "log1 = l2" | r' where "launch fuel he m target env mode auth l2 = Some (log1, r')"
    using assms x y by (auto simp: start_ws_server_internal_def split: sum.splits option.splits)
  then show ?thesis
  proof cases
    case 3
    from extends_trans [OF \<open>extends P log l2\<close> launch [OF this]] show ?thesis .
  qed (use 1 \<open>extends P log l2\<close> in simp_all)
qed

lemma ensure_local:
  "ensure_local_ws_app_server fuel he m url env auth log = Some (log1, r) \<Longrightarrow> extends P log log1"
  using start
  by (fastforce simp: ensure_local_ws_app_server_def split: sum.splits option.splits)

lemma start_and_connect:
  "start_and_connect_ws fuel he m config env log = Some (log1, r) \<Longrightarrow> extends P log log1"
  using ensure_local by (fastforce simp: start_and_connect_ws_def)

end

section \<open>Where the token goes\<close>

definition token_safe_request :: "ws_request \<Rightarrow> bool" where
  "token_safe_request r \<longleftrightarrow>
     request_authorization r = None \<or> websocket_url_allows_auth_token (request_url r)"

definition token_safe :: "action \<Rightarrow> bool" where
  "token_safe a = (case a of AConnect r \<Rightarrow> token_safe_request r | _ \<Rightarrow> True)"

lemma build_ws_request_safe: "build_ws_request h url auth = Ok r \<Longrightarrow> token_safe_request r"
  by (auto simp: build_ws_request_def token_safe_request_def and_then_Inr_iff Let_def
      split: if_splits option.splits)

lemma connect_ws_request_safe: "connect_ws_request parse h url auth = Ok r \<Longrightarrow> token_safe_request r"
  by (auto simp: connect_ws_request_def and_then_Inr_iff dest: build_ws_request_safe)

interpretation token: start_steps token_safe
  by unfold_locales (auto simp: token_safe_def dest: build_ws_request_safe)

text \<open>
  Starting and connecting, daemon included, sends a bearer token only where one may go: every
  request that is made while the server is probed, started and waited for, and the one that
  opens the connection, has no \<open>Authorization\<close> header or a URL that allows one.
\<close>

theorem start_sends_token_safely:
  assumes "start_and_connect_ws fuel he m config env [] = Some (log, r)"
  shows "list_all token_safe log \<and> (case r of Inr request \<Rightarrow> token_safe_request request | Inl e \<Rightarrow> True)"
proof
  show "list_all token_safe log"
    using token.start_and_connect [OF assms] by (simp add: extends_def)
  show "case r of Inr request \<Rightarrow> token_safe_request request | Inl e \<Rightarrow> True"
    using assms
    by (auto simp: start_and_connect_ws_def and_then_Inr_iff dest: connect_ws_request_safe
        split: sum.split)
qed

theorem start_sends_token_safely_witness:
  "\<exists>log req. start_and_connect_ws 1 plain_env good_machine
       (ws_config_with_auth_token ''t'' (ws_config_new ''ws://127.0.0.1:4222'' client_options_default))
       Map.empty [] = Some (log, Ok req) \<and>
     request_authorization req = Some ''Bearer t'' \<and> list_all token_safe log \<and> log \<noteq> []"
proof -
  let ?url = "''ws://127.0.0.1:4222''"
  let ?config = "ws_config_with_auth_token ''t'' (ws_config_new ?url client_options_default)"
  have parse: "parse_managed_ws_target (he_parse plain_env) (he_temp_dir plain_env) ?url =
    Ok (Some \<lparr>st_connect_url = ?url, st_listen_url = ?url,
      st_listen = \<lparr>target_host = Ipv4 localhost_v4, target_port = 4222\<rparr>,
      st_log_path = log_path ''/tmp'' \<lparr>target_host = Ipv4 localhost_v4, target_port = 4222\<rparr>\<rparr>)"
    using localhost_v4_loopback
    by (simp add: parse_managed_ws_target_def plain_env_def is_loopback_def normalized_def good_target_url
        Let_def)
  have allowed: "websocket_url_allows_auth_token ?url" by code_simp
  obtain log where local: "ensure_local_ws_app_server 1 plain_env good_machine ?url Map.empty (Some ''t'') [] =
      Some (log, Ok ())" "log \<noteq> []"
    by (simp add: ensure_local_ws_app_server_def parse, simp add: start_run_defs allowed)
  have "connect_ws_request (he_parse plain_env) (he_http plain_env) ?url (Some ''t'') =
      Ok \<lparr>request_url = ?url, request_authorization = Some ''Bearer t''\<rparr>"
    by (simp add: connect_ws_request_def build_ws_request_def plain_env_def lenient_http_def allowed Let_def)
  with local have run: "start_and_connect_ws 1 plain_env good_machine ?config Map.empty [] =
      Some (log, Ok \<lparr>request_url = ?url, request_authorization = Some ''Bearer t''\<rparr>)"
    by (simp add: start_and_connect_ws_def ws_config_with_auth_token_def ws_config_new_def)
  from start_sends_token_safely [OF run] run local(2) show ?thesis by auto
qed

end
