(* ===== verification/Luna_Errors.thy ===== *)
theory Luna_Errors
  imports Turn_Stream
begin

text \<open>
  The errors of the command line tool: \<open>crates/luna/src/error.rs\<close>, and the exit status
  \<open>main.rs\<close> makes of a run. A TOML error keeps its path and the text of its cause.
\<close>

datatype luna_error =
    LE_Usage string
  | LE_Dependency string
  | LE_Config string
  | LE_Authentication string
  | LE_Transport string
  | LE_Protocol string
  | LE_Turn string
  | LE_Io io_error
  | LE_Client client_error
  | LE_ThreadRun thread_run_error
  | LE_Toml string string

fun client_error_code :: "client_error \<Rightarrow> string" where
  "client_error_code (Timeout m t) = ''luna.transport''"
| "client_error_code (Config m) = ''luna.transport''"
| "client_error_code (Startup m p) = ''luna.transport''"
| "client_error_code (TransportSend m) = ''luna.transport''"
| "client_error_code TransportClosed = ''luna.transport''"
| "client_error_code (Io e) = ''luna.transport''"
| "client_error_code (InvalidMessage m) = ''luna.protocol''"
| "client_error_code (Serialization e) = ''luna.protocol''"
| "client_error_code (Rpc e) = ''luna.protocol''"
| "client_error_code (UnexpectedResult m e) = ''luna.protocol''"
| "client_error_code (NotInitialized m) = ''luna.protocol''"
| "client_error_code (NotReady m) = ''luna.protocol''"
| "client_error_code AlreadyInitialized = ''luna.protocol''"

fun luna_error_code :: "luna_error \<Rightarrow> string" where
  "luna_error_code (LE_Usage m) = ''luna.usage''"
| "luna_error_code (LE_Dependency m) = ''luna.dependency''"
| "luna_error_code (LE_Config m) = ''luna.configuration''"
| "luna_error_code (LE_Toml p m) = ''luna.configuration''"
| "luna_error_code (LE_Authentication m) = ''luna.authentication''"
| "luna_error_code (LE_Transport m) = ''luna.transport''"
| "luna_error_code (LE_Protocol m) = ''luna.protocol''"
| "luna_error_code (LE_Turn m) = ''luna.turn''"
| "luna_error_code (LE_Io e) = ''luna.io''"
| "luna_error_code (LE_Client e) = client_error_code e"
| "luna_error_code (LE_ThreadRun e) = ''luna.turn''"

fun thread_run_error_display :: "displays \<Rightarrow> thread_run_error \<Rightarrow> string" where
  "thread_run_error_display d (RunClient e) = client_error_display d e"
| "thread_run_error_display d (RunTurnFailed m) = m"

definition io_error_text :: "io_error \<Rightarrow> string" where
  "io_error_text e = (case e of IoError k m \<Rightarrow> m)"

fun luna_error_display :: "displays \<Rightarrow> luna_error \<Rightarrow> string" where
  "luna_error_display d (LE_Usage m) = m"
| "luna_error_display d (LE_Dependency m) = m"
| "luna_error_display d (LE_Config m) = m"
| "luna_error_display d (LE_Authentication m) = m"
| "luna_error_display d (LE_Transport m) = m"
| "luna_error_display d (LE_Protocol m) = m"
| "luna_error_display d (LE_Turn m) = m"
| "luna_error_display d (LE_Io (IoError k m)) = m"
| "luna_error_display d (LE_Client e) = client_error_display d e"
| "luna_error_display d (LE_ThreadRun e) = thread_run_error_display d e"
| "luna_error_display d (LE_Toml p m) = ''failed to parse TOML in '' @ p @ '': '' @ m"

definition luna_exit_code :: "luna_error \<Rightarrow> nat" where
  "luna_exit_code e =
     (let code = luna_error_code e
      in if code = ''luna.usage'' then 2
         else if code = ''luna.dependency'' then 3
         else if code = ''luna.configuration'' then 4
         else if code = ''luna.authentication'' then 5
         else if code = ''luna.transport'' then 6
         else if code = ''luna.protocol'' then 7
         else if code = ''luna.turn'' then 8
         else 1)"

text \<open>\<open>?\<close> in a handler that changes a state: a failure stops it in the state it has reached.\<close>

definition and_do :: "'s \<times> ('e + 'a) \<Rightarrow> ('s \<Rightarrow> 'a \<Rightarrow> 's \<times> ('e + 'b)) \<Rightarrow> 's \<times> ('e + 'b)" where
  "and_do r f = (case r of (s, Inl e) \<Rightarrow> (s, Inl e) | (s, Inr a) \<Rightarrow> f s a)"

lemma and_do_simps [simp]:
  "and_do (s, Inl e) f = (s, Inl e)"
  "and_do (s, Inr a) f = f s a"
  by (simp_all add: and_do_def)

text \<open>
  What \<open>main\<close> prints on standard error: clap's own message as it is, another usage error
  with its code and the help, any other error after the name of the program. \<open>style\<close> is
  \<open>output::format_error\<close> and \<open>help\<close> the text clap renders.
\<close>

definition main_stderr :: "displays \<Rightarrow> (string \<Rightarrow> string) \<Rightarrow> string \<Rightarrow> luna_error \<Rightarrow> string" where
  "main_stderr d style help e =
     (let m = luna_error_display d e; code = luna_error_code e
      in case e of
           LE_Usage _ \<Rightarrow>
             if starts_with ''error:'' m then style m
             else style (m @ '' ['' @ code @ '']'') @ [lf, lf] @ help @ [lf]
         | _ \<Rightarrow> style (''luna ['' @ code @ '']: '' @ m) @ [lf])"

text \<open>The exit status of the process: \<open>ExitCode::SUCCESS\<close> is 0, \<open>ExitCode::FAILURE\<close> is 1.\<close>

definition main_exit_status :: "luna_error + nat \<Rightarrow> nat" where
  "main_exit_status r = (case r of Inr code \<Rightarrow> code | Inl e \<Rightarrow> luna_exit_code e)"

text \<open>
  The exit status of \<open>luna\<close> tells the category of the error, and only that: a failed run never
  exits with 0, every status is at most 8, and two errors have the same status exactly when
  they have the same public code.
\<close>

theorem exit_status_is_the_category:
  "1 \<le> main_exit_status (Err e) \<and> main_exit_status (Err e) \<le> 8 \<and>
   (main_exit_status (Err e) = main_exit_status (Err e') \<longleftrightarrow> luna_error_code e = luna_error_code e')"
proof -
  have codes: "luna_error_code x \<in> {''luna.usage'', ''luna.dependency'', ''luna.configuration'',
      ''luna.authentication'', ''luna.transport'', ''luna.protocol'', ''luna.turn'', ''luna.io''}" for x
  proof (cases x)
    case (LE_Client c)
    then show ?thesis by (cases c) simp_all
  qed simp_all
  show ?thesis
    using codes [of e] codes [of e']
    by (auto simp: main_exit_status_def luna_exit_code_def Let_def)
qed

end
