(* ===== verification/Luna_Connection.thy ===== *)
theory Luna_Connection
  imports Threads Ws_Token Luna_Errors
begin

text \<open>
  How the command line tool finds and opens its connection: \<open>crates/luna/src/websocket.rs\<close>,
  \<open>environment.rs\<close> and \<open>connection.rs\<close>, on a Unix system. The process environment maps names
  to the bytes of their values, of which \<open>env::var\<close> returns the ones that are UTF-8. Files
  and the current directory are parameters.
\<close>

section \<open>The environment\<close>

type_synonym process_env = "string \<rightharpoonup> string"

definition in_range :: "nat \<Rightarrow> nat \<Rightarrow> char \<Rightarrow> bool" where
  "in_range lo hi c \<longleftrightarrow> lo \<le> of_char c \<and> of_char c \<le> hi"

text \<open>The well-formed UTF-8 sequences, by their first byte.\<close>

fun valid_utf8 :: "string \<Rightarrow> bool" where
  "valid_utf8 [] = True"
| "valid_utf8 (a # s) =
     (if in_range 0 0x7F a then valid_utf8 s
      else case s of
        [] \<Rightarrow> False
      | b # s1 \<Rightarrow>
          if in_range 0xC2 0xDF a then in_range 0x80 0xBF b \<and> valid_utf8 s1
          else case s1 of
            [] \<Rightarrow> False
          | c # s2 \<Rightarrow>
              if in_range 0xE0 0xEF a
              then in_range (if of_char a = (0xE0 :: nat) then 0xA0 else 0x80)
                  (if of_char a = (0xED :: nat) then 0x9F else 0xBF) b \<and>
                in_range 0x80 0xBF c \<and> valid_utf8 s2
              else case s2 of
                [] \<Rightarrow> False
              | d # s3 \<Rightarrow>
                  in_range 0xF0 0xF4 a \<and>
                  in_range (if of_char a = (0xF0 :: nat) then 0x90 else 0x80)
                    (if of_char a = (0xF4 :: nat) then 0x8F else 0xBF) b \<and>
                  in_range 0x80 0xBF c \<and> in_range 0x80 0xBF d \<and> valid_utf8 s3)"

definition env_var :: "process_env \<Rightarrow> string \<Rightarrow> string option" where
  "env_var env name =
     (case env name of Some v \<Rightarrow> (if valid_utf8 v then Some v else None) | None \<Rightarrow> None)"

definition non_empty :: "string option \<Rightarrow> string option" where
  "non_empty v = (case v of Some s \<Rightarrow> (if s = [] then None else Some s) | None \<Rightarrow> None)"

section \<open>The Codex binary\<close>

text \<open>\<open>Path::metadata\<close>: whether the path is a file, and its mode; the mask is 0o111.\<close>

type_synonym metadata = "string \<Rightarrow> (bool \<times> u32) option"

definition is_executable_file :: "metadata \<Rightarrow> string \<Rightarrow> bool" where
  "is_executable_file meta path =
     (case meta path of
        None \<Rightarrow> False
      | Some (is_file, mode) \<Rightarrow> if \<not> is_file then False else and mode 0x49 \<noteq> 0)"

definition is_absolute :: "string \<Rightarrow> bool" where
  "is_absolute path \<longleftrightarrow> path \<noteq> [] \<and> hd path = CHR 0x2F"

text \<open>\<open>Path::join\<close>: an absolute path replaces the directory.\<close>

definition join_path :: "string \<Rightarrow> string \<Rightarrow> string" where
  "join_path dir path = (if is_absolute path then path else path_join dir path)"

text \<open>\<open>env::split_paths\<close>: the pieces between colons.\<close>

fun split_paths :: "string \<Rightarrow> string \<Rightarrow> string list" where
  "split_paths acc [] = [rev acc]"
| "split_paths acc (c # s) =
     (if c = CHR 0x3A then rev acc # split_paths [] s else split_paths (c # acc) s)"

text \<open>The pieces of a path between its slashes.\<close>

fun split_slashes :: "string \<Rightarrow> string \<Rightarrow> string list" where
  "split_slashes acc [] = [rev acc]"
| "split_slashes acc (c # s) =
     (if c = CHR 0x2F then rev acc # split_slashes [] s else split_slashes (c # acc) s)"

text \<open>The extension of a file name: what follows its last dot, unless that is its first byte.\<close>

definition file_extension :: "string \<Rightarrow> string option" where
  "file_extension name =
     (case rsplit_once (CHR 0x2E) name of
        None \<Rightarrow> None
      | Some (before, after) \<Rightarrow> if before = [] then None else Some after)"

definition executable_extensions :: "string list" where
  "executable_extensions = [[]]"

definition resolve_executable_in ::
  "metadata \<Rightarrow> string \<Rightarrow> string list \<Rightarrow> string list \<Rightarrow> string option" where
  "resolve_executable_in meta program directories extensions =
     List.find (is_executable_file meta)
       (concat (map (\<lambda>directory. map (\<lambda>extension.
          join_path directory
            (if extension \<noteq> [] \<and> file_extension program = None then program @ extension
             else program)) extensions) directories))"

definition CODEX_BINARY_ENV :: string where
  "CODEX_BINARY_ENV = ''CODEX_BINARY''"

definition resolve_codex_binary ::
  "metadata \<Rightarrow> io_error + string \<Rightarrow> process_env \<Rightarrow> luna_error + string" where
  "resolve_codex_binary meta current_dir env =
     (case non_empty (env CODEX_BINARY_ENV) of
        Some explicit \<Rightarrow>
          (let path =
             (if is_absolute explicit then explicit
              else case current_dir of
                Inr directory \<Rightarrow> join_path directory explicit
              | Inl _ \<Rightarrow> explicit)
           in if is_executable_file meta path then Ok path
              else Err (LE_Dependency (CODEX_BINARY_ENV @
                '' does not point to an executable file; install Codex or correct '' @
                CODEX_BINARY_ENV @ '', then run `luna doctor --summary`'')))
      | None \<Rightarrow>
          (case env ''PATH'' of
             None \<Rightarrow> Err (LE_Dependency
               ''PATH is not set; install Codex and make its binary available on PATH, then run `luna doctor --summary`'')
           | Some path \<Rightarrow>
               (case resolve_executable_in meta ''codex'' (split_paths [] path) executable_extensions of
                  Some p \<Rightarrow> Ok p
                | None \<Rightarrow> Err (LE_Dependency
                    ''could not locate `codex` on PATH; install Codex, then run `luna doctor --summary`''))))"

section \<open>The websocket URL and token\<close>

definition DEFAULT_WS_URL :: string where
  "DEFAULT_WS_URL = ''ws://127.0.0.1:4222''"

definition CODEX_APP_SERVER_WS_URL_ENV :: string where
  "CODEX_APP_SERVER_WS_URL_ENV = ''CODEX_APP_SERVER_WS_URL''"

definition CODEX_WEB_SERVER_URL_ENV :: string where
  "CODEX_WEB_SERVER_URL_ENV = ''CODEX_WEB_SERVER_URL''"

datatype websocket_url_source = UrlFlag | UrlEnvironment | UrlLegacyEnvironment | UrlDefault

record resolved_websocket_url =
  resolved_url :: string
  resolved_source :: websocket_url_source

definition manage_daemon :: "resolved_websocket_url \<Rightarrow> bool" where
  "manage_daemon r \<longleftrightarrow> resolved_source r = UrlDefault"

definition default_websocket_url :: resolved_websocket_url where
  "default_websocket_url = \<lparr>resolved_url = DEFAULT_WS_URL, resolved_source = UrlDefault\<rparr>"

definition empty_value :: "string \<Rightarrow> luna_error" where
  "empty_value source = LE_Usage (''value for '' @ source @ '' cannot be empty'')"

definition normalize_websocket_url :: "string \<Rightarrow> string \<Rightarrow> luna_error + string" where
  "normalize_websocket_url raw source =
     (let value = trim raw in if value = [] then Err (empty_value source) else Ok value)"

definition resolved ::
  "string \<Rightarrow> string \<Rightarrow> websocket_url_source \<Rightarrow> luna_error + resolved_websocket_url" where
  "resolved raw source_name source =
     and_then (normalize_websocket_url raw source_name)
       (\<lambda>url. Ok \<lparr>resolved_url = url, resolved_source = source\<rparr>)"

definition resolve_websocket_url ::
  "string option \<Rightarrow> string option \<Rightarrow> string option \<Rightarrow> luna_error + resolved_websocket_url" where
  "resolve_websocket_url explicit env_url legacy_env_url =
     (case explicit of
        Some url \<Rightarrow> resolved url ''--ws-url'' UrlFlag
      | None \<Rightarrow>
          (case env_url of
             Some url \<Rightarrow> resolved url CODEX_APP_SERVER_WS_URL_ENV UrlEnvironment
           | None \<Rightarrow>
               (case legacy_env_url of
                  Some url \<Rightarrow> resolved url CODEX_WEB_SERVER_URL_ENV UrlLegacyEnvironment
                | None \<Rightarrow> Ok default_websocket_url)))"

text \<open>\<open>fs::read_to_string\<close> and the text of its errors.\<close>

type_synonym read_file = "string \<Rightarrow> string + string"

definition resolve_ws_auth_token ::
  "read_file \<Rightarrow> string option \<Rightarrow> string option \<Rightarrow> luna_error + string option" where
  "resolve_ws_auth_token read token token_file =
     (case (token, token_file) of
        (Some _, Some _) \<Rightarrow>
          Err (LE_Usage ''--ws-auth-token and --ws-auth-token-file cannot be combined'')
      | (Some token, None) \<Rightarrow>
          (let trimmed = trim token
           in if trimmed = [] then Err (empty_value ''--ws-auth-token'') else Ok (Some trimmed))
      | (None, Some path) \<Rightarrow>
          (case read path of
             Inl err \<Rightarrow> Err (LE_Usage
               (''failed to read --ws-auth-token-file `'' @ path @ ''`: '' @ err))
           | Inr contents \<Rightarrow>
               (let trimmed = trim contents
                in if trimmed = [] then Err (empty_value ''--ws-auth-token-file'')
                   else Ok (Some trimmed)))
      | (None, None) \<Rightarrow> Ok None)"

definition ensure_ws_auth_allowed :: "string \<Rightarrow> luna_error + unit" where
  "ensure_ws_auth_allowed url =
     (if websocket_url_allows_auth_token url then Ok ()
      else Err (LE_Usage ''websocket auth tokens require `wss://` or a loopback `ws://` URL''))"

section \<open>Connecting\<close>

definition FORWARDED_ENV_VARS :: "string list" where
  "FORWARDED_ENV_VARS =
     [''OPENAI_API_KEY'', ''CODEX_API_KEY'', ''CODEX_ID_TOKEN'', ''CODEX_ACCESS_TOKEN'']"

definition daemon_env :: "process_env \<Rightarrow> (string \<rightharpoonup> string)" where
  "daemon_env env =
     map_of (List.map_filter (\<lambda>name. map_option (Pair name) (env_var env name)) FORWARDED_ENV_VARS)"

definition luna_ws_config :: "string \<Rightarrow> string option \<Rightarrow> ws_config" where
  "luna_ws_config url token = (ws_config_new url client_options_default)\<lparr>ws_auth_token := token\<rparr>"

text \<open>
  Connecting up to the upgrade request, with the log of what a start of the daemon does;
  \<open>None\<close> is a start that has not returned within its fuel.
\<close>

definition connect_ws_codex ::
  "nat \<Rightarrow> host_env \<Rightarrow> machine \<Rightarrow> process_env \<Rightarrow> string \<Rightarrow> bool \<Rightarrow> string option \<Rightarrow> action list
    \<Rightarrow> (action list \<times> (luna_error + ws_request)) option" where
  "connect_ws_codex fuel he m env url manage token log =
     (case (if token \<noteq> None then ensure_ws_auth_allowed url else Ok ()) of
        Inl e \<Rightarrow> Some (log, Err e)
      | Inr _ \<Rightarrow>
          if manage
          then map_option (\<lambda>(log1, r). (log1, map_err LE_Client r))
            (start_and_connect_ws fuel he m (luna_ws_config url token) (daemon_env env) log)
          else Some (log, map_err LE_Client
            (connect_ws_request (he_parse he) (he_http he) url token)))"

definition luna_start_ws_server ::
  "nat \<Rightarrow> host_env \<Rightarrow> machine \<Rightarrow> process_env \<Rightarrow> string \<Rightarrow> string option \<Rightarrow> action list
    \<Rightarrow> (action list \<times> (luna_error + ws_request)) option" where
  "luna_start_ws_server fuel he m env url token log =
     (case (if token \<noteq> None then ensure_ws_auth_allowed url else Ok ()) of
        Inl e \<Rightarrow> Some (log, Err e)
      | Inr _ \<Rightarrow>
          map_option (\<lambda>(log1, r). (log1, map_err LE_Client r))
            (start_and_connect_ws fuel he m (luna_ws_config url token) (daemon_env env) log))"

text \<open>The configuration of the child for stdio; \<open>lossy\<close> is \<open>to_string_lossy\<close>.\<close>

definition spawn_stdio_codex_config ::
  "(string \<Rightarrow> string) \<Rightarrow> metadata \<Rightarrow> io_error + string \<Rightarrow> process_env \<Rightarrow> luna_error + stdio_config" where
  "spawn_stdio_codex_config lossy meta current_dir env =
     and_then (resolve_codex_binary meta current_dir env)
       (\<lambda>path. Ok (stdio_config_default\<lparr>stdio_codex_binary := lossy path\<rparr>))"

section \<open>Authentication\<close>

definition account_is_authenticated :: "jmap \<Rightarrow> bool" where
  "account_is_authenticated account \<longleftrightarrow>
     jget account ''isLoggedIn'' = Some (JBool True) \<or>
     (\<exists>v \<in> set_option (jget account ''account''). v \<noteq> JNull) \<or>
     jget account ''requiresOpenaiAuth'' = Some (JBool False)"

definition not_authenticated :: luna_error where
  "not_authenticated = LE_Authentication
     ''Codex is not authenticated; run `codex login`, then rerun `luna doctor --live`''"

definition get_account_params_default :: get_account_params where
  "get_account_params_default = \<lparr>get_account_refresh_token = None, get_account_extra = []\<rparr>"

definition login_start ::
  "codex \<Rightarrow> login_account_params \<Rightarrow> inner \<Rightarrow> inner \<times> (luna_error + unit)" where
  "login_start c params s =
     (case codex_typed_forward c login_account_params_enc opaque_struct_dec ''account/login/start'' params s of
        (s1, r) \<Rightarrow> (s1, map_err LE_Client (map_ok (\<lambda>_. ()) r)))"

definition ensure_authenticated :: "codex \<Rightarrow> process_env \<Rightarrow> inner \<Rightarrow> inner \<times> (luna_error + unit)" where
  "ensure_authenticated c env s =
     (case codex_typed_forward c get_account_params_enc opaque_struct_dec ''account/read''
         get_account_params_default s of
        (s1, Inl e) \<Rightarrow> (s1, Err (LE_Client e))
      | (s1, Inr account) \<Rightarrow>
          if account_is_authenticated (opaque_extra account) then (s1, Ok ())
          else
            (case (env_var env ''CODEX_ID_TOKEN'', env_var env ''CODEX_ACCESS_TOKEN'') of
               (Some id_token, Some access_token) \<Rightarrow>
                 login_start c (login_account_chatgpt_params id_token access_token) s1
             | _ \<Rightarrow>
                 (case env_var env ''OPENAI_API_KEY'' of
                    Some api_key \<Rightarrow> login_start c (login_account_api_key_params api_key) s1
                  | None \<Rightarrow> (s1, Err not_authenticated))))"

section \<open>Which binary\<close>

lemma find_map_split:
  "List.find P (map f ds) = Some p \<longleftrightarrow>
     (\<exists>pre d post. ds = pre @ d # post \<and> p = f d \<and> P p \<and> list_all (\<lambda>d. \<not> P (f d)) pre)"
  (is "?found ds \<longleftrightarrow> ?split ds")
proof
  show "?found ds \<Longrightarrow> ?split ds"
  proof (induction ds)
    case (Cons a ds)
    show ?case
    proof (cases "P (f a)")
      case True
      with Cons.prems have "a # ds = [] @ a # ds \<and> p = f a \<and> P p \<and>
          list_all (\<lambda>d. \<not> P (f d)) []" by simp
      then show ?thesis by blast
    next
      case False
      with Cons obtain pre d post where "ds = pre @ d # post" "p = f d" "P p"
        "list_all (\<lambda>d. \<not> P (f d)) pre"
        by auto
      with False have "a # ds = (a # pre) @ d # post \<and> p = f d \<and> P p \<and>
          list_all (\<lambda>d. \<not> P (f d)) (a # pre)" by simp
      then show ?thesis by blast
    qed
  qed simp
next
  have "list_all (\<lambda>d. \<not> P (f d)) pre \<Longrightarrow> P (f d) \<Longrightarrow>
      List.find P (map f (pre @ d # post)) = Some (f d)" for pre d post
    by (induction pre) auto
  then show "?split ds \<Longrightarrow> ?found ds" by blast
qed

definition absolute_path :: "io_error + string \<Rightarrow> string \<Rightarrow> string" where
  "absolute_path current_dir path =
     (case current_dir of Inr directory \<Rightarrow> join_path directory path | Inl _ \<Rightarrow> path)"

text \<open>
  The binary that is run is executable, is the one \<open>CODEX_BINARY\<close> names when that is set and not
  empty, whatever \<open>PATH\<close> holds, and otherwise the first on \<open>PATH\<close>; and it is found whenever
  there is such a one.
\<close>

theorem codex_binary_resolution:
  "resolve_codex_binary meta current_dir env = Ok p \<longleftrightarrow>
     is_executable_file meta p \<and>
     (case non_empty (env CODEX_BINARY_ENV) of
        Some explicit \<Rightarrow> p = absolute_path current_dir explicit
      | None \<Rightarrow>
          (\<exists>path pre d post. env ''PATH'' = Some path \<and> split_paths [] path = pre @ d # post \<and>
             p = join_path d ''codex'' \<and>
             list_all (\<lambda>d. \<not> is_executable_file meta (join_path d ''codex'')) pre))"
proof (cases "non_empty (env CODEX_BINARY_ENV)")
  case None
  show ?thesis
  proof (cases "env ''PATH''")
    case no_path: None
    with None show ?thesis by (simp add: resolve_codex_binary_def)
  next
    case (Some path)
    have "resolve_codex_binary meta current_dir env = Ok p \<longleftrightarrow>
        List.find (is_executable_file meta)
          (map (\<lambda>d. join_path d ''codex'') (split_paths [] path)) = Some p"
      using None Some
      by (simp add: resolve_codex_binary_def resolve_executable_in_def executable_extensions_def
          split: option.split)
    also have "\<dots> \<longleftrightarrow> (\<exists>pre d post. split_paths [] path = pre @ d # post \<and> p = join_path d ''codex'' \<and>
        is_executable_file meta p \<and>
        list_all (\<lambda>d. \<not> is_executable_file meta (join_path d ''codex'')) pre)"
      by (rule find_map_split)
    finally show ?thesis using None Some by auto
  qed
next
  case (Some explicit)
  have "is_absolute explicit \<Longrightarrow> absolute_path current_dir explicit = explicit"
    by (cases current_dir) (simp_all add: absolute_path_def join_path_def)
  then show ?thesis
    using Some
    by (cases current_dir)
      (auto simp: resolve_codex_binary_def absolute_path_def Let_def)
qed

section \<open>Signing in\<close>

text \<open>The login the environment allows, the ChatGPT tokens before the API key.\<close>

definition login_choice :: "process_env \<Rightarrow> login_account_params option" where
  "login_choice env =
     (case (env_var env ''CODEX_ID_TOKEN'', env_var env ''CODEX_ACCESS_TOKEN'') of
        (Some i, Some a) \<Rightarrow> Some (login_account_chatgpt_params i a)
      | _ \<Rightarrow> map_option login_account_api_key_params (env_var env ''OPENAI_API_KEY''))"

lemma served_typed:
  assumes "usable srv s"
  shows "\<exists>t. served.typed d srv dec m p s =
      (t, and_then (map_err Rpc (srv m p)) (\<lambda>raw. map_err (UnexpectedResult m) (dec raw))) \<and>
    usable srv t \<and> sent_calls t = sent_calls s @ [(m, p)]"
proof -
  obtain t r where c: "request_value_internal d (server_env d srv) m p None True s = (t, r)"
    by fastforce
  with served.call_answer [OF assms, of d m p] served.call_usable [OF assms, of d m p]
    served.call_sent [OF assms, of d m p]
  show ?thesis by (simp add: served.typed_def)
qed

lemma served_forward:
  assumes "usable srv s"
  shows "\<exists>t. codex_typed_forward (served_codex d srv params) enc dec m x s =
      (t, and_then (map_err Rpc (srv m (enc x))) (\<lambda>raw. map_err (UnexpectedResult m) (dec raw))) \<and>
    usable srv t \<and> sent_calls t = sent_calls s @ [(m, enc x)]"
proof -
  have "ensure_initialized (served_codex d srv params) s = (s, Ok ())"
    using assms by (simp add: ensure_initialized_def served_codex_def served_ready)
  then have "codex_typed_forward (served_codex d srv params) enc dec m x s =
      served.typed d srv dec m (enc x) s"
    by (simp add: codex_typed_forward_def served_client_call)
  then show ?thesis using served_typed [OF assms, of d dec m "enc x"] by simp
qed

text \<open>What the server makes of a login.\<close>

definition login_answer :: "rpc_server \<Rightarrow> login_account_params \<Rightarrow> luna_error + unit" where
  "login_answer srv q =
     map_err LE_Client (map_ok (\<lambda>_. ())
       (and_then (map_err Rpc (srv ''account/login/start'' (login_account_params_enc q)))
         (\<lambda>raw. map_err (UnexpectedResult ''account/login/start'') (opaque_struct_dec raw))))"

lemma served_login:
  assumes "usable srv s"
  shows "\<exists>t. login_start (served_codex d srv params) q s = (t, login_answer srv q) \<and>
    sent_calls t = sent_calls s @ [(''account/login/start'', login_account_params_enc q)]"
  using served_forward [OF assms, of d params login_account_params_enc opaque_struct_dec
      "''account/login/start''" q]
  by (auto simp: login_start_def login_answer_def)

lemma ensure_authenticated_cases:
  assumes "codex_typed_forward c get_account_params_enc opaque_struct_dec ''account/read''
      get_account_params_default s = (t, Ok account)"
  shows "ensure_authenticated c env s =
    (if account_is_authenticated (opaque_extra account) then (t, Ok ())
     else case login_choice env of
       None \<Rightarrow> (t, Err not_authenticated)
     | Some q \<Rightarrow> login_start c q t)"
  using assms by (simp add: ensure_authenticated_def login_choice_def split: option.split)

text \<open>
  Authentication on a ready connection: the account is asked for first, and only when the
  server says it is not signed in is one login sent, with the ChatGPT tokens when both are
  set and otherwise with the API key; without either the failure is an authentication
  error. The answer of the server to the login is the answer.
\<close>

theorem authentication_cascade:
  assumes "usable srv s" "srv ''account/read'' (get_account_params_enc get_account_params_default) = Ok raw"
    "opaque_struct_dec raw = Ok account"
  shows "\<exists>t. let login = (if account_is_authenticated (opaque_extra account) then None else login_choice env)
    in ensure_authenticated (served_codex d srv params) env s =
        (t, if account_is_authenticated (opaque_extra account) then Ok ()
            else case login of None \<Rightarrow> Err not_authenticated | Some q \<Rightarrow> login_answer srv q) \<and>
       sent_calls t = sent_calls s @
         (''account/read'', get_account_params_enc get_account_params_default) #
         (case login of None \<Rightarrow> []
          | Some q \<Rightarrow> [(''account/login/start'', login_account_params_enc q)])"
proof -
  obtain t where t: "codex_typed_forward (served_codex d srv params) get_account_params_enc
      opaque_struct_dec ''account/read'' get_account_params_default s = (t, Ok account)"
    "usable srv t"
    "sent_calls t = sent_calls s @ [(''account/read'', get_account_params_enc get_account_params_default)]"
    using served_forward [OF assms(1), of d params get_account_params_enc opaque_struct_dec
        "''account/read''" get_account_params_default] assms(2,3)
    by auto
  show ?thesis
  proof (cases "if account_is_authenticated (opaque_extra account) then None else login_choice env")
    case None
    with ensure_authenticated_cases [OF t(1), of env] t show ?thesis
      by (auto simp: Let_def split: if_splits)
  next
    case (Some q)
    obtain u where "login_start (served_codex d srv params) q t = (u, login_answer srv q)"
      "sent_calls u = sent_calls t @ [(''account/login/start'', login_account_params_enc q)]"
      using served_login [OF t(2)] by blast
    with Some ensure_authenticated_cases [OF t(1), of env] t show ?thesis
      by (auto simp: Let_def split: if_splits)
  qed
qed

definition signed_out_server :: rpc_server where
  "signed_out_server m p = Ok (JObject [])"

theorem authentication_cascade_witness:
  "\<exists>t. ensure_authenticated (served_codex plain_displays signed_out_server (default_initialize_params ''1''))
       [''OPENAI_API_KEY'' \<mapsto> ''k''] ready_client = (t, Ok ()) \<and>
     map fst (sent_calls t) = map fst (sent_calls ready_client) @ [''account/read'', ''account/login/start'']"
proof -
  let ?account = "\<lparr>opaque_extra = []\<rparr> :: opaque_struct"
  have usable: "usable signed_out_server ready_client"
    by (simp add: usable_def sane_server_def signed_out_server_def ready_client_inv)
  have dec: "opaque_struct_dec (JObject []) = Ok ?account"
    by (simp add: opaque_struct_dec_def of_object_def get_extra_def)
  have "\<not> account_is_authenticated (opaque_extra ?account)"
    by (simp add: account_is_authenticated_def)
  moreover have "login_choice [''OPENAI_API_KEY'' \<mapsto> ''k''] = Some (login_account_api_key_params ''k'')"
    by (simp add: login_choice_def env_var_def in_range_def)
  ultimately show ?thesis
    using authentication_cascade [OF usable, of "JObject []" ?account "[''OPENAI_API_KEY'' \<mapsto> ''k'']"
        plain_displays "default_initialize_params ''1''"] dec
    by (auto simp: signed_out_server_def login_answer_def Let_def)
qed

end
