(* ===== verification/Luna_Config.thy ===== *)
theory Luna_Config
  imports Luna_Connection
begin

text \<open>
  The configuration of the command line tool: \<open>crates/luna/src/config.rs\<close>. Several sources may
  set the same key of the thread configuration; the property is that none of them silently
  replaces another. Parsing of JSON and TOML text is a parameter, and so is reading a file.
\<close>

section \<open>JSON values on the command line\<close>

text \<open>Equality of \<open>serde_json\<close> values: as for the data, except that the two float zeros are equal.\<close>

fun number_eq :: "json_number \<Rightarrow> json_number \<Rightarrow> bool" where
  "number_eq (PosInt a) (PosInt b) = (a = b)"
| "number_eq (NegInt a) (NegInt b) = (a = b)"
| "number_eq (Float a) (Float b) = (a = b \<or> (2 * a = 0 \<and> 2 * b = 0))"
| "number_eq _ _ = False"

fun json_eq :: "json \<Rightarrow> json \<Rightarrow> bool"
  and json_list_eq :: "json list \<Rightarrow> json list \<Rightarrow> bool"
  and json_map_eq :: "(string \<times> json) list \<Rightarrow> (string \<times> json) list \<Rightarrow> bool" where
  "json_eq JNull JNull = True"
| "json_eq (JBool a) (JBool b) = (a = b)"
| "json_eq (JNumber a) (JNumber b) = number_eq a b"
| "json_eq (JString a) (JString b) = (a = b)"
| "json_eq (JArray a) (JArray b) = json_list_eq a b"
| "json_eq (JObject a) (JObject b) = json_map_eq a b"
| "json_eq _ _ = False"
| "json_list_eq [] [] = True"
| "json_list_eq (a # as) (b # bs) = (json_eq a b \<and> json_list_eq as bs)"
| "json_list_eq _ _ = False"
| "json_map_eq [] [] = True"
| "json_map_eq ((k, a) # as) ((l, b) # bs) = (k = l \<and> json_eq a b \<and> json_map_eq as bs)"
| "json_map_eq _ _ = False"

type_synonym json_parser = "string \<Rightarrow> string + json"

definition parse_json_value :: "json_parser \<Rightarrow> string \<Rightarrow> string \<Rightarrow> luna_error + json" where
  "parse_json_value parse raw flag =
     map_err (\<lambda>err. LE_Usage (''failed to parse JSON for '' @ flag @ '': '' @ err)) (parse raw)"

text \<open>\<open>Option::map\<close> followed by \<open>transpose\<close>.\<close>

definition map_transpose :: "('a \<Rightarrow> 'e + 'b) \<Rightarrow> 'a option \<Rightarrow> 'e + 'b option" where
  "map_transpose f v = (case v of None \<Rightarrow> Ok None | Some x \<Rightarrow> map_ok Some (f x))"

definition parse_optional_json_value ::
  "json_parser \<Rightarrow> string option \<Rightarrow> string \<Rightarrow> luna_error + json option" where
  "parse_optional_json_value parse raw flag = map_transpose (\<lambda>v. parse_json_value parse v flag) raw"

definition parse_optional_json_object ::
  "json_parser \<Rightarrow> string option \<Rightarrow> string \<Rightarrow> luna_error + jmap option" where
  "parse_optional_json_object parse raw flag =
     (case raw of
        None \<Rightarrow> Ok None
      | Some raw \<Rightarrow>
          and_then (parse_json_value parse raw flag) (\<lambda>value.
            case value of
              JObject m \<Rightarrow> Ok (Some m)
            | _ \<Rightarrow> Err (LE_Usage (flag @ '' must be a JSON object''))))"

text \<open>\<open>CliDynamicToolSpec\<close>, whose derived reader takes an object or an array of the three fields.\<close>

fun cli_dynamic_tool_spec_dec :: "json \<Rightarrow> serde_error + dynamic_tool_spec" where
  "cli_dynamic_tool_spec_dec (JObject m) =
     and_then (get_req dec_string ''name'' m) (\<lambda>name.
     and_then (get_req dec_string ''description'' m) (\<lambda>description.
     and_then (get_req Ok ''inputSchema'' m) (\<lambda>schema.
       Ok \<lparr>tool_spec_name = name, tool_spec_description = description,
           tool_spec_input_schema = schema\<rparr>)))"
| "cli_dynamic_tool_spec_dec (JArray [JString name, JString description, schema]) =
     Ok \<lparr>tool_spec_name = name, tool_spec_description = description,
         tool_spec_input_schema = schema\<rparr>"
| "cli_dynamic_tool_spec_dec _ = Err SerdeError"

fun collect_tools :: "displays \<Rightarrow> nat \<Rightarrow> json list \<Rightarrow> luna_error + dynamic_tool_spec list" where
  "collect_tools d index [] = Ok []"
| "collect_tools d index (item # items) =
     and_then (map_err (\<lambda>err. LE_Usage (''invalid --dynamic-tools-json entry at index '' @
         show_nat index @ '': '' @ display_serde d err)) (cli_dynamic_tool_spec_dec item)) (\<lambda>tool.
     and_then (collect_tools d (Suc index) items) (\<lambda>tools. Ok (tool # tools)))"

definition parse_optional_dynamic_tools ::
  "json_parser \<Rightarrow> displays \<Rightarrow> string option \<Rightarrow> luna_error + dynamic_tool_spec list option" where
  "parse_optional_dynamic_tools parse d raw =
     (case raw of
        None \<Rightarrow> Ok None
      | Some raw \<Rightarrow>
          and_then (parse_json_value parse raw ''--dynamic-tools-json'') (\<lambda>parsed.
            case parsed of
              JArray items \<Rightarrow> map_ok Some (collect_tools d 0 items)
            | _ \<Rightarrow> Err (LE_Usage ''--dynamic-tools-json must be a JSON array'')))"

section \<open>The thread configuration\<close>

text \<open>\<open>str::split_once\<close> at a one-byte character.\<close>

fun split_once :: "char \<Rightarrow> string \<Rightarrow> (string \<times> string) option" where
  "split_once c [] = None"
| "split_once c (x # s) =
     (if x = c then Some ([], s) else map_option (\<lambda>(a, b). (x # a, b)) (split_once c s))"

definition insert_thread_config ::
  "string \<Rightarrow> json \<Rightarrow> string \<Rightarrow> jmap \<Rightarrow> luna_error + jmap" where
  "insert_thread_config key v source config =
     (case jget config key of
        Some existing \<Rightarrow>
          if json_eq existing v then Ok config
          else Err (LE_Usage (''conflicting configuration sources for '' @ [CHR 0x27] @ key @ [CHR 0x27] @
            ''; '' @ source @ '' would replace an existing value''))
      | None \<Rightarrow> Ok (jinsert key v config))"

text \<open>An entry of \<open>--config\<close>: \<open>KEY=VALUE\<close>, where a value that is not JSON is a string.\<close>

definition parse_config_entry :: "json_parser \<Rightarrow> string \<Rightarrow> luna_error + (string \<times> json)" where
  "parse_config_entry parse entry =
     (case split_once (CHR 0x3D) entry of
        None \<Rightarrow> Err (LE_Usage ''invalid --config entry; expected KEY=VALUE'')
      | Some (raw_key, raw_value) \<Rightarrow>
          (let key = trim raw_key; v = trim raw_value
           in if key = [] then Err (LE_Usage ''invalid --config entry; key cannot be empty'')
              else if v = [] then
                Err (LE_Usage (''invalid --config entry for key '' @ [CHR 0x27] @ key @ [CHR 0x27] @
                  ''; value cannot be empty''))
              else Ok (key, case parse v of Inr j \<Rightarrow> j | Inl _ \<Rightarrow> JString v)))"

fun insert_entries :: "json_parser \<Rightarrow> string list \<Rightarrow> jmap \<Rightarrow> luna_error + jmap" where
  "insert_entries parse [] config = Ok config"
| "insert_entries parse (entry # entries) config =
     and_then (parse_config_entry parse entry) (\<lambda>(key, v).
     and_then (insert_thread_config key v ''--config'' config) (insert_entries parse entries))"

text \<open>The flags that set a key of their own.\<close>

definition insert_optional ::
  "string \<Rightarrow> json option \<Rightarrow> string \<Rightarrow> jmap \<Rightarrow> luna_error + jmap" where
  "insert_optional key v source config =
     (case v of Some x \<Rightarrow> insert_thread_config key x source config | None \<Rightarrow> Ok config)"

record config_flags =
  cf_web_search_mode :: "web_search_mode option"
  cf_config_profile :: "string option"
  cf_model_verbosity :: "model_verbosity option"
  cf_network_access :: "bool option"
  cf_writable_roots :: "string list"

definition flag_rows :: "config_flags \<Rightarrow> (string \<times> json option \<times> string) list" where
  "flag_rows f =
     [(''web_search'', map_option (\<lambda>m. JString (web_search_mode_as_str m)) (cf_web_search_mode f),
       ''--web-search-mode''),
      (''profile'', map_option JString (cf_config_profile f), ''--config-profile''),
      (''model_verbosity'', map_option (\<lambda>m. JString (model_verbosity_as_str m)) (cf_model_verbosity f),
       ''--model-verbosity''),
      (''sandbox_workspace_write.network_access'', map_option JBool (cf_network_access f),
       ''--sandbox-network-access-enabled/--sandbox-network-access-disabled''),
      (''sandbox_workspace_write.writable_roots'',
       if cf_writable_roots f \<noteq> [] then Some (JArray (map JString (cf_writable_roots f))) else None,
       ''--sandbox-writable-root'')]"

fun insert_flags :: "(string \<times> json option \<times> string) list \<Rightarrow> jmap \<Rightarrow> luna_error + jmap" where
  "insert_flags [] config = Ok config"
| "insert_flags ((key, v, source) # rows) config =
     and_then (insert_optional key v source config) (insert_flags rows)"

definition build_thread_config ::
  "json_parser \<Rightarrow> string option \<Rightarrow> string list \<Rightarrow> config_flags \<Rightarrow> luna_error + jmap option" where
  "build_thread_config parse config_json entries flags =
     and_then (parse_optional_json_object parse config_json ''--config-json'') (\<lambda>base.
     and_then (insert_entries parse entries (unwrap_or base [])) (\<lambda>config.
     and_then (insert_flags (flag_rows flags) config) (\<lambda>config.
       Ok (if config = [] then None else Some config))))"

section \<open>Output schema\<close>

definition resolve_output_schema ::
  "json_parser \<Rightarrow> read_file \<Rightarrow> string option \<Rightarrow> string option \<Rightarrow> luna_error + json option" where
  "resolve_output_schema parse read schema_json schema_file =
     (case schema_json of
        Some raw \<Rightarrow> map_ok Some (parse_json_value parse raw ''--output-schema-json'')
      | None \<Rightarrow>
          (case schema_file of
             None \<Rightarrow> Ok None
           | Some path \<Rightarrow>
               (let path = trim path
                in if path = [] then Err (empty_value ''--output-schema-file'')
                   else
                     and_then (map_err (\<lambda>err. LE_Config
                         (''failed to read output schema file '' @ path @ '': '' @ err)) (read path)) (\<lambda>raw.
                     map_ok Some (map_err (\<lambda>err. LE_Usage
                         (''failed to parse JSON in output schema file '' @ path @ '': '' @ err))
                       (parse raw))))))"

section \<open>Agents\<close>

definition strip_suffix :: "string \<Rightarrow> string \<Rightarrow> string option" where
  "strip_suffix suffix s = map_option rev (strip_prefix (rev suffix) (rev s))"

definition without_suffix :: "string \<Rightarrow> string \<Rightarrow> string" where
  "without_suffix suffix s = unwrap_or (strip_suffix suffix s) s"

definition agent_name_char :: "char \<Rightarrow> bool" where
  "agent_name_char c \<longleftrightarrow> is_ascii_alphanumeric c \<or> c \<in> {CHR ''-'', CHR ''_'', CHR ''.''}"

definition normalize_agent_name :: "string \<Rightarrow> luna_error + string" where
  "normalize_agent_name raw =
     (let candidate = without_suffix ''.md'' (without_suffix ''.toml'' (trim raw))
      in if candidate = [] then Err (LE_Usage ''agent name cannot be empty'')
         else if candidate = ''.'' \<or> candidate = ''..'' then
           Err (LE_Usage (''agent name cannot be '' @ [CHR 0x27] @ ''.'' @ [CHR 0x27] @ '' or '' @
             [CHR 0x27] @ ''..'' @ [CHR 0x27]))
         else if CHR 0x2F \<in> set candidate \<or> CHR 0x5C \<in> set candidate then
           Err (LE_Usage ''agent name cannot include path separators'')
         else if \<not> list_all agent_name_char candidate then
           Err (LE_Usage ''agent name may only contain [A-Za-z0-9._-]'')
         else Ok candidate)"

definition resolve_home_dir :: "process_env \<Rightarrow> string option" where
  "resolve_home_dir env =
     (case non_empty (env ''HOME'') of
        Some home \<Rightarrow> Some home
      | None \<Rightarrow>
          (case non_empty (env ''USERPROFILE'') of
             Some userprofile \<Rightarrow> Some userprofile
           | None \<Rightarrow>
               (case (non_empty (env ''HOMEDRIVE''), non_empty (env ''HOMEPATH'')) of
                  (Some drive, Some path) \<Rightarrow> Some (join_path drive path)
                | _ \<Rightarrow> None)))"

definition resolve_codex_home_dir :: "process_env \<Rightarrow> string option" where
  "resolve_codex_home_dir env =
     (case non_empty (env ''CODEX_HOME'') of
        Some codex_home \<Rightarrow> Some codex_home
      | None \<Rightarrow> map_option (\<lambda>home. join_path home ''.codex'') (resolve_home_dir env))"

record agent_role_config =
  role_description :: "string option"
  role_config_file :: "string option"

record agent_config_layer =
  layer_developer_instructions :: "string option"
  layer_model_instructions_file :: "string option"

text \<open>
  What the TOML library makes of texts: the table of agents in \<open>config.toml\<close>, an agent's entry
  as a role, and a role's configuration layer; failures with their text.
\<close>

record 'v toml =
  toml_agents :: "string \<Rightarrow> string + (string \<rightharpoonup> 'v)"
  toml_role :: "'v \<Rightarrow> string + agent_role_config"
  toml_layer :: "string \<Rightarrow> string + agent_config_layer"

definition trimmed_non_empty :: "string option \<Rightarrow> string option" where
  "trimmed_non_empty v = non_empty (map_option trim v)"

text \<open>\<open>Path::parent\<close> of a path whose last component is a plain name; the slashes before it go.\<close>

definition path_parent :: "string \<Rightarrow> string option" where
  "path_parent path =
     (if path = [] \<or> path = ''/'' then None
      else case rsplit_once (CHR 0x2F) path of
        None \<Rightarrow> Some []
      | Some (dir, name) \<Rightarrow>
          (let parent = rev (dropWhile (\<lambda>c. c = CHR 0x2F) (rev dir))
           in Some (if parent = [] then ''/'' else parent)))"

definition resolve_path_from_file :: "string \<Rightarrow> string \<Rightarrow> string" where
  "resolve_path_from_file file_path raw_path =
     (if is_absolute raw_path then raw_path
      else join_path (unwrap_or (path_parent file_path) ''.'') raw_path)"

definition quoted :: "string \<Rightarrow> string" where
  "quoted s = [CHR 0x27] @ s @ [CHR 0x27]"

definition resolve_agent_instructions ::
  "read_file \<Rightarrow> string \<Rightarrow> agent_role_config \<Rightarrow> agent_config_layer \<Rightarrow> string \<Rightarrow> luna_error + string" where
  "resolve_agent_instructions read agent_name role layer layer_path =
     (case trimmed_non_empty (layer_developer_instructions layer) of
        Some instructions \<Rightarrow> Ok instructions
      | None \<Rightarrow>
          (case trimmed_non_empty (layer_model_instructions_file layer) of
             Some file \<Rightarrow>
               (let path = resolve_path_from_file layer_path file
                in and_then (map_err (\<lambda>err. LE_Config
                       (''failed to read model_instructions_file for '' @ quoted agent_name @ '' at '' @
                        path @ '': '' @ err)) (read path)) (\<lambda>instructions.
                   let trimmed = trim instructions
                   in if trimmed = [] then Err (LE_Config
                        (''model_instructions_file for '' @ quoted agent_name @ '' at '' @ path @ '' is empty''))
                      else Ok trimmed))
           | None \<Rightarrow>
               (case trimmed_non_empty (role_description role) of
                  Some description \<Rightarrow> Ok description
                | None \<Rightarrow> Err (LE_Config
                    (''agent '' @ quoted agent_name @ '' config '' @ layer_path @
                     '' must set `developer_instructions` or `model_instructions_file`'')))))"

definition load_agent_profile_from_config ::
  "'v toml \<Rightarrow> read_file \<Rightarrow> string \<Rightarrow> string \<Rightarrow> luna_error + string" where
  "load_agent_profile_from_config T read agent_name config_path =
     and_then (map_err (\<lambda>err. LE_Config
         (''failed to read Codex config file '' @ config_path @ '': '' @ err)) (read config_path)) (\<lambda>raw.
     and_then (map_err (LE_Toml config_path) (toml_agents T raw)) (\<lambda>agents.
     case agents agent_name of
       None \<Rightarrow> Err (LE_Config (''agent '' @ quoted agent_name @ '' was not found in '' @ config_path @
         '' under [agents.'' @ agent_name @ '']''))
     | Some v \<Rightarrow>
         and_then (map_err (\<lambda>err. LE_Config (''invalid [agents.'' @ agent_name @ ''] in '' @ config_path @
             '': '' @ err)) (toml_role T v)) (\<lambda>role.
         case trimmed_non_empty (role_config_file role) of
           Some config_file \<Rightarrow>
             (let layer_path = resolve_path_from_file config_path config_file
              in and_then (map_err (\<lambda>err. LE_Config (''failed to read agent config file for '' @
                     quoted agent_name @ '' at '' @ layer_path @ '': '' @ err)) (read layer_path)) (\<lambda>layer_raw.
                 and_then (map_err (LE_Toml layer_path) (toml_layer T layer_raw)) (\<lambda>layer.
                 resolve_agent_instructions read agent_name role layer layer_path)))
         | None \<Rightarrow>
             (case trimmed_non_empty (role_description role) of
                Some description \<Rightarrow> Ok description
              | None \<Rightarrow> Err (LE_Config (''[agents.'' @ agent_name @ ''] in '' @ config_path @
                  '' must set config_file or description''))))))"

definition load_agent_profile ::
  "'v toml \<Rightarrow> read_file \<Rightarrow> process_env \<Rightarrow> string \<Rightarrow> luna_error + string" where
  "load_agent_profile T read env agent_name =
     (case resolve_codex_home_dir env of
        None \<Rightarrow> Err (LE_Config
          ''unable to resolve Codex home directory (expected CODEX_HOME, HOME, USERPROFILE, or HOMEDRIVE+HOMEPATH)'')
      | Some codex_home \<Rightarrow>
          load_agent_profile_from_config T read agent_name (join_path codex_home ''config.toml''))"

section \<open>No source replaces another\<close>

lemma number_eq_refl [simp]: "number_eq n n"
  by (cases n) simp_all

lemma json_eq_refl [simp]: "json_eq v v" "json_list_eq vs vs" "json_map_eq m m"
proof -
  have "json_eq v w \<or> v \<noteq> w" "json_list_eq vs ws \<or> vs \<noteq> ws" "json_map_eq m l \<or> m \<noteq> l" for w ws l
    by (induction v w and vs ws and m l rule: json_eq_json_list_eq_json_map_eq.induct) auto
  then show "json_eq v v" "json_list_eq vs vs" "json_map_eq m m" by blast+
qed

text \<open>
  The pairs of a key and a value the sources give, and a configuration that covers a set of
  such pairs: every value is in it, up to JSON equality, and nothing else is.
\<close>

definition config_sources ::
  "json_parser \<Rightarrow> string option \<Rightarrow> string list \<Rightarrow> config_flags \<Rightarrow> (string \<times> json) set" where
  "config_sources parse config_json entries flags =
     {(k, v). \<exists>m. parse_optional_json_object parse config_json ''--config-json'' = Ok (Some m) \<and>
        jget m k = Some v} \<union>
     {kv. \<exists>entry \<in> set entries. parse_config_entry parse entry = Ok kv} \<union>
     {(k, v). \<exists>source. (k, Some v, source) \<in> set (flag_rows flags)}"

definition covers :: "(string \<times> json) set \<Rightarrow> jmap \<Rightarrow> bool" where
  "covers S c \<longleftrightarrow>
     (\<forall>(k, v) \<in> S. \<exists>w. jget c k = Some w \<and> json_eq w v) \<and>
     (\<forall>k w. jget c k = Some w \<longrightarrow> (k, w) \<in> S)"

definition conflicting :: "(string \<times> json) set \<Rightarrow> bool" where
  "conflicting S \<longleftrightarrow> (\<exists>k v w. (k, v) \<in> S \<and> (k, w) \<in> S \<and> \<not> json_eq w v)"

definition config_unreadable :: "json_parser \<Rightarrow> string option \<Rightarrow> string list \<Rightarrow> bool" where
  "config_unreadable parse config_json entries \<longleftrightarrow>
     (\<exists>e. parse_optional_json_object parse config_json ''--config-json'' = Err e) \<or>
     (\<exists>entry \<in> set entries. \<exists>e. parse_config_entry parse entry = Err e)"

lemma conflicting_mono: "conflicting S \<Longrightarrow> S \<subseteq> T \<Longrightarrow> conflicting T"
  by (auto simp: conflicting_def)

lemma covers_empty: "covers S c \<Longrightarrow> c = [] \<longleftrightarrow> S = {}"
proof (cases c)
  case Nil
  assume "covers S c"
  with Nil show ?thesis by (fastforce simp: covers_def)
next
  case (Cons kv m)
  assume "covers S c"
  moreover have "jget c (fst kv) = Some (snd kv)" by (cases kv) (simp add: Cons jget_Cons)
  ultimately have "(fst kv, snd kv) \<in> S" unfolding covers_def by blast
  with Cons show ?thesis by auto
qed

lemma insert_covers:
  assumes "covers S c"
  shows "case insert_thread_config k v source c of
      Inr c' \<Rightarrow> covers (insert (k, v) S) c'
    | Inl e \<Rightarrow> conflicting (insert (k, v) S)"
proof (cases "jget c k")
  case None
  with assms show ?thesis
    by (fastforce simp: insert_thread_config_def covers_def jget_jinsert)
next
  case (Some w)
  then have w: "(k, w) \<in> S" using assms by (auto simp: covers_def)
  show ?thesis
  proof (cases "json_eq w v")
    case True
    with Some assms show ?thesis by (auto simp: insert_thread_config_def covers_def)
  next
    case False
    with Some w show ?thesis by (auto simp: insert_thread_config_def conflicting_def)
  qed
qed

lemma entries_cover:
  assumes "covers S c"
  shows "case insert_entries parse entries c of
      Inr c' \<Rightarrow> covers (S \<union> {kv. \<exists>entry \<in> set entries. parse_config_entry parse entry = Ok kv}) c'
    | Inl e \<Rightarrow> (\<exists>entry \<in> set entries. \<exists>e. parse_config_entry parse entry = Err e) \<or>
        conflicting (S \<union> {kv. \<exists>entry \<in> set entries. parse_config_entry parse entry = Ok kv})"
  using assms
proof (induction entries arbitrary: S c)
  case Nil
  then show ?case by simp
next
  case (Cons entry entries)
  let ?rest = "{kv. \<exists>entry \<in> set entries. parse_config_entry parse entry = Ok kv}"
  let ?all = "{kv. \<exists>e \<in> set (entry # entries). parse_config_entry parse e = Ok kv}"
  show ?case
  proof (cases "parse_config_entry parse entry")
    case (Inl e)
    then show ?thesis by auto
  next
    case (Inr kv)
    obtain k v where kv: "kv = (k, v)" by fastforce
    have all: "S \<union> ?all = insert (k, v) S \<union> ?rest" using Inr kv by auto
    show ?thesis
    proof (cases "insert_thread_config k v ''--config'' c")
      case (Inl e)
      then have "conflicting (insert (k, v) S)"
        using insert_covers [OF Cons.prems, of k v "''--config''"] by simp
      then have "conflicting (S \<union> ?all)" by (rule conflicting_mono) (use all in auto)
      with Inl Inr kv show ?thesis by simp
    next
      case step: (Inr c')
      then have "covers (insert (k, v) S) c'"
        using insert_covers [OF Cons.prems, of k v "''--config''"] by simp
      from Cons.IH [OF this] step Inr kv show ?thesis
        unfolding all by (auto split: sum.splits)
    qed
  qed
qed

lemma flags_cover:
  assumes "covers S c"
  shows "case insert_flags rows c of
      Inr c' \<Rightarrow> covers (S \<union> {(k, v). \<exists>source. (k, Some v, source) \<in> set rows}) c'
    | Inl e \<Rightarrow> conflicting (S \<union> {(k, v). \<exists>source. (k, Some v, source) \<in> set rows})"
  using assms
proof (induction rows arbitrary: S c)
  case Nil
  then show ?case by simp
next
  case (Cons row rows)
  obtain k ov source where row: "row = (k, ov, source)" by (cases row)
  show ?case
  proof (cases ov)
    case None
    then have pairs: "{(k, v). \<exists>source. (k, Some v, source) \<in> set (row # rows)} =
        {(k, v). \<exists>source. (k, Some v, source) \<in> set rows}"
      using row by auto
    show ?thesis
      unfolding pairs using None row Cons.IH [OF Cons.prems] by (simp add: insert_optional_def)
  next
    case (Some v)
    let ?rest = "{(k, v). \<exists>source. (k, Some v, source) \<in> set rows}"
    let ?all = "{(k, v). \<exists>source. (k, Some v, source) \<in> set (row # rows)}"
    have all: "S \<union> ?all = insert (k, v) S \<union> ?rest" using row Some by auto
    show ?thesis
    proof (cases "insert_thread_config k v source c")
      case (Inl e)
      then have "conflicting (insert (k, v) S)"
        using insert_covers [OF Cons.prems, of k v source] by simp
      then have "conflicting (S \<union> ?all)" by (rule conflicting_mono) (use all in auto)
      with Inl row Some show ?thesis by (simp add: insert_optional_def)
    next
      case (Inr c')
      then have "covers (insert (k, v) S) c'"
        using insert_covers [OF Cons.prems, of k v source] by simp
      from Cons.IH [OF this] Inr row Some show ?thesis
        unfolding all by (simp add: insert_optional_def)
    qed
  qed
qed

text \<open>
  C17: the sources of the thread configuration never replace one another: when it is built, it
  holds every value that \<open>--config-json\<close>, \<open>--config\<close> and the flags give, and only those, and
  there is none exactly when no source gives any; when building fails, a source cannot be
  read or two sources give different values for a key.
\<close>

theorem config_sources_agree:
  "case build_thread_config parse config_json entries flags of
     Inr r \<Rightarrow> covers (config_sources parse config_json entries flags) (unwrap_or r []) \<and>
       (r = None \<longleftrightarrow> config_sources parse config_json entries flags = {})
   | Inl e \<Rightarrow> config_unreadable parse config_json entries \<or>
       conflicting (config_sources parse config_json entries flags)"
proof (cases "parse_optional_json_object parse config_json ''--config-json''")
  case (Inl e)
  then show ?thesis by (auto simp: build_thread_config_def config_unreadable_def)
next
  case (Inr base)
  let ?A = "{(k, v). \<exists>m. parse_optional_json_object parse config_json ''--config-json'' = Ok (Some m) \<and>
        jget m k = Some v}"
  let ?B = "{kv. \<exists>entry \<in> set entries. parse_config_entry parse entry = Ok kv}"
  let ?C = "{(k, v). \<exists>source. (k, Some v, source) \<in> set (flag_rows flags)}"
  have A: "covers ?A (unwrap_or base [])"
    using Inr by (cases base) (auto simp: covers_def)
  have S: "config_sources parse config_json entries flags = ?A \<union> ?B \<union> ?C"
    by (simp add: config_sources_def)
  show ?thesis
  proof (cases "insert_entries parse entries (unwrap_or base [])")
    case (Inl e)
    then have "(\<exists>entry \<in> set entries. \<exists>e. parse_config_entry parse entry = Err e) \<or> conflicting (?A \<union> ?B)"
      using entries_cover [OF A, of entries parse] by simp
    then have "config_unreadable parse config_json entries \<or> conflicting (?A \<union> ?B \<union> ?C)"
      using conflicting_mono [of "?A \<union> ?B" "?A \<union> ?B \<union> ?C"] by (auto simp: config_unreadable_def)
    with Inl Inr show ?thesis by (simp add: build_thread_config_def S)
  next
    case step: (Inr c)
    then have "covers (?A \<union> ?B) c" using entries_cover [OF A, of entries parse] by simp
    note C = flags_cover [OF this, of "flag_rows flags"]
    show ?thesis
    proof (cases "insert_flags (flag_rows flags) c")
      case (Inl e)
      with C step Inr show ?thesis by (simp add: build_thread_config_def S)
    next
      case last: (Inr c')
      with C have covers: "covers (config_sources parse config_json entries flags) c'"
        unfolding S by simp
      have "build_thread_config parse config_json entries flags =
          Ok (if c' = [] then None else Some c')"
        using last step Inr by (simp add: build_thread_config_def)
      with covers covers_empty [OF covers] show ?thesis by (cases "c' = []") simp_all
    qed
  qed
qed

end
