(* ===== verification/Luna_Cli.thy ===== *)
theory Luna_Cli
  imports Luna_Config
begin

text \<open>
  The command line of the tool: \<open>crates/luna/src/cli.rs\<close>. What the library \<open>clap\<close> parses is a
  parameter; the records of its derive structs and everything the code does with them, before
  and after, is modelled. The properties say what a checked command line guarantees.
\<close>

section \<open>Commands\<close>

datatype cli_resume_target = ResumeLast | ResumeSessionId string

datatype transport_mode = WebSocketMode | StdioMode

datatype command_kind = CK_Exec | CK_Chat | CK_Start | CK_Sessions | CK_Doctor

record cli_args =
  cli_command_kind :: command_kind
  cli_no_daemon :: bool
  cli_agent :: "string option"
  cli_working_directory :: "string option"
  cli_websocket_url :: "string option"
  cli_ws_auth_token :: "string option"
  cli_model :: "string option"
  cli_model_provider :: "string option"
  cli_reasoning_effort :: "model_reasoning_effort option"
  cli_reasoning_summary :: "model_reasoning_summary option"
  cli_model_verbosity :: "model_verbosity option"
  cli_service_tier :: service_tier
  cli_config_profile :: "string option"
  cli_approval_policy :: "approval_mode option"
  cli_sandbox_mode :: "sandbox_mode option"
  cli_sandbox_policy_json :: "string option"
  cli_sandbox_network_access_enabled :: "bool option"
  cli_sandbox_writable_roots :: "string list"
  cli_web_search_mode :: "web_search_mode option"
  cli_dynamic_tools_json :: "string option"
  cli_personality :: "personality option"
  cli_base_instructions :: "string option"
  cli_developer_instructions :: "string option"
  cli_ephemeral :: "bool option"
  cli_experimental_raw_events :: "bool option"
  cli_persist_extended_history :: "bool option"
  cli_config_entries :: "string list"
  cli_config_json :: "string option"
  cli_output_schema_json :: "string option"
  cli_output_schema_file :: "string option"
  cli_turn_extra_json :: "string option"
  cli_resume_target :: "cli_resume_target option"
  cli_sessions_all :: bool
  cli_final_response_only :: bool
  cli_json_output :: bool
  cli_doctor_live :: bool
  cli_transport_mode :: transport_mode
  cli_prompt_parts :: "string list"

definition empty_cli_args :: "command_kind \<Rightarrow> transport_mode \<Rightarrow> cli_args" where
  "empty_cli_args kind mode =
     \<lparr>cli_command_kind = kind,
      cli_no_daemon = False,
      cli_agent = None,
      cli_working_directory = None,
      cli_websocket_url = None,
      cli_ws_auth_token = None,
      cli_model = None,
      cli_model_provider = None,
      cli_reasoning_effort = None,
      cli_reasoning_summary = None,
      cli_model_verbosity = None,
      cli_service_tier = ST_Default,
      cli_config_profile = None,
      cli_approval_policy = None,
      cli_sandbox_mode = None,
      cli_sandbox_policy_json = None,
      cli_sandbox_network_access_enabled = None,
      cli_sandbox_writable_roots = [],
      cli_web_search_mode = None,
      cli_dynamic_tools_json = None,
      cli_personality = None,
      cli_base_instructions = None,
      cli_developer_instructions = None,
      cli_ephemeral = None,
      cli_experimental_raw_events = None,
      cli_persist_extended_history = None,
      cli_config_entries = [],
      cli_config_json = None,
      cli_output_schema_json = None,
      cli_output_schema_file = None,
      cli_turn_extra_json = None,
      cli_resume_target = None,
      cli_sessions_all = False,
      cli_final_response_only = False,
      cli_json_output = False,
      cli_doctor_live = False,
      cli_transport_mode = mode,
      cli_prompt_parts = []\<rparr>"

section \<open>What clap hands over\<close>

record transport_cli_args =
  ta_ws_url :: "string option"
  ta_ws_auth_token :: "string option"
  ta_ws_auth_token_file :: "string option"
  ta_no_daemon :: bool
  ta_stdio :: bool

record turn_cli_arguments =
  arg_transport :: transport_cli_args
  arg_agent :: "string option"
  arg_cwd :: "string option"
  arg_model :: "string option"
  arg_model_provider :: "string option"
  arg_reasoning_effort :: "string option"
  arg_reasoning_summary :: "string option"
  arg_model_verbosity :: "string option"
  arg_fast :: bool
  arg_config_profile :: "string option"
  arg_approval_policy :: "string option"
  arg_sandbox :: "string option"
  arg_sandbox_policy_json :: "string option"
  arg_sandbox_network_access_enabled :: bool
  arg_sandbox_network_access_disabled :: bool
  arg_sandbox_writable_root :: "string list"
  arg_web_search_mode :: "string option"
  arg_dynamic_tools_json :: "string option"
  arg_personality :: "string option"
  arg_base_instructions :: "string option"
  arg_developer_instructions :: "string option"
  arg_ephemeral :: bool
  arg_experimental_raw_events :: bool
  arg_persist_extended_history :: bool
  arg_continue_last :: bool
  arg_resume :: "string option"
  arg_config :: "string list"
  arg_config_json :: "string option"
  arg_output_schema_json :: "string option"
  arg_output_schema_file :: "string option"
  arg_turn_extra_json :: "string option"
  arg_final_response :: bool
  arg_json :: bool
  arg_prompt :: "string list"

record start_cli_arguments =
  sa_ws_url :: "string option"
  sa_ws_auth_token :: "string option"
  sa_ws_auth_token_file :: "string option"

record sessions_cli_arguments =
  se_transport :: transport_cli_args
  se_all :: bool
  se_cwd :: "string option"

record doctor_cli_arguments =
  da_transport :: transport_cli_args
  da_summary :: bool
  da_json :: bool
  da_live :: bool
  da_no_color :: bool
  da_ascii :: bool

datatype 's cli_command =
    Cmd_Exec turn_cli_arguments
  | Cmd_Chat turn_cli_arguments
  | Cmd_Start start_cli_arguments
  | Cmd_Sessions sessions_cli_arguments
  | Cmd_Doctor doctor_cli_arguments
  | Cmd_Completions 's

datatype clap_error = DisplayHelp string | DisplayVersion string | ClapError string

datatype 's parsed_command =
    PC_Help string
  | PC_Version string
  | PC_Completions 's
  | PC_Run cli_args

section \<open>Checking values\<close>

definition transport_mode_of :: "bool \<Rightarrow> transport_mode" where
  "transport_mode_of stdio = (if stdio then StdioMode else WebSocketMode)"

definition normalize_optional_string ::
  "string option \<Rightarrow> string \<Rightarrow> luna_error + string option" where
  "normalize_optional_string v flag =
     map_transpose (\<lambda>v. let trimmed = trim v
       in if trimmed = [] then Err (empty_value flag) else Ok trimmed) v"

definition parse_wire_enum ::
  "(string \<Rightarrow> string + 'e) \<Rightarrow> string \<Rightarrow> string \<Rightarrow> string list \<Rightarrow> luna_error + 'e" where
  "parse_wire_enum from_str raw flag variants =
     map_err (\<lambda>_. LE_Usage (''invalid '' @ flag @ '' '' @ quoted raw @ ''; expected one of: '' @
       join_with '', '' variants)) (from_str (trim raw))"

definition normalize_session_id :: "string \<Rightarrow> luna_error + string" where
  "normalize_session_id raw =
     (let session_id = trim raw
      in if session_id = [] then Err (LE_Usage ''session id for --resume cannot be empty'')
         else Ok session_id)"

definition normalize_working_directory :: "string \<Rightarrow> luna_error + string" where
  "normalize_working_directory raw =
     (if trim raw = [] then Err (LE_Usage ''working directory for --cwd cannot be empty'')
      else Ok raw)"

definition apply_transport_args ::
  "read_file \<Rightarrow> transport_cli_args \<Rightarrow> cli_args \<Rightarrow> luna_error + cli_args" where
  "apply_transport_args read transport cli =
     and_then (normalize_optional_string (ta_ws_url transport) ''--ws-url'') (\<lambda>url.
     and_then (resolve_ws_auth_token read (ta_ws_auth_token transport) (ta_ws_auth_token_file transport))
       (\<lambda>token.
     if cli_transport_mode cli = StdioMode \<and> token \<noteq> None
     then Err (LE_Usage
       ''--ws-auth-token/--ws-auth-token-file cannot be combined with --stdio'')
     else Ok (cli\<lparr>cli_no_daemon := ta_no_daemon transport, cli_websocket_url := url,
       cli_ws_auth_token := token\<rparr>)))"

section \<open>The commands\<close>

definition turn_cli_args :: "read_file \<Rightarrow> command_kind \<Rightarrow> turn_cli_arguments \<Rightarrow> luna_error + cli_args" where
  "turn_cli_args read kind args =
     and_then (apply_transport_args read (arg_transport args)
       (empty_cli_args kind (transport_mode_of (ta_stdio (arg_transport args))))) (\<lambda>cli.
     and_then (map_transpose normalize_agent_name (arg_agent args)) (\<lambda>v_agent.
     and_then (map_transpose normalize_working_directory (arg_cwd args))
       (\<lambda>v_working_directory.
     and_then (normalize_optional_string (arg_model args) ''--model'') (\<lambda>v_model.
     and_then (normalize_optional_string (arg_model_provider args) ''--model-provider'')
       (\<lambda>v_model_provider.
     and_then (map_transpose (\<lambda>raw. parse_wire_enum model_reasoning_effort_from_str raw ''--reasoning-effort''
         (map fst model_reasoning_effort_table)) (arg_reasoning_effort args))
       (\<lambda>v_reasoning_effort.
     and_then (map_transpose (\<lambda>raw. parse_wire_enum model_reasoning_summary_from_str raw ''--reasoning-summary''
         (map fst model_reasoning_summary_table)) (arg_reasoning_summary args))
       (\<lambda>v_reasoning_summary.
     and_then (map_transpose (\<lambda>raw. parse_wire_enum model_verbosity_from_str raw ''--model-verbosity''
         (map fst model_verbosity_table)) (arg_model_verbosity args)) (\<lambda>v_model_verbosity.
     and_then (normalize_optional_string (arg_config_profile args) ''--config-profile'')
       (\<lambda>v_config_profile.
     and_then (map_transpose (\<lambda>raw. parse_wire_enum approval_mode_from_str raw ''--approval-policy''
         (map fst approval_mode_table)) (arg_approval_policy args)) (\<lambda>v_approval_policy.
     and_then (map_transpose (\<lambda>raw. parse_wire_enum sandbox_mode_from_str raw ''--sandbox''
         (map fst sandbox_mode_table)) (arg_sandbox args)) (\<lambda>v_sandbox_mode.
     and_then (normalize_optional_string (arg_sandbox_policy_json args) ''--sandbox-policy-json'')
       (\<lambda>v_sandbox_policy_json.
     and_then (collect_results normalize_working_directory (arg_sandbox_writable_root args))
       (\<lambda>v_sandbox_writable_roots.
     and_then (map_transpose (\<lambda>raw. parse_wire_enum web_search_mode_from_str raw ''--web-search-mode''
         (map fst web_search_mode_table)) (arg_web_search_mode args)) (\<lambda>v_web_search_mode.
     and_then (normalize_optional_string (arg_dynamic_tools_json args) ''--dynamic-tools-json'')
       (\<lambda>v_dynamic_tools_json.
     and_then (map_transpose (\<lambda>raw. parse_wire_enum personality_from_str raw ''--personality''
         (map fst personality_table)) (arg_personality args)) (\<lambda>v_personality.
     and_then (normalize_optional_string (arg_base_instructions args) ''--base-instructions'')
       (\<lambda>v_base_instructions.
     and_then (normalize_optional_string (arg_developer_instructions args) ''--developer-instructions'')
       (\<lambda>v_developer_instructions.
     and_then (normalize_optional_string (arg_config_json args) ''--config-json'')
       (\<lambda>v_config_json.
     and_then (normalize_optional_string (arg_output_schema_json args) ''--output-schema-json'')
       (\<lambda>v_output_schema_json.
     and_then (normalize_optional_string (arg_output_schema_file args) ''--output-schema-file'')
       (\<lambda>v_output_schema_file.
     and_then (normalize_optional_string (arg_turn_extra_json args) ''--turn-extra-json'')
       (\<lambda>v_turn_extra_json.
     and_then (if arg_continue_last args then Ok (Some ResumeLast)
       else map_ok (map_option ResumeSessionId) (map_transpose normalize_session_id (arg_resume args)))
       (\<lambda>v_resume_target.
     Ok (cli\<lparr>cli_agent := v_agent,
         cli_working_directory := v_working_directory,
         cli_model := v_model,
         cli_model_provider := v_model_provider,
         cli_reasoning_effort := v_reasoning_effort,
         cli_reasoning_summary := v_reasoning_summary,
         cli_model_verbosity := v_model_verbosity,
         cli_service_tier := (if arg_fast args then ST_Fast else ST_Default),
         cli_config_profile := v_config_profile,
         cli_approval_policy := v_approval_policy,
         cli_sandbox_mode := v_sandbox_mode,
         cli_sandbox_policy_json := v_sandbox_policy_json,
         cli_sandbox_network_access_enabled :=
           (case (arg_sandbox_network_access_enabled args, arg_sandbox_network_access_disabled args) of
          (True, False) \<Rightarrow> Some True
        | (False, True) \<Rightarrow> Some False
        | _ \<Rightarrow> None),
         cli_sandbox_writable_roots := v_sandbox_writable_roots,
         cli_web_search_mode := v_web_search_mode,
         cli_dynamic_tools_json := v_dynamic_tools_json,
         cli_personality := v_personality,
         cli_base_instructions := v_base_instructions,
         cli_developer_instructions := v_developer_instructions,
         cli_ephemeral := (if arg_ephemeral args then Some True else None),
         cli_experimental_raw_events := (if arg_experimental_raw_events args then Some True else None),
         cli_persist_extended_history := (if arg_persist_extended_history args then Some True else None),
         cli_config_entries := arg_config args,
         cli_config_json := v_config_json,
         cli_output_schema_json := v_output_schema_json,
         cli_output_schema_file := v_output_schema_file,
         cli_turn_extra_json := v_turn_extra_json,
         cli_resume_target := v_resume_target,
         cli_final_response_only := arg_final_response args,
         cli_json_output := arg_json args,
         cli_prompt_parts := arg_prompt args\<rparr>))))))))))))))))))))))))"

definition start_cli_args :: "read_file \<Rightarrow> start_cli_arguments \<Rightarrow> luna_error + cli_args" where
  "start_cli_args read args =
     and_then (normalize_optional_string (sa_ws_url args) ''--ws-url'') (\<lambda>url.
     and_then (resolve_ws_auth_token read (sa_ws_auth_token args) (sa_ws_auth_token_file args)) (\<lambda>token.
     Ok ((empty_cli_args CK_Start WebSocketMode)\<lparr>cli_websocket_url := url, cli_ws_auth_token := token\<rparr>)))"

definition sessions_cli_args :: "read_file \<Rightarrow> sessions_cli_arguments \<Rightarrow> luna_error + cli_args" where
  "sessions_cli_args read args =
     and_then (apply_transport_args read (se_transport args)
       (empty_cli_args CK_Sessions (transport_mode_of (ta_stdio (se_transport args))))) (\<lambda>cli.
     and_then (map_transpose normalize_working_directory (se_cwd args)) (\<lambda>cwd.
     Ok (cli\<lparr>cli_working_directory := cwd, cli_sessions_all := se_all args\<rparr>)))"

definition doctor_cli_args :: "read_file \<Rightarrow> doctor_cli_arguments \<Rightarrow> luna_error + cli_args" where
  "doctor_cli_args read args =
     and_then (apply_transport_args read (da_transport args)
       (empty_cli_args CK_Doctor (transport_mode_of (ta_stdio (da_transport args))))) (\<lambda>cli.
     Ok (cli\<lparr>cli_json_output := da_json args, cli_doctor_live := da_live args\<rparr>))"

text \<open>The old spelling \<open>--sessions\<close> of a command.\<close>

definition command_words :: "string set" where
  "command_words =
     {''exec'', ''x'', ''chat'', ''start'', ''sessions'', ''doctor'', ''completions''}"

definition normalize_legacy_cli_args :: "string list \<Rightarrow> luna_error + string list" where
  "normalize_legacy_cli_args args =
     (case filter (\<lambda>index. args ! index = ''--sessions'') [0..<length args] of
        [] \<Rightarrow> Ok args
      | [position] \<Rightarrow>
          (let rest = take position args @ drop (Suc position) args
           in if list_ex (\<lambda>arg. arg \<in> command_words) rest
              then Err (LE_Usage ''--sessions cannot be combined with another command'')
              else Ok (''sessions'' # rest))
      | _ \<Rightarrow> Err (LE_Usage ''--sessions may only be provided once''))"

definition parse_cli_args ::
  "(string list \<Rightarrow> clap_error + 's cli_command) \<Rightarrow> read_file \<Rightarrow> string list
    \<Rightarrow> luna_error + 's parsed_command" where
  "parse_cli_args clap read args =
     and_then (normalize_legacy_cli_args args) (\<lambda>args.
     case clap (''luna'' # args) of
       Inl (DisplayHelp t) \<Rightarrow> Ok (PC_Help t)
     | Inl (DisplayVersion t) \<Rightarrow> Ok (PC_Version t)
     | Inl (ClapError t) \<Rightarrow> Err (LE_Usage t)
     | Inr (Cmd_Exec a) \<Rightarrow> map_ok PC_Run (turn_cli_args read CK_Exec a)
     | Inr (Cmd_Chat a) \<Rightarrow> map_ok PC_Run (turn_cli_args read CK_Chat a)
     | Inr (Cmd_Start a) \<Rightarrow> map_ok PC_Run (start_cli_args read a)
     | Inr (Cmd_Sessions a) \<Rightarrow> map_ok PC_Run (sessions_cli_args read a)
     | Inr (Cmd_Doctor a) \<Rightarrow> map_ok PC_Run (doctor_cli_args read a)
     | Inr (Cmd_Completions s) \<Rightarrow> Ok (PC_Completions s))"

text \<open>The current directory, and the prompt: the arguments, or the standard input.\<close>

definition resolve_current_working_directory ::
  "(string \<Rightarrow> string) \<Rightarrow> io_error + string \<Rightarrow> luna_error + string" where
  "resolve_current_working_directory lossy current_dir =
     map_ok lossy (map_err (\<lambda>e. LE_Config (''failed to resolve current directory: '' @
       (case e of IoError k m \<Rightarrow> m))) current_dir)"

definition resolve_prompt :: "bool \<Rightarrow> io_error + string \<Rightarrow> string list \<Rightarrow> luna_error + string" where
  "resolve_prompt stdin_is_terminal stdin prompt_parts =
     (if prompt_parts \<noteq> [] then Ok (join_with '' '' prompt_parts)
      else if stdin_is_terminal then
        Err (LE_Usage ''missing prompt; pass text args or pipe stdin'')
      else
        and_then (map_err LE_Io stdin) (\<lambda>piped.
          let prompt = trim piped
          in if prompt = [] then Err (LE_Usage ''stdin prompt is empty'') else Ok prompt))"

section \<open>What a parsed command line guarantees\<close>

text \<open>A value that was given is not blank, and a token is not combined with stdio.\<close>

definition cli_texts :: "cli_args \<Rightarrow> string option list" where
  "cli_texts c =
     [cli_agent c, cli_websocket_url c, cli_ws_auth_token c, cli_model c, cli_model_provider c,
      cli_config_profile c, cli_sandbox_policy_json c, cli_dynamic_tools_json c,
      cli_base_instructions c, cli_developer_instructions c, cli_config_json c,
      cli_output_schema_json c, cli_output_schema_file c, cli_turn_extra_json c]"

definition not_blank :: "string option \<Rightarrow> bool" where
  "not_blank v = (case v of Some s \<Rightarrow> trim s \<noteq> [] | None \<Rightarrow> True)"

definition cli_args_wf :: "cli_args \<Rightarrow> bool" where
  "cli_args_wf c \<longleftrightarrow>
     Some [] \<notin> set (cli_texts c) \<and> not_blank (cli_working_directory c) \<and>
     list_all (\<lambda>root. trim root \<noteq> []) (cli_sandbox_writable_roots c) \<and>
     cli_resume_target c \<noteq> Some (ResumeSessionId []) \<and>
     (cli_transport_mode c = WebSocketMode \<or> cli_ws_auth_token c = None)"

lemma optional_string_Ok: "normalize_optional_string v flag = Ok r \<Longrightarrow> r \<noteq> Some []"
  by (cases v) (auto simp: normalize_optional_string_def map_transpose_def Let_def split: if_splits)

lemma agent_name_Ok: "map_transpose normalize_agent_name v = Ok r \<Longrightarrow> r \<noteq> Some []"
  by (cases v) (auto simp: normalize_agent_name_def map_transpose_def Let_def split: if_splits)

lemma working_directory_Ok: "map_transpose normalize_working_directory v = Ok r \<Longrightarrow> not_blank r"
  by (cases v) (auto simp: normalize_working_directory_def map_transpose_def not_blank_def split: if_splits)

lemma writable_roots_Ok:
  "collect_results normalize_working_directory vs = Ok rs \<Longrightarrow> list_all (\<lambda>root. trim root \<noteq> []) rs"
  by (induction vs arbitrary: rs)
    (auto simp: and_then_Inr_iff normalize_working_directory_def split: if_splits)

lemma session_id_Ok:
  "(if continue then Ok (Some ResumeLast)
    else map_ok (map_option ResumeSessionId) (map_transpose normalize_session_id v)) = Ok r \<Longrightarrow>
   r \<noteq> Some (ResumeSessionId [])"
  by (cases v) (auto simp: normalize_session_id_def map_transpose_def Let_def split: if_splits)

lemma ws_auth_token_Ok: "resolve_ws_auth_token read t f = Ok r \<Longrightarrow> r \<noteq> Some []"
  by (auto simp: resolve_ws_auth_token_def Let_def split: option.splits sum.splits if_splits)

lemma transport_args_wf:
  assumes "apply_transport_args read t cli = Ok c" "cli_args_wf cli"
  shows "cli_args_wf c \<and> cli_command_kind c = cli_command_kind cli"
proof -
  obtain url token where u: "normalize_optional_string (ta_ws_url t) ''--ws-url'' = Ok url"
    and tok: "resolve_ws_auth_token read (ta_ws_auth_token t) (ta_ws_auth_token_file t) = Ok token"
    and c: "c = cli\<lparr>cli_no_daemon := ta_no_daemon t, cli_websocket_url := url, cli_ws_auth_token := token\<rparr>"
      "cli_transport_mode cli \<noteq> StdioMode \<or> token = None"
    using assms(1) by (auto simp: apply_transport_args_def and_then_Inr_iff split: if_splits)
  have "cli_transport_mode cli = WebSocketMode \<or> token = None"
    using c(2) by (cases "cli_transport_mode cli") auto
  with optional_string_Ok [OF u] ws_auth_token_Ok [OF tok] assms(2) show ?thesis
    by (simp add: cli_args_wf_def cli_texts_def c(1))
qed

lemma empty_cli_args_kind [simp]: "cli_command_kind (empty_cli_args kind mode) = kind"
  by (simp add: empty_cli_args_def)

lemma empty_cli_args_wf [simp]: "cli_args_wf (empty_cli_args kind mode)"
  by (simp add: cli_args_wf_def cli_texts_def empty_cli_args_def not_blank_def)

lemmas cli_value_Ok = optional_string_Ok agent_name_Ok working_directory_Ok writable_roots_Ok
  session_id_Ok

lemma turn_cli_args_wf:
  assumes "turn_cli_args read kind args = Ok cli"
  shows "cli_args_wf cli" "cli_command_kind cli = kind"
proof -
  have "cli_args_wf cli \<and> cli_command_kind cli = kind"
    using assms unfolding turn_cli_args_def and_then_Inr_iff
    apply (elim exE conjE)
    apply (drule cli_value_Ok)+
    apply (drule transport_args_wf [OF _ empty_cli_args_wf])
    apply (auto simp: cli_args_wf_def cli_texts_def)
    done
  then show "cli_args_wf cli" "cli_command_kind cli = kind" by simp_all
qed

lemma start_cli_args_wf:
  assumes "start_cli_args read args = Ok cli"
  shows "cli_args_wf cli \<and> cli_command_kind cli = CK_Start"
proof -
  obtain url token where u: "normalize_optional_string (sa_ws_url args) ''--ws-url'' = Ok url"
    and tok: "resolve_ws_auth_token read (sa_ws_auth_token args) (sa_ws_auth_token_file args) = Ok token"
    and c: "cli = (empty_cli_args CK_Start WebSocketMode)\<lparr>cli_websocket_url := url, cli_ws_auth_token := token\<rparr>"
    using assms by (auto simp: start_cli_args_def and_then_Inr_iff)
  from optional_string_Ok [OF u] ws_auth_token_Ok [OF tok] show ?thesis
    by (simp add: c cli_args_wf_def cli_texts_def empty_cli_args_def not_blank_def)
qed

lemma sessions_cli_args_wf:
  assumes "sessions_cli_args read args = Ok cli"
  shows "cli_args_wf cli \<and> cli_command_kind cli = CK_Sessions"
proof -
  obtain c cwd where c: "apply_transport_args read (se_transport args)
       (empty_cli_args CK_Sessions (transport_mode_of (ta_stdio (se_transport args)))) = Ok c"
    and cwd: "map_transpose normalize_working_directory (se_cwd args) = Ok cwd"
    and cli: "cli = c\<lparr>cli_working_directory := cwd, cli_sessions_all := se_all args\<rparr>"
    using assms unfolding sessions_cli_args_def and_then_Inr_iff by blast
  from transport_args_wf [OF c empty_cli_args_wf] working_directory_Ok [OF cwd] show ?thesis
    by (simp add: cli cli_args_wf_def cli_texts_def)
qed

lemma doctor_cli_args_wf:
  assumes "doctor_cli_args read args = Ok cli"
  shows "cli_args_wf cli \<and> cli_command_kind cli = CK_Doctor"
proof -
  obtain c where c: "apply_transport_args read (da_transport args)
       (empty_cli_args CK_Doctor (transport_mode_of (ta_stdio (da_transport args)))) = Ok c"
    and cli: "cli = c\<lparr>cli_json_output := da_json args, cli_doctor_live := da_live args\<rparr>"
    using assms unfolding doctor_cli_args_def and_then_Inr_iff by blast
  from transport_args_wf [OF c empty_cli_args_wf] show ?thesis
    by (simp add: cli cli_args_wf_def cli_texts_def)
qed


definition demo_transport :: transport_cli_args where
  "demo_transport =
     \<lparr>ta_ws_url = None, ta_ws_auth_token = None, ta_ws_auth_token_file = None, ta_no_daemon = False,
      ta_stdio = True\<rparr>"


section \<open>The two turn commands and the old spelling\<close>

lemma and_then_map_ok: "and_then (map_ok h r) g = and_then r (\<lambda>x. g (h x))"
  by (cases r) simp_all

lemma transport_args_kind:
  "apply_transport_args read t (cli\<lparr>cli_command_kind := k\<rparr>) =
     map_ok (\<lambda>c. c\<lparr>cli_command_kind := k\<rparr>) (apply_transport_args read t cli)"
  by (cases cli)
    (simp add: apply_transport_args_def map_ok_and_then if_distrib [of "map_ok _"] cong: if_cong)

lemma and_then_cong: "(\<And>x. f x = g x) \<Longrightarrow> and_then r f = and_then r g"
  by (cases r) simp_all

text \<open>
  C27: \<open>exec\<close> and \<open>chat\<close> take the same arguments: checking them gives the same command line, error
  included, but for the command.
\<close>

theorem chat_takes_the_arguments_of_exec:
  "turn_cli_args read CK_Chat args =
     map_ok (\<lambda>cli. cli\<lparr>cli_command_kind := CK_Chat\<rparr>) (turn_cli_args read CK_Exec args)"
proof -
  have "empty_cli_args CK_Chat mode = (empty_cli_args CK_Exec mode)\<lparr>cli_command_kind := CK_Chat\<rparr>" for mode
    by (simp add: empty_cli_args_def)
  then show ?thesis
    unfolding turn_cli_args_def
    by (simp only: transport_args_kind and_then_map_ok map_ok_and_then)
      (intro and_then_cong, simp only: map_ok.simps sum.inject, rule cli_args.equality, simp_all)
qed

definition positions :: "'a \<Rightarrow> 'a list \<Rightarrow> nat list" where
  "positions a xs = filter (\<lambda>i. xs ! i = a) [0..<length xs]"

lemma positions_append:
  "positions a (xs @ ys) = positions a xs @ map ((+) (length xs)) (positions a ys)"
proof -
  have upt: "[0..<length (xs @ ys)] = [0..<length xs] @ map ((+) (length xs)) [0..<length ys]"
  proof -
    have "map ((+) (length xs)) [0..<length ys] = [length xs..<length xs + length ys]"
      by (rule nth_equalityI) simp_all
    then show ?thesis using upt_add_eq_append [of 0 "length xs" "length ys"] by simp
  qed
  have "filter (\<lambda>i. (xs @ ys) ! i = a) [0..<length xs] = filter (\<lambda>i. xs ! i = a) [0..<length xs]"
    by (rule filter_cong) (auto simp: nth_append)
  then show ?thesis
    unfolding positions_def upt by (simp add: filter_map comp_def)
qed

lemma positions_Nil_iff: "positions a xs = [] \<longleftrightarrow> a \<notin> set xs"
  by (auto simp: positions_def filter_empty_conv in_set_conv_nth)

lemma positions_Cons: "positions a (a # xs) = 0 # map Suc (positions a xs)"
proof -
  have "positions a [a] = [0]" by (simp add: positions_def)
  with positions_append [of a "[a]" xs] show ?thesis by simp
qed

lemma normalize_positions:
  "normalize_legacy_cli_args args =
     (case positions ''--sessions'' args of
        [] \<Rightarrow> Ok args
      | [position] \<Rightarrow>
          (let rest = take position args @ drop (Suc position) args
           in if list_ex (\<lambda>arg. arg \<in> command_words) rest
              then Err (LE_Usage ''--sessions cannot be combined with another command'')
              else Ok (''sessions'' # rest))
      | _ \<Rightarrow> Err (LE_Usage ''--sessions may only be provided once''))"
  unfolding normalize_legacy_cli_args_def positions_def ..

text \<open>
  The old flag: \<open>--sessions\<close> is accepted exactly when it is absent, and nothing changes, or is
  given once and with no command word beside it, and then it is the command; the order of the
  other arguments is kept.
\<close>

theorem legacy_sessions_flag:
  "normalize_legacy_cli_args args = Ok args' \<longleftrightarrow>
     ''--sessions'' \<notin> set args \<and> args' = args \<or>
     (\<exists>xs ys. args = xs @ ''--sessions'' # ys \<and> ''--sessions'' \<notin> set (xs @ ys) \<and>
        set (xs @ ys) \<inter> command_words = {} \<and> args' = ''sessions'' # xs @ ys)"
proof (cases "''--sessions'' \<in> set args")
  case False
  then have "positions ''--sessions'' args = []" by (simp add: positions_Nil_iff)
  then have "normalize_legacy_cli_args args = Ok args" by (simp add: normalize_positions)
  moreover have "args \<noteq> us @ ''--sessions'' # vs" for us vs
    using False by force
  ultimately show ?thesis using False by (metis sum.inject(2))
next
  case True
  then obtain xs ys where args: "args = xs @ ''--sessions'' # ys" "''--sessions'' \<notin> set xs"
    using split_list_first [OF True] by blast
  have "positions ''--sessions'' xs = []" using args(2) by (simp add: positions_Nil_iff)
  then have pos: "positions ''--sessions'' args =
      length xs # map (\<lambda>i. length xs + Suc i) (positions ''--sessions'' ys)"
    by (simp add: args(1) positions_append positions_Cons comp_def)
  show ?thesis
  proof (cases "''--sessions'' \<in> set ys")
    case more: True
    then have "positions ''--sessions'' ys \<noteq> []" by (simp add: positions_Nil_iff)
    then obtain q qs where "positions ''--sessions'' ys = q # qs"
      by (cases "positions ''--sessions'' ys") simp
    with pos have "normalize_legacy_cli_args args =
        Err (LE_Usage ''--sessions may only be provided once'')"
      by (simp add: normalize_positions)
    moreover have "''--sessions'' \<in> set (us @ vs)" if "args = us @ ''--sessions'' # vs" for us vs
    proof -
      have "1 < length (filter (\<lambda>a. a = ''--sessions'') args)"
        using more by (auto simp: args(1) filter_empty_conv)
      with that have "filter (\<lambda>a. a = ''--sessions'') (us @ vs) \<noteq> []" by auto
      then show ?thesis by (auto simp: filter_empty_conv)
    qed
    ultimately show ?thesis using True by (metis Inl_Inr_False)
  next
    case False
    then have "positions ''--sessions'' ys = []" by (simp add: positions_Nil_iff)
    with pos have run: "normalize_legacy_cli_args args =
        (if list_ex (\<lambda>arg. arg \<in> command_words) (xs @ ys)
         then Err (LE_Usage ''--sessions cannot be combined with another command'')
         else Ok (''sessions'' # xs @ ys))"
      by (simp add: normalize_positions args(1))
    have only: "us = xs \<and> vs = ys" if "args = us @ ''--sessions'' # vs" "''--sessions'' \<notin> set (us @ vs)"
      for us vs
    proof -
      have "us @ ''--sessions'' # vs = xs @ ''--sessions'' # ys" using that(1) args(1) by simp
      then show ?thesis using that(2) args(2) False by (auto simp: append_Cons_eq_iff)
    qed
    have words: "list_ex (\<lambda>arg. arg \<in> command_words) (xs @ ys) \<longleftrightarrow>
        set (xs @ ys) \<inter> command_words \<noteq> {}"
      by (auto simp: list_ex_iff)
    have clean: "''--sessions'' \<notin> set (xs @ ys)" using args(2) False by simp
    show ?thesis
    proof
      assume "normalize_legacy_cli_args args = Ok args'"
      then have "set (xs @ ys) \<inter> command_words = {} \<and> args' = ''sessions'' # xs @ ys"
        unfolding run words by (simp split: if_splits)
      with args(1) clean show "''--sessions'' \<notin> set args \<and> args' = args \<or>
         (\<exists>xs ys. args = xs @ ''--sessions'' # ys \<and> ''--sessions'' \<notin> set (xs @ ys) \<and>
            set (xs @ ys) \<inter> command_words = {} \<and> args' = ''sessions'' # xs @ ys)"
        by blast
    next
      assume "''--sessions'' \<notin> set args \<and> args' = args \<or>
         (\<exists>xs ys. args = xs @ ''--sessions'' # ys \<and> ''--sessions'' \<notin> set (xs @ ys) \<and>
            set (xs @ ys) \<inter> command_words = {} \<and> args' = ''sessions'' # xs @ ys)"
      then have "set (xs @ ys) \<inter> command_words = {} \<and> args' = ''sessions'' # xs @ ys"
        using True only by blast
      then show "normalize_legacy_cli_args args = Ok args'"
        unfolding run words by simp
    qed
  qed
qed

end
