(* ===== verification/Render.thy ===== *)
theory Render
  imports Turn_Stream
begin

text \<open>
  Rendering of thread items and events: \<open>crates/sdk/src/events/render.rs\<close>. \<open>render_thread_item\<close>
  turns a complete item into a markdown fragment, one equation per variant; the renderer of a
  stream keeps the set of items it has shown piece by piece, so that it does not show them
  again when they are complete. The text of a JSON value (\<open>serde_json::to_string\<close>) is the
  parameter \<open>text_of\<close>, which may fail.
\<close>

section \<open>Fragments\<close>

datatype rendered_item_kind =
    RK_AgentMessage | RK_UserMessage | RK_Reasoning | RK_Plan | RK_ToolCall
  | RK_CommandExecution | RK_FileChange | RK_Status | RK_Error | RK_Unknown

record rendered_item =
  rendered_kind :: rendered_item_kind
  rendered_item_id :: "string option"
  rendered_markdown :: string
  rendered_continuation :: bool

definition rendered_new :: "rendered_item_kind \<Rightarrow> string option \<Rightarrow> string \<Rightarrow> rendered_item" where
  "rendered_new k i markdown =
     \<lparr>rendered_kind = k, rendered_item_id = i, rendered_markdown = markdown,
      rendered_continuation = False\<rparr>"

section \<open>Text helpers\<close>

text \<open>An em dash in UTF-8, with a space on each side.\<close>

definition dash :: string where
  "dash = [CHR 0x20, CHR 0xE2, CHR 0x80, CHR 0x94, CHR 0x20]"

definition blank_line :: string where
  "blank_line = [lf, lf]"

definition quote_block :: "string \<Rightarrow> string \<Rightarrow> string" where
  "quote_block label t =
     (if trim t = [] then []
      else ''> **'' @ label @ ''**'' @ [lf] @ ''> '' @ join_with (lf # ''> '') (str_lines t))"

definition compact_json :: "(json \<Rightarrow> string option) \<Rightarrow> json \<Rightarrow> string" where
  "compact_json text_of v = unwrap_or (text_of v) ''<unserializable>''"

definition one_line :: "string \<Rightarrow> string" where
  "one_line = replace_chars {cr, lf} '' ''"

definition display_or_unknown :: "string \<Rightarrow> string" where
  "display_or_unknown v = (if v = [] then ''unknown'' else v)"

fun command_status_text :: "command_execution_status \<Rightarrow> string" where
  "command_status_text CES_InProgress = ''running''"
| "command_status_text CES_Completed = ''completed''"
| "command_status_text CES_Failed = ''failed''"
| "command_status_text CES_Declined = ''declined''"
| "command_status_text CES_Unknown = ''unknown status''"

fun patch_status_text :: "patch_apply_status \<Rightarrow> string" where
  "patch_status_text PAS_InProgress = ''applying''"
| "patch_status_text PAS_Completed = ''applied''"
| "patch_status_text PAS_Failed = ''failed''"
| "patch_status_text PAS_Declined = ''declined''"
| "patch_status_text PAS_Unknown = ''unknown status''"

fun patch_change_kind_text :: "patch_change_kind \<Rightarrow> string" where
  "patch_change_kind_text PCK_Add = ''added''"
| "patch_change_kind_text PCK_Delete = ''deleted''"
| "patch_change_kind_text PCK_Update = ''updated''"
| "patch_change_kind_text PCK_Unknown = ''changed''"

fun mcp_status_text :: "mcp_tool_call_status \<Rightarrow> string" where
  "mcp_status_text MTS_InProgress = ''running''"
| "mcp_status_text MTS_Completed = ''completed''"
| "mcp_status_text MTS_Failed = ''failed''"
| "mcp_status_text MTS_Unknown = ''unknown status''"

definition show_bool :: "bool \<Rightarrow> string" where
  "show_bool b = (if b then ''true'' else ''false'')"

section \<open>Complete items\<close>

fun content_text :: "(json \<Rightarrow> string option) \<Rightarrow> user_message_content_item \<Rightarrow> string" where
  "content_text text_of (UMC_Text t) = t"
| "content_text text_of (UMC_Image url) = ''[image]('' @ url @ '')''"
| "content_text text_of (UMC_LocalImage path) = ''local image: '' @ path"
| "content_text text_of (UMC_Unknown v) = ''unknown content: '' @ compact_json text_of v"

definition render_user_message :: "(json \<Rightarrow> string option) \<Rightarrow> user_message_item \<Rightarrow> string" where
  "render_user_message text_of m =
     ''**User**'' @ blank_line @ join_with [lf] (map (content_text text_of) (user_message_content m))"

definition render_command :: "command_execution_item \<Rightarrow> string" where
  "render_command c =
     ''**Command** '' @ one_line (command_command c) @ dash @ command_status_text (command_status c) @
     (case command_exit_code c of
        Some code \<Rightarrow> '' (exit '' @ show_int (sint code) @ '')''
      | None \<Rightarrow> []) @
     (if command_aggregated_output c = [] then []
      else blank_line @ ''    '' @ replace_chars {lf} (lf # ''    '') (command_aggregated_output c))"

definition render_file_change :: "file_change_item \<Rightarrow> string" where
  "render_file_change f =
     ''**File changes**'' @ dash @ patch_status_text (file_change_status f) @ blank_line @
     (if file_change_changes f = [] then ''no paths reported''
      else join_with [lf] (map (\<lambda>c. ''- '' @ patch_change_kind_text (change_kind c) @ '' '' @
             one_line (change_path c)) (file_change_changes f)))"

definition render_mcp_call :: "(json \<Rightarrow> string option) \<Rightarrow> mcp_tool_call_item \<Rightarrow> string" where
  "render_mcp_call text_of t =
     ''**Tool** '' @ one_line (mcp_call_server t) @ ''.'' @ one_line (mcp_call_tool t) @ dash @
     mcp_status_text (mcp_call_status t) @ blank_line @
     ''Arguments: '' @ compact_json text_of (mcp_call_arguments t) @
     (case mcp_call_result t of
        Some r \<Rightarrow> blank_line @ ''Result: '' @ compact_json text_of r | None \<Rightarrow> []) @
     (case mcp_call_error t of
        Some e \<Rightarrow> blank_line @ ''Error: '' @ thread_error_message e | None \<Rightarrow> [])"

definition render_dynamic_call :: "(json \<Rightarrow> string option) \<Rightarrow> dynamic_tool_call_item \<Rightarrow> string" where
  "render_dynamic_call text_of t =
     (let details = [''status: '' @ display_or_unknown (dynamic_call_status t)] @
            (case dynamic_call_success t of
               Some b \<Rightarrow> [''success: '' @ show_bool b] | None \<Rightarrow> []) @
            (case dynamic_call_duration_ms t of
               Some d \<Rightarrow> [show_int (uint d) @ '' ms''] | None \<Rightarrow> [])
      in ''**Tool** '' @ one_line (dynamic_call_tool t) @ dash @ join_with '', '' details @ blank_line @
         ''Arguments: '' @ compact_json text_of (dynamic_call_arguments t) @
         (if dynamic_call_content_items t = [] then []
          else blank_line @ ''Result: '' @ compact_json text_of (JArray (dynamic_call_content_items t))))"

definition render_collab_call :: "collab_tool_call_item \<Rightarrow> string" where
  "render_collab_call t =
     (let details = [''status: '' @ display_or_unknown (collab_call_status t)] @
            (case collab_call_agent_status t of Some a \<Rightarrow> [''agent: '' @ a] | None \<Rightarrow> [])
      in ''**Collaboration** '' @ one_line (collab_call_tool t) @ dash @ join_with '', '' details @
         (case collab_call_prompt t of
            Some p \<Rightarrow> blank_line @ ''Prompt: '' @ p | None \<Rightarrow> []) @
         (case or_opt (collab_call_new_thread_id t) (collab_call_receiver_thread_id t) of
            Some i \<Rightarrow> blank_line @ ''Thread: '' @ one_line i | None \<Rightarrow> []))"

definition render_todo_list :: "todo_list_item \<Rightarrow> string" where
  "render_todo_list t =
     ''**Todo list**'' @ blank_line @
     (if todo_list_items t = [] then ''- (empty)''
      else join_with [lf] (map (\<lambda>todo. ''- ['' @ (if todo_completed todo then ''x'' else '' '') @
             ''] '' @ todo_text todo) (todo_list_items t)))"

fun render_thread_item :: "(json \<Rightarrow> string option) \<Rightarrow> thread_item \<Rightarrow> rendered_item" where
  "render_thread_item text_of (TI_AgentMessage m) =
     rendered_new RK_AgentMessage (Some (agent_message_id m)) (agent_message_text m)"
| "render_thread_item text_of (TI_UserMessage m) =
     rendered_new RK_UserMessage (Some (user_message_id m)) (render_user_message text_of m)"
| "render_thread_item text_of (TI_Plan p) =
     rendered_new RK_Plan (Some (plan_id p)) (''**Plan**'' @ blank_line @ plan_text p)"
| "render_thread_item text_of (TI_Reasoning r) =
     rendered_new RK_Reasoning (Some (reasoning_id r)) (quote_block ''Reasoning'' (reasoning_text r))"
| "render_thread_item text_of (TI_CommandExecution c) =
     rendered_new RK_CommandExecution (Some (command_id c)) (render_command c)"
| "render_thread_item text_of (TI_FileChange f) =
     rendered_new RK_FileChange (Some (file_change_id f)) (render_file_change f)"
| "render_thread_item text_of (TI_McpToolCall t) =
     rendered_new RK_ToolCall (Some (mcp_call_id t)) (render_mcp_call text_of t)"
| "render_thread_item text_of (TI_DynamicToolCall t) =
     rendered_new RK_ToolCall (Some (dynamic_call_id t)) (render_dynamic_call text_of t)"
| "render_thread_item text_of (TI_CollabToolCall t) =
     rendered_new RK_ToolCall (Some (collab_call_id t)) (render_collab_call t)"
| "render_thread_item text_of (TI_WebSearch w) =
     rendered_new RK_ToolCall (Some (web_search_id w))
       (''**Web search**'' @ dash @ one_line (web_search_query w))"
| "render_thread_item text_of (TI_ImageView v) =
     rendered_new RK_ToolCall (Some (image_view_id v))
       (''**Viewed image**'' @ dash @ one_line (image_view_path v))"
| "render_thread_item text_of (TI_EnteredReviewMode r) =
     rendered_new RK_Status (Some (review_mode_id r))
       (''**Entered review mode**'' @ dash @ display_or_unknown (review_mode_review r))"
| "render_thread_item text_of (TI_ExitedReviewMode r) =
     rendered_new RK_Status (Some (review_mode_id r))
       (''**Exited review mode**'' @ dash @ display_or_unknown (review_mode_review r))"
| "render_thread_item text_of (TI_ContextCompaction c) =
     rendered_new RK_Status (Some (context_compaction_id c)) ''**Context compacted**''"
| "render_thread_item text_of (TI_TodoList t) =
     rendered_new RK_Plan (Some (todo_list_id t)) (render_todo_list t)"
| "render_thread_item text_of (TI_Error e) =
     rendered_new RK_Error (Some (error_item_id e))
       (''**Error:** '' @ display_or_unknown (error_item_message e))"
| "render_thread_item text_of (TI_Unknown u) =
     rendered_new RK_Unknown (unknown_id u)
       (''**Unknown item** '' @ one_line (unwrap_or (unknown_item_type u) ''unknown'') @ dash @
        compact_json text_of (unknown_raw u))"

section \<open>Streamed events\<close>

text \<open>
  \<open>ThreadEventRenderer\<close>: its state is the set of the (kind, id) pairs of items that have been
  shown by updates. An update of a message, of reasoning or of a plan is shown as its text
  alone, since it continues what was shown before.
\<close>

type_synonym streamed_items = "(rendered_item_kind \<times> string) set"

fun render_update :: "(json \<Rightarrow> string option) \<Rightarrow> thread_item \<Rightarrow> rendered_item" where
  "render_update text_of (TI_AgentMessage m) =
     rendered_new RK_AgentMessage (Some (agent_message_id m)) (agent_message_text m)"
| "render_update text_of (TI_Reasoning r) =
     rendered_new RK_Reasoning (Some (reasoning_id r)) (reasoning_text r)"
| "render_update text_of (TI_Plan p) = rendered_new RK_Plan (Some (plan_id p)) (plan_text p)"
| "render_update text_of item = render_thread_item text_of item"

fun render_event ::
  "(json \<Rightarrow> string option) \<Rightarrow> thread_event \<Rightarrow> streamed_items \<Rightarrow> streamed_items \<times> rendered_item option"
where
  "render_event text_of (TE_ItemUpdated item) streamed =
     (let r = render_update text_of item
      in if rendered_markdown r = [] then (streamed, None)
         else ((case rendered_item_id r of
                  Some i \<Rightarrow> insert (rendered_kind r, i) streamed
                | None \<Rightarrow> streamed),
               Some (r\<lparr>rendered_continuation := True\<rparr>)))"
| "render_event text_of (TE_ItemCompleted item) streamed =
     (let r = render_thread_item text_of item;
          (streamed1, was_streamed) =
            (case rendered_item_id r of
               Some i \<Rightarrow> (streamed - {(rendered_kind r, i)}, (rendered_kind r, i) \<in> streamed)
             | None \<Rightarrow> (streamed, False))
      in (streamed1, if \<not> was_streamed \<and> rendered_markdown r \<noteq> [] then Some r else None))"
| "render_event text_of (TE_Error message) streamed =
     (streamed, Some (rendered_new RK_Error None (''**Error:** '' @ display_or_unknown message)))"
| "render_event text_of (TE_TurnFailed e) streamed =
     (streamed, Some (rendered_new RK_Error None
        (''**Turn failed:** '' @ display_or_unknown (thread_error_message e))))"
| "render_event text_of (TE_ThreadStarted i) streamed = (streamed, None)"
| "render_event text_of TE_TurnStarted streamed = (streamed, None)"
| "render_event text_of (TE_TurnCompleted u) streamed = (streamed, None)"
| "render_event text_of (TE_ItemStarted item) streamed = (streamed, None)"

text \<open>A stream of events through the renderer.\<close>

fun render_events ::
  "(json \<Rightarrow> string option) \<Rightarrow> thread_event list \<Rightarrow> streamed_items \<Rightarrow> streamed_items \<times> rendered_item list"
where
  "render_events text_of [] streamed = (streamed, [])"
| "render_events text_of (e # es) streamed =
     (let (streamed1, r) = render_event text_of e streamed;
          (streamed2, rs) = render_events text_of es streamed1
      in (streamed2, (case r of Some x \<Rightarrow> x # rs | None \<Rightarrow> rs)))"

section \<open>What the renderer remembers\<close>

definition item_key :: "thread_item \<Rightarrow> (rendered_item_kind \<times> string) option" where
  "item_key item =
     (let r = render_thread_item (\<lambda>_. None) item
      in map_option (Pair (rendered_kind r)) (rendered_item_id r))"

definition fragment_key :: "rendered_item \<Rightarrow> (rendered_item_kind \<times> string) option" where
  "fragment_key r = map_option (Pair (rendered_kind r)) (rendered_item_id r)"

lemma fragment_key_new [simp]: "fragment_key (rendered_new k i t) = map_option (Pair k) i"
  by (simp add: fragment_key_def rendered_new_def)

lemma fragment_key_continuation [simp]:
  "fragment_key (r\<lparr>rendered_continuation := b\<rparr>) = fragment_key r"
  by (simp add: fragment_key_def)

lemma fragment_key_item [simp]: "fragment_key (render_thread_item text_of item) = item_key item"
  by (cases item) (simp_all add: item_key_def fragment_key_def rendered_new_def)

lemma fragment_key_update [simp]: "fragment_key (render_update text_of item) = item_key item"
  by (cases item) (simp_all add: item_key_def fragment_key_def rendered_new_def)

definition update_of :: "(json \<Rightarrow> string option) \<Rightarrow> rendered_item_kind \<times> string \<Rightarrow> thread_event \<Rightarrow> bool" where
  "update_of text_of k e =
     (case e of
        TE_ItemUpdated item \<Rightarrow>
          item_key item = Some k \<and> rendered_markdown (render_update text_of item) \<noteq> []
      | _ \<Rightarrow> False)"

definition completion_of :: "rendered_item_kind \<times> string \<Rightarrow> thread_event \<Rightarrow> bool" where
  "completion_of k e = (case e of TE_ItemCompleted item \<Rightarrow> item_key item = Some k | _ \<Rightarrow> False)"

text \<open>An item is live when it has been shown by an update since its last completion.\<close>

definition live :: "(json \<Rightarrow> string option) \<Rightarrow> thread_event list \<Rightarrow> rendered_item_kind \<times> string \<Rightarrow> bool" where
  "live text_of es k \<longleftrightarrow>
     (\<exists>xs e ys. es = xs @ e # ys \<and> update_of text_of k e \<and> \<not> list_ex (completion_of k) ys)"

lemma live_snoc:
  "live text_of (es @ [e]) k \<longleftrightarrow>
     update_of text_of k e \<or> live text_of es k \<and> \<not> completion_of k e"
proof
  assume "live text_of (es @ [e]) k"
  then obtain xs u ys where split: "es @ [e] = xs @ u # ys" "update_of text_of k u"
      "\<not> list_ex (completion_of k) ys"
    by (auto simp: live_def)
  show "update_of text_of k e \<or> live text_of es k \<and> \<not> completion_of k e"
  proof (cases ys rule: rev_cases)
    case Nil
    with split show ?thesis by simp
  next
    case (snoc zs z)
    with split have "es = xs @ u # zs" "z = e" by simp_all
    with split snoc show ?thesis by (auto simp: live_def)
  qed
next
  assume "update_of text_of k e \<or> live text_of es k \<and> \<not> completion_of k e"
  then show "live text_of (es @ [e]) k"
  proof
    assume "update_of text_of k e"
    then show ?thesis unfolding live_def by (intro exI [of _ es] exI [of _ e] exI [of _ "[]"]) simp
  next
    assume "live text_of es k \<and> \<not> completion_of k e"
    then obtain xs u ys where "es = xs @ u # ys" "update_of text_of k u"
        "\<not> list_ex (completion_of k) ys" "\<not> completion_of k e"
      by (auto simp: live_def)
    then show ?thesis
      unfolding live_def by (intro exI [of _ xs] exI [of _ u] exI [of _ "ys @ [e]"]) simp
  qed
qed

lemma render_event_state:
  "fst (render_event text_of e streamed) =
     {k. update_of text_of k e \<or> k \<in> streamed \<and> \<not> completion_of k e}"
proof (cases e)
  case (TE_ItemUpdated item)
  have key: "item_key item = fragment_key (render_update text_of item)" by simp
  show ?thesis
    using TE_ItemUpdated
    by (cases "rendered_item_id (render_update text_of item)")
      (auto simp: update_of_def completion_of_def Let_def key fragment_key_def
        simp del: fragment_key_update)
next
  case (TE_ItemCompleted item)
  have key: "item_key item = fragment_key (render_thread_item text_of item)" by simp
  show ?thesis
    using TE_ItemCompleted
    by (cases "rendered_item_id (render_thread_item text_of item)")
      (auto simp: update_of_def completion_of_def Let_def key fragment_key_def
        simp del: fragment_key_item)
qed (simp_all add: update_of_def completion_of_def)

lemma render_events_append:
  "render_events text_of (xs @ ys) s =
     (let (s1, r1) = render_events text_of xs s; (s2, r2) = render_events text_of ys s1
      in (s2, r1 @ r2))"
  by (induction xs arbitrary: s) (auto simp: Let_def case_prod_beta split: option.splits)

lemma render_events_state: "fst (render_events text_of es {}) = {k. live text_of es k}"
proof (induction es rule: rev_induct)
  case Nil
  then show ?case by (simp add: live_def)
next
  case (snoc e es)
  then show ?case
    by (simp add: render_events_append case_prod_beta Let_def render_event_state live_snoc)
qed

section \<open>Properties\<close>

text \<open>
  What the renderer shows for a completed item: nothing when the item has been shown by an
  update since its last completion, or when its markdown is empty, and otherwise the complete
  rendering; and its state is exactly the set of the items that are live in this sense.
\<close>

theorem completed_item_shown_unless_live:
  "fst (render_events text_of es {}) = {k. live text_of es k} \<and>
   snd (render_event text_of (TE_ItemCompleted item) (fst (render_events text_of es {}))) =
     (let r = render_thread_item text_of item
      in if rendered_markdown r = [] \<or> (\<exists>k. item_key item = Some k \<and> live text_of es k) then None
         else Some r)"
proof -
  have key: "item_key item = fragment_key (render_thread_item text_of item)" by simp
  show ?thesis
    unfolding render_events_state
    by (cases "rendered_item_id (render_thread_item text_of item)")
      (auto simp: Let_def key fragment_key_def simp del: fragment_key_item)
qed

text \<open>The text shown for one item, and the text of its updates.\<close>

definition shown_text :: "rendered_item_kind \<times> string \<Rightarrow> rendered_item list \<Rightarrow> string" where
  "shown_text k rs = concat (map rendered_markdown (filter (\<lambda>r. fragment_key r = Some k) rs))"

fun update_text :: "(json \<Rightarrow> string option) \<Rightarrow> rendered_item_kind \<times> string \<Rightarrow> thread_event \<Rightarrow> string" where
  "update_text text_of k (TE_ItemUpdated item) =
     (if item_key item = Some k then rendered_markdown (render_update text_of item) else [])"
| "update_text text_of k _ = []"

lemma shown_text_append [simp]: "shown_text k (xs @ ys) = shown_text k xs @ shown_text k ys"
  by (simp add: shown_text_def)

lemma shown_event_text:
  assumes "render_event text_of e streamed = (streamed1, r)" "\<not> completion_of k e"
  shows "shown_text k (case r of Some x \<Rightarrow> [x] | None \<Rightarrow> []) = update_text text_of k e"
  using assms
  by (cases e) (auto simp: shown_text_def completion_of_def Let_def split: if_splits option.splits prod.splits)

lemma shown_without_completion:
  "\<not> list_ex (completion_of k) es \<Longrightarrow>
   shown_text k (snd (render_events text_of es s)) = concat (map (update_text text_of k) es)"
proof (induction es arbitrary: s)
  case Nil
  then show ?case by (simp add: shown_text_def)
next
  case (Cons e es)
  obtain s1 r where e: "render_event text_of e s = (s1, r)" by fastforce
  have "snd (render_events text_of (e # es) s) =
      (case r of Some x \<Rightarrow> [x] | None \<Rightarrow> []) @ snd (render_events text_of es s1)"
    by (simp add: e case_prod_beta Let_def split: option.split)
  with Cons shown_event_text [OF e, of k] show ?case by simp
qed

lemma live_without_completion:
  "\<not> list_ex (completion_of k) es \<Longrightarrow>
   live text_of es k \<longleftrightarrow> concat (map (update_text text_of k) es) \<noteq> []"
proof (induction es rule: rev_induct)
  case Nil
  then show ?case by (simp add: live_def)
next
  case (snoc e es)
  have "update_of text_of k e \<longleftrightarrow> update_text text_of k e \<noteq> []"
    by (cases e) (auto simp: update_of_def)
  with snoc show ?case by (auto simp: live_snoc)
qed

text \<open>
  An agent message is shown exactly once: when its updates, if there are any, spell the text
  of the completed message, then what the renderer shows of it in the whole stream is that
  text, whether it was streamed or came at once, and whatever other items come in between.
\<close>

theorem message_shown_exactly_once:
  assumes "k = (RK_AgentMessage, agent_message_id m)"
    "\<not> list_ex (completion_of k) xs" "\<not> list_ex (completion_of k) ys"
    "concat (map (update_text text_of k) xs) \<in> {[], agent_message_text m}"
    "concat (map (update_text text_of k) ys) = []"
  shows "shown_text k (snd (render_events text_of (xs @ TE_ItemCompleted (TI_AgentMessage m) # ys) {})) =
    agent_message_text m"
proof -
  let ?item = "TI_AgentMessage m"
  let ?s = "fst (render_events text_of xs {})"
  obtain s1 r where e: "render_event text_of (TE_ItemCompleted ?item) ?s = (s1, r)" by fastforce
  have key: "item_key ?item = Some k" by (simp add: item_key_def assms(1) rendered_new_def)
  have r: "r = (if agent_message_text m = [] \<or> live text_of xs k then None
      else Some (render_thread_item text_of ?item))"
    using e by (auto simp: assms(1) render_events_state rendered_new_def split: if_splits)
  have frag: "fragment_key (render_thread_item text_of ?item) = Some k"
    by (simp add: assms(1))
  have mid: "shown_text k (case r of Some x \<Rightarrow> [x] | None \<Rightarrow> []) =
      (if live text_of xs k then [] else agent_message_text m)"
    using frag by (simp add: r shown_text_def rendered_new_def)
  have "snd (render_events text_of (xs @ TE_ItemCompleted ?item # ys) {}) =
      snd (render_events text_of xs {}) @ (case r of Some x \<Rightarrow> [x] | None \<Rightarrow> []) @
      snd (render_events text_of ys s1)"
    using e by (simp add: render_events_append case_prod_beta Let_def split: option.split)
  with mid shown_without_completion [OF assms(2), of text_of] shown_without_completion [OF assms(3), of text_of s1]
    live_without_completion [OF assms(2), of text_of] assms(4,5)
  show ?thesis by auto
qed

theorem message_shown_exactly_once_witness:
  "shown_text (RK_AgentMessage, ''m'') (snd (render_events (\<lambda>_. None)
     ([TE_ItemUpdated (build_agent_message ''m'' ''he''), TE_ItemUpdated (build_plan ''p'' ''step''),
       TE_ItemUpdated (build_agent_message ''m'' ''llo'')] @
      TE_ItemCompleted (TI_AgentMessage
        \<lparr>agent_message_id = ''m'', agent_message_text = ''hello'', agent_message_phase = None\<rparr>) #
      [TE_TurnCompleted None]) {})) = ''hello''"
proof -
  let ?m = "\<lparr>agent_message_id = ''m'', agent_message_text = ''hello'', agent_message_phase = None\<rparr>"
  let ?xs = "[TE_ItemUpdated (build_agent_message ''m'' ''he''), TE_ItemUpdated (build_plan ''p'' ''step''),
       TE_ItemUpdated (build_agent_message ''m'' ''llo'')]"
  have "concat (map (update_text (\<lambda>_. None) (RK_AgentMessage, ''m'')) ?xs) = ''hello''"
    by (simp add: build_agent_message_def build_plan_def item_key_def rendered_new_def)
  then show ?thesis
    using message_shown_exactly_once [where k = "(RK_AgentMessage, ''m'')" and m = ?m
      and xs = ?xs and ys = "[TE_TurnCompleted None]" and text_of = "\<lambda>_. None"]
    by (simp add: completion_of_def)
qed

lemma dash_nonempty [simp]: "dash \<noteq> []" "blank_line \<noteq> []"
  by (simp_all add: dash_def blank_line_def)

text \<open>
  Every item has a rendering: it names the item (its id, absent only for an unknown item
  without one), and it is empty only for an agent message without text and for reasoning whose
  text is blank.
\<close>

theorem every_item_renders:
  "rendered_item_id (render_thread_item text_of item) =
     (case item of TI_Unknown u \<Rightarrow> unknown_id u | _ \<Rightarrow> Some (item_id_or_empty item)) \<and>
   rendered_continuation (render_thread_item text_of item) = False \<and>
   (rendered_markdown (render_thread_item text_of item) = [] \<longleftrightarrow>
     (\<exists>m. item = TI_AgentMessage m \<and> agent_message_text m = []) \<or>
     (\<exists>r. item = TI_Reasoning r \<and> trim (reasoning_text r) = []))"
  by (cases item)
    (simp_all add: rendered_new_def render_user_message_def quote_block_def render_command_def
      render_file_change_def render_mcp_call_def render_dynamic_call_def render_collab_call_def
      render_todo_list_def Let_def)

lemma one_line_no_lf [simp]: "lf \<notin> set (one_line s)" "cr \<notin> set (one_line s)"
  using replace_chars_removes [of "'' ''" "{cr, lf}" s] by (auto simp: one_line_def lf_def cr_def)

definition indented :: "string \<Rightarrow> bool" where
  "indented s \<longleftrightarrow> (\<forall>p q. s = p @ lf # q \<longrightarrow> starts_with [lf] q \<or> starts_with ''    '' q)"

lemma indented_no_lf: "lf \<notin> set s \<Longrightarrow> indented s"
  by (auto simp: indented_def)

lemma indented_lines: "indented (replace_chars {lf} (lf # ''    '') s)"
  unfolding indented_def
proof (intro allI impI)
  fix p q
  assume "replace_chars {lf} (lf # ''    '') s = p @ lf # q"
  then show "starts_with [lf] q \<or> starts_with ''    '' q"
  proof (induction s arbitrary: p)
    case Nil
    then show ?case by simp
  next
    case (Cons c s)
    show ?case
    proof (cases "c = lf")
      case False
      with Cons.prems have "c # replace_chars {lf} (lf # ''    '') s = p @ lf # q" by simp
      with False obtain p' where "replace_chars {lf} (lf # ''    '') s = p' @ lf # q"
        by (cases p) auto
      then show ?thesis by (rule Cons.IH)
    next
      case True
      with Cons.prems have *: "lf # ''    '' @ replace_chars {lf} (lf # ''    '') s = p @ lf # q" by simp
      show ?thesis
      proof (cases p)
        case Nil
        with * show ?thesis by (auto simp: starts_with_iff)
      next
        case (Cons a p1)
        with * have "''    '' @ replace_chars {lf} (lf # ''    '') s = p1 @ lf # q" by simp
        then obtain p' where "replace_chars {lf} (lf # ''    '') s = p' @ lf # q"
          by (auto simp: append_eq_append_conv2 append_eq_Cons_conv Cons_eq_append_conv lf_def)
        then show ?thesis by (rule Cons.IH)
      qed
    qed
  qed
qed

lemma indented_skip: "lf \<notin> set a \<Longrightarrow> indented b \<Longrightarrow> indented (a @ b)"
  by (auto simp: indented_def append_eq_append_conv2 append_eq_Cons_conv Cons_eq_append_conv)

lemma indented_break: "indented b \<Longrightarrow> indented (blank_line @ ''    '' @ b)"
proof -
  assume b: "indented b"
  then have i: "indented (''    '' @ b)" by (intro indented_skip) (simp_all add: lf_def)
  have "indented (lf # s)" if "starts_with [lf] s \<or> starts_with ''    '' s" "indented s" for s
    using that by (auto simp: indented_def Cons_eq_append_conv)
  from this [OF _ this [OF _ i]] show ?thesis by (auto simp: blank_line_def starts_with_iff)
qed

lemma takeWhile_past:
  "x \<notin> set a \<Longrightarrow> takeWhile (\<lambda>y. y \<noteq> x) (a @ b) = a @ takeWhile (\<lambda>y. y \<noteq> x) b"
  by (induction a) auto

lemma lf_not_in_number: "lf \<notin> set (show_int n)"
proof -
  have "lf \<notin> set (show_nat m)" for m
    using show_nat_digits [of m] by (auto simp: list_all_iff lf_def is_ascii_digit_def)
  then show ?thesis by (simp add: show_int_def lf_def)
qed

text \<open>
  Nothing a command prints leaves its block: in the rendering of a command every line after
  the first is either empty or indented by four spaces, so that neither the command nor its
  output can start a markdown heading, a list or a code fence.
\<close>

theorem command_stays_in_block:
  "indented (render_command c) \<and>
   starts_with (''**Command** '' @ one_line (command_command c))
     (takeWhile (\<lambda>x. x \<noteq> lf) (render_command c))"
proof -
  let ?head = "''**Command** '' @ one_line (command_command c)"
  let ?rest = "dash @ command_status_text (command_status c) @
     (case command_exit_code c of Some code \<Rightarrow> '' (exit '' @ show_int (sint code) @ '')'' | None \<Rightarrow> [])"
  let ?out = "if command_aggregated_output c = [] then []
      else blank_line @ ''    '' @ replace_chars {lf} (lf # ''    '') (command_aggregated_output c)"
  have parts: "render_command c = (?head @ ?rest) @ ?out" by (simp add: render_command_def)
  have head: "lf \<notin> set ?head" by (auto simp: lf_def one_line_no_lf(1) [unfolded lf_def])
  moreover have "lf \<notin> set (command_status_text (command_status c))"
    by (cases "command_status c") (simp_all add: lf_def)
  ultimately have no: "lf \<notin> set (?head @ ?rest)"
    using lf_not_in_number by (auto simp: dash_def lf_def split: option.split)
  have "indented ?out" using indented_break [OF indented_lines] by (simp add: indented_no_lf)
  with no have "indented (render_command c)" unfolding parts by (rule indented_skip)
  moreover have "takeWhile (\<lambda>x. x \<noteq> lf) (render_command c) =
      ?head @ takeWhile (\<lambda>x. x \<noteq> lf) (?rest @ ?out)"
    using takeWhile_past [OF head, of "?rest @ ?out"] by (simp add: parts)
  ultimately show ?thesis by (auto simp: starts_with_iff)
qed

end
