(* ===== verification/Luna_Output.thy ===== *)
theory Luna_Output
  imports Render Luna_Errors
begin

text \<open>
  The output of the command line tool: the JSON form of events and items
  (\<open>crates/luna/src/output/json.rs\<close>), and the human form (\<open>output/mod.rs\<close>), which separates the
  fragments of the SDK's renderer into blocks. The JSON form of an item is meant to be read
  back, and the properties say which items it describes completely.
\<close>

section \<open>JSON output\<close>

text \<open>The \<open>json!\<close> object literal: the entries in order, a later one replacing an earlier one.\<close>

definition literal_map :: "(string \<times> json) list \<Rightarrow> jmap" where
  "literal_map entries = insert_rows (map (\<lambda>(k, v). (k, Some v)) entries) []"

definition json_object :: "(string \<times> json) list \<Rightarrow> json" where
  "json_object entries = JObject (literal_map entries)"

definition json_option :: "('a \<Rightarrow> json) \<Rightarrow> 'a option \<Rightarrow> json" where
  "json_option f v = (case v of Some x \<Rightarrow> f x | None \<Rightarrow> JNull)"

text \<open>Index assignment to an object: \<open>value["key"] = v\<close>.\<close>

fun json_set :: "string \<Rightarrow> json \<Rightarrow> json \<Rightarrow> json" where
  "json_set k v (JObject m) = JObject (jinsert k v m)"
| "json_set k v j = j"

fun content_item_to_json :: "user_message_content_item \<Rightarrow> json" where
  "content_item_to_json (UMC_Text t) =
     json_object [(''type'', JString ''text''), (''text'', JString t)]"
| "content_item_to_json (UMC_Image url) =
     json_object [(''type'', JString ''image''), (''url'', JString url)]"
| "content_item_to_json (UMC_LocalImage path) =
     json_object [(''type'', JString ''localImage''), (''path'', JString path)]"
| "content_item_to_json (UMC_Unknown raw) = raw"

fun thread_item_to_json :: "thread_item \<Rightarrow> json" where
  "thread_item_to_json (TI_AgentMessage m) =
     (let value = json_object
            [(''type'', JString ''agentMessage''), (''id'', JString (agent_message_id m)),
             (''text'', JString (agent_message_text m))]
      in case agent_message_phase m of
           Some phase \<Rightarrow> json_set ''phase'' (JString (agent_message_phase_as_str phase)) value
         | None \<Rightarrow> value)"
| "thread_item_to_json (TI_UserMessage m) = json_object
     [(''type'', JString ''userMessage''), (''id'', JString (user_message_id m)),
      (''content'', JArray (map content_item_to_json (user_message_content m)))]"
| "thread_item_to_json (TI_Plan p) = json_object
     [(''type'', JString ''plan''), (''id'', JString (plan_id p)), (''text'', JString (plan_text p))]"
| "thread_item_to_json (TI_Reasoning r) = json_object
     [(''type'', JString ''reasoning''), (''id'', JString (reasoning_id r)),
      (''text'', JString (reasoning_text r))]"
| "thread_item_to_json (TI_CommandExecution c) = json_object
     [(''type'', JString ''commandExecution''), (''id'', JString (command_id c)),
      (''command'', JString (command_command c)),
      (''aggregatedOutput'', JString (command_aggregated_output c)),
      (''exitCode'', json_option (\<lambda>code. enc_i64 (scast code)) (command_exit_code c)),
      (''status'', JString (command_execution_status_as_str (command_status c)))]"
| "thread_item_to_json (TI_FileChange f) = json_object
     [(''type'', JString ''fileChange''), (''id'', JString (file_change_id f)),
      (''changes'', JArray (map (\<lambda>c. json_object
         [(''path'', JString (change_path c)),
          (''kind'', JString (patch_change_kind_as_str (change_kind c)))]) (file_change_changes f))),
      (''status'', JString (patch_apply_status_as_str (file_change_status f)))]"
| "thread_item_to_json (TI_McpToolCall t) = json_object
     [(''type'', JString ''mcpToolCall''), (''id'', JString (mcp_call_id t)),
      (''server'', JString (mcp_call_server t)), (''tool'', JString (mcp_call_tool t)),
      (''arguments'', mcp_call_arguments t),
      (''result'', json_option (\<lambda>r. r) (mcp_call_result t)),
      (''error'', json_option (\<lambda>e. JString (thread_error_message e)) (mcp_call_error t)),
      (''status'', JString (mcp_tool_call_status_as_str (mcp_call_status t)))]"
| "thread_item_to_json (TI_DynamicToolCall t) = json_object
     [(''type'', JString ''dynamicToolCall''), (''id'', JString (dynamic_call_id t)),
      (''tool'', JString (dynamic_call_tool t)), (''arguments'', dynamic_call_arguments t),
      (''status'', JString (dynamic_call_status t)),
      (''contentItems'', JArray (dynamic_call_content_items t)),
      (''success'', json_option JBool (dynamic_call_success t)),
      (''durationMs'', json_option enc_u64 (dynamic_call_duration_ms t))]"
| "thread_item_to_json (TI_CollabToolCall t) = json_object
     [(''type'', JString ''collabToolCall''), (''id'', JString (collab_call_id t)),
      (''tool'', JString (collab_call_tool t)), (''status'', JString (collab_call_status t)),
      (''senderThreadId'', JString (collab_call_sender_thread_id t)),
      (''receiverThreadId'', json_option JString (collab_call_receiver_thread_id t)),
      (''newThreadId'', json_option JString (collab_call_new_thread_id t)),
      (''prompt'', json_option JString (collab_call_prompt t)),
      (''agentStatus'', json_option JString (collab_call_agent_status t))]"
| "thread_item_to_json (TI_WebSearch w) = json_object
     [(''type'', JString ''webSearch''), (''id'', JString (web_search_id w)),
      (''query'', JString (web_search_query w))]"
| "thread_item_to_json (TI_ImageView v) = json_object
     [(''type'', JString ''imageView''), (''id'', JString (image_view_id v)),
      (''path'', JString (image_view_path v))]"
| "thread_item_to_json (TI_EnteredReviewMode r) = json_object
     [(''type'', JString ''enteredReviewMode''), (''id'', JString (review_mode_id r)),
      (''review'', JString (review_mode_review r))]"
| "thread_item_to_json (TI_ExitedReviewMode r) = json_object
     [(''type'', JString ''exitedReviewMode''), (''id'', JString (review_mode_id r)),
      (''review'', JString (review_mode_review r))]"
| "thread_item_to_json (TI_ContextCompaction c) = json_object
     [(''type'', JString ''contextCompaction''), (''id'', JString (context_compaction_id c))]"
| "thread_item_to_json (TI_TodoList t) = json_object
     [(''type'', JString ''todoList''), (''id'', JString (todo_list_id t)),
      (''items'', JArray (map (\<lambda>i. json_object
         [(''text'', JString (todo_text i)), (''completed'', JBool (todo_completed i))])
         (todo_list_items t)))]"
| "thread_item_to_json (TI_Error e) = json_object
     [(''type'', JString ''error''), (''id'', JString (error_item_id e)),
      (''message'', JString (error_item_message e))]"
| "thread_item_to_json (TI_Unknown u) = json_object
     [(''type'', JString ''unknown''), (''id'', json_option JString (unknown_id u)),
      (''itemType'', json_option JString (unknown_item_type u)), (''raw'', unknown_raw u)]"

fun thread_event_to_json :: "thread_event \<Rightarrow> json" where
  "thread_event_to_json (TE_ThreadStarted i) = json_object
     [(''type'', JString ''thread.started''), (''threadId'', JString i)]"
| "thread_event_to_json TE_TurnStarted = json_object [(''type'', JString ''turn.started'')]"
| "thread_event_to_json (TE_TurnCompleted u) =
     (let obj = json_object [(''type'', JString ''turn.completed'')]
      in case u of
           Some x \<Rightarrow> json_set ''usage'' (json_object
             [(''inputTokens'', enc_i64 (usage_input_tokens x)),
              (''cachedInputTokens'', enc_i64 (usage_cached_input_tokens x)),
              (''outputTokens'', enc_i64 (usage_output_tokens x))]) obj
         | None \<Rightarrow> obj)"
| "thread_event_to_json (TE_TurnFailed e) = json_object
     [(''type'', JString ''turn.failed''),
      (''error'', json_object [(''message'', JString (thread_error_message e))])]"
| "thread_event_to_json (TE_ItemStarted item) = json_object
     [(''type'', JString ''item.started''), (''item'', thread_item_to_json item)]"
| "thread_event_to_json (TE_ItemUpdated item) = json_object
     [(''type'', JString ''item.updated''), (''item'', thread_item_to_json item)]"
| "thread_event_to_json (TE_ItemCompleted item) = json_object
     [(''type'', JString ''item.completed''), (''item'', thread_item_to_json item)]"
| "thread_event_to_json (TE_Error message) = json_object
     [(''type'', JString ''error''), (''message'', JString message)]"

section \<open>Reading the JSON form back\<close>

lemma literal_map_fst: "map fst (map (\<lambda>(k, v). (k, Some v)) es) = map fst es"
  by (simp add: case_prod_beta comp_def)

lemma literal_map_map_of:
  "map_of (map (\<lambda>(k, v). (k, Some v)) es) k = map_option Some (map_of es k)"
  by (induction es) auto

lemma jget_literal_map:
  "distinct (map fst es) \<Longrightarrow> jget (literal_map es) k = map_of es k"
proof (cases "map_of es k")
  case None
  then have "k \<notin> fst ` set (map (\<lambda>(k, v). (k, Some v)) es)"
    by (force simp: map_of_eq_None_iff)
  then have "jget (literal_map es) k = None"
    unfolding literal_map_def insert_rows_eq by (subst jm.get_insert_all_other) simp_all
  with None show ?thesis by simp
next
  case (Some v)
  assume "distinct (map fst es)"
  with Some show ?thesis
    unfolding literal_map_def
    by (subst jget_insert_rows [where ov = "Some v"])
      (simp_all add: literal_map_fst literal_map_map_of del: map_map)
qed

lemma jsorted_literal_map [simp]: "jsorted (literal_map es)"
  by (simp add: literal_map_def)

lemma field_literal_map:
  "distinct (map fst es) \<Longrightarrow> field_with f (literal_map es) k = Option.bind (map_of es k) f"
  by (simp add: field_with_def jget_literal_map)

lemma str_field_literal_map:
  "distinct (map fst es) \<Longrightarrow>
   str_field (literal_map es) k = unwrap_or (Option.bind (map_of es k) as_str) []"
  by (simp add: str_field_def field_literal_map)

lemma bind_json_option:
  "Option.bind (Some (json_option f v)) g = (case v of Some x \<Rightarrow> g (f x) | None \<Rightarrow> g JNull)"
  by (simp add: json_option_def split: option.split)

lemma as_i64_exit_code: "as_i64 (enc_i64 (scast (code :: i32))) = Some (scast code)"
  by (simp add: enc_i64_def)

lemma exit_code_back: "i64_as_i32 (scast (code :: i32)) = code"
  unfolding i64_as_i32_def by (rule bit_word_eqI) (simp add: bit_simps)

lemma content_back:
  "parse_user_message_content_item (content_item_to_json c) = c \<longleftrightarrow>
     (case c of UMC_Unknown v \<Rightarrow> parse_user_message_content_item v = UMC_Unknown v | _ \<Rightarrow> True)"
  by (cases c) (simp_all add: json_object_def parse_user_message_content_item_def
      field_literal_map str_field_literal_map)

text \<open>The items whose JSON form, read back by the item parser, is the item again.\<close>

fun json_complete :: "thread_item \<Rightarrow> bool" where
  "json_complete (TI_UserMessage m) =
     list_all (\<lambda>c. case c of
         UMC_Unknown v \<Rightarrow> parse_user_message_content_item v = UMC_Unknown v
       | _ \<Rightarrow> True) (user_message_content m)"
| "json_complete (TI_McpToolCall t) = (mcp_call_result t \<noteq> None \<and> mcp_call_error t = None)"
| "json_complete (TI_Unknown u) = False"
| "json_complete _ = True"

lemma map_id_iff: "map f xs = xs \<longleftrightarrow> list_all (\<lambda>x. f x = x) xs"
  by (induction xs) auto

lemma map_filter_id:
  "(\<And>x. x \<in> set xs \<Longrightarrow> f (g x) = Some x) \<Longrightarrow> List.map_filter f (map g xs) = xs"
  by (induction xs) (simp_all add: map_filter_simps)

lemma change_back:
  "parse_file_update_change (json_object
     [(''path'', JString (change_path c)), (''kind'', JString (patch_change_kind_as_str (change_kind c)))])
   = Some c"
  by (simp add: json_object_def parse_file_update_change_def str_field_literal_map jget_literal_map
      patch_kind.parse_as_str)

lemma todo_back:
  "parse_todo_item (json_object
     [(''text'', JString (todo_text i)), (''completed'', JBool (todo_completed i))]) = Some i"
  by (simp add: json_object_def parse_todo_item_def str_field_literal_map field_literal_map)

lemma parse_literal:
  assumes "distinct (map fst es)" "map_of es ''type'' = Some (JString ty)"
    "map_of item_parsers ty = Some p"
  shows "parse_thread_item (json_object es) =
    p (unwrap_or (Option.bind (map_of es ''id'') as_str) []) (literal_map es)"
  using assms by (simp add: parse_thread_item_def json_object_def field_literal_map)

lemmas item_reading =
  parse_literal item_parsers_def str_field_literal_map field_literal_map jget_literal_map
  parse_agent_message_def parse_user_message_def parse_command_execution_def parse_file_change_def
  parse_mcp_tool_call_def parse_dynamic_tool_call_def parse_collab_tool_call_def parse_todo_list_def
  parse_reasoning_text_def json_option_def

lemma phase_back:
  assumes "item = TI_AgentMessage m"
  shows "parse_thread_item (thread_item_to_json item) = item"
proof (cases "agent_message_phase m")
  case None
  then show ?thesis by (cases m) (simp add: assms item_reading)
next
  case (Some phase)
  let ?es = "[(''type'', JString ''agentMessage''), (''id'', JString (agent_message_id m)),
     (''text'', JString (agent_message_text m)),
     (''phase'', JString (agent_message_phase_as_str phase))]"
  have "thread_item_to_json item = json_object ?es"
    by (simp add: assms Some json_object_def literal_map_def)
  with Some show ?thesis
    by (cases m) (simp add: assms item_reading phase.parse_as_str)
qed

lemma unknown_not_back: "parse_thread_item (thread_item_to_json (TI_Unknown u)) \<noteq> TI_Unknown u"
proof
  let ?es = "[(''type'', JString ''unknown''), (''id'', json_option JString (unknown_id u)),
    (''itemType'', json_option JString (unknown_item_type u)), (''raw'', unknown_raw u)]"
  assume same: "parse_thread_item (thread_item_to_json (TI_Unknown u)) = TI_Unknown u"
  have "parse_thread_item (json_object ?es) = TI_Unknown
      \<lparr>unknown_id = Option.bind (map_of ?es ''id'') as_str, unknown_item_type = Some ''unknown'',
       unknown_raw = json_object ?es\<rparr>"
    by (simp add: parse_thread_item_def json_object_def field_literal_map item_parsers_def)
  with same have raw: "unknown_raw u = json_object ?es" by (cases u) simp
  moreover have "jget (literal_map ?es) ''raw'' = Some (unknown_raw u)"
    by (simp add: jget_literal_map)
  then have "size (unknown_raw u) < size (json_object ?es)"
    unfolding json_object_def by (rule jget_size)
  ultimately show False by simp
qed

lemma mcp_back:
  "parse_thread_item (thread_item_to_json (TI_McpToolCall t)) = TI_McpToolCall t \<longleftrightarrow>
     json_complete (TI_McpToolCall t)"
  by (cases t; cases "mcp_call_result t"; cases "mcp_call_error t")
    (simp_all add: item_reading mcp_status.parse_as_str)

text \<open>
  C31: the JSON output of an item can be read back: parsing it gives the same item, for every item
  that is not unknown, apart from tool calls with an error or without a result and messages
  with an unknown content entry that looks like a known one; and for exactly those it does not.
\<close>

theorem item_json_round_trip:
  "parse_thread_item (thread_item_to_json item) = item \<longleftrightarrow> json_complete item"
proof (cases item)
  case (TI_AgentMessage m)
  then show ?thesis using phase_back by simp
next
  case (TI_UserMessage m)
  then show ?thesis
    by (cases m) (simp add: item_reading map_id_iff content_back comp_def)
next
  case (TI_CommandExecution c)
  then show ?thesis
    by (cases c; cases "command_exit_code c")
      (simp_all add: item_reading command_status.parse_as_str as_i64_exit_code exit_code_back)
next
  case (TI_FileChange f)
  then show ?thesis
    by (cases f) (simp add: item_reading patch_status.parse_as_str map_filter_id change_back)
next
  case (TI_McpToolCall t)
  then show ?thesis using mcp_back by simp
next
  case (TI_DynamicToolCall t)
  then show ?thesis
    by (cases t; cases "dynamic_call_success t"; cases "dynamic_call_duration_ms t")
      (simp_all add: item_reading enc_u64_def)
next
  case (TI_CollabToolCall t)
  then show ?thesis
    by (cases t; cases "collab_call_receiver_thread_id t"; cases "collab_call_new_thread_id t";
        cases "collab_call_prompt t"; cases "collab_call_agent_status t")
      (simp_all add: item_reading)
next
  case (TI_TodoList t)
  then show ?thesis by (cases t) (simp add: item_reading map_filter_id todo_back)
next
  case (TI_Unknown u)
  then show ?thesis using unknown_not_back by simp
qed (auto simp: item_reading)

end
