(* ===== verification/Luna_Human.thy ===== *)
theory Luna_Human
  imports Luna_Output "HOL-Library.Sublist"
begin

text \<open>
  What the command line tool prints: \<open>crates/luna/src/output/mod.rs\<close> and the loop of
  \<open>output/json.rs\<close>. \<open>HumanOutput\<close> is generic in its writer, and so is the model: a writer has
  \<open>write_all\<close> and \<open>flush\<close>, each of which may fail. A colour is applied by the parameter
  \<open>paint\<close>. The specification of the human form is a list of blocks with one blank line
  between any two of them.
\<close>

section \<open>Writers\<close>

record 'w writer =
  w_put :: "string \<Rightarrow> 'w \<Rightarrow> 'w \<times> (io_error + unit)"
  w_flush :: "'w \<Rightarrow> 'w \<times> (io_error + unit)"

text \<open>
  A writer that takes a number of bytes and then fails, or takes all; the bytes it has taken
  come first. With no bound it is the in-memory writer of the tests.
\<close>

definition bounded_put ::
  "io_error \<Rightarrow> string \<Rightarrow> string \<times> nat option \<Rightarrow> (string \<times> nat option) \<times> (io_error + unit)" where
  "bounded_put broken bytes s =
     (let (written, room) = s
      in case room of
           None \<Rightarrow> ((written @ bytes, None), Ok ())
         | Some n \<Rightarrow>
             (if length bytes \<le> n then ((written @ bytes, Some (n - length bytes)), Ok ())
              else ((written @ take n bytes, Some 0), Err broken)))"

definition bounded :: "io_error \<Rightarrow> (string \<times> nat option) writer" where
  "bounded broken = \<lparr>w_put = bounded_put broken, w_flush = (\<lambda>w. (w, Ok ()))\<rparr>"

section \<open>Styling\<close>

datatype style_attr = Green | Dimmed | Italic | Magenta | Cyan | Bold | Red | Yellow | Blue

type_synonym paint = "style_attr list \<Rightarrow> string \<Rightarrow> string"

fun kind_style :: "rendered_item_kind \<Rightarrow> style_attr list" where
  "kind_style RK_AgentMessage = [Green]"
| "kind_style RK_Reasoning = [Dimmed, Italic]"
| "kind_style RK_Plan = [Magenta]"
| "kind_style RK_ToolCall = [Cyan, Bold]"
| "kind_style RK_CommandExecution = [Cyan, Bold]"
| "kind_style RK_FileChange = [Cyan, Bold]"
| "kind_style RK_Error = [Red, Bold]"
| "kind_style RK_Status = [Yellow]"
| "kind_style RK_Unknown = [Yellow]"
| "kind_style RK_UserMessage = [Blue]"

text \<open>\<open>Styling\<close> is whether colours are on.\<close>

definition styling_detect :: "bool \<Rightarrow> bool \<Rightarrow> bool" where
  "styling_detect tty no_color = (tty \<and> \<not> no_color)"

definition styling_render :: "paint \<Rightarrow> bool \<Rightarrow> rendered_item_kind \<Rightarrow> string \<Rightarrow> string" where
  "styling_render paint enabled k t = (if enabled then paint (kind_style k) t else t)"

definition ends_with_newline :: "string \<Rightarrow> bool" where
  "ends_with_newline t = (t \<noteq> [] \<and> last t = lf)"

section \<open>Fragments to text\<close>

record 'w human_output =
  ho_writer :: 'w
  ho_current_item :: "(rendered_item_kind \<times> string option) option"
  ho_printed_any :: bool
  ho_ended_with_newline :: bool

definition human_new :: "'w \<Rightarrow> 'w human_output" where
  "human_new w =
     \<lparr>ho_writer = w, ho_current_item = None, ho_printed_any = False, ho_ended_with_newline = False\<rparr>"

definition ho_io ::
  "('w \<Rightarrow> 'w \<times> (io_error + unit)) \<Rightarrow> 'w human_output \<Rightarrow> 'w human_output \<times> (luna_error + unit)" where
  "ho_io f h =
     (let (w, r) = f (ho_writer h)
      in (h\<lparr>ho_writer := w\<rparr>, case r of Inl e \<Rightarrow> Err (LE_Io e) | Inr u \<Rightarrow> Ok u))"

definition separate_blocks ::
  "'w writer \<Rightarrow> 'w human_output \<Rightarrow> 'w human_output \<times> (luna_error + unit)" where
  "separate_blocks W h =
     (if \<not> ho_printed_any h then (h, Ok ())
      else
        and_do (if \<not> ho_ended_with_newline h then ho_io (w_put W [lf]) h else (h, Ok ()))
          (\<lambda>h _. and_do (ho_io (w_put W [lf]) h)
            (\<lambda>h _. (h\<lparr>ho_ended_with_newline := True\<rparr>, Ok ()))))"

definition fragment_identity :: "rendered_item \<Rightarrow> rendered_item_kind \<times> string option" where
  "fragment_identity f = (rendered_kind f, rendered_item_id f)"

text \<open>The text of a fragment, where a continuation that starts a block is named first.\<close>

definition fragment_markdown :: "bool \<Rightarrow> rendered_item \<Rightarrow> string" where
  "fragment_markdown same f =
     (if rendered_continuation f \<and> \<not> same then
        (case rendered_kind f of
           RK_Reasoning \<Rightarrow> ''Reasoning: ''
         | RK_Plan \<Rightarrow> ''Plan: ''
         | _ \<Rightarrow> []) @ rendered_markdown f
      else rendered_markdown f)"

definition write_fragment ::
  "'w writer \<Rightarrow> paint \<Rightarrow> bool \<Rightarrow> rendered_item \<Rightarrow> 'w human_output
    \<Rightarrow> 'w human_output \<times> (luna_error + unit)" where
  "write_fragment W paint enabled f h =
     (if rendered_kind f = RK_UserMessage then (h, Ok ())
      else
        (let same = (rendered_continuation f \<and> ho_current_item h = Some (fragment_identity f));
             markdown = fragment_markdown same f;
             styled = styling_render paint enabled (rendered_kind f) markdown
         in and_do (if \<not> same then separate_blocks W h else (h, Ok ()))
              (\<lambda>h _. and_do (ho_io (w_put W styled) h)
                (\<lambda>h _. and_do (ho_io (w_flush W) h)
                  (\<lambda>h _. (h\<lparr>ho_printed_any := True,
                            ho_ended_with_newline := ends_with_newline markdown,
                            ho_current_item := Some (fragment_identity f)\<rparr>, Ok ()))))))"

definition human_finish ::
  "'w writer \<Rightarrow> 'w human_output \<Rightarrow> 'w human_output \<times> (luna_error + unit)" where
  "human_finish W h =
     and_do
       (if ho_printed_any h \<and> \<not> ho_ended_with_newline h then
          and_do (ho_io (w_put W [lf]) h) (\<lambda>h _. (h\<lparr>ho_ended_with_newline := True\<rparr>, Ok ()))
        else (h, Ok ()))
       (\<lambda>h _. ho_io (w_flush W) h)"

text \<open>\<open>print_final_response\<close>, on the writer itself.\<close>

definition print_final_response :: "'w writer \<Rightarrow> string \<Rightarrow> 'w \<Rightarrow> 'w \<times> (io_error + unit)" where
  "print_final_response W response w =
     (if response \<noteq> [] then
        and_do (w_put W response w)
          (\<lambda>w _. and_do (w_flush W w)
            (\<lambda>w _. if \<not> ends_with_newline response then w_put W [lf] w else (w, Ok ())))
      else (w, Ok ()))"

section \<open>Streaming a turn\<close>

text \<open>
  The events of a turn, as the stream hands them out, then the end of the channel, which is
  \<open>closed\<close> or still open; in the second case the call is waiting and has no result yet.
\<close>

definition turn_failed_error :: "string \<Rightarrow> luna_error" where
  "turn_failed_error m = LE_Turn (''turn failed: '' @ m)"

definition stream_error :: "string \<Rightarrow> luna_error" where
  "stream_error m = LE_Turn (''stream error: '' @ m)"

fun event_verdict :: "thread_event \<Rightarrow> (luna_error + unit) option" where
  "event_verdict (TE_TurnCompleted u) = Some (Ok ())"
| "event_verdict (TE_TurnFailed e) = Some (Err (turn_failed_error (thread_error_message e)))"
| "event_verdict (TE_Error m) = Some (Err (stream_error m))"
| "event_verdict e = None"

fun stream_human_events ::
  "'w writer \<Rightarrow> paint \<Rightarrow> bool \<Rightarrow> (json \<Rightarrow> string option) \<Rightarrow> bool \<Rightarrow> stream_item list \<Rightarrow> streamed_items
    \<Rightarrow> 'w human_output \<Rightarrow> 'w human_output \<times> (luna_error + unit) option"
where
  "stream_human_events W paint enabled text_of closed [] streamed h =
     (h, if closed
         then Some (Err (LE_Turn ''stream closed before receiving turn completion''))
         else None)"
| "stream_human_events W paint enabled text_of closed (Inl e # items) streamed h =
     (h, Some (Err (LE_Client e)))"
| "stream_human_events W paint enabled text_of closed (Inr event # items) streamed h =
     (let (streamed1, fragment) = render_event text_of event streamed;
          (h1, written) =
            (case fragment of
               Some f \<Rightarrow> write_fragment W paint enabled f h
             | None \<Rightarrow> (h, Ok ()))
      in case written of
           Inl e \<Rightarrow> (h1, Some (Err e))
         | Inr _ \<Rightarrow>
             (case event_verdict event of
                None \<Rightarrow> stream_human_events W paint enabled text_of closed items streamed1 h1
              | Some verdict \<Rightarrow>
                  (let (h2, finished) = human_finish W h1
                   in (h2, Some (and_then finished (\<lambda>_. verdict))))))"

text \<open>\<open>writeln!\<close> formats the line and its newline to the standard output, one write each.\<close>

definition write_line :: "'w writer \<Rightarrow> string \<Rightarrow> 'w \<Rightarrow> 'w \<times> (io_error + unit)" where
  "write_line W line w = and_do (w_put W line w) (\<lambda>w _. w_put W [lf] w)"

fun stream_json_events ::
  "'w writer \<Rightarrow> (json \<Rightarrow> string + string) \<Rightarrow> bool \<Rightarrow> stream_item list \<Rightarrow> 'w
    \<Rightarrow> 'w \<times> (luna_error + unit) option"
where
  "stream_json_events W to_text closed [] w = (w, if closed then Some (Ok ()) else None)"
| "stream_json_events W to_text closed (Inl e # items) w = (w, Some (Err (LE_Client e)))"
| "stream_json_events W to_text closed (Inr event # items) w =
     (case to_text (thread_event_to_json event) of
        Inl e \<Rightarrow> (w, Some (Err (LE_Protocol (''failed to serialize event: '' @ e))))
      | Inr line \<Rightarrow>
          (let (w1, written) = write_line W line w
           in case written of
                Inl e \<Rightarrow> (w1, Some (Err (LE_Io e)))
              | Inr _ \<Rightarrow>
                  (case event_verdict event of
                     None \<Rightarrow> stream_json_events W to_text closed items w1
                   | Some verdict \<Rightarrow> (w1, Some verdict))))"

section \<open>Blocks\<close>

text \<open>
  The specification: the fragments that are shown fall into blocks, a continuation of the
  fragment before it being in the same block. A block is closed by a newline unless its last
  fragment has one, and the blocks are separated by one blank line.
\<close>

definition continues :: "rendered_item_kind \<times> string option \<Rightarrow> rendered_item \<Rightarrow> bool" where
  "continues i f \<longleftrightarrow> rendered_continuation f \<and> fragment_identity f = i"

fun human_blocks :: "rendered_item list \<Rightarrow> rendered_item list list" where
  "human_blocks [] = []"
| "human_blocks (f # fs) =
     (case human_blocks fs of
        [] \<Rightarrow> [[f]]
      | g # gs \<Rightarrow> (if continues (fragment_identity f) (hd g) then (f # g) # gs else [f] # g # gs))"

definition fragment_text :: "paint \<Rightarrow> bool \<Rightarrow> bool \<Rightarrow> rendered_item \<Rightarrow> string" where
  "fragment_text paint enabled same f =
     styling_render paint enabled (rendered_kind f) (fragment_markdown same f)"

definition closing_newline :: "rendered_item list \<Rightarrow> string" where
  "closing_newline b = (if ends_with_newline (rendered_markdown (last b)) then [] else [lf])"

definition closed_block :: "paint \<Rightarrow> bool \<Rightarrow> rendered_item list \<Rightarrow> string" where
  "closed_block paint enabled b =
     fragment_text paint enabled False (hd b) @ concat (map (fragment_text paint enabled True) (tl b)) @
     closing_newline b"

definition shown :: "rendered_item list \<Rightarrow> rendered_item list" where
  "shown fs = filter (\<lambda>f. rendered_kind f \<noteq> RK_UserMessage) fs"

definition human_text :: "paint \<Rightarrow> bool \<Rightarrow> rendered_item list \<Rightarrow> string" where
  "human_text paint enabled fs =
     join_with [lf] (map (closed_block paint enabled) (human_blocks (shown fs)))"

text \<open>The fragments of a list, one after the other, and the end of the output.\<close>

fun print_fragments ::
  "'w writer \<Rightarrow> paint \<Rightarrow> bool \<Rightarrow> rendered_item list \<Rightarrow> 'w human_output
    \<Rightarrow> 'w human_output \<times> (luna_error + unit)"
where
  "print_fragments W paint enabled [] h = human_finish W h"
| "print_fragments W paint enabled (f # fs) h =
     and_do (write_fragment W paint enabled f h) (\<lambda>h _. print_fragments W paint enabled fs h)"

section \<open>What a step emits\<close>

text \<open>
  A step emits a text and leaves the control part of the state in a known value, or fails
  having emitted a prefix of the text.
\<close>

type_synonym control = "(rendered_item_kind \<times> string option) option \<times> bool \<times> bool"

definition control :: "'w human_output \<Rightarrow> control" where
  "control h = (ho_current_item h, ho_printed_any h, ho_ended_with_newline h)"

definition emits ::
  "('w \<Rightarrow> string) \<Rightarrow> 'w human_output \<Rightarrow> string \<Rightarrow> control
    \<Rightarrow> 'w human_output \<times> (luna_error + unit) \<Rightarrow> bool" where
  "emits bytes h t c r =
     (case r of
        (h', Inr _) \<Rightarrow> bytes (ho_writer h') = bytes (ho_writer h) @ t \<and> control h' = c
      | (h', Inl _) \<Rightarrow> \<exists>p. prefix p t \<and> bytes (ho_writer h') = bytes (ho_writer h) @ p)"

lemma emits_Ok: "control h = c \<Longrightarrow> emits bytes h [] c (h, Ok ())"
  by (simp add: emits_def)

lemma emits_update:
  assumes "ho_writer h' = ho_writer h" "control h' = c"
  shows "emits bytes h [] c (h', Ok ())"
  using assms by (simp add: emits_def)

lemma emits_and_do:
  assumes "emits bytes h t c r" "\<And>h'. control h' = c \<Longrightarrow> emits bytes h' t' c' (f h' ())"
  shows "emits bytes h (t @ t') c' (and_do r f)"
proof -
  obtain h1 e where r: "r = (h1, e)" by (cases r)
  show ?thesis
  proof (cases e)
    case (Inl x)
    with assms(1) r show ?thesis
      by (force simp: emits_def and_do_def)
  next
    case (Inr u)
    with assms(1) r have one: "bytes (ho_writer h1) = bytes (ho_writer h) @ t" "control h1 = c"
      by (simp_all add: emits_def)
    from assms(2) [OF one(2)] one(1) show ?thesis
      using r Inr by (auto simp: emits_def and_do_def split: sum.splits prod.splits)
  qed
qed

text \<open>The pure part of the loop: what the fragments still to come emit from a control state.\<close>

definition separation :: "control \<Rightarrow> rendered_item \<Rightarrow> string" where
  "separation c f =
     (case c of (i, printed, ended) \<Rightarrow>
        if rendered_continuation f \<and> i = Some (fragment_identity f) \<or> \<not> printed then []
        else (if ended then [] else [lf]) @ [lf])"

definition next_control :: "control \<Rightarrow> rendered_item \<Rightarrow> control" where
  "next_control c f =
     (if rendered_kind f = RK_UserMessage then c
      else (Some (fragment_identity f), True, ends_with_newline (rendered_markdown f)))"

definition finish_text :: "control \<Rightarrow> string" where
  "finish_text c = (case c of (i, printed, ended) \<Rightarrow> if printed \<and> \<not> ended then [lf] else [])"

definition finish_control :: "control \<Rightarrow> control" where
  "finish_control c = (case c of (i, printed, ended) \<Rightarrow> (i, printed, printed \<or> ended))"

definition same_item :: "control \<Rightarrow> rendered_item \<Rightarrow> bool" where
  "same_item c f \<longleftrightarrow> rendered_continuation f \<and> fst c = Some (fragment_identity f)"

fun rest_text :: "paint \<Rightarrow> bool \<Rightarrow> control \<Rightarrow> rendered_item list \<Rightarrow> string" where
  "rest_text paint enabled c [] = finish_text c"
| "rest_text paint enabled c (f # fs) =
     (if rendered_kind f = RK_UserMessage then rest_text paint enabled c fs
      else separation c f @ fragment_text paint enabled (same_item c f) f @
        rest_text paint enabled (next_control c f) fs)"

lemma ends_with_newline_markdown [simp]:
  "ends_with_newline (fragment_markdown same f) = ends_with_newline (rendered_markdown f)"
  by (cases "rendered_kind f")
    (auto simp: fragment_markdown_def ends_with_newline_def lf_def)

text \<open>
  The interface of a writer: the bytes it has, of which a put that succeeds adds its argument
  and a put that fails at most a prefix of it.
\<close>

locale byte_writer =
  fixes W :: "'w writer"
    and bytes :: "'w \<Rightarrow> string"
  assumes put_ok: "w_put W s w = (w', Ok u) \<Longrightarrow> bytes w' = bytes w @ s"
    and put_fails: "w_put W s w = (w', Err e) \<Longrightarrow> \<exists>p. prefix p s \<and> bytes w' = bytes w @ p"
    and flush_keeps: "w_flush W w = (w', r) \<Longrightarrow> bytes w' = bytes w"
begin

lemma emits_put:
  assumes "control h = c"
  shows "emits bytes h s c (ho_io (w_put W s) h)"
proof (cases "w_put W s (ho_writer h)")
  case (Pair w r)
  show ?thesis
  proof (cases r)
    case (Inl e)
    with put_fails [of s "ho_writer h" w e] Pair show ?thesis
      by (simp add: emits_def ho_io_def)
  next
    case (Inr u)
    with put_ok [of s "ho_writer h" w u] Pair assms show ?thesis
      by (simp add: emits_def ho_io_def control_def)
  qed
qed

lemma emits_flush:
  assumes "control h = c"
  shows "emits bytes h [] c (ho_io (w_flush W) h)"
proof (cases "w_flush W (ho_writer h)")
  case (Pair w r)
  with flush_keeps [of "ho_writer h" w r] assms show ?thesis
    by (cases r) (simp_all add: emits_def ho_io_def control_def)
qed

lemma emits_put_then:
  assumes "control h = c" "\<And>h'. control h' = c \<Longrightarrow> emits bytes h' t c' (f h' ())"
  shows "emits bytes h (s @ t) c' (and_do (ho_io (w_put W s) h) f)"
  using emits_put [OF assms(1)] assms(2) by (rule emits_and_do)

lemma emits_flush_then:
  assumes "control h = c" "\<And>h'. control h' = c \<Longrightarrow> emits bytes h' t c' (f h' ())"
  shows "emits bytes h t c' (and_do (ho_io (w_flush W) h) f)"
proof -
  have "emits bytes h ([] @ t) c' (and_do (ho_io (w_flush W) h) f)"
    using emits_flush [OF assms(1)] assms(2) by (rule emits_and_do)
  then show ?thesis by simp
qed

lemma emits_separate:
  assumes "control h = (i, printed, ended)"
  shows "emits bytes h (if printed then (if ended then [] else [lf]) @ [lf] else [])
    (i, printed, printed \<or> ended) (separate_blocks W h)"
proof (cases printed)
  case False
  with assms show ?thesis by (simp add: separate_blocks_def emits_def control_def)
next
  case True
  have last: "emits bytes h' [] (i, True, True) (h'\<lparr>ho_ended_with_newline := True\<rparr>, Ok ())"
    if "control h' = (i, True, e)" for h' e
    using that by (intro emits_update) (simp_all add: control_def)
  have second: "emits bytes h' [lf] (i, True, True)
      (and_do (ho_io (w_put W [lf]) h') (\<lambda>h _. (h\<lparr>ho_ended_with_newline := True\<rparr>, Ok ())))"
    if "control h' = (i, True, e)" for h' e
  proof -
    have "emits bytes h' ([lf] @ []) (i, True, True)
        (and_do (ho_io (w_put W [lf]) h') (\<lambda>h _. (h\<lparr>ho_ended_with_newline := True\<rparr>, Ok ())))"
      by (rule emits_put_then [OF that]) (rule last)
    then show ?thesis by simp
  qed
  show ?thesis
  proof (cases ended)
    case True
    with assms \<open>printed\<close> show ?thesis
      using second [of h True] by (simp add: separate_blocks_def control_def)
  next
    case False
    have "emits bytes h ([lf] @ [lf]) (i, True, True)
        (and_do (ho_io (w_put W [lf]) h)
          (\<lambda>h _. and_do (ho_io (w_put W [lf]) h) (\<lambda>h _. (h\<lparr>ho_ended_with_newline := True\<rparr>, Ok ()))))"
      by (rule emits_put_then [where c = "(i, True, False)"])
        (use assms \<open>printed\<close> False in simp, rule second)
    with assms \<open>printed\<close> False show ?thesis by (simp add: separate_blocks_def control_def)
  qed
qed

lemma emits_done:
  "control h = c \<Longrightarrow> c' = (i, True, e) \<Longrightarrow>
   emits bytes h [] c'
     (h\<lparr>ho_printed_any := True, ho_ended_with_newline := e, ho_current_item := i\<rparr>, Ok ())"
  by (rule emits_update) (simp_all add: control_def)

lemma emits_fragment:
  assumes "control h = c" "rendered_kind f \<noteq> RK_UserMessage"
  shows "emits bytes h (separation c f @ fragment_text paint enabled (same_item c f) f)
    (next_control c f) (write_fragment W paint enabled f h)"
proof -
  obtain i printed ended where c: "c = (i, printed, ended)" by (cases c)
  let ?same = "same_item c f"
  let ?markdown = "fragment_markdown ?same f"
  let ?sep = "if \<not> ?same then separate_blocks W h else (h, Ok ())"
  let ?done = "\<lambda>h _. (h\<lparr>ho_printed_any := True, ho_ended_with_newline := ends_with_newline ?markdown,
      ho_current_item := Some (fragment_identity f)\<rparr>, Ok ())"
  let ?print = "\<lambda>h _. and_do
      (ho_io (w_put W (styling_render paint enabled (rendered_kind f) ?markdown)) h)
      (\<lambda>h _. and_do (ho_io (w_flush W) h) ?done)"
  have same: "?same = (rendered_continuation f \<and> ho_current_item h = Some (fragment_identity f))"
    using assms(1) by (auto simp: same_item_def control_def)
  have fragment: "emits bytes h' (fragment_text paint enabled ?same f) (next_control c f)
      (?print h' ())" if "control h' = c'" for h' c'
  proof -
    have "emits bytes h' (fragment_text paint enabled ?same f @ []) (next_control c f) (?print h' ())"
      unfolding fragment_text_def
      by (rule emits_put_then [OF that], erule emits_flush_then, erule emits_done)
        (simp add: next_control_def assms(2))
    then show ?thesis by simp
  qed
  have sep: "emits bytes h (separation c f) (if ?same then c else finish_control c) ?sep"
  proof (cases ?same)
    case True
    with assms(1) show ?thesis by (auto simp: separation_def same_item_def c emits_Ok)
  next
    case False
    with emits_separate [OF assms(1) [unfolded c]] show ?thesis
      by (auto simp: separation_def same_item_def finish_control_def c)
  qed
  have "write_fragment W paint enabled f h = and_do ?sep ?print"
    using assms(2) by (simp add: write_fragment_def Let_def same)
  moreover have "emits bytes h (separation c f @ fragment_text paint enabled ?same f)
      (next_control c f) (and_do ?sep ?print)"
    using sep fragment by (rule emits_and_do)
  ultimately show ?thesis by simp
qed

lemma emits_finish:
  assumes "control h = c"
  shows "emits bytes h (finish_text c) (finish_control c) (human_finish W h)"
proof -
  obtain i printed ended where c: "c = (i, printed, ended)" by (cases c)
  let ?newline = "if ho_printed_any h \<and> \<not> ho_ended_with_newline h
      then and_do (ho_io (w_put W [lf]) h) (\<lambda>h _. (h\<lparr>ho_ended_with_newline := True\<rparr>, Ok ()))
      else (h, Ok ())"
  have newline: "emits bytes h (finish_text c) (finish_control c) ?newline"
  proof (cases "printed \<and> \<not> ended")
    case True
    have "emits bytes h ([lf] @ []) (i, printed, True)
        (and_do (ho_io (w_put W [lf]) h) (\<lambda>h _. (h\<lparr>ho_ended_with_newline := True\<rparr>, Ok ())))"
      by (rule emits_put_then [OF assms], rule emits_update) (simp_all add: control_def c)
    with True assms show ?thesis
      by (auto simp: control_def c finish_text_def finish_control_def)
  next
    case False
    with assms show ?thesis
      by (auto simp: control_def c finish_text_def finish_control_def emits_def)
  qed
  have flush: "emits bytes h' [] (finish_control c) (ho_io (w_flush W) h')"
    if "control h' = finish_control c" for h'
    using that by (rule emits_flush)
  have "emits bytes h (finish_text c @ []) (finish_control c) (human_finish W h)"
    unfolding human_finish_def using newline flush by (rule emits_and_do)
  then show ?thesis by simp
qed

lemma emits_fragments:
  assumes "control h = c"
  shows "emits bytes h (rest_text paint enabled c fs) (finish_control (foldl next_control c fs))
    (print_fragments W paint enabled fs h)"
  using assms
proof (induction fs arbitrary: h c)
  case Nil
  then show ?case by (simp add: emits_finish)
next
  case (Cons f fs)
  show ?case
  proof (cases "rendered_kind f = RK_UserMessage")
    case True
    have "emits bytes h (rest_text paint enabled c fs) (finish_control (foldl next_control c fs))
        (print_fragments W paint enabled fs h)"
      using Cons.prems by (rule Cons.IH)
    moreover have "next_control c f = c" by (simp add: next_control_def True)
    ultimately show ?thesis using True by (simp add: write_fragment_def)
  next
    case False
    have "emits bytes h
        ((separation c f @ fragment_text paint enabled (same_item c f) f) @
          rest_text paint enabled (next_control c f) fs)
        (finish_control (foldl next_control (next_control c f) fs))
        (and_do (write_fragment W paint enabled f h) (\<lambda>h _. print_fragments W paint enabled fs h))"
      using emits_fragment [OF Cons.prems False] Cons.IH by (rule emits_and_do)
    with False show ?thesis by simp
  qed
qed

end

interpretation bounded: byte_writer "bounded broken" fst
  by unfold_locales
    (auto simp: bounded_def bounded_put_def take_is_prefix split: option.splits if_splits)

section \<open>The blocks are what is printed\<close>

lemma join_with_Cons:
  "join_with sep (x # xs) = x @ (if xs = [] then [] else sep @ join_with sep xs)"
  by (cases xs) simp_all

lemma human_blocks_nonempty: "b \<in> set (human_blocks fs) \<Longrightarrow> b \<noteq> []"
  by (induction fs arbitrary: b) (auto split: list.splits if_splits)

definition blocks_text :: "paint \<Rightarrow> bool \<Rightarrow> rendered_item list list \<Rightarrow> string" where
  "blocks_text paint enabled bs = join_with [lf] (map (closed_block paint enabled) bs)"

lemma blocks_text_Nil [simp]: "blocks_text paint enabled [] = []"
  by (simp add: blocks_text_def)

lemma blocks_text_Cons:
  "blocks_text paint enabled (b # bs) =
     closed_block paint enabled b @ (if bs = [] then [] else lf # blocks_text paint enabled bs)"
  by (simp add: blocks_text_def join_with_Cons)

definition block_rest :: "paint \<Rightarrow> bool \<Rightarrow> rendered_item_kind \<times> string option \<Rightarrow> bool
    \<Rightarrow> rendered_item list list \<Rightarrow> string" where
  "block_rest paint enabled i e bs =
     (case bs of
        [] \<Rightarrow> finish_text (Some i, True, e)
      | b # bs' \<Rightarrow>
          if continues i (hd b) then
            concat (map (fragment_text paint enabled True) b) @ closing_newline b @
            (if bs' = [] then [] else lf # blocks_text paint enabled bs')
          else (if e then [] else [lf]) @ lf # blocks_text paint enabled bs)"

lemma block_rest_Cons:
  assumes "blocks = human_blocks fs"
  shows "fragment_text paint enabled False f @
      block_rest paint enabled (fragment_identity f) (ends_with_newline (rendered_markdown f)) blocks =
    blocks_text paint enabled (human_blocks (f # fs))"
    and "continues i f \<Longrightarrow> fragment_text paint enabled True f @
      block_rest paint enabled (fragment_identity f) (ends_with_newline (rendered_markdown f)) blocks =
    block_rest paint enabled i e (human_blocks (f # fs))"
    and "\<not> continues i f \<Longrightarrow>
      (if e then [] else [lf]) @ lf # blocks_text paint enabled (human_blocks (f # fs)) =
    block_rest paint enabled i e (human_blocks (f # fs))"
proof -
  let ?n = "ends_with_newline (rendered_markdown f)"
  have b: "b \<noteq> []" if "human_blocks fs = b # bs" for b bs
    using human_blocks_nonempty [of b fs] that by simp
  show "fragment_text paint enabled False f @ block_rest paint enabled (fragment_identity f) ?n blocks =
    blocks_text paint enabled (human_blocks (f # fs))"
    using b assms by (cases "human_blocks fs")
      (simp_all add: block_rest_def blocks_text_Cons closed_block_def closing_newline_def finish_text_def)
  show "fragment_text paint enabled True f @ block_rest paint enabled (fragment_identity f) ?n blocks =
    block_rest paint enabled i e (human_blocks (f # fs))" if "continues i f"
    using b assms that by (cases "human_blocks fs")
      (simp_all add: block_rest_def blocks_text_Cons closing_newline_def finish_text_def)
  show "(if e then [] else [lf]) @ lf # blocks_text paint enabled (human_blocks (f # fs)) =
    block_rest paint enabled i e (human_blocks (f # fs))" if "\<not> continues i f"
    using that by (cases "human_blocks fs") (simp_all add: block_rest_def)
qed

lemma shown_Cons:
  "shown (f # fs) = (if rendered_kind f = RK_UserMessage then shown fs else f # shown fs)"
  by (simp add: shown_def)

lemma rest_text_blocks:
  "rest_text paint enabled (None, False, False) fs = blocks_text paint enabled (human_blocks (shown fs))"
  "rest_text paint enabled (Some i, True, e) fs =
     block_rest paint enabled i e (human_blocks (shown fs))"
proof (induction fs arbitrary: i e)
  case Nil
  {
    case 1
    then show ?case by (simp add: shown_def blocks_text_def finish_text_def)
  next
    case 2
    then show ?case by (simp add: shown_def block_rest_def)
  }
next
  case (Cons f fs)
  note rest = block_rest_Cons [OF refl, where paint = paint and enabled = enabled and f = f and
    fs = "shown fs"]
  {
    case 1
    show ?case
      using Cons.IH rest(1)
      by (simp add: shown_Cons separation_def same_item_def next_control_def)
  next
    case 2
    show ?case
    proof (cases "rendered_kind f = RK_UserMessage")
      case True
      with Cons.IH(2) show ?thesis by (simp add: shown_Cons)
    next
      case False
      then show ?thesis
      proof (cases "continues i f")
        case True
        with False Cons.IH(2) rest(2) [OF True, of e] show ?thesis
          by (simp add: shown_Cons separation_def same_item_def next_control_def continues_def)
      next
        case no: False
        with False Cons.IH(2) rest(1) rest(3) [OF no, of e] show ?thesis
          by (auto simp: shown_Cons separation_def same_item_def next_control_def continues_def
              simp del: human_blocks.simps)
      qed
    qed
  }
qed

text \<open>
  What the human output prints is the blocks of the fragments, each closed by one newline and
  with one blank line between any two; a writer that fails is left with a beginning of that text.
\<close>

theorem human_output_is_blocks:
  "case print_fragments (bounded broken) paint enabled fs (human_new ([], room)) of
     (h, Inr _) \<Rightarrow> fst (ho_writer h) = human_text paint enabled fs
   | (h, Inl _) \<Rightarrow> prefix (fst (ho_writer h)) (human_text paint enabled fs)"
proof -
  have "emits fst (human_new ([], room)) (rest_text paint enabled (None, False, False) fs)
      (finish_control (foldl next_control (None, False, False) fs))
      (print_fragments (bounded broken) paint enabled fs (human_new ([], room)))"
    by (rule bounded.emits_fragments) (simp add: human_new_def control_def)
  then show ?thesis
    by (auto simp: emits_def human_new_def rest_text_blocks human_text_def blocks_text_def
        split: sum.splits prod.splits)
qed

section \<open>A turn in both forms\<close>

text \<open>The events that are shown: up to the first that ends the turn.\<close>

fun shown_events :: "stream_item list \<Rightarrow> thread_event list" where
  "shown_events [] = []"
| "shown_events (Inl e # items) = []"
| "shown_events (Inr event # items) =
     event # (if event_verdict event = None then shown_events items else [])"

fun first_verdict :: "stream_item list \<Rightarrow> (luna_error + unit) option" where
  "first_verdict [] = None"
| "first_verdict (Inl e # items) = Some (Err (LE_Client e))"
| "first_verdict (Inr event # items) =
     (case event_verdict event of None \<Rightarrow> first_verdict items | Some v \<Rightarrow> Some v)"

lemma bounded_total [simp]:
  assumes "snd (ho_writer h) = None"
  shows "ho_io (w_put (bounded broken) s) h = (h\<lparr>ho_writer := (fst (ho_writer h) @ s, None)\<rparr>, Ok ())"
    "ho_io (w_flush (bounded broken)) h = (h, Ok ())"
  using assms by (cases "ho_writer h"; simp add: ho_io_def bounded_def bounded_put_def)+

definition one_text :: "paint \<Rightarrow> bool \<Rightarrow> control \<Rightarrow> rendered_item \<Rightarrow> string" where
  "one_text paint enabled c f =
     (if rendered_kind f = RK_UserMessage then []
      else separation c f @ fragment_text paint enabled (same_item c f) f)"

lemma rest_text_one:
  "rest_text paint enabled c (f # fs) =
     one_text paint enabled c f @ rest_text paint enabled (next_control c f) fs"
  by (simp add: one_text_def next_control_def)

lemma write_fragment_total:
  assumes "snd (ho_writer h) = None"
  obtains h' where "write_fragment (bounded broken) paint enabled f h = (h', Ok ())"
    "ho_writer h' = (fst (ho_writer h) @ one_text paint enabled (control h) f, None)"
    "control h' = next_control (control h) f"
proof (cases "rendered_kind f = RK_UserMessage")
  case True
  with assms show ?thesis
    by (intro that [of h]) (auto simp: write_fragment_def one_text_def next_control_def prod_eq_iff)
next
  case False
  let ?r = "write_fragment (bounded broken) paint enabled f h"
  have total: "snd ?r = Ok () \<and> snd (ho_writer (fst ?r)) = None"
    using assms False by (simp add: write_fragment_def separate_blocks_def Let_def)
  have "emits fst h (separation (control h) f @ fragment_text paint enabled (same_item (control h) f) f)
      (next_control (control h) f) ?r"
    by (rule bounded.emits_fragment) (simp_all add: False)
  with total False show ?thesis
    by (intro that [of "fst ?r"])
      (auto simp: emits_def one_text_def prod_eq_iff split: prod.splits sum.splits)
qed

lemma human_finish_total:
  assumes "snd (ho_writer h) = None"
  obtains h' where "human_finish (bounded broken) h = (h', Ok ())"
    "fst (ho_writer h') = fst (ho_writer h) @ finish_text (control h)" "finish_text (control h') = []"
  using assms
  by (cases "ho_printed_any h \<and> \<not> ho_ended_with_newline h")
    (auto simp: human_finish_def finish_text_def control_def)

lemma human_stream:
  assumes "snd (ho_writer h) = None"
  shows "\<exists>h'. stream_human_events (bounded broken) paint enabled text_of closed items streamed h =
      (h', or_opt (first_verdict items)
             (if closed
              then Some (Err (LE_Turn ''stream closed before receiving turn completion''))
              else None)) \<and>
    fst (ho_writer h') @ finish_text (control h') =
      fst (ho_writer h) @
      rest_text paint enabled (control h) (snd (render_events text_of (shown_events items) streamed))"
  using assms
proof (induction items arbitrary: h streamed)
  case Nil
  then show ?case by simp
next
  case (Cons item items)
  show ?case
  proof (cases item)
    case (Inl e)
    then show ?thesis by simp
  next
    case (Inr event)
    obtain streamed1 fragment where render: "render_event text_of event streamed = (streamed1, fragment)"
      by (cases "render_event text_of event streamed")
    obtain streamed2 more where rest: "render_events text_of
        (if event_verdict event = None then shown_events items else []) streamed1 = (streamed2, more)"
      by fastforce
    obtain h1 where h1: "(case fragment of Some f \<Rightarrow> write_fragment (bounded broken) paint enabled f h
        | None \<Rightarrow> (h, Ok ())) = (h1, Ok ())" "snd (ho_writer h1) = None"
      "fst (ho_writer h1) @ rest_text paint enabled (control h1) more =
       fst (ho_writer h) @ rest_text paint enabled (control h)
         (case fragment of Some f \<Rightarrow> f # more | None \<Rightarrow> more)"
    proof (cases fragment)
      case None
      with Cons.prems show ?thesis by (intro that [of h]) simp_all
    next
      case (Some f)
      with write_fragment_total [OF Cons.prems, of broken paint enabled f] show ?thesis
        by (metis (mono_tags, lifting) append.assoc fst_conv option.simps(5) rest_text_one snd_conv that)
    qed
    show ?thesis
    proof (cases "event_verdict event")
      case None
      with Cons.IH [OF h1(2), of streamed1] h1 render rest Inr show ?thesis by simp
    next
      case (Some v)
      obtain h2 where "human_finish (bounded broken) h1 = (h2, Ok ())"
        "fst (ho_writer h2) = fst (ho_writer h1) @ finish_text (control h1)"
        "finish_text (control h2) = []"
        using human_finish_total [OF h1(2)] .
      with Some h1 render rest Inr show ?thesis by auto
    qed
  qed
qed

lemma json_stream:
  "stream_json_events (bounded broken) (\<lambda>j. Ok (line_of j)) closed items (written, None) =
     ((written @ concat (map (\<lambda>e. line_of (thread_event_to_json e) @ [lf]) (shown_events items)), None),
      or_opt (first_verdict items) (if closed then Some (Ok ()) else None))"
proof (induction items arbitrary: written)
  case Nil
  then show ?case by simp
next
  case (Cons item items)
  then show ?case
    by (cases item)
      (auto simp: write_line_def bounded_def bounded_put_def split: option.split)
qed

text \<open>
  C27: the two forms of output show the same events of a turn, up to the first that ends it, and
  give the same verdict on the turn: the human form is
  the blocks of the rendered events, up to a last newline where the turn did not end, the
  JSON form a line per event. They differ when the stream is closed before the turn ends,
  which only the human form reports.
\<close>

theorem output_forms_agree:
  "let human = stream_human_events (bounded broken) paint enabled text_of closed items {}
         (human_new ([], None));
       lines = stream_json_events (bounded broken) (\<lambda>j. Ok (line_of j)) closed items ([], None)
   in fst (ho_writer (fst human)) @ finish_text (control (fst human)) =
        human_text paint enabled (snd (render_events text_of (shown_events items) {})) \<and>
      fst (fst lines) = concat (map (\<lambda>e. line_of (thread_event_to_json e) @ [lf]) (shown_events items)) \<and>
      (if first_verdict items = None \<and> closed
       then snd human = Some (Err (LE_Turn ''stream closed before receiving turn completion'')) \<and>
         snd lines = Some (Ok ())
       else snd human = first_verdict items \<and> snd lines = first_verdict items)"
proof -
  obtain h where "stream_human_events (bounded broken) paint enabled text_of closed items {}
      (human_new ([], None)) = (h, or_opt (first_verdict items)
      (if closed then Some (Err (LE_Turn ''stream closed before receiving turn completion'')) else None))"
    "fst (ho_writer h) @ finish_text (control h) =
      rest_text paint enabled (None, False, False)
        (snd (render_events text_of (shown_events items) {}))"
    using human_stream [of "human_new ([], None)" broken paint enabled text_of closed items "{}"]
    by (auto simp: human_new_def control_def)
  then show ?thesis
    by (cases "first_verdict items")
      (simp_all add: json_stream rest_text_blocks human_text_def blocks_text_def)
qed

end
