(* ===== verification/Luna_Commands.thy ===== *)
theory Luna_Commands
  imports Luna_Cli Luna_Human Ws_Token
begin

text \<open>
  The commands of the tool that run a turn or start a server: \<open>crates/luna/src/commands/\<close>
  (\<open>mod.rs\<close>, \<open>turn.rs\<close>, \<open>exec.rs\<close>, \<open>start.rs\<close>). \<open>prepare\<close> turns a command line into the options
  of the SDK; the properties follow a flag from the command line to the request it ends up
  in, and say when a command may start a daemon and where a token may go.
\<close>

section \<open>The connection of a command\<close>

definition websocket_url_for :: "process_env \<Rightarrow> cli_args \<Rightarrow> luna_error + resolved_websocket_url" where
  "websocket_url_for env cli =
     (if cli_transport_mode cli = StdioMode then Ok default_websocket_url
      else resolve_websocket_url (cli_websocket_url cli) (env_var env CODEX_APP_SERVER_WS_URL_ENV)
        (env_var env CODEX_WEB_SERVER_URL_ENV))"

text \<open>The websocket connection of \<open>exec\<close>, \<open>chat\<close> and \<open>sessions\<close>, and the one of \<open>start\<close>.\<close>

definition open_websocket ::
  "nat \<Rightarrow> host_env \<Rightarrow> machine \<Rightarrow> process_env \<Rightarrow> cli_args \<Rightarrow> action list
    \<Rightarrow> (action list \<times> (luna_error + ws_request)) option" where
  "open_websocket fuel he m env cli log =
     (case websocket_url_for env cli of
        Inl e \<Rightarrow> Some (log, Err e)
      | Inr r \<Rightarrow>
          connect_ws_codex fuel he m env (resolved_url r) (manage_daemon r \<and> \<not> cli_no_daemon cli)
            (cli_ws_auth_token cli) log)"

definition start_run ::
  "nat \<Rightarrow> host_env \<Rightarrow> machine \<Rightarrow> process_env \<Rightarrow> cli_args \<Rightarrow> action list
    \<Rightarrow> (action list \<times> (luna_error + string)) option" where
  "start_run fuel he m env cli log =
     (case websocket_url_for env cli of
        Inl e \<Rightarrow> Some (log, Err e)
      | Inr r \<Rightarrow>
          map_option (\<lambda>(log1, result). (log1,
              map_ok (\<lambda>_. ''WebSocket server ready at '' @ resolved_url r @ [lf]) result))
            (luna_start_ws_server fuel he m env (resolved_url r) (cli_ws_auth_token cli) log))"

section \<open>From the command line to the options\<close>

definition MODEL :: string where
  "MODEL = ''gpt-5.6-luna''"

text \<open>What the options are made from besides the command line.\<close>

record 'v luna_world =
  lw_env :: process_env
  lw_current_dir :: "io_error + string"
  lw_lossy :: "string \<Rightarrow> string"
  lw_read :: read_file
  lw_parse :: json_parser
  lw_toml :: "'v toml"
  lw_displays :: displays

record prepared_options =
  po_thread_options :: thread_options
  po_turn_options :: turn_options
  po_working_directory :: string
  po_model :: string
  po_reasoning_effort :: model_reasoning_effort

definition opt_set :: "('a \<Rightarrow> 'b \<Rightarrow> 'b) \<Rightarrow> 'a option \<Rightarrow> 'b \<Rightarrow> 'b" where
  "opt_set setter v b = (case v of Some x \<Rightarrow> setter x b | None \<Rightarrow> b)"

definition config_flags_of :: "cli_args \<Rightarrow> config_flags" where
  "config_flags_of cli =
     \<lparr>cf_web_search_mode = cli_web_search_mode cli, cf_config_profile = cli_config_profile cli,
      cf_model_verbosity = cli_model_verbosity cli,
      cf_network_access = cli_sandbox_network_access_enabled cli,
      cf_writable_roots = cli_sandbox_writable_roots cli\<rparr>"

definition prepare_thread_options ::
  "cli_args \<Rightarrow> string \<Rightarrow> jmap option \<Rightarrow> dynamic_tool_spec list option \<Rightarrow> string option \<Rightarrow> thread_options"
where
  "prepare_thread_options cli wd config tools agent_instructions =
     (let model = unwrap_or (cli_model cli) MODEL;
          b = thread_opt_set_service_tier (cli_service_tier cli)
            (thread_opt_set_working_directory wd
              (thread_opt_set_model model thread_options_default));
          b = opt_set thread_opt_set_model_provider (cli_model_provider cli) b;
          b = opt_set thread_opt_set_approval_policy (cli_approval_policy cli) b;
          b = opt_set thread_opt_set_sandbox_mode (cli_sandbox_mode cli) b;
          b = opt_set thread_opt_set_personality (cli_personality cli) b;
          b = opt_set thread_opt_set_base_instructions (cli_base_instructions cli) b;
          b = opt_set thread_opt_set_ephemeral (cli_ephemeral cli) b;
          b = opt_set thread_opt_set_config config b;
          b = opt_set thread_opt_set_dynamic_tools tools b;
          b = opt_set thread_opt_set_experimental_raw_events (cli_experimental_raw_events cli) b;
          b = opt_set thread_opt_set_persist_extended_history (cli_persist_extended_history cli) b;
          b = opt_set thread_opt_set_developer_instructions agent_instructions b
      in opt_set thread_opt_set_developer_instructions (cli_developer_instructions cli) b)"

definition prepare_turn_options ::
  "cli_args \<Rightarrow> json option \<Rightarrow> json option \<Rightarrow> jmap option \<Rightarrow> turn_options" where
  "prepare_turn_options cli sandbox_policy output_schema extra_fields =
     (let effort = unwrap_or (cli_reasoning_effort cli) MRE_Max;
          b = turn_opt_set_model_reasoning_effort effort turn_options_default;
          b = opt_set turn_opt_set_model_reasoning_summary (cli_reasoning_summary cli) b;
          b = opt_set turn_opt_set_sandbox_policy sandbox_policy b;
          b = opt_set turn_opt_set_output_schema output_schema b
      in opt_set turn_opt_set_extra extra_fields b)"

definition prepare_options :: "'v luna_world \<Rightarrow> cli_args \<Rightarrow> luna_error + prepared_options" where
  "prepare_options w cli =
     and_then (case cli_working_directory cli of
         Some path \<Rightarrow> Ok path
       | None \<Rightarrow> resolve_current_working_directory (lw_lossy w) (lw_current_dir w)) (\<lambda>wd.
     and_then (build_thread_config (lw_parse w) (cli_config_json cli) (cli_config_entries cli)
         (config_flags_of cli)) (\<lambda>config.
     and_then (parse_optional_json_value (lw_parse w) (cli_sandbox_policy_json cli)
         ''--sandbox-policy-json'') (\<lambda>sandbox_policy.
     and_then (resolve_output_schema (lw_parse w) (lw_read w) (cli_output_schema_json cli)
         (cli_output_schema_file cli)) (\<lambda>output_schema.
     and_then (parse_optional_json_object (lw_parse w) (cli_turn_extra_json cli)
         ''--turn-extra-json'') (\<lambda>extra_fields.
     and_then (parse_optional_dynamic_tools (lw_parse w) (lw_displays w) (cli_dynamic_tools_json cli))
       (\<lambda>tools.
     and_then (map_transpose (load_agent_profile (lw_toml w) (lw_read w) (lw_env w)) (cli_agent cli))
       (\<lambda>agent_instructions.
     Ok \<lparr>po_thread_options = prepare_thread_options cli wd config tools agent_instructions,
         po_turn_options = prepare_turn_options cli sandbox_policy output_schema extra_fields,
         po_working_directory = wd,
         po_model = unwrap_or (cli_model cli) MODEL,
         po_reasoning_effort = unwrap_or (cli_reasoning_effort cli) MRE_Max\<rparr>)))))))"

definition prepared_thread :: "cli_args \<Rightarrow> thread_options \<Rightarrow> thread" where
  "prepared_thread cli opts =
     (case cli_resume_target cli of
        Some ResumeLast \<Rightarrow> resume_latest_thread opts
      | Some (ResumeSessionId i) \<Rightarrow> resume_thread_by_id i opts
      | None \<Rightarrow> start_thread opts)"

text \<open>
  \<open>prepare\<close>: the connection is opened in a task of its own while the options are made, and
  \<open>connect\<close> is its result; when an option is wrong the task is aborted and its result is not
  used.
\<close>

definition prepare ::
  "'v luna_world \<Rightarrow> (resolved_websocket_url \<Rightarrow> luna_error + (codex \<times> inner)) \<Rightarrow> cli_args
    \<Rightarrow> luna_error + (codex \<times> inner \<times> thread \<times> prepared_options)" where
  "prepare w connect cli =
     and_then (websocket_url_for (lw_env w) cli) (\<lambda>resolved.
     and_then (prepare_options w cli) (\<lambda>p.
     and_then (connect resolved) (\<lambda>(c, s).
     case ensure_authenticated c (lw_env w) s of
       (s1, Inl e) \<Rightarrow> Err e
     | (s1, Inr _) \<Rightarrow> Ok (c, s1, prepared_thread cli (po_thread_options p), p))))"

section \<open>Running one turn\<close>

text \<open>
  \<open>exec\<close> on standard output \<open>out\<close>. \<open>recvs\<close> is what the broadcast receiver of the turn returns;
  \<open>None\<close> is a run that is still waiting.
\<close>

definition exec_turn ::
  "'w writer \<Rightarrow> paint \<Rightarrow> bool \<Rightarrow> (json \<Rightarrow> string + string) \<Rightarrow> (streamed_turn \<Rightarrow> inner \<Rightarrow> recv list)
    \<Rightarrow> cli_args \<Rightarrow> string \<Rightarrow> codex \<Rightarrow> inner \<Rightarrow> thread \<Rightarrow> turn_options \<Rightarrow> 'w
    \<Rightarrow> 'w \<times> (luna_error + unit) option" where
  "exec_turn W paint enabled to_text recvs cli prompt c s th turn_opts out =
     (if cli_final_response_only cli then
        (case thread_ask c (Input_Text prompt) turn_opts recvs th s of
           (_, _, None) \<Rightarrow> (out, None)
         | (_, _, Some (Inl e)) \<Rightarrow> (out, Some (Err (LE_ThreadRun e)))
         | (_, _, Some (Inr response)) \<Rightarrow>
             (let (out1, r) = print_final_response W response out in (out1, Some (map_err LE_Io r))))
      else
        (case run_streamed c (Input_Text prompt) turn_opts th s of
           (_, _, Inl e) \<Rightarrow> (out, Some (Err (LE_Client e)))
         | (s1, _, Inr st) \<Rightarrow>
             (let (sent, running) = pump_turn_events (streamed_thread_id st) (streamed_turn_id st)
                    None None (recvs st s1);
                  items = stream_prefix (streamed_started st) @ sent
              in if cli_json_output cli
                 then stream_json_events W to_text (\<not> running) items out
                 else
                   (let (h, r) = stream_human_events W paint enabled
                          (\<lambda>v. case to_text v of Inr t \<Rightarrow> Some t | Inl _ \<Rightarrow> None) (\<not> running) items {}
                          (human_new out)
                    in (ho_writer h, r)))))"

definition exec_run ::
  "'w writer \<Rightarrow> paint \<Rightarrow> bool \<Rightarrow> (json \<Rightarrow> string + string) \<Rightarrow> (streamed_turn \<Rightarrow> inner \<Rightarrow> recv list)
    \<Rightarrow> 'v luna_world \<Rightarrow> (resolved_websocket_url \<Rightarrow> luna_error + (codex \<times> inner)) \<Rightarrow> bool
    \<Rightarrow> io_error + string \<Rightarrow> cli_args \<Rightarrow> 'w \<Rightarrow> 'w \<times> (luna_error + unit) option" where
  "exec_run W paint enabled to_text recvs w connect tty stdin cli out =
     (case resolve_prompt tty stdin (cli_prompt_parts cli) of
        Inl e \<Rightarrow> (out, Some (Err e))
      | Inr prompt \<Rightarrow>
          (case prepare w connect cli of
             Inl e \<Rightarrow> (out, Some (Err e))
           | Inr (c, s, th, p) \<Rightarrow>
               exec_turn W paint enabled to_text recvs cli prompt c s th (po_turn_options p) out))"

section \<open>What is sent\<close>

lemma opt_set_thread_option [simp]:
  "opt_set thread_opt_set_model_provider v1 b = b\<lparr>thread_opt_model_provider := or_opt v1 (thread_opt_model_provider b)\<rparr>"
  "opt_set thread_opt_set_approval_policy v2 b = b\<lparr>thread_opt_approval_policy := or_opt v2 (thread_opt_approval_policy b)\<rparr>"
  "opt_set thread_opt_set_sandbox_mode v3 b = b\<lparr>thread_opt_sandbox_mode := or_opt v3 (thread_opt_sandbox_mode b)\<rparr>"
  "opt_set thread_opt_set_personality v4 b = b\<lparr>thread_opt_personality := or_opt v4 (thread_opt_personality b)\<rparr>"
  "opt_set thread_opt_set_base_instructions v5 b = b\<lparr>thread_opt_base_instructions := or_opt v5 (thread_opt_base_instructions b)\<rparr>"
  "opt_set thread_opt_set_ephemeral v6 b = b\<lparr>thread_opt_ephemeral := or_opt v6 (thread_opt_ephemeral b)\<rparr>"
  "opt_set thread_opt_set_config v7 b = b\<lparr>thread_opt_config := or_opt v7 (thread_opt_config b)\<rparr>"
  "opt_set thread_opt_set_dynamic_tools v8 b = b\<lparr>thread_opt_dynamic_tools := or_opt v8 (thread_opt_dynamic_tools b)\<rparr>"
  "opt_set thread_opt_set_experimental_raw_events v9 b = b\<lparr>thread_opt_experimental_raw_events := or_opt v9 (thread_opt_experimental_raw_events b)\<rparr>"
  "opt_set thread_opt_set_persist_extended_history v10 b = b\<lparr>thread_opt_persist_extended_history := or_opt v10 (thread_opt_persist_extended_history b)\<rparr>"
  "opt_set thread_opt_set_developer_instructions v11 b = b\<lparr>thread_opt_developer_instructions := or_opt v11 (thread_opt_developer_instructions b)\<rparr>"
  by (simp_all add: opt_set_def thread_opt_set_model_provider_def
    thread_opt_set_approval_policy_def
    thread_opt_set_sandbox_mode_def
    thread_opt_set_personality_def
    thread_opt_set_base_instructions_def
    thread_opt_set_ephemeral_def
    thread_opt_set_config_def
    thread_opt_set_dynamic_tools_def
    thread_opt_set_experimental_raw_events_def
    thread_opt_set_persist_extended_history_def
    thread_opt_set_developer_instructions_def
    split: option.split)

lemma opt_set_turn_option [simp]:
  "opt_set turn_opt_set_model_reasoning_summary v1 t = t\<lparr>turn_opt_model_reasoning_summary := or_opt v1 (turn_opt_model_reasoning_summary t)\<rparr>"
  "opt_set turn_opt_set_sandbox_policy v2 t = t\<lparr>turn_opt_sandbox_policy := or_opt v2 (turn_opt_sandbox_policy t)\<rparr>"
  "opt_set turn_opt_set_output_schema v3 t = t\<lparr>turn_opt_output_schema := or_opt v3 (turn_opt_output_schema t)\<rparr>"
  "opt_set turn_opt_set_extra v4 t = t\<lparr>turn_opt_extra := or_opt v4 (turn_opt_extra t)\<rparr>"
  by (simp_all add: opt_set_def turn_opt_set_model_reasoning_summary_def
    turn_opt_set_sandbox_policy_def
    turn_opt_set_output_schema_def
    turn_opt_set_extra_def
    split: option.split)

lemma prepared_thread_options:
  "prepare_thread_options cli wd config tools agent_instructions =
     thread_options_default
       \<lparr>thread_opt_model := Some (unwrap_or (cli_model cli) MODEL),
        thread_opt_working_directory := Some wd,
        thread_opt_service_tier := Some (cli_service_tier cli),
        thread_opt_model_provider := cli_model_provider cli,
        thread_opt_approval_policy := cli_approval_policy cli,
        thread_opt_sandbox_mode := cli_sandbox_mode cli,
        thread_opt_personality := cli_personality cli,
        thread_opt_base_instructions := cli_base_instructions cli,
        thread_opt_ephemeral := cli_ephemeral cli,
        thread_opt_config := config,
        thread_opt_dynamic_tools := tools,
        thread_opt_experimental_raw_events := cli_experimental_raw_events cli,
        thread_opt_persist_extended_history := cli_persist_extended_history cli,
        thread_opt_developer_instructions := or_opt (cli_developer_instructions cli) agent_instructions\<rparr>"
  by (rule thread_options.equality) (simp_all add: prepare_thread_options_def
      thread_options_default_def thread_opt_set_service_tier_def thread_opt_set_working_directory_def
      thread_opt_set_model_def)

lemma prepared_turn_options:
  "prepare_turn_options cli sandbox_policy output_schema extra_fields =
     turn_options_default
       \<lparr>turn_opt_model_reasoning_effort := Some (unwrap_or (cli_reasoning_effort cli) MRE_Max),
        turn_opt_model_reasoning_summary := cli_reasoning_summary cli,
        turn_opt_sandbox_policy := sandbox_policy,
        turn_opt_output_schema := output_schema,
        turn_opt_extra := extra_fields\<rparr>"
  by (rule turn_options.equality) (simp_all add: prepare_turn_options_def
      turn_options_default_def turn_opt_set_model_reasoning_effort_def)

text \<open>
  C10: the flags of a turn on the wire: the params of \<open>thread/start\<close> that a command line leads to are
  exactly these, with the default model, the agent's instructions unless some are given, and
  the configuration and tools read from the flags; what was not given is not sent.
\<close>

theorem command_line_on_the_wire:
  assumes "prepare_options w cli = Ok p"
  shows "\<exists>config tools agent_instructions.
    build_thread_config (lw_parse w) (cli_config_json cli) (cli_config_entries cli) (config_flags_of cli) =
      Ok config \<and>
    parse_optional_dynamic_tools (lw_parse w) (lw_displays w) (cli_dynamic_tools_json cli) = Ok tools \<and>
    map_transpose (load_agent_profile (lw_toml w) (lw_read w) (lw_env w)) (cli_agent cli) =
      Ok agent_instructions \<and>
    start_wire (po_thread_options p) = insert_rows
      [(''model'', Some (JString (unwrap_or (cli_model cli) ''gpt-5.6-luna''))),
       (''modelProvider'', map_option JString (cli_model_provider cli)),
       (''cwd'', Some (JString (po_working_directory p))),
       (''approvalPolicy'', map_option (\<lambda>e. JString (approval_mode_as_str e)) (cli_approval_policy cli)),
       (''sandbox'', map_option (\<lambda>e. JString (sandbox_mode_as_str e)) (cli_sandbox_mode cli)),
       (''personality'', map_option (\<lambda>e. JString (personality_as_str e)) (cli_personality cli)),
       (''ephemeral'', map_option JBool (cli_ephemeral cli)),
       (''baseInstructions'', map_option JString (cli_base_instructions cli)),
       (''developerInstructions'', map_option JString
         (or_opt (cli_developer_instructions cli) agent_instructions)),
       (''serviceTier'', Some (JString (service_tier_as_str (cli_service_tier cli)))),
       (''config'', map_option JObject config),
       (''dynamicTools'', map_option dynamic_tools_value tools),
       (''experimentalRawEvents'', map_option JBool (cli_experimental_raw_events cli)),
       (''persistExtendedHistory'', map_option JBool (cli_persist_extended_history cli))] []"
    (is "\<exists>config tools agent_instructions. _ \<and> _ \<and> _ \<and> _ = insert_rows (?rows config tools agent_instructions) []")
proof -
  obtain config tools agent_instructions where parts:
    "build_thread_config (lw_parse w) (cli_config_json cli) (cli_config_entries cli) (config_flags_of cli) =
      Ok config"
    "parse_optional_dynamic_tools (lw_parse w) (lw_displays w) (cli_dynamic_tools_json cli) = Ok tools"
    "map_transpose (load_agent_profile (lw_toml w) (lw_read w) (lw_env w)) (cli_agent cli) =
      Ok agent_instructions"
    "po_thread_options p =
      prepare_thread_options cli (po_working_directory p) config tools agent_instructions"
    using assms by (auto simp: prepare_options_def and_then_Inr_iff)
  let ?opts = "po_thread_options p"
  have "insert_rows (thread_start_wire_rows ?opts) [] = insert_rows (?rows config tools agent_instructions) []"
  proof (rule insert_rows_same [OF start_rows_distinct])
    show "distinct (map fst (?rows config tools agent_instructions))" by simp
    show "(k, Some v) \<in> set (thread_start_wire_rows ?opts) \<longleftrightarrow>
        (k, Some v) \<in> set (?rows config tools agent_instructions)" for k v
      unfolding start_rows_eq parts(4) prepared_thread_options
      by (simp add: thread_options_default_def MODEL_def)
  qed
  with parts show ?thesis by (auto simp: start_wire_rows)
qed

text \<open>A world in which there is nothing to read.\<close>

definition bare_world :: "unit luna_world" where
  "bare_world =
     \<lparr>lw_env = Map.empty, lw_current_dir = Ok ''/work'', lw_lossy = id, lw_read = (\<lambda>_. Err ''missing''),
      lw_parse = (\<lambda>_. Err ''not JSON''),
      lw_toml = \<lparr>toml_agents = (\<lambda>_. Err ''bad''), toml_role = (\<lambda>_. Err ''bad''),
        toml_layer = (\<lambda>_. Err ''bad'')\<rparr>,
      lw_displays = plain_displays\<rparr>"

theorem command_line_on_the_wire_witness:
  "\<exists>p. prepare_options bare_world (empty_cli_args CK_Exec WebSocketMode) = Ok p \<and>
     jget (start_wire (po_thread_options p)) ''model'' = Some (JString ''gpt-5.6-luna'') \<and>
     jget (start_wire (po_thread_options p)) ''cwd'' = Some (JString ''/work'')"
proof -
  obtain p where run: "prepare_options bare_world (empty_cli_args CK_Exec WebSocketMode) = Ok p"
    and wd: "po_working_directory p = ''/work''"
    by (simp add: prepare_options_def empty_cli_args_def bare_world_def
        resolve_current_working_directory_def build_thread_config_def parse_optional_json_object_def
        config_flags_of_def flag_rows_def insert_optional_def parse_optional_json_value_def
        resolve_output_schema_def parse_optional_dynamic_tools_def map_transpose_def)
  let ?cli = "empty_cli_args CK_Exec WebSocketMode"
  have given: "cli_model ?cli = None" "po_working_directory p = ''/work''"
    using wd by (simp_all add: empty_cli_args_def)
  from command_line_on_the_wire [OF run] obtain rows where
    "start_wire (po_thread_options p) = insert_rows rows []" "distinct (map fst rows)"
    "(''model'', Some (JString ''gpt-5.6-luna'')) \<in> set rows"
    "(''cwd'', Some (JString ''/work'')) \<in> set rows"
    unfolding given by (elim exE conjE) (rule that, assumption, simp_all)
  then have "jget (start_wire (po_thread_options p)) ''model'' = Some (JString ''gpt-5.6-luna'') \<and>
      jget (start_wire (po_thread_options p)) ''cwd'' = Some (JString ''/work'')"
    by (simp add: jget_rows_iff)
  with run show ?thesis by blast
qed

section \<open>When a daemon is managed, and where a token goes\<close>

lemma connect_ws_codex_log:
  assumes "connect_ws_codex fuel he m env url manage token [] = Some (log, r)"
  shows "list_all token_safe log"
    and "case r of Inr request \<Rightarrow> token_safe_request request | Inl e \<Rightarrow> True"
    and "log \<noteq> [] \<Longrightarrow> manage"
proof -
  have "(list_all token_safe log \<and> (case r of Inr request \<Rightarrow> token_safe_request request | Inl e \<Rightarrow> True)) \<and>
      (log = [] \<or> manage)"
  proof (cases "(if token \<noteq> None then ensure_ws_auth_allowed url else Ok ()) = Ok () \<and> manage")
    case True
    then obtain r' where r': "start_and_connect_ws fuel he m (luna_ws_config url token) (daemon_env env) [] =
        Some (log, r')" "r = map_err LE_Client r'"
      using assms by (auto simp: connect_ws_codex_def)
    have "list_all token_safe log"
      using token.start_and_connect [OF r'(1)] by (simp add: extends_def)
    moreover have "case r of Inr request \<Rightarrow> token_safe_request request | Inl e \<Rightarrow> True"
      using r' by (cases r')
        (auto simp: start_and_connect_ws_def and_then_Inr_iff dest: connect_ws_request_safe)
    ultimately show ?thesis using True by simp
  next
    case False
    then have "log = []" "case r of Inr request \<Rightarrow> token_safe_request request | Inl e \<Rightarrow> True"
      using assms
      by (auto simp: connect_ws_codex_def map_err_Inr_iff dest: connect_ws_request_safe
          split: sum.splits if_splits)
    then show ?thesis by simp
  qed
  then show "list_all token_safe log" "case r of Inr request \<Rightarrow> token_safe_request request | Inl e \<Rightarrow> True"
    "log \<noteq> [] \<Longrightarrow> manage" by auto
qed

text \<open>
  Opening the connection of a command: a server is looked for, started or waited for only when
  the URL was left to the tool, by the flag and both environment variables, and
  \<open>--no-daemon\<close> was not given; and whatever is done, the token goes only into requests whose
  URL allows one.
\<close>

theorem command_connects_safely:
  assumes "open_websocket fuel he m env cli [] = Some (log, r)" "cli_transport_mode cli = WebSocketMode"
  shows "(log = [] \<or>
      \<not> cli_no_daemon cli \<and> cli_websocket_url cli = None \<and>
      env_var env CODEX_APP_SERVER_WS_URL_ENV = None \<and> env_var env CODEX_WEB_SERVER_URL_ENV = None) \<and>
    list_all token_safe log \<and> (case r of Inr request \<Rightarrow> token_safe_request request | Inl e \<Rightarrow> True)"
proof (cases "websocket_url_for env cli")
  case (Inl e)
  with assms show ?thesis by (auto simp: open_websocket_def)
next
  case (Inr u)
  then have run: "connect_ws_codex fuel he m env (resolved_url u) (manage_daemon u \<and> \<not> cli_no_daemon cli)
      (cli_ws_auth_token cli) [] = Some (log, r)"
    using assms by (simp add: open_websocket_def)
  have "cli_websocket_url cli = None \<and> env_var env CODEX_APP_SERVER_WS_URL_ENV = None \<and>
       env_var env CODEX_WEB_SERVER_URL_ENV = None" if "manage_daemon u"
    using Inr that assms(2)
    by (auto simp: websocket_url_for_def resolve_websocket_url_def resolved_def and_then_Inr_iff
        manage_daemon_def split: if_splits option.splits)
  with connect_ws_codex_log [OF run] show ?thesis by blast
qed

theorem command_connects_safely_witness:
  "\<exists>log r. open_websocket 1 plain_env good_machine Map.empty (empty_cli_args CK_Exec WebSocketMode) [] =
       Some (log, r) \<and>
     ASpawnDaemon ''codex'' ''ws://127.0.0.1:4222'' \<in> set log \<and> list_all token_safe log"
proof -
  let ?cli = "empty_cli_args CK_Exec WebSocketMode"
  obtain log r' where start: "ensure_local_ws_app_server 1 plain_env good_machine ''ws://127.0.0.1:4222''
      Map.empty None [] = Some (log, r')" "ASpawnDaemon ''codex'' ''ws://127.0.0.1:4222'' \<in> set log"
    using good_start by blast
  have "daemon_env Map.empty = Map.empty"
    by (simp add: daemon_env_def FORWARDED_ENV_VARS_def env_var_def map_filter_def)
  then obtain r where run: "open_websocket 1 plain_env good_machine Map.empty ?cli [] = Some (log, r)"
    using start(1)
    by (simp add: open_websocket_def websocket_url_for_def empty_cli_args_def resolve_websocket_url_def
        env_var_def default_websocket_url_def manage_daemon_def connect_ws_codex_def luna_ws_config_def
        start_and_connect_ws_def ws_config_new_def DEFAULT_WS_URL_def)
  moreover have "cli_transport_mode ?cli = WebSocketMode" by (simp add: empty_cli_args_def)
  ultimately show ?thesis using command_connects_safely [of 1 plain_env] start(2) by blast
qed

end
