(* ===== verification/Luna_Session.thy ===== *)
theory Luna_Session
  imports Luna_Commands "HOL-Library.Multiset" "HOL-Library.Product_Lexorder"
begin

text \<open>
  The session list: \<open>crates/luna/src/session.rs\<close> and \<open>commands/sessions.rs\<close>. Every page of
  threads is read, the threads of the directory are kept, each with a preview of its last
  message, and they are printed newest first. The page loop is over the operations it uses,
  so that the locale can say what it needs of them.
\<close>

section \<open>Text on UTF-8 bytes\<close>

text \<open>\<open>str::split_whitespace\<close>: the runs between white space.\<close>

lemma whitespace_nonempty: "[] \<notin> set whitespace_encodings"
  by (simp add: whitespace_encodings_def)

function split_whitespace :: "string \<Rightarrow> string \<Rightarrow> string list" where
  "split_whitespace acc s =
     (let flush = (if acc = [] then [] else [rev acc])
      in case s of
           [] \<Rightarrow> flush
         | c # rest \<Rightarrow>
             (case strip_any whitespace_encodings s of
                Some r \<Rightarrow> flush @ split_whitespace [] r
              | None \<Rightarrow> split_whitespace (c # acc) rest))"
  by pat_completeness auto
termination
  by (relation "measure (\<lambda>(acc, s). length s)")
    (auto dest!: strip_any_shorter [OF _ whitespace_nonempty])

declare split_whitespace.simps [simp del]

text \<open>\<open>str::chars\<close>: a first byte tells how many bytes its code point has.\<close>

definition char_width :: "char \<Rightarrow> nat" where
  "char_width c =
     (let n = (of_char c :: nat)
      in if n < 0x80 then 1 else if n < 0xE0 then 2 else if n < 0xF0 then 3 else 4)"

function utf8_chars :: "string \<Rightarrow> string list" where
  "utf8_chars s =
     (if s = [] then []
      else take (char_width (hd s)) s # utf8_chars (drop (char_width (hd s)) s))"
  by pat_completeness auto
termination
  by (relation "measure length") (auto simp: char_width_def Let_def)

declare utf8_chars.simps [simp del]

lemma concat_utf8_chars [simp]: "concat (utf8_chars s) = s"
proof (induction s rule: utf8_chars.induct)
  case (1 s)
  show ?case
  proof (cases "s = []")
    case True
    then show ?thesis by (simp add: utf8_chars.simps [of "[]"])
  next
    case False
    with 1 show ?thesis by (simp add: utf8_chars.simps [of s])
  qed
qed

text \<open>\<open>str::contains\<close>.\<close>

fun str_contains :: "string \<Rightarrow> string \<Rightarrow> bool" where
  "str_contains p [] = (p = [])"
| "str_contains p (c # s) = (starts_with p (c # s) \<or> str_contains p s)"

definition crop_preview_text :: "string \<Rightarrow> nat \<Rightarrow> string" where
  "crop_preview_text t max_chars =
     (let normalized = join_with '' '' (split_whitespace [] t)
      in if normalized = [] then ''(no message)''
         else if max_chars = 0 then ''...''
         else
           (let cs = utf8_chars normalized
            in if length cs < max_chars then normalized
               else concat (take max_chars cs) @ (if max_chars < length cs then ''...'' else [])))"

section \<open>The last message\<close>

definition item_text_keys :: "string list" where
  "item_text_keys = [''text'', ''content'', ''message'', ''output_text'', ''outputText'']"

text \<open>The first key whose value has a text; the values' texts are made beforehand.\<close>

fun first_text :: "(string \<times> string option) list \<Rightarrow> string list \<Rightarrow> string option" where
  "first_text texts [] = None"
| "first_text texts (key # keys) =
     (case map_of texts key of
        Some (Some t) \<Rightarrow> (if t \<noteq> [] then Some t else first_text texts keys)
      | _ \<Rightarrow> first_text texts keys)"

definition trimmed_text :: "string \<Rightarrow> string option" where
  "trimmed_text raw = (let trimmed = trim raw in if trimmed = [] then None else Some trimmed)"

fun extract_item_text :: "json \<Rightarrow> string option"
  and extract_item_texts :: "json list \<Rightarrow> string list"
  and extract_entry_texts :: "(string \<times> json) list \<Rightarrow> (string \<times> string option) list" where
  "extract_item_text (JString raw) = trimmed_text raw"
| "extract_item_text (JArray parts) =
     (let texts = extract_item_texts parts
      in if texts = [] then None else Some (join_with '' '' texts))"
| "extract_item_text (JObject m) = first_text (extract_entry_texts m) item_text_keys"
| "extract_item_text JNull = None"
| "extract_item_text (JBool b) = None"
| "extract_item_text (JNumber n) = None"
| "extract_item_texts [] = []"
| "extract_item_texts (v # vs) =
     (case extract_item_text v of
        Some t \<Rightarrow> t # extract_item_texts vs
      | None \<Rightarrow> extract_item_texts vs)"
| "extract_entry_texts [] = []"
| "extract_entry_texts ((k, v) # m) = (k, extract_item_text v) # extract_entry_texts m"

definition names_agent :: "string \<Rightarrow> bool" where
  "names_agent role =
     (let role = to_ascii_lowercase role
      in str_contains ''assistant'' role \<or> str_contains ''agent'' role)"

definition names_agent_type :: "string \<Rightarrow> bool" where
  "names_agent_type item_type =
     (let item_type = to_ascii_lowercase item_type
      in str_contains ''assistant'' item_type \<or> str_contains ''agent_message'' item_type \<or>
         str_contains ''agentmessage'' item_type)"

definition item_is_assistant_message :: "json \<Rightarrow> bool" where
  "item_is_assistant_message item =
     (case as_object item of
        None \<Rightarrow> False
      | Some m \<Rightarrow>
          (case field_with as_str m ''role'' of Some role \<Rightarrow> names_agent role | None \<Rightarrow> False) \<or>
          (case Option.bind (field_with as_object m ''author'') (\<lambda>author. field_with as_str author ''role'') of
             Some role \<Rightarrow> names_agent role | None \<Rightarrow> False) \<or>
          (case field_with as_str m ''type'' of Some ty \<Rightarrow> names_agent_type ty | None \<Rightarrow> False))"

fun last_message_loop ::
  "json list \<Rightarrow> string option \<times> string option \<Rightarrow> string option \<times> string option" where
  "last_message_loop [] acc = acc"
| "last_message_loop (item # items) (last_assistant, last_any) =
     (case extract_item_text item of
        None \<Rightarrow> last_message_loop items (last_assistant, last_any)
      | Some t \<Rightarrow>
          if t = [] then last_message_loop items (last_assistant, last_any)
          else last_message_loop items
            (if item_is_assistant_message item then Some t else last_assistant, Some t))"

definition extract_last_message_from_items :: "json list \<Rightarrow> string option \<times> string option" where
  "extract_last_message_from_items items = last_message_loop items (None, None)"

text \<open>The items of the thread itself, then those of its turns in order; a later one replaces.\<close>

definition merge_last ::
  "json list \<Rightarrow> string option \<times> string option \<Rightarrow> string option \<times> string option" where
  "merge_last items acc =
     (let (assistant, any) = extract_last_message_from_items items
      in (or_opt assistant (fst acc), or_opt any (snd acc)))"

definition turn_items :: "json \<Rightarrow> json list option" where
  "turn_items turn = Option.bind (as_object turn) (\<lambda>m. field_with as_array m ''items'')"

definition extract_last_message_from_thread_read :: "jmap \<Rightarrow> string option" where
  "extract_last_message_from_thread_read extra =
     (let first = (case field_with as_array extra ''items'' of
              Some items \<Rightarrow> merge_last items (None, None) | None \<Rightarrow> (None, None));
          last = (case field_with as_array extra ''turns'' of
              Some turns \<Rightarrow> fold (\<lambda>turn acc. case turn_items turn of
                  Some items \<Rightarrow> merge_last items acc | None \<Rightarrow> acc) turns first
            | None \<Rightarrow> first)
      in or_opt (fst last) (snd last))"

definition preview_keys :: "string list" where
  "preview_keys =
     [''lastMessage'', ''lastAgentMessage'', ''lastAssistantMessage'', ''snippet'', ''preview'']"

fun value_to_text :: "json \<Rightarrow> string option" where
  "value_to_text (JString raw) = trimmed_text raw"
| "value_to_text v = extract_item_text v"

fun first_preview :: "jmap \<Rightarrow> string list \<Rightarrow> string option" where
  "first_preview extra [] = None"
| "first_preview extra (key # keys) =
     (case field_with value_to_text extra key of
        Some t \<Rightarrow> Some t
      | None \<Rightarrow> first_preview extra keys)"

definition extract_summary_preview :: "jmap \<Rightarrow> string option" where
  "extract_summary_preview extra = first_preview extra preview_keys"

definition resolve_last_message_preview ::
  "codex \<Rightarrow> thread_summary \<Rightarrow> inner \<Rightarrow> inner \<times> (luna_error + string)" where
  "resolve_last_message_preview c t s =
     (case extract_summary_preview (thread_summary_extra t) of
        Some preview \<Rightarrow> (s, Ok preview)
      | None \<Rightarrow>
          (case codex_typed_forward c thread_read_params_enc opaque_struct_dec ''thread/read''
                  \<lparr>thread_read_thread_id = thread_summary_id t, thread_read_include_turns = Some True,
                   thread_read_extra = []\<rparr> s of
             (s1, Inl e) \<Rightarrow> (s1, Err (LE_Client e))
           | (s1, Inr r) \<Rightarrow>
               (s1, Ok (unwrap_or (extract_last_message_from_thread_read (opaque_extra r)) []))))"

section \<open>The list\<close>

definition SESSION_PREVIEW_CHAR_LIMIT :: nat where
  "SESSION_PREVIEW_CHAR_LIMIT = 96"

record session_list_entry =
  session_id :: string
  session_recency_score :: i64
  session_last_message :: string

definition i64_min :: i64 where
  "i64_min = push_bit 63 1"

definition session_matches :: "string option \<Rightarrow> thread_summary \<Rightarrow> bool" where
  "session_matches cwd_filter t =
     (case cwd_filter of
        None \<Rightarrow> True
      | Some filter_cwd \<Rightarrow> field_with as_str (thread_summary_extra t) ''cwd'' = Some filter_cwd)"

fun collect_sessions ::
  "(thread_summary \<Rightarrow> 's \<Rightarrow> 's \<times> (luna_error + string)) \<Rightarrow> string option \<Rightarrow> thread_summary list
    \<Rightarrow> session_list_entry list \<Rightarrow> 's \<Rightarrow> 's \<times> (luna_error + session_list_entry list)" where
  "collect_sessions preview cwd_filter [] sessions s = (s, Ok sessions)"
| "collect_sessions preview cwd_filter (t # ts) sessions s =
     (if \<not> session_matches cwd_filter t then collect_sessions preview cwd_filter ts sessions s
      else
        (case preview t s of
           (s1, Inl e) \<Rightarrow> (s1, Err e)
         | (s1, Inr last_message) \<Rightarrow>
             collect_sessions preview cwd_filter ts
               (sessions @ [\<lparr>session_id = thread_summary_id t,
                  session_recency_score = unwrap_or (thread_recency_score t) i64_min,
                  session_last_message = last_message\<rparr>]) s1))"

definition too_many_pages :: luna_error where
  "too_many_pages = LE_Protocol
     (''could not list sessions after scanning '' @ show_nat MAX_THREAD_LIST_PAGES @ '' pages'')"

fun session_pages ::
  "nat \<Rightarrow> (string option \<Rightarrow> 's \<Rightarrow> 's \<times> (client_error + thread_list_result))
    \<Rightarrow> (thread_summary \<Rightarrow> 's \<Rightarrow> 's \<times> (luna_error + string)) \<Rightarrow> string option \<Rightarrow> string option
    \<Rightarrow> session_list_entry list \<Rightarrow> 's \<Rightarrow> 's \<times> (luna_error + session_list_entry list)" where
  "session_pages 0 fetch preview cwd_filter cursor sessions s = (s, Err too_many_pages)"
| "session_pages (Suc n) fetch preview cwd_filter cursor sessions s =
     (case fetch cursor s of
        (s1, Inl e) \<Rightarrow> (s1, Err (LE_Client e))
      | (s1, Inr result) \<Rightarrow>
          (case collect_sessions preview cwd_filter (thread_list_result_data result) sessions s1 of
             (s2, Inl e) \<Rightarrow> (s2, Err e)
           | (s2, Inr sessions1) \<Rightarrow>
               (case thread_list_result_next_cursor result of
                  Some next \<Rightarrow> session_pages n fetch preview cwd_filter (Some next) sessions1 s2
                | None \<Rightarrow> (s2, Ok sessions1))))"

text \<open>The order: newest first, then by id; the sort is stable, as \<open>sort_by\<close> is.\<close>

definition session_key :: "session_list_entry \<Rightarrow> int \<times> string" where
  "session_key e = (- sint (session_recency_score e), session_id e)"

definition session_row :: "session_list_entry \<Rightarrow> string" where
  "session_row e =
     session_id e @ [CHR 0x09] @ crop_preview_text (session_last_message e) SESSION_PREVIEW_CHAR_LIMIT"

definition session_lines :: "string option \<Rightarrow> session_list_entry list \<Rightarrow> string list" where
  "session_lines cwd_filter sessions =
     (if sessions = [] then
        [case cwd_filter of
           Some cwd \<Rightarrow> ''No recorded sessions found for '' @ cwd @ ''. Use --all to show all sessions.''
         | None \<Rightarrow> ''No recorded sessions found.'']
      else (''SESSION_ID'' @ [CHR 0x09] @ ''LAST_MESSAGE'') # map session_row sessions)"

definition session_list_page ::
  "codex \<Rightarrow> string option \<Rightarrow> inner \<Rightarrow> inner \<times> (client_error + thread_list_result)" where
  "session_list_page c cursor s =
     codex_typed_forward c thread_list_params_enc thread_list_result_dec ''thread/list''
       (list_params cursor) s"

definition list_sessions ::
  "codex \<Rightarrow> string option \<Rightarrow> inner \<Rightarrow> inner \<times> (luna_error + string list)" where
  "list_sessions c cwd_filter s =
     (case session_pages MAX_THREAD_LIST_PAGES (session_list_page c) (resolve_last_message_preview c)
             cwd_filter None [] s of
        (s1, Inl e) \<Rightarrow> (s1, Err e)
      | (s1, Inr sessions) \<Rightarrow> (s1, Ok (session_lines cwd_filter (sort_key session_key sessions))))"

text \<open>The command: which directory is asked for, and the list over the connection \<open>connect\<close> gives.\<close>

definition sessions_run ::
  "'v luna_world \<Rightarrow> (resolved_websocket_url \<Rightarrow> luna_error + (codex \<times> inner)) \<Rightarrow> cli_args
    \<Rightarrow> luna_error + string list" where
  "sessions_run w connect cli =
     and_then (websocket_url_for (lw_env w) cli) (\<lambda>resolved.
     and_then (if cli_sessions_all cli then Ok None
         else map_ok Some (case cli_working_directory cli of
             Some path \<Rightarrow> Ok path
           | None \<Rightarrow> resolve_current_working_directory (lw_lossy w) (lw_current_dir w))) (\<lambda>cwd_filter.
     and_then (connect resolved) (\<lambda>(c, s). snd (list_sessions c cwd_filter s))))"

section \<open>What the list needs of its operations\<close>

text \<open>
  The two operations of the loop: one lists the page of a cursor, the other returns the preview
  of a thread; both can be used again afterwards.
\<close>

locale session_source =
  fixes fetch :: "string option \<Rightarrow> 's \<Rightarrow> 's \<times> (client_error + thread_list_result)"
    and preview :: "thread_summary \<Rightarrow> 's \<Rightarrow> 's \<times> (luna_error + string)"
    and page :: "string option \<Rightarrow> thread_list_result"
    and text_of :: "thread_summary \<Rightarrow> string"
    and ok :: "'s \<Rightarrow> bool"
  assumes lists: "ok s \<Longrightarrow> \<exists>t. fetch cursor s = (t, Ok (page cursor)) \<and> ok t"
    and previews: "ok s \<Longrightarrow> \<exists>t. preview th s = (t, Ok (text_of th)) \<and> ok t"
begin

definition entry :: "thread_summary \<Rightarrow> session_list_entry" where
  "entry th =
     \<lparr>session_id = thread_summary_id th,
      session_recency_score = unwrap_or (thread_recency_score th) i64_min,
      session_last_message = text_of th\<rparr>"

definition entries :: "string option \<Rightarrow> thread_summary list \<Rightarrow> session_list_entry list" where
  "entries cwd ts = map entry (filter (session_matches cwd) ts)"

lemma entries_append: "entries cwd (ts @ us) = entries cwd ts @ entries cwd us"
  by (simp add: entries_def)

lemma collect:
  "ok s \<Longrightarrow> \<exists>t. collect_sessions preview cwd ts sessions s = (t, Ok (sessions @ entries cwd ts)) \<and> ok t"
proof (induction ts arbitrary: sessions s)
  case Nil
  then show ?case by (simp add: entries_def)
next
  case (Cons th ts)
  show ?case
  proof (cases "session_matches cwd th")
    case False
    with Cons.IH [OF Cons.prems, of sessions] show ?thesis by (simp add: entries_def)
  next
    case True
    obtain t where t: "preview th s = (t, Ok (text_of th))" "ok t"
      using previews [OF Cons.prems] by blast
    from Cons.IH [OF t(2), of "sessions @ [entry th]"] t(1) True show ?thesis
      by (simp add: entries_def entry_def)
  qed
qed

lemma pages:
  "ok s \<Longrightarrow> \<exists>t. session_pages n fetch preview cwd cursor sessions s =
     (t, case page_chain n page cursor of
           Some ts \<Rightarrow> Ok (sessions @ entries cwd ts) | None \<Rightarrow> Err too_many_pages) \<and> ok t"
proof (induction n arbitrary: cursor sessions s)
  case 0
  then show ?case by simp
next
  case (Suc n)
  let ?ts = "thread_list_result_data (page cursor)"
  obtain t where t: "fetch cursor s = (t, Ok (page cursor))" "ok t"
    using lists [OF Suc.prems] by blast
  obtain u where u: "collect_sessions preview cwd ?ts sessions t = (u, Ok (sessions @ entries cwd ?ts))"
    "ok u"
    using collect [OF t(2)] by blast
  show ?case
  proof (cases "thread_list_result_next_cursor (page cursor)")
    case None
    with t u show ?thesis by simp
  next
    case (Some nxt)
    from Suc.IH [OF u(2), of "Some nxt" "sessions @ entries cwd ?ts"] t u Some
    show ?thesis by (auto simp: entries_append split: option.splits)
  qed
qed

end

section \<open>Against a server\<close>

text \<open>
  A server that lists the given pages and returns, for \<open>thread/read\<close>, the extra fields that
  \<open>read\<close> gives for the thread's id.
\<close>

definition session_server ::
  "(string option \<Rightarrow> thread_list_result) \<Rightarrow> (string \<Rightarrow> jmap) \<Rightarrow> rpc_server \<Rightarrow> rpc_server" where
  "session_server page read srv =
     listing_server page (\<lambda>m p.
       if m = ''thread/read''
       then (case thread_read_params_dec p of
               Inr q \<Rightarrow> Ok (opaque_struct_enc \<lparr>opaque_extra = read (thread_read_thread_id q)\<rparr>)
             | Inl _ \<Rightarrow> Err invalid_params)
       else srv m p)"

definition session_text :: "(string \<Rightarrow> jmap) \<Rightarrow> thread_summary \<Rightarrow> string" where
  "session_text read th =
     unwrap_or (or_opt (extract_summary_preview (thread_summary_extra th))
       (extract_last_message_from_thread_read (read (thread_summary_id th)))) []"

definition sessions_usable ::
  "(string option \<Rightarrow> thread_list_result) \<Rightarrow> (string \<Rightarrow> jmap) \<Rightarrow> rpc_server \<Rightarrow> inner \<Rightarrow> bool" where
  "sessions_usable page read srv s \<longleftrightarrow>
     usable (session_server page read srv) s \<and> (\<forall>cursor. thread_list_result_wf (page cursor)) \<and>
     (\<forall>i. jsorted (read i))"

interpretation listed_sessions: session_source
  "session_list_page (served_codex d (session_server page read srv) params)"
  "resolve_last_message_preview (served_codex d (session_server page read srv) params)"
  page "session_text read" "sessions_usable page read srv"
  for d page read srv params
proof
  fix s cursor
  assume ok: "sessions_usable page read srv s"
  let ?srv = "session_server page read srv"
  have usable: "usable ?srv s" using ok by (simp add: sessions_usable_def)
  have wf: "thread_list_params_wf (list_params cursor)"
    by (simp add: thread_list_params_wf_def list_params_def)
  have "?srv ''thread/list'' (thread_list_params_enc (list_params cursor)) =
      Ok (thread_list_result_enc (page cursor))"
    by (simp add: session_server_def listing_server_def thread_list_params.roundtrip [OF wf])
      (simp add: list_params_def)
  moreover have "thread_list_result_dec (thread_list_result_enc (page cursor)) = Ok (page cursor)"
    using ok by (simp add: sessions_usable_def thread_list_result.roundtrip)
  ultimately show "\<exists>t. session_list_page (served_codex d ?srv params) cursor s = (t, Ok (page cursor)) \<and>
      sessions_usable page read srv t"
    using served_forward [OF usable, of d params thread_list_params_enc thread_list_result_dec
        "''thread/list''" "list_params cursor"] ok
    by (auto simp: session_list_page_def sessions_usable_def)
next
  fix s and th :: thread_summary
  assume ok: "sessions_usable page read srv s"
  let ?srv = "session_server page read srv"
  let ?params = "\<lparr>thread_read_thread_id = thread_summary_id th, thread_read_include_turns = Some True,
    thread_read_extra = []\<rparr>"
  let ?result = "\<lparr>opaque_extra = read (thread_summary_id th)\<rparr> :: opaque_struct"
  have usable: "usable ?srv s" using ok by (simp add: sessions_usable_def)
  have wf: "thread_read_params_wf ?params" by (simp add: thread_read_params_wf_def)
  have "?srv ''thread/read'' (thread_read_params_enc ?params) = Ok (opaque_struct_enc ?result)"
    by (simp add: session_server_def listing_server_def thread_read_params.roundtrip [OF wf])
  moreover have "opaque_struct_dec (opaque_struct_enc ?result) = Ok ?result"
    using ok by (intro opaque_struct.roundtrip) (simp add: sessions_usable_def opaque_struct_wf_def)
  ultimately obtain t where "codex_typed_forward (served_codex d ?srv params) thread_read_params_enc
      opaque_struct_dec ''thread/read'' ?params s = (t, Ok ?result)" "usable ?srv t"
    using served_forward [OF usable, of d params thread_read_params_enc opaque_struct_dec
        "''thread/read''" ?params]
    by auto
  then show "\<exists>t. resolve_last_message_preview (served_codex d ?srv params) th s =
      (t, Ok (session_text read th)) \<and> sessions_usable page read srv t"
    using ok
    by (cases "extract_summary_preview (thread_summary_extra th)")
      (auto simp: resolve_last_message_preview_def session_text_def sessions_usable_def)
qed

text \<open>What a session of the list is, and the order between two of them.\<close>

definition listed_session :: "(string \<Rightarrow> jmap) \<Rightarrow> thread_summary \<Rightarrow> session_list_entry" where
  "listed_session read th =
     \<lparr>session_id = thread_summary_id th,
      session_recency_score = unwrap_or (thread_recency_score th) i64_min,
      session_last_message = session_text read th\<rparr>"

definition not_older :: "session_list_entry \<Rightarrow> session_list_entry \<Rightarrow> bool" where
  "not_older a b \<longleftrightarrow>
     sint (session_recency_score b) < sint (session_recency_score a) \<or>
     session_recency_score a = session_recency_score b \<and> session_id a \<le> session_id b"

lemma session_key_le: "session_key a \<le> session_key b \<Longrightarrow> not_older a b"
proof -
  assume le: "session_key a \<le> session_key b"
  show ?thesis
  proof (cases "sint (session_recency_score b) < sint (session_recency_score a)")
    case True
    then show ?thesis by (simp add: not_older_def)
  next
    case False
    with le have "sint (session_recency_score a) = sint (session_recency_score b)"
      and id: "session_id a \<le> session_id b"
      by (auto simp: session_key_def less_eq_prod_def)
    then have "session_recency_score a = session_recency_score b" by (intro signed_word_eqI)
    with id show ?thesis by (simp add: not_older_def)
  qed
qed

lemma sorted_session_key: "sorted (map session_key es) \<Longrightarrow> sorted_wrt not_older es"
  unfolding sorted_wrt_map by (erule sorted_wrt_mono_rel [rotated]) (rule session_key_le)

text \<open>
  C28: the session list: against a server that lists the given pages, the sessions printed are the
  threads of all pages whose directory is the one asked for, each once, newest first, with
  the preview the server holds; when the last page does not come within a hundred the
  command fails and prints none.
\<close>

theorem sessions_listed:
  assumes "sessions_usable page read srv s"
  shows "\<exists>t. case page_chain 100 page None of
      None \<Rightarrow> list_sessions (served_codex d (session_server page read srv) params) cwd s =
        (t, Err too_many_pages)
    | Some ts \<Rightarrow>
        \<exists>es. list_sessions (served_codex d (session_server page read srv) params) cwd s =
            (t, Ok (session_lines cwd es)) \<and>
          mset es = mset (map (listed_session read) (filter (session_matches cwd) ts)) \<and>
          sorted_wrt not_older es"
proof -
  let ?c = "served_codex d (session_server page read srv) params"
  obtain t where t: "session_pages 100 (session_list_page ?c) (resolve_last_message_preview ?c) cwd None [] s =
     (t, case page_chain 100 page None of
           Some ts \<Rightarrow> Ok ([] @ listed_sessions.entries read cwd ts) | None \<Rightarrow> Err too_many_pages)"
    using listed_sessions.pages [OF assms, of 100 d params cwd None "[]"] by blast
  have entries: "listed_sessions.entries read cwd ts =
      map (listed_session read) (filter (session_matches cwd) ts)" for ts
    by (simp add: listed_sessions.entries_def listed_sessions.entry_def listed_session_def)
  show ?thesis
  proof (cases "page_chain 100 page None")
    case None
    with t show ?thesis by (simp add: list_sessions_def MAX_THREAD_LIST_PAGES_def)
  next
    case (Some ts)
    let ?es = "sort_key session_key (listed_sessions.entries read cwd ts)"
    have "list_sessions ?c cwd s = (t, Ok (session_lines cwd ?es))"
      using t Some by (simp add: list_sessions_def MAX_THREAD_LIST_PAGES_def)
    moreover have "sorted_wrt not_older ?es"
      by (rule sorted_session_key) simp
    ultimately show ?thesis using Some entries by auto
  qed
qed

theorem sessions_listed_witness:
  "\<exists>t es. list_sessions
       (served_codex plain_displays (session_server one_page (\<lambda>_. []) (\<lambda>m p. Ok JNull))
         (default_initialize_params ''1'')) None ready_client = (t, Ok (session_lines None es)) \<and>
     mset (map session_id es) = {#''a'', ''b''#} \<and> sorted_wrt not_older es"
proof -
  have "sane_server (session_server one_page (\<lambda>_. []) (\<lambda>m p. Ok JNull))"
    by (auto simp: sane_server_def session_server_def listing_server_def invalid_params_def rpc_error_wf_def
        rpc_error_make_def split: if_splits sum.splits)
  moreover have "thread_list_result_wf (one_page cursor)" for cursor
    by (simp add: thread_list_result_wf_def one_page_def thread_summary_wf_def summary_at_def
        thread_summary_fields_def)
  ultimately have usable: "sessions_usable one_page (\<lambda>_. []) (\<lambda>m p. Ok JNull) ready_client"
    by (simp add: sessions_usable_def usable_def ready_client_inv)
  have chain: "page_chain 100 one_page None = Some [summary_at ''a'' 1, summary_at ''b'' 2]"
    by (simp add: one_page_def numeral_eq_Suc)
  obtain t es where run: "list_sessions
       (served_codex plain_displays (session_server one_page (\<lambda>_. []) (\<lambda>m p. Ok JNull))
         (default_initialize_params ''1'')) None ready_client = (t, Ok (session_lines None es))"
    and es: "mset es = mset (map (listed_session (\<lambda>_. [])) [summary_at ''a'' 1, summary_at ''b'' 2])"
      "sorted_wrt not_older es"
    using sessions_listed [OF usable, of plain_displays "default_initialize_params ''1''" None]
    by (auto simp: chain session_matches_def)
  have "mset (map session_id es) = image_mset session_id (mset es)" by simp
  also have "\<dots> = {#''a'', ''b''#}"
    unfolding es(1) by (simp add: listed_session_def summary_at_def)
  finally show ?thesis using run es(2) by blast
qed

section \<open>Which message is the last\<close>

text \<open>The items of a thread in order, and the texts they have, with whether an agent wrote them.\<close>

definition thread_items :: "jmap \<Rightarrow> json list" where
  "thread_items extra =
     unwrap_or (field_with as_array extra ''items'') [] @
     concat (map (\<lambda>turn. unwrap_or (turn_items turn) [])
       (unwrap_or (field_with as_array extra ''turns'') []))"

definition message_text :: "json \<Rightarrow> (bool \<times> string) option" where
  "message_text item =
     (case extract_item_text item of
        Some t \<Rightarrow> (if t = [] then None else Some (item_is_assistant_message item, t))
      | None \<Rightarrow> None)"

definition agent_text :: "json list \<Rightarrow> string option" where
  "agent_text items = last_opt (map snd (filter fst (List.map_filter message_text items)))"

definition any_text :: "json list \<Rightarrow> string option" where
  "any_text items = last_opt (map snd (List.map_filter message_text items))"

lemma texts_append:
  "agent_text (xs @ ys) = or_opt (agent_text ys) (agent_text xs)"
  "any_text (xs @ ys) = or_opt (any_text ys) (any_text xs)"
  by (simp_all add: agent_text_def any_text_def map_filter_def)

lemma texts_Nil [simp]: "agent_text [] = None" "any_text [] = None"
  by (simp_all add: agent_text_def any_text_def map_filter_simps)

lemma last_message_loop_texts:
  "last_message_loop items (a, b) = (or_opt (agent_text items) a, or_opt (any_text items) b)"
proof (induction items arbitrary: a b)
  case Nil
  then show ?case by simp
next
  case (Cons item items)
  then show ?case
    by (auto simp: agent_text_def any_text_def map_filter_simps message_text_def last_opt_Cons or_opt_assoc
        split: option.split)
qed

lemma merge_last_texts:
  "merge_last items (a, b) = (or_opt (agent_text items) a, or_opt (any_text items) b)"
  by (simp add: merge_last_def extract_last_message_from_items_def last_message_loop_texts)

lemma turns_texts:
  "fold (\<lambda>turn acc. case turn_items turn of Some items \<Rightarrow> merge_last items acc | None \<Rightarrow> acc) turns (a, b) =
     (let items = concat (map (\<lambda>turn. unwrap_or (turn_items turn) []) turns)
      in (or_opt (agent_text items) a, or_opt (any_text items) b))"
proof (induction turns arbitrary: a b)
  case Nil
  then show ?case by simp
next
  case (Cons turn turns)
  then show ?case
    by (cases "turn_items turn") (simp_all add: Let_def merge_last_texts texts_append or_opt_assoc)
qed

text \<open>
  The preview made from a thread that was read is the last text an agent wrote in it, in the
  order of the thread's items and then its turns', and when there is none the last text of
  any kind; items without text do not count.
\<close>

theorem last_message_of_a_thread:
  "extract_last_message_from_thread_read extra =
     or_opt (agent_text (thread_items extra)) (any_text (thread_items extra))"
proof -
  let ?items = "unwrap_or (field_with as_array extra ''items'') []"
  have first: "(case field_with as_array extra ''items'' of
      Some items \<Rightarrow> merge_last items (None, None) | None \<Rightarrow> (None, None)) = (agent_text ?items, any_text ?items)"
    by (cases "field_with as_array extra ''items''") (simp_all add: merge_last_texts)
  show ?thesis
    by (cases "field_with as_array extra ''turns''")
      (simp_all add: extract_last_message_from_thread_read_def thread_items_def first turns_texts
        texts_append Let_def)
qed

end
