(* ===== verification/Luna_Text.thy ===== *)
theory Luna_Text
  imports Luna_Session
begin

text \<open>
  UTF-8 as the chat relies on it: a Rust string is the concatenation of the encodings of its
  code points, the boundaries of \<open>str::is_char_boundary\<close> split it into strings, and so does
  white space, whose encodings are code points themselves.
\<close>

section \<open>Code points in UTF-8\<close>

text \<open>The encoding of one code point.\<close>

definition utf8_char :: "string \<Rightarrow> bool" where
  "utf8_char c \<longleftrightarrow> valid_utf8 c \<and> c \<noteq> [] \<and> length c = char_width (hd c)"

lemma concat_chars_Nil: "list_all utf8_char cs \<Longrightarrow> concat cs = [] \<longleftrightarrow> cs = []"
  by (cases cs) (auto simp: utf8_char_def)

definition continuation_byte :: "char \<Rightarrow> bool" where
  "continuation_byte b \<longleftrightarrow> in_range 0x80 0xBF b"

text \<open>\<open>str::is_char_boundary\<close>.\<close>

definition char_boundary :: "string \<Rightarrow> nat \<Rightarrow> bool" where
  "char_boundary s i \<longleftrightarrow> i = 0 \<or> i = length s \<or> i < length s \<and> \<not> continuation_byte (s ! i)"

lemma char_width_pos [simp]: "0 < char_width c"
  by (simp add: char_width_def Let_def)

lemma first_byte_width:
  "in_range 0 0x7F a \<Longrightarrow> char_width a = 1"
  "in_range 0xC2 0xDF a \<Longrightarrow> char_width a = 2 \<and> \<not> in_range 0 0x7F a"
  "in_range 0xE0 0xEF a \<Longrightarrow> char_width a = 3 \<and> \<not> in_range 0 0x7F a \<and> \<not> in_range 0xC2 0xDF a"
  "in_range 0xF0 0xF4 a \<Longrightarrow>
     char_width a = 4 \<and> \<not> in_range 0 0x7F a \<and> \<not> in_range 0xC2 0xDF a \<and> \<not> in_range 0xE0 0xEF a"
  by (auto simp: in_range_def char_width_def Let_def)

lemma continuation_ranges:
  "in_range (if p then 0xA0 else 0x80) (if q then 0x9F else 0xBF) b \<Longrightarrow> continuation_byte b"
  "in_range (if p then 0x90 else 0x80) (if q then 0x8F else 0xBF) b \<Longrightarrow> continuation_byte b"
  by (auto simp: in_range_def continuation_byte_def split: if_splits)

lemma first_byte_not_continuation:
  "in_range 0 0x7F a \<or> in_range 0xC2 0xDF a \<or> in_range 0xE0 0xEF a \<or> in_range 0xF0 0xF4 a \<Longrightarrow>
     \<not> continuation_byte a"
  by (auto simp: in_range_def continuation_byte_def)

lemma valid_utf8_cases:
  assumes "valid_utf8 (a # s)"
  obtains "in_range 0 0x7F a" "valid_utf8 s"
  | b t where "in_range 0xC2 0xDF a" "s = b # t" "continuation_byte b" "valid_utf8 t"
  | b d t where "in_range 0xE0 0xEF a" "s = b # d # t" "valid_utf8 [a, b, d]" "continuation_byte b"
      "continuation_byte d" "valid_utf8 t"
  | b d e t where "in_range 0xF0 0xF4 a" "s = b # d # e # t" "valid_utf8 [a, b, d, e]"
      "continuation_byte b" "continuation_byte d" "continuation_byte e" "valid_utf8 t"
proof -
  consider "in_range 0 0x7F a"
    | "\<not> in_range 0 0x7F a" "in_range 0xC2 0xDF a"
    | "\<not> in_range 0 0x7F a" "\<not> in_range 0xC2 0xDF a" "in_range 0xE0 0xEF a"
    | "\<not> in_range 0 0x7F a" "\<not> in_range 0xC2 0xDF a" "\<not> in_range 0xE0 0xEF a"
    by blast
  then show thesis
  proof cases
    case 1
    with assms that(1) show thesis by simp
  next
    case 2
    with assms that(2) show thesis by (auto simp: continuation_byte_def split: list.splits)
  next
    case 3
    with assms obtain b d t where "s = b # d # t" by (auto split: list.splits)
    with 3 assms that(3) continuation_ranges(1) show thesis
      by (auto simp: continuation_byte_def [of d])
  next
    case 4
    with assms obtain b d e t where "s = b # d # e # t" by (auto split: list.splits)
    with 4 assms that(4) continuation_ranges(2) show thesis
      by (auto simp: continuation_byte_def [of d] continuation_byte_def [of e])
  qed
qed

declare valid_utf8.simps(2) [simp del]

lemma valid_utf8_split:
  assumes "valid_utf8 (a # s)"
  shows "utf8_char (take (char_width a) (a # s)) \<and> valid_utf8 (drop (char_width a) (a # s)) \<and>
    \<not> continuation_byte a \<and>
    (\<forall>b \<in> set (tl (take (char_width a) (a # s))). continuation_byte b)"
  using assms
proof (cases rule: valid_utf8_cases)
  case 1
  with first_byte_width(1) first_byte_not_continuation show ?thesis
    by (simp add: utf8_char_def valid_utf8.simps(2))
next
  case (2 b t)
  with first_byte_width(2) [of a] first_byte_not_continuation [of a] show ?thesis
    by (simp add: utf8_char_def valid_utf8.simps(2) continuation_byte_def numeral_2_eq_2)
next
  case (3 b d t)
  with first_byte_width(3) [of a] first_byte_not_continuation [of a] show ?thesis
    by (simp add: utf8_char_def numeral_3_eq_3)
next
  case (4 b d e t)
  then have "char_width a = Suc (Suc (Suc (Suc 0)))" using first_byte_width(4) [of a] by simp
  with 4 first_byte_not_continuation [of a] show ?thesis
    by (simp add: utf8_char_def)
qed

lemma utf8_chars_Nil [simp]: "utf8_chars [] = []"
  by (simp add: utf8_chars.simps)

lemma utf8_chars_valid: "valid_utf8 s \<Longrightarrow> list_all utf8_char (utf8_chars s)"
proof (induction s rule: utf8_chars.induct)
  case (1 s)
  show ?case
  proof (cases s)
    case Nil
    then show ?thesis by simp
  next
    case (Cons a t)
    with 1 valid_utf8_split [of a t] show ?thesis
      by (simp add: utf8_chars.simps [of "a # t"])
  qed
qed

lemma utf8_char_bytes:
  assumes "utf8_char c"
  obtains a t where "c = a # t" "\<not> continuation_byte a" "\<forall>b \<in> set t. continuation_byte b"
proof -
  from assms obtain a t where c: "c = a # t" by (cases c) (auto simp: utf8_char_def)
  with assms have "take (char_width a) (a # t) = a # t" "valid_utf8 (a # t)"
    by (simp_all add: utf8_char_def)
  with valid_utf8_split [of a t] c that show thesis by simp
qed

lemma utf8_chars_Cons:
  assumes "utf8_char c"
  shows "utf8_chars (c @ s) = c # utf8_chars s"
  using assms by (subst utf8_chars.simps) (auto simp: utf8_char_def hd_append)

lemma utf8_chars_concat: "list_all utf8_char cs \<Longrightarrow> utf8_chars (concat cs) = cs"
  by (induction cs) (simp_all add: utf8_chars_Cons)

text \<open>The four shapes of an encoding.\<close>

lemma char_width_cases:
  assumes "utf8_char c"
  obtains a where "c = [a]" "char_width a = 1"
  | a b where "c = [a, b]" "char_width a = 2"
  | a b d where "c = [a, b, d]" "char_width a = 3"
  | a b d e where "c = [a, b, d, e]" "char_width a = 4"
proof -
  from assms obtain a t where c: "c = a # t" and len: "Suc (length t) = char_width a"
    by (cases c) (auto simp: utf8_char_def)
  have "char_width a \<in> {1, 2, 3, 4}" by (simp add: char_width_def Let_def)
  then consider "length t = 0" "char_width a = 1" | "length t = 1" "char_width a = 2"
    | "length t = 2" "char_width a = 3" | "length t = 3" "char_width a = 4"
    using len by fastforce
  then show thesis
    using that c by cases (auto simp: length_Suc_conv numeral_2_eq_2 numeral_3_eq_3)
qed

lemma char_width_range:
  "char_width a = Suc 0 \<longleftrightarrow> in_range 0 0x7F a"
  "char_width a = 2 \<longleftrightarrow> in_range 0x80 0xDF a"
  "char_width a = 3 \<longleftrightarrow> in_range 0xE0 0xEF a"
  by (auto simp: char_width_def in_range_def Let_def)

lemma in_range_disjoint:
  "in_range 0x80 0xDF a \<Longrightarrow> \<not> in_range 0 0x7F a"
  "in_range 0xE0 0xEF a \<Longrightarrow> \<not> in_range 0 0x7F a \<and> \<not> in_range 0xC2 0xDF a"
  "char_width a = 4 \<Longrightarrow> \<not> in_range 0 0x7F a \<and> \<not> in_range 0xC2 0xDF a \<and> \<not> in_range 0xE0 0xEF a"
  by (auto simp: in_range_def char_width_def Let_def split: if_splits)

lemma valid_utf8_Cons_char:
  assumes "utf8_char c"
  shows "valid_utf8 (c @ s) = valid_utf8 s"
  using assms
proof (cases c rule: char_width_cases)
  case (1 a)
  then show ?thesis by (simp add: valid_utf8.simps(2) char_width_range)
next
  case (2 a b)
  with assms show ?thesis
    by (auto simp: utf8_char_def valid_utf8.simps(2) char_width_range in_range_disjoint(1) split: if_splits)
next
  case (3 a b d)
  with assms show ?thesis
    by (auto simp: utf8_char_def valid_utf8.simps(2) char_width_range(3) in_range_disjoint(2) split: if_splits)
next
  case (4 a b d e)
  with assms show ?thesis
    by (simp add: utf8_char_def valid_utf8.simps(2) in_range_disjoint(3))
qed

lemma valid_utf8_concat: "list_all utf8_char cs \<Longrightarrow> valid_utf8 (concat cs)"
  by (induction cs) (simp_all add: valid_utf8_Cons_char)

lemma valid_utf8_iff: "valid_utf8 s \<longleftrightarrow> list_all utf8_char (utf8_chars s)"
  using utf8_chars_valid [of s] valid_utf8_concat [of "utf8_chars s"] by auto

lemma valid_utf8_append:
  assumes "valid_utf8 s"
  shows "utf8_chars (s @ t) = utf8_chars s @ utf8_chars t" "valid_utf8 (s @ t) = valid_utf8 t"
proof -
  have *: "utf8_chars (concat cs @ t) = cs @ utf8_chars t \<and> valid_utf8 (concat cs @ t) = valid_utf8 t"
    if "list_all utf8_char cs" for cs
    using that by (induction cs) (simp_all add: utf8_chars_Cons valid_utf8_Cons_char)
  from * [of "utf8_chars s"] utf8_chars_valid [OF assms]
  show "utf8_chars (s @ t) = utf8_chars s @ utf8_chars t" "valid_utf8 (s @ t) = valid_utf8 t"
    by simp_all
qed

lemma char_boundary_splits:
  assumes "valid_utf8 s" "char_boundary s i"
  shows "valid_utf8 (take i s) \<and> valid_utf8 (drop i s)"
proof -
  have "valid_utf8 (take i (concat cs)) \<and> valid_utf8 (drop i (concat cs))"
    if "list_all utf8_char cs" "char_boundary (concat cs) i" for cs
    using that
  proof (induction cs arbitrary: i)
    case Nil
    then show ?case by simp
  next
    case (Cons c cs)
    then have c: "utf8_char c" and cs: "list_all utf8_char cs" by simp_all
    from c obtain a t where at: "c = a # t" "\<forall>b \<in> set t. continuation_byte b"
      by (rule utf8_char_bytes)
    show ?case
    proof (cases "i = 0 \<or> length c \<le> i")
      case True
      then show ?thesis
      proof
        assume "i = 0"
        with c cs show ?thesis by (simp add: valid_utf8_Cons_char valid_utf8_concat)
      next
        assume i: "length c \<le> i"
        with Cons.prems(2) have "char_boundary (concat cs) (i - length c)"
          by (auto simp: char_boundary_def nth_append)
        with Cons.IH [OF cs] i c show ?thesis by (simp add: valid_utf8_Cons_char)
      qed
    next
      case False
      then have "continuation_byte (concat (c # cs) ! i)" "i < length (concat (c # cs))"
        using at by (auto simp: nth_append nth_Cons split: nat.split)
      with False Cons.prems(2) show ?thesis by (auto simp: char_boundary_def at)
    qed
  qed
  from this [of "utf8_chars s"] assms show ?thesis
    by (simp add: utf8_chars_valid)
qed

section \<open>White space\<close>

lemma whitespace_chars: "w \<in> set whitespace_encodings \<Longrightarrow> utf8_char w"
proof -
  have "list_all utf8_char whitespace_encodings"
    by (simp add: whitespace_encodings_def utf8_char_def valid_utf8.simps(2) in_range_def
        char_width_def)
  then show "w \<in> set whitespace_encodings \<Longrightarrow> utf8_char w" by (simp add: list_all_iff)
qed

lemma strip_any_Some:
  "strip_any ps s = Some r \<Longrightarrow> \<exists>w \<in> set ps. s = w @ r"
  by (induction ps) (auto simp: strip_prefix_Some_iff split: option.splits)

lemma strip_any_None: "strip_any ps s = None \<longleftrightarrow> (\<forall>w \<in> set ps. strip_prefix w s = None)"
  by (induction ps) (auto split: option.split)

lemma utf8_char_prefix:
  assumes "utf8_char c" "utf8_char w" "c @ s = w @ r"
  shows "c = w \<and> s = r"
proof -
  from assms have "hd c = hd w" by (metis hd_append utf8_char_def)
  with assms(1,2) have "length c = length w" by (simp add: utf8_char_def)
  with assms(3) show ?thesis by simp
qed

text \<open>White space is found only where a code point starts, and there it is a whole one.\<close>

lemma strip_whitespace_char:
  assumes "utf8_char c"
  shows "strip_any whitespace_encodings (c @ s) =
    (if c \<in> set whitespace_encodings then Some s else None)"
proof (cases "strip_any whitespace_encodings (c @ s)")
  case None
  then have "c \<notin> set whitespace_encodings"
    using strip_prefix_Some_iff [of c "c @ s" s] by (auto simp: strip_any_None)
  with None show ?thesis by simp
next
  case (Some r)
  then obtain w where "w \<in> set whitespace_encodings" "c @ s = w @ r"
    using strip_any_Some by blast
  with utf8_char_prefix [OF assms whitespace_chars [of w]] Some show ?thesis by auto
qed

lemma strip_whitespace_continuation:
  assumes "continuation_byte b"
  shows "strip_any whitespace_encodings (b # s) = None"
proof (rule ccontr)
  assume "strip_any whitespace_encodings (b # s) \<noteq> None"
  then obtain r where "strip_any whitespace_encodings (b # s) = Some r" by blast
  then obtain w where w: "w \<in> set whitespace_encodings" "b # s = w @ r"
    using strip_any_Some by blast
  from whitespace_chars [OF w(1)] obtain a t where "w = a # t" "\<not> continuation_byte a"
    by (rule utf8_char_bytes)
  with w(2) assms show False by simp
qed

lemma split_whitespace_bytes:
  "\<forall>b \<in> set t. continuation_byte b \<Longrightarrow>
     split_whitespace acc (t @ s) = split_whitespace (rev t @ acc) s"
proof (induction t arbitrary: acc)
  case Nil
  then show ?case by simp
next
  case (Cons b t)
  then show ?case
    by (simp add: split_whitespace.simps [of acc "b # t @ s"] strip_whitespace_continuation Let_def)
qed

lemma split_whitespace_char:
  assumes "utf8_char c"
  shows "split_whitespace acc (c @ s) =
    (if c \<in> set whitespace_encodings then (if acc = [] then [] else [rev acc]) @ split_whitespace [] s
     else split_whitespace (rev c @ acc) s)"
proof -
  from assms obtain a t where c: "c = a # t" "\<forall>b \<in> set t. continuation_byte b"
    by (rule utf8_char_bytes)
  with strip_whitespace_char [OF assms, of s] split_whitespace_bytes [OF c(2), of "a # acc" s]
  show ?thesis
    by (simp add: split_whitespace.simps [of acc "a # t @ s"] Let_def)
qed

lemma split_whitespace_valid:
  "list_all utf8_char cs \<Longrightarrow> valid_utf8 (rev acc) \<Longrightarrow>
     list_all valid_utf8 (split_whitespace acc (concat cs))"
proof (induction cs arbitrary: acc)
  case Nil
  then show ?case by (simp add: split_whitespace.simps [of acc "[]"])
next
  case (Cons c cs)
  then have "valid_utf8 (rev acc @ c)" by (simp add: valid_utf8_append utf8_char_def)
  with Cons show ?case by (simp add: split_whitespace_char)
qed

lemma valid_utf8_join:
  "valid_utf8 sep \<Longrightarrow> list_all valid_utf8 ts \<Longrightarrow> valid_utf8 (join_with sep ts)"
  by (induction sep ts rule: join_with.induct) (simp_all add: valid_utf8_append)

text \<open>Trimming keeps a string valid.\<close>

lemma valid_utf8_suffix:
  assumes "valid_utf8 (s @ w)" "utf8_char w"
  shows "valid_utf8 s"
proof -
  from assms(2) obtain a t where "w = a # t" "\<not> continuation_byte a" by (rule utf8_char_bytes)
  then have "char_boundary (s @ w) (length s)" by (simp add: char_boundary_def nth_append)
  with char_boundary_splits [OF assms(1)] show ?thesis by fastforce
qed

lemma trim_with_invariant:
  assumes "P s" "\<And>w r. w \<in> set ps \<Longrightarrow> P (w @ r) \<Longrightarrow> P r"
  shows "P (trim_with ps s)"
  using assms
proof (induction ps s rule: trim_with.induct)
  case (1 ps s)
  show ?case
    using 1 strip_any_Some [of ps s]
    by (subst trim_with.simps) (auto split: option.split)
qed

lemma valid_utf8_trim_start: "valid_utf8 s \<Longrightarrow> valid_utf8 (trim_start s)"
  unfolding trim_start_def
  by (rule trim_with_invariant) (auto simp: valid_utf8_Cons_char whitespace_chars)

lemma valid_utf8_trim_end:
  assumes "valid_utf8 s"
  shows "valid_utf8 (trim_end s)"
proof -
  have "valid_utf8 (rev (trim_with (map rev whitespace_encodings) (rev s)))"
    by (rule trim_with_invariant [where P = "\<lambda>t. valid_utf8 (rev t)"])
      (use assms in \<open>auto intro: valid_utf8_suffix whitespace_chars\<close>)
  then show ?thesis by (simp add: trim_end_def)
qed

lemma valid_utf8_trim: "valid_utf8 s \<Longrightarrow> valid_utf8 (trim s)"
  by (simp add: trim_def valid_utf8_trim_start valid_utf8_trim_end)

section \<open>Trimming code points\<close>

lemma trim_with_step:
  "[] \<notin> set ps \<Longrightarrow>
     trim_with ps s = (case strip_any ps s of None \<Rightarrow> s | Some r \<Rightarrow> trim_with ps r)"
  by (subst trim_with.simps) simp

lemma trim_start_char:
  assumes "utf8_char c"
  shows "trim_start (c @ s) = (if c \<in> set whitespace_encodings then trim_start s else c @ s)"
  unfolding trim_start_def
  by (subst trim_with_step)
    (simp_all add: whitespace_nonempty strip_whitespace_char [OF assms])

lemma utf8_char_suffix:
  assumes "utf8_char c" "utf8_char w" "t @ c = r @ w"
  shows "t = r \<and> c = w"
proof -
  have False if "utf8_char c" "utf8_char w" "c = u @ w" "u \<noteq> []" for u c w :: string
  proof -
    from that(2) obtain a v where "w = a # v" "\<not> continuation_byte a" by (rule utf8_char_bytes)
    moreover from that(1) obtain b x where "c = b # x" "\<forall>y \<in> set x. continuation_byte y"
      by (rule utf8_char_bytes)
    ultimately show False using that(3,4) by (cases u) auto
  qed
  moreover from assms(3) obtain u where "t @ u = r \<and> c = u @ w \<or> t = r @ u \<and> u @ c = w"
    by (auto simp: append_eq_append_conv2)
  ultimately show ?thesis using assms(1,2) by (cases "u = []") auto
qed

lemma trim_end_char:
  assumes "utf8_char c"
  shows "trim_end (s @ c) = (if c \<in> set whitespace_encodings then trim_end s else s @ c)"
proof -
  let ?ps = "map rev whitespace_encodings"
  have nonempty: "[] \<notin> set ?ps" using whitespace_nonempty by auto
  have "strip_any ?ps (rev (s @ c)) = (if c \<in> set whitespace_encodings then Some (rev s) else None)"
  proof (cases "strip_any ?ps (rev (s @ c))")
    case None
    then have "c \<notin> set whitespace_encodings"
      using strip_prefix_Some_iff [of "rev c" "rev c @ rev s" "rev s"]
      by (auto simp: strip_any_None)
    with None show ?thesis by simp
  next
    case (Some r)
    then obtain w where w: "w \<in> set whitespace_encodings" "rev (s @ c) = rev w @ r"
      using strip_any_Some by fastforce
    from w(2) have "s @ c = rev r @ w" by (metis rev_append rev_rev_ident)
    with utf8_char_suffix [OF assms whitespace_chars [OF w(1)]] have "s = rev r" "c = w" by auto
    with Some w(1) show ?thesis by simp
  qed
  then show ?thesis
    unfolding trim_end_def by (subst trim_with_step [OF nonempty]) simp
qed

lemma trim_start_Nil [simp]: "trim_start [] = []"
  using trim_with_invariant [of "\<lambda>t. length t \<le> 0" "[]" whitespace_encodings]
  by (simp add: trim_start_def)

lemma trim_end_Nil [simp]: "trim_end [] = []"
  using trim_with_invariant [of "\<lambda>t. length t \<le> 0" "[]" "map rev whitespace_encodings"]
  by (simp add: trim_end_def)

lemma trim_start_concat:
  "list_all utf8_char cs \<Longrightarrow>
     trim_start (concat cs) = concat (dropWhile (\<lambda>c. c \<in> set whitespace_encodings) cs)"
  by (induction cs) (simp_all add: trim_start_char)

lemma trim_end_concat:
  "list_all utf8_char cs \<Longrightarrow>
     trim_end (concat cs) = concat (rev (dropWhile (\<lambda>c. c \<in> set whitespace_encodings) (rev cs)))"
  by (induction cs rule: rev_induct) (simp_all add: trim_end_char)

lemma dropWhile_length_eq:
  "length (dropWhile P xs) = length xs \<Longrightarrow> dropWhile P xs = xs"
  using length_dropWhile_le [of P "tl xs"] by (cases xs) auto

lemma both_ends:
  assumes "xs \<noteq> []"
  shows "rev (dropWhile P (rev (dropWhile P xs))) = xs \<longleftrightarrow> \<not> P (hd xs) \<and> \<not> P (last xs)"
proof
  define a where "a = dropWhile P xs"
  assume "rev (dropWhile P (rev (dropWhile P xs))) = xs"
  then have ends_eq: "dropWhile P (rev a) = rev xs" by (simp add: a_def rev_swap)
  have "length (dropWhile P (rev a)) \<le> length a" "length a \<le> length xs"
    using length_dropWhile_le [of P "rev a"] by (simp_all add: a_def length_dropWhile_le)
  with ends_eq have a: "a = xs" by (simp add: a_def dropWhile_length_eq)
  have "\<not> P (hd (dropWhile P xs))" "\<not> P (hd (dropWhile P (rev a)))"
    using assms a ends_eq a_def by (metis hd_dropWhile rev_is_Nil_conv)+
  with a ends_eq assms a_def show "\<not> P (hd xs) \<and> \<not> P (last xs)" by (simp add: hd_rev)
next
  assume ends: "\<not> P (hd xs) \<and> \<not> P (last xs)"
  then have "dropWhile P xs = xs" using assms by (cases xs) auto
  moreover from ends have "dropWhile P (rev xs) = rev xs"
    using assms by (cases xs rule: rev_cases) auto
  ultimately show "rev (dropWhile P (rev (dropWhile P xs))) = xs" by simp
qed

text \<open>A string that is its own trim and not empty: it starts and ends with a visible code point.\<close>

definition clean_text :: "string \<Rightarrow> bool" where
  "clean_text t \<longleftrightarrow> valid_utf8 t \<and> t \<noteq> [] \<and> trim t = t"

lemma clean_text_chars:
  assumes "list_all utf8_char cs" "cs \<noteq> []"
  shows "clean_text (concat cs) \<longleftrightarrow>
    hd cs \<notin> set whitespace_encodings \<and> last cs \<notin> set whitespace_encodings"
proof -
  let ?ws = "\<lambda>c. c \<in> set whitespace_encodings"
  let ?t = "rev (dropWhile ?ws (rev (dropWhile ?ws cs)))"
  have dropped: "list_all utf8_char (dropWhile ?ws cs)"
    using assms(1) by (auto simp: list_all_iff dest: set_dropWhileD)
  then have trimmed: "list_all utf8_char ?t"
    by (auto simp: list_all_iff dest!: set_dropWhileD)
  have "trim (concat cs) = concat ?t"
    by (simp add: trim_def trim_start_concat [OF assms(1)] trim_end_concat [OF dropped])
  moreover have "concat ?t = concat cs \<longleftrightarrow> ?t = cs"
    using utf8_chars_concat [OF trimmed] utf8_chars_concat [OF assms(1)] by metis
  moreover have "?t = cs \<longleftrightarrow> \<not> ?ws (hd cs) \<and> \<not> ?ws (last cs)"
    by (rule both_ends [OF assms(2)])
  moreover have "concat cs \<noteq> []" "valid_utf8 (concat cs)"
    using assms valid_utf8_concat [of cs] by (cases cs; auto simp: utf8_char_def)+
  ultimately show ?thesis by (simp add: clean_text_def)
qed

lemma clean_text_obtain:
  assumes "clean_text t"
  obtains cs where "t = concat cs" "cs \<noteq> []" "list_all utf8_char cs"
    "hd cs \<notin> set whitespace_encodings" "last cs \<notin> set whitespace_encodings"
proof -
  have valid: "t = concat (utf8_chars t)" "list_all utf8_char (utf8_chars t)"
    using assms by (simp_all add: clean_text_def utf8_chars_valid)
  moreover have "utf8_chars t \<noteq> []"
    using assms by (simp add: clean_text_def utf8_chars.simps [of t])
  ultimately show thesis using that clean_text_chars [of "utf8_chars t"] assms by metis
qed

text \<open>What is trimmed and not empty is clean.\<close>

lemma clean_text_trim:
  assumes "valid_utf8 s" "trim s \<noteq> []"
  shows "clean_text (trim s)"
proof -
  let ?ws = "\<lambda>c. c \<in> set whitespace_encodings"
  define a where "a = dropWhile ?ws (utf8_chars s)"
  define b where "b = dropWhile ?ws (rev a)"
  have chars: "list_all utf8_char (utf8_chars s)" using assms(1) by (rule utf8_chars_valid)
  then have a: "list_all utf8_char a" by (auto simp: a_def list_all_iff dest: set_dropWhileD)
  then have b: "list_all utf8_char (rev b)" by (auto simp: b_def list_all_iff dest!: set_dropWhileD)
  have eq: "trim s = concat (rev b)"
    using trim_start_concat [OF chars] trim_end_concat [OF a] by (simp add: trim_def a_def b_def)
  with assms(2) have ne: "b \<noteq> []" by auto
  then have last_b: "\<not> ?ws (hd b)" by (metis b_def hd_dropWhile)
  obtain u where u: "rev a = u @ b" using takeWhile_dropWhile_id b_def by metis
  then have "a = rev b @ rev u" by (metis rev_append rev_rev_ident)
  with ne have "a \<noteq> []" "hd a = last b" by (simp_all add: hd_rev)
  then have "\<not> ?ws (last b)" by (metis a_def hd_dropWhile)
  with last_b ne clean_text_chars [OF b] eq show ?thesis by (simp add: hd_rev last_rev)
qed

text \<open>A visible beginning and end, and what is between them, are kept.\<close>

lemma clean_text_append:
  assumes "clean_text s" "clean_text t" "valid_utf8 m"
  shows "clean_text (s @ m @ t)"
proof -
  obtain a where a: "s = concat a" "a \<noteq> []" "list_all utf8_char a" "hd a \<notin> set whitespace_encodings"
    using assms(1) by (blast elim: clean_text_obtain)
  obtain b where b: "t = concat b" "b \<noteq> []" "list_all utf8_char b" "last b \<notin> set whitespace_encodings"
    using assms(2) by (blast elim: clean_text_obtain)
  have "clean_text (concat (a @ utf8_chars m @ b))"
    using a b utf8_chars_valid [OF assms(3)] by (subst clean_text_chars) simp_all
  with a(1) b(1) show ?thesis by simp
qed

lemma trim_clean:
  assumes "clean_text t" "w \<in> set whitespace_encodings"
  shows "trim (t @ w) = t"
proof -
  obtain cs where cs: "t = concat cs" "cs \<noteq> []" "list_all utf8_char cs"
    "hd cs \<notin> set whitespace_encodings" "last cs \<notin> set whitespace_encodings"
    using assms(1) by (rule clean_text_obtain)
  then have "trim_start (t @ w) = t @ w"
    by (cases cs) (simp_all add: trim_start_char)
  moreover have "trim_end t = t"
    using cs by (cases cs rule: rev_cases) (simp_all add: trim_end_char)
  ultimately show ?thesis
    using assms(2) by (simp add: trim_def trim_end_char whitespace_chars)
qed

section \<open>Columns\<close>

text \<open>\<open>{:<n}\<close>: padded with spaces to a number of code points.\<close>

definition pad_right :: "nat \<Rightarrow> string \<Rightarrow> string" where
  "pad_right n s = s @ replicate (n - length (utf8_chars s)) (CHR 0x20)"

end
