(* ===== verification/Luna_Input.thy ===== *)
theory Luna_Input
  imports Luna_Text
begin

text \<open>
  The line editor of the chat, \<open>InputBuffer\<close> of \<open>crates/luna/src/commands/chat.rs\<close>: a string and
  a cursor that counts bytes. Slicing or changing a Rust string off a code point boundary
  panics, so the operations return an option, \<open>None\<close> for a panic. The specification is a pair
  of lists of code points, those before the cursor and those after it.
\<close>

section \<open>The buffer\<close>

record input_buffer =
  ib_text :: string
  ib_cursor :: nat

definition input_buffer_default :: input_buffer where
  "input_buffer_default = \<lparr>ib_text = [], ib_cursor = 0\<rparr>"

text \<open>\<open>&text[..i]\<close> and \<open>&text[i..]\<close>, and \<open>text.drain(i..j)\<close>.\<close>

definition slices :: "string \<Rightarrow> nat \<Rightarrow> (string \<times> string) option" where
  "slices t i = (if char_boundary t i then Some (take i t, drop i t) else None)"

definition drain :: "nat \<Rightarrow> nat \<Rightarrow> string \<Rightarrow> string option" where
  "drain i j t =
     (if i \<le> j \<and> char_boundary t i \<and> char_boundary t j then Some (take i t @ drop j t) else None)"

definition input_set :: "string \<Rightarrow> input_buffer \<Rightarrow> input_buffer" where
  "input_set t b = \<lparr>ib_text = t, ib_cursor = length t\<rparr>"

definition input_clear :: "input_buffer \<Rightarrow> input_buffer" where
  "input_clear b = \<lparr>ib_text = [], ib_cursor = 0\<rparr>"

definition input_take :: "input_buffer \<Rightarrow> input_buffer \<times> string" where
  "input_take b = (\<lparr>ib_text = [], ib_cursor = 0\<rparr>, ib_text b)"

definition input_insert_str :: "string \<Rightarrow> input_buffer \<Rightarrow> input_buffer option" where
  "input_insert_str t b =
     map_option (\<lambda>(l, r). \<lparr>ib_text = l @ t @ r, ib_cursor = ib_cursor b + length t\<rparr>)
       (slices (ib_text b) (ib_cursor b))"

text \<open>A \<open>char\<close> is its encoding.\<close>

definition input_insert :: "string \<Rightarrow> input_buffer \<Rightarrow> input_buffer option" where
  "input_insert c b =
     map_option (\<lambda>(l, r). \<lparr>ib_text = l @ c @ r, ib_cursor = ib_cursor b + length c\<rparr>)
       (slices (ib_text b) (ib_cursor b))"

text \<open>Where the last code point of a string starts, and how long the first is.\<close>

definition last_char_start :: "string \<Rightarrow> nat" where
  "last_char_start t =
     (if utf8_chars t = [] then 0 else length t - length (last (utf8_chars t)))"

definition first_char_len :: "string \<Rightarrow> nat" where
  "first_char_len t = (case utf8_chars t of [] \<Rightarrow> 0 | c # _ \<Rightarrow> length c)"

definition input_backspace :: "input_buffer \<Rightarrow> input_buffer option" where
  "input_backspace b =
     (if ib_cursor b = 0 then Some b
      else case slices (ib_text b) (ib_cursor b) of
        None \<Rightarrow> None
      | Some (before, _) \<Rightarrow>
          (let previous = last_char_start before
           in map_option (\<lambda>t. \<lparr>ib_text = t, ib_cursor = previous\<rparr>)
                (drain previous (ib_cursor b) (ib_text b))))"

definition input_delete :: "input_buffer \<Rightarrow> input_buffer option" where
  "input_delete b =
     (if ib_cursor b = length (ib_text b) then Some b
      else case slices (ib_text b) (ib_cursor b) of
        None \<Rightarrow> None
      | Some (_, after) \<Rightarrow>
          (let next_start = ib_cursor b + first_char_len after
           in map_option (\<lambda>t. b\<lparr>ib_text := t\<rparr>) (drain (ib_cursor b) next_start (ib_text b))))"

definition input_move_left :: "input_buffer \<Rightarrow> input_buffer option" where
  "input_move_left b =
     (if 0 < ib_cursor b then
        map_option (\<lambda>(before, _). b\<lparr>ib_cursor := last_char_start before\<rparr>)
          (slices (ib_text b) (ib_cursor b))
      else Some b)"

definition input_move_right :: "input_buffer \<Rightarrow> input_buffer option" where
  "input_move_right b =
     (if ib_cursor b < length (ib_text b) then
        map_option (\<lambda>(_, after). b\<lparr>ib_cursor := ib_cursor b + first_char_len after\<rparr>)
          (slices (ib_text b) (ib_cursor b))
      else Some b)"

section \<open>The specification: a line with a cursor\<close>

datatype 'c edit =
    Ed_Insert "'c list"
  | Ed_Backspace
  | Ed_Delete
  | Ed_Left
  | Ed_Right
  | Ed_Home
  | Ed_End
  | Ed_Set "'c list"

type_synonym 'c line = "'c list \<times> 'c list"

fun line_edit :: "'c edit \<Rightarrow> 'c line \<Rightarrow> 'c line" where
  "line_edit (Ed_Insert cs) (l, r) = (l @ cs, r)"
| "line_edit Ed_Backspace (l, r) = (butlast l, r)"
| "line_edit Ed_Delete (l, r) = (l, tl r)"
| "line_edit Ed_Left (l, r) = (if l = [] then (l, r) else (butlast l, last l # r))"
| "line_edit Ed_Right (l, r) = (if r = [] then (l, r) else (l @ [hd r], tl r))"
| "line_edit Ed_Home (l, r) = ([], l @ r)"
| "line_edit Ed_End (l, r) = (l @ r, [])"
| "line_edit (Ed_Set cs) (l, r) = (cs, [])"

fun edit_text :: "'c edit \<Rightarrow> 'c list" where
  "edit_text (Ed_Insert cs) = cs"
| "edit_text (Ed_Set cs) = cs"
| "edit_text _ = []"

definition line_text :: "'c line \<Rightarrow> 'c list" where
  "line_text v = fst v @ snd v"

lemma in_set_tlD: "x \<in> set (tl xs) \<Longrightarrow> x \<in> set xs"
  by (cases xs) auto

lemma line_edit_text: "set (line_text (line_edit e v)) \<subseteq> set (line_text v) \<union> set (edit_text e)"
proof (cases v)
  case (Pair l r)
  show ?thesis
  proof (cases e)
    case Ed_Left
    then show ?thesis
      using Pair by (cases l rule: rev_cases) (auto simp: line_text_def)
  next
    case Ed_Right
    then show ?thesis
      using Pair by (cases r) (auto simp: line_text_def)
  qed (use Pair in \<open>auto simp: line_text_def dest: in_set_butlastD in_set_tlD\<close>)
qed

text \<open>Steps that may fail, one after the other.\<close>

fun try_all :: "('e \<Rightarrow> 'b \<Rightarrow> 'b option) \<Rightarrow> 'e list \<Rightarrow> 'b \<Rightarrow> 'b option" where
  "try_all f [] b = Some b"
| "try_all f (e # es) b = (case f e b of None \<Rightarrow> None | Some b1 \<Rightarrow> try_all f es b1)"

text \<open>
  The contract of an editable line: an edit of a well-formed line does not fail, keeps it
  well-formed and changes its view as the specification says.
\<close>

locale line_buffer =
  fixes edit :: "'c edit \<Rightarrow> 'b \<Rightarrow> 'b option"
    and view :: "'b \<Rightarrow> 'c line"
    and wf :: "'b \<Rightarrow> bool"
    and ok :: "'c \<Rightarrow> bool"
  assumes edit_refines:
    "wf b \<Longrightarrow> list_all ok (edit_text e) \<Longrightarrow>
       \<exists>b'. edit e b = Some b' \<and> wf b' \<and> view b' = line_edit e (view b)"
begin

lemma edits_refine:
  assumes "wf b" "\<forall>e \<in> set es. list_all ok (edit_text e)"
  shows "\<exists>b'. try_all edit es b = Some b' \<and> wf b' \<and> view b' = fold line_edit es (view b)"
  using assms
proof (induction es arbitrary: b)
  case Nil
  then show ?case by simp
next
  case (Cons e es)
  then obtain b1 where "edit e b = Some b1" "wf b1" "view b1 = line_edit e (view b)"
    using edit_refines [of b e] by auto
  with Cons.IH [of b1] Cons.prems show ?case by simp
qed

text \<open>What is typed can be taken back, and moving does not change the text.\<close>

lemma insert_backspace:
  assumes "wf b" "ok c"
  shows "\<exists>b'. try_all edit [Ed_Insert [c], Ed_Backspace] b = Some b' \<and> view b' = view b"
  using edits_refine [OF assms(1), of "[Ed_Insert [c], Ed_Backspace]"] assms(2)
  by (cases "view b") auto

lemma moves_keep_text:
  assumes "wf b" "set es \<subseteq> {Ed_Left, Ed_Right, Ed_Home, Ed_End}"
  shows "\<exists>b'. try_all edit es b = Some b' \<and> line_text (view b') = line_text (view b)"
proof -
  have same: "line_text (fold line_edit es v) = line_text v" for v
    using assms(2)
  proof (induction es arbitrary: v)
    case Nil
    then show ?case by simp
  next
    case (Cons e es)
    then have "line_text (line_edit e v) = line_text v"
      by (cases v) (auto simp: line_text_def)
    with Cons show ?case by simp
  qed
  have "\<forall>e \<in> set es. list_all ok (edit_text e)" using assms(2) by auto
  with edits_refine [OF assms(1), of es] same [of "view b"] show ?thesis by auto
qed

end

section \<open>The buffer implements the line\<close>

fun buffer_edit :: "string edit \<Rightarrow> input_buffer \<Rightarrow> input_buffer option" where
  "buffer_edit (Ed_Insert cs) b = input_insert_str (concat cs) b"
| "buffer_edit Ed_Backspace b = input_backspace b"
| "buffer_edit Ed_Delete b = input_delete b"
| "buffer_edit Ed_Left b = input_move_left b"
| "buffer_edit Ed_Right b = input_move_right b"
| "buffer_edit Ed_Home b = Some (b\<lparr>ib_cursor := 0\<rparr>)"
| "buffer_edit Ed_End b = Some (b\<lparr>ib_cursor := length (ib_text b)\<rparr>)"
| "buffer_edit (Ed_Set cs) b = Some (input_set (concat cs) b)"

definition buffer_wf :: "input_buffer \<Rightarrow> bool" where
  "buffer_wf b \<longleftrightarrow> valid_utf8 (ib_text b) \<and> char_boundary (ib_text b) (ib_cursor b)"

definition buffer_view :: "input_buffer \<Rightarrow> string line" where
  "buffer_view b =
     (utf8_chars (take (ib_cursor b) (ib_text b)), utf8_chars (drop (ib_cursor b) (ib_text b)))"

text \<open>The buffer of a line.\<close>

definition buffer_of :: "string list \<Rightarrow> string list \<Rightarrow> input_buffer" where
  "buffer_of l r = \<lparr>ib_text = concat l @ concat r, ib_cursor = length (concat l)\<rparr>"

definition line_ok :: "string list \<Rightarrow> string list \<Rightarrow> bool" where
  "line_ok l r \<longleftrightarrow> list_all utf8_char l \<and> list_all utf8_char r"

lemma buffer_of_boundary:
  assumes "list_all utf8_char r"
  shows "char_boundary (s @ concat r) (length s)"
proof (cases r)
  case (Cons c cs)
  with assms obtain a t where "c = a # t" "\<not> continuation_byte a"
    by (auto elim: utf8_char_bytes)
  with Cons show ?thesis by (simp add: char_boundary_def nth_append)
qed (simp add: char_boundary_def)

lemma buffer_wf_of: "line_ok l r \<Longrightarrow> buffer_wf (buffer_of l r)"
  using valid_utf8_concat [of "l @ r"]
  by (simp add: buffer_wf_def buffer_of_def line_ok_def buffer_of_boundary)

lemma buffer_view_of [simp]: "line_ok l r \<Longrightarrow> buffer_view (buffer_of l r) = (l, r)"
  by (simp add: buffer_view_def buffer_of_def line_ok_def utf8_chars_concat)

lemma buffer_wf_obtain:
  assumes "buffer_wf b"
  obtains l r where "line_ok l r" "b = buffer_of l r"
proof -
  let ?l = "utf8_chars (take (ib_cursor b) (ib_text b))"
  let ?r = "utf8_chars (drop (ib_cursor b) (ib_text b))"
  from assms char_boundary_splits [of "ib_text b" "ib_cursor b"] have "line_ok ?l ?r"
    by (simp add: buffer_wf_def line_ok_def utf8_chars_valid)
  moreover have "ib_cursor b \<le> length (ib_text b)"
    using assms by (auto simp: buffer_wf_def char_boundary_def)
  then have "b = buffer_of ?l ?r"
    by (simp add: buffer_of_def)
  ultimately show thesis by (rule that)
qed

lemma slices_of: "line_ok l r \<Longrightarrow> slices (concat l @ concat r) (length (concat l)) = Some (concat l, concat r)"
  by (simp add: slices_def line_ok_def buffer_of_boundary)

lemma drain_of:
  assumes "line_ok l (m @ r)"
  shows "drain (length (concat l)) (length (concat l) + length (concat m)) (concat l @ concat m @ concat r) =
    Some (concat l @ concat r)"
proof -
  have "char_boundary (concat l @ concat m @ concat r) (length (concat l))"
    using assms buffer_of_boundary [of "m @ r" "concat l"] by (simp add: line_ok_def)
  moreover have "char_boundary (concat l @ concat m @ concat r) (length (concat l) + length (concat m))"
    using assms buffer_of_boundary [of r "concat l @ concat m"] by (simp add: line_ok_def)
  ultimately show ?thesis by (simp add: drain_def)
qed

lemma char_ends [simp]:
  "list_all utf8_char l \<Longrightarrow> utf8_char c \<Longrightarrow> last_char_start (concat l @ c) = length (concat l)"
  "utf8_char c \<Longrightarrow> first_char_len (c @ concat r) = length c"
  using utf8_chars_concat [of "l @ [c]"]
  by (simp_all add: last_char_start_def first_char_len_def utf8_chars_Cons)

lemma utf8_char_nonempty [simp]: "\<not> utf8_char []"
  by (simp add: utf8_char_def)

declare concat_chars_Nil [simp]

text \<open>Each operation on the buffer of a line gives the buffer of the edited line.\<close>

lemma buffer_edit_of:
  assumes "line_ok l r" "list_all utf8_char (edit_text e)"
  shows "buffer_edit e (buffer_of l r) =
    Some (buffer_of (fst (line_edit e (l, r))) (snd (line_edit e (l, r))))"
proof (cases e)
  case (Ed_Insert cs)
  then show ?thesis
    by (simp add: input_insert_str_def buffer_of_def slices_of [OF assms(1)])
next
  case Ed_Backspace
  show ?thesis
  proof (cases l rule: rev_cases)
    case Nil
    then show ?thesis by (simp add: Ed_Backspace input_backspace_def buffer_of_def)
  next
    case (snoc l0 c)
    with assms(1) drain_of [of l0 "[c]" r] slices_of [of l r] show ?thesis
      by (auto simp: Ed_Backspace input_backspace_def buffer_of_def line_ok_def)
  qed
next
  case Ed_Delete
  show ?thesis
  proof (cases r)
    case Nil
    then show ?thesis by (simp add: Ed_Delete input_delete_def buffer_of_def)
  next
    case (Cons c r0)
    with assms(1) drain_of [of l "[c]" r0] slices_of [of l r] show ?thesis
      by (auto simp: Ed_Delete input_delete_def buffer_of_def line_ok_def)
  qed
next
  case Ed_Left
  show ?thesis
  proof (cases l rule: rev_cases)
    case Nil
    then show ?thesis by (simp add: Ed_Left input_move_left_def buffer_of_def)
  next
    case (snoc l0 c)
    with assms(1) slices_of [of l r] show ?thesis
      by (auto simp: Ed_Left input_move_left_def buffer_of_def line_ok_def)
  qed
next
  case Ed_Right
  show ?thesis
  proof (cases r)
    case Nil
    then show ?thesis by (simp add: Ed_Right input_move_right_def buffer_of_def)
  next
    case (Cons c r0)
    with assms(1) slices_of [of l r] show ?thesis
      by (auto simp: Ed_Right input_move_right_def buffer_of_def line_ok_def)
  qed
qed (simp_all add: buffer_of_def input_set_def)

lemma line_ok_edit:
  assumes "line_ok l r" "list_all utf8_char (edit_text e)"
  shows "line_ok (fst (line_edit e (l, r))) (snd (line_edit e (l, r)))"
  using assms line_edit_text [of e "(l, r)"]
  by (auto simp: line_ok_def list_all_iff line_text_def)

interpretation input: line_buffer buffer_edit buffer_view buffer_wf utf8_char
proof unfold_locales
  fix b :: input_buffer and e :: "string edit"
  assume "buffer_wf b" and e: "list_all utf8_char (edit_text e)"
  then obtain l r where "line_ok l r" "b = buffer_of l r" by (blast elim: buffer_wf_obtain)
  with e buffer_edit_of [of l r e] line_ok_edit [of l r e]
  show "\<exists>b'. buffer_edit e b = Some b' \<and> buffer_wf b' \<and> buffer_view b' = line_edit e (buffer_view b)"
    by (simp add: buffer_wf_of)
qed

lemma buffer_text_view: "ib_text b = concat (line_text (buffer_view b))"
  by (simp add: line_text_def buffer_view_def)

end
