(* ===== verification/Luna_Chat.thy ===== *)
theory Luna_Chat
  imports Luna_Input
begin

text \<open>
  The state of the chat, \<open>ChatApp\<close> of \<open>crates/luna/src/commands/chat.rs\<close>: the commands that are
  typed, completion, the history and the keys of the composer. A panic is \<open>None\<close>. Indices and
  sizes are natural numbers; they are bounded by the length of a list in memory.
\<close>

section \<open>What a line means\<close>

definition DEFAULT_MODEL :: string where
  "DEFAULT_MODEL = ''gpt-5.6-luna''"

definition EFFORTS :: "string list" where
  "EFFORTS = [''none'', ''minimal'', ''low'', ''medium'', ''high'', ''xhigh'', ''max'', ''ultra'']"

definition COMMANDS :: "(string \<times> string) list" where
  "COMMANDS =
     [(''/help'', ''show chat commands and keys''),
      (''/compact'', ''compact this conversation's context''),
      (''/effort'', ''show or set reasoning effort''),
      (''/skills'', ''list available Codex skills''),
      (''/skill'', ''insert a skill mention''),
      (''/clear'', ''clear the visible transcript''),
      (''/quit'', ''leave Luna chat'')]"

datatype chat_command =
    CC_Help
  | CC_Compact
  | CC_ShowEffort
  | CC_SetEffort model_reasoning_effort
  | CC_Skills
  | CC_InsertSkill string
  | CC_Clear
  | CC_Quit
  | CC_Unknown string

datatype parsed_input = PI_Empty | PI_Prompt string | PI_Command chat_command

text \<open>\<open>split_once(char::is_whitespace)\<close>.\<close>

fun split_at_whitespace :: "string \<Rightarrow> (string \<times> string) option" where
  "split_at_whitespace [] = None"
| "split_at_whitespace (c # s) =
     (case strip_any whitespace_encodings (c # s) of
        Some rest \<Rightarrow> Some ([], rest)
      | None \<Rightarrow> map_option (\<lambda>(a, b). (c # a, b)) (split_at_whitespace s))"

definition parse_command :: "string \<Rightarrow> string \<Rightarrow> string \<Rightarrow> chat_command" where
  "parse_command input_line name argument =
     (if name = ''/help'' then CC_Help
      else if name = ''/compact'' then CC_Compact
      else if name = ''/effort'' then
        (if argument = [] then CC_ShowEffort
         else case model_reasoning_effort_from_str argument of
                Inr effort \<Rightarrow> CC_SetEffort effort
              | Inl _ \<Rightarrow> CC_Unknown input_line)
      else if name = ''/skills'' then CC_Skills
      else if name = ''/skill'' \<and> argument \<noteq> [] then CC_InsertSkill argument
      else if name = ''/clear'' then CC_Clear
      else if name = ''/quit'' \<or> name = ''/exit'' then CC_Quit
      else CC_Unknown input_line)"

definition parse_input :: "string \<Rightarrow> parsed_input" where
  "parse_input raw =
     (let input_line = trim raw
      in if input_line = [] then PI_Empty
         else case strip_prefix ''//'' input_line of
           Some literal \<Rightarrow> PI_Prompt (''/'' @ literal)
         | None \<Rightarrow>
             if \<not> starts_with ''/'' input_line then PI_Prompt input_line
             else
               (let (command, argument) =
                  (case split_at_whitespace input_line of
                     Some (command, argument) \<Rightarrow> (command, trim argument)
                   | None \<Rightarrow> (input_line, []))
                in PI_Command (parse_command input_line (to_ascii_lowercase command) argument)))"

section \<open>Completion\<close>

record suggestion =
  sg_replacement :: string
  sg_display :: string
  sg_description :: string

definition matches_start :: "string \<Rightarrow> string \<Rightarrow> bool" where
  "matches_start typed name = starts_with (to_ascii_lowercase typed) (to_ascii_lowercase name)"

definition mention_suggestion :: "string \<Rightarrow> suggestion" where
  "mention_suggestion skill =
     \<lparr>sg_replacement = ''$'' @ skill @ '' '', sg_display = ''$'' @ skill,
      sg_description = ''mention skill''\<rparr>"

definition command_suggestion :: "string \<times> string \<Rightarrow> suggestion" where
  "command_suggestion entry =
     (let (name, description) = entry
      in \<lparr>sg_replacement = (if name \<in> {''/effort'', ''/skill''} then name @ '' '' else name),
          sg_display = name, sg_description = description\<rparr>)"

definition effort_suggestion :: "string \<Rightarrow> suggestion" where
  "effort_suggestion effort =
     \<lparr>sg_replacement = ''/effort '' @ effort, sg_display = effort,
      sg_description = ''reasoning effort''\<rparr>"

definition skill_suggestion :: "string \<Rightarrow> suggestion" where
  "skill_suggestion skill =
     \<lparr>sg_replacement = ''/skill '' @ skill, sg_display = skill,
      sg_description = ''insert skill mention''\<rparr>"

definition suggestions_for :: "string \<Rightarrow> string list \<Rightarrow> suggestion list" where
  "suggestions_for typed skills =
     (case strip_prefix ''$'' typed of
        Some mention \<Rightarrow>
          if split_at_whitespace mention = None
          then map mention_suggestion (filter (matches_start mention) skills)
          else []
      | None \<Rightarrow>
          if \<not> starts_with ''/'' typed then []
          else
            (let (command, argument) =
               (case split_at_whitespace typed of
                  Some (command, argument) \<Rightarrow> (command, Some (trim_start argument))
                | None \<Rightarrow> (typed, None));
               command_lower = to_ascii_lowercase command
             in case argument of
                  None \<Rightarrow>
                    map command_suggestion (filter (\<lambda>(name, _). starts_with command_lower name) COMMANDS)
                | Some a \<Rightarrow>
                    if command_lower = ''/effort''
                    then map effort_suggestion (filter (starts_with (to_ascii_lowercase a)) EFFORTS)
                    else if command_lower = ''/skill''
                    then map skill_suggestion (filter (matches_start a) skills)
                    else []))"

section \<open>The skills of the server\<close>

definition json_get :: "string \<Rightarrow> json \<Rightarrow> json option" where
  "json_get k v = Option.bind (as_object v) (\<lambda>m. jget m k)"

definition skill_error_message :: "json \<Rightarrow> string option" where
  "skill_error_message e =
     map_option (\<lambda>m. ''skills warning: '' @ m)
       (trimmed_non_empty (or_opt (as_str e) (Option.bind (json_get ''message'' e) as_str)))"

text \<open>The name of a skill that is not disabled.\<close>

definition skill_name :: "json \<Rightarrow> string option" where
  "skill_name skill =
     (if Option.bind (json_get ''enabled'' skill) as_bool = Some False then None
      else trimmed_non_empty (Option.bind (json_get ''name'' skill) as_str))"

definition skill_group :: "json \<Rightarrow> string list \<times> string list \<Rightarrow> string list \<times> string list" where
  "skill_group v acc =
     (let (names, warnings) = acc;
          warnings1 =
            (case Option.bind (json_get ''errors'' v) as_array of
               Some es \<Rightarrow> warnings @ List.map_filter skill_error_message es
             | None \<Rightarrow> warnings)
      in case Option.bind (json_get ''skills'' v) as_array of
           None \<Rightarrow> (names, warnings1)
         | Some skills \<Rightarrow> (fold insort_insert (List.map_filter skill_name skills) names, warnings1))"

definition enabled_skill_names :: "jmap \<Rightarrow> string list \<times> string list" where
  "enabled_skill_names extra =
     (case field_with as_array extra ''data'' of
        None \<Rightarrow> ([], [])
      | Some groups \<Rightarrow> fold skill_group groups ([], []))"

definition load_metadata ::
  "codex \<Rightarrow> string \<Rightarrow> inner \<Rightarrow> inner \<times> string list \<times> string list" where
  "load_metadata c working_directory s =
     (case codex_typed_forward c skills_list_params_enc opaque_struct_dec ''skills/list''
             \<lparr>skills_list_cwd = Some [working_directory], skills_list_force_reload = Some False,
              skills_list_extra = []\<rparr> s of
        (s1, Inr result) \<Rightarrow> (s1, enabled_skill_names (opaque_extra result))
      | (s1, Inl e) \<Rightarrow> (s1, [], [''skills unavailable: '' @ client_error_display (codex_displays c) e]))"

section \<open>The application\<close>

datatype transcript_kind = TK_User | TK_Agent | TK_Reasoning | TK_Tool | TK_Status | TK_Error | TK_Raw

record transcript_block =
  tb_kind :: transcript_kind
  tb_item_id :: "string option"
  tb_text :: string

record chat_app =
  ca_transcript :: "transcript_block list"
  ca_input :: input_buffer
  ca_history :: "string list"
  ca_history_cursor :: "nat option"
  ca_history_draft :: string
  ca_suggestions_dismissed :: bool
  ca_selected_suggestion :: nat
  ca_skills :: "string list"
  ca_model :: string
  ca_effort :: model_reasoning_effort
  ca_status :: string
  ca_metadata_warning :: string
  ca_busy :: bool
  ca_turn_running :: bool
  ca_tick :: u64
  ca_scroll :: nat
  ca_max_scroll :: nat
  ca_follow_tail :: bool
  ca_transcript_page :: nat
  ca_renderer :: streamed_items
  ca_final_response_only :: bool
  ca_json_output :: bool
  ca_fallback_final_response :: "string option"
  ca_emitted_final_response :: bool

definition chat_app_new :: "string \<Rightarrow> model_reasoning_effort \<Rightarrow> bool \<Rightarrow> bool \<Rightarrow> chat_app" where
  "chat_app_new model effort final_response_only json_output =
     \<lparr>ca_transcript = [],
      ca_input = input_buffer_default,
      ca_history = [],
      ca_history_cursor = None,
      ca_history_draft = [],
      ca_suggestions_dismissed = False,
      ca_selected_suggestion = 0,
      ca_skills = [],
      ca_model = model,
      ca_effort = effort,
      ca_status = ''starting'',
      ca_metadata_warning = [],
      ca_busy = False,
      ca_turn_running = False,
      ca_tick = 0,
      ca_scroll = 0,
      ca_max_scroll = 0,
      ca_follow_tail = True,
      ca_transcript_page = 1,
      ca_renderer = {},
      ca_final_response_only = final_response_only,
      ca_json_output = json_output,
      ca_fallback_final_response = None,
      ca_emitted_final_response = False\<rparr>"

definition app_suggestions :: "chat_app \<Rightarrow> suggestion list" where
  "app_suggestions app =
     (if ca_suggestions_dismissed app \<or> ca_busy app then []
      else suggestions_for (ib_text (ca_input app)) (ca_skills app))"

definition clear_transcript :: "chat_app \<Rightarrow> chat_app" where
  "clear_transcript app =
     app\<lparr>ca_transcript := [], ca_scroll := 0, ca_max_scroll := 0, ca_follow_tail := True\<rparr>"

definition after_input_edit :: "chat_app \<Rightarrow> chat_app" where
  "after_input_edit app =
     app\<lparr>ca_suggestions_dismissed := False, ca_selected_suggestion := 0, ca_history_cursor := None\<rparr>"

definition set_input :: "string \<Rightarrow> chat_app \<Rightarrow> chat_app" where
  "set_input t app = app\<lparr>ca_input := input_set t (ca_input app)\<rparr>"

definition slot :: "'a list \<Rightarrow> nat \<Rightarrow> 'a option" where
  "slot xs i = (if i < length xs then Some (xs ! i) else None)"

definition accept_suggestion :: "chat_app \<Rightarrow> chat_app" where
  "accept_suggestion app =
     (case slot (app_suggestions app) (ca_selected_suggestion app) of
        Some sg \<Rightarrow>
          (set_input (sg_replacement sg) app)
            \<lparr>ca_suggestions_dismissed := False, ca_selected_suggestion := 0\<rparr>
      | None \<Rightarrow> app)"

definition select_previous_suggestion :: "chat_app \<Rightarrow> chat_app" where
  "select_previous_suggestion app =
     (let count = length (app_suggestions app)
      in if 0 < count
         then app\<lparr>ca_selected_suggestion :=
                (if ca_selected_suggestion app = 0 then count - 1 else ca_selected_suggestion app - 1)\<rparr>
         else app)"

definition select_next_suggestion :: "chat_app \<Rightarrow> chat_app" where
  "select_next_suggestion app =
     (let count = length (app_suggestions app)
      in if 0 < count
         then app\<lparr>ca_selected_suggestion := (ca_selected_suggestion app + 1) mod count\<rparr>
         else app)"

text \<open>The index into the history panics when it is out of range.\<close>

definition navigate_history_up :: "chat_app \<Rightarrow> chat_app option" where
  "navigate_history_up app =
     (if ca_history app = [] then Some app
      else
        (let (index, app1) =
           (case ca_history_cursor app of
              Some index \<Rightarrow> (index - 1, app)
            | None \<Rightarrow>
                (length (ca_history app) - 1, app\<lparr>ca_history_draft := ib_text (ca_input app)\<rparr>))
         in map_option
              (\<lambda>entry. (set_input entry (app1\<lparr>ca_history_cursor := Some index\<rparr>))
                 \<lparr>ca_suggestions_dismissed := True\<rparr>)
              (slot (ca_history app) index)))"

definition navigate_history_down :: "chat_app \<Rightarrow> chat_app option" where
  "navigate_history_down app =
     (case ca_history_cursor app of
        None \<Rightarrow> Some app
      | Some index \<Rightarrow>
          if index + 1 < length (ca_history app) then
            map_option
              (\<lambda>entry. (set_input entry (app\<lparr>ca_history_cursor := Some (index + 1)\<rparr>))
                 \<lparr>ca_suggestions_dismissed := True\<rparr>)
              (slot (ca_history app) (index + 1))
          else
            Some ((set_input (ca_history_draft app)
                     (app\<lparr>ca_history_cursor := None, ca_history_draft := []\<rparr>))
                    \<lparr>ca_suggestions_dismissed := True\<rparr>))"

definition scroll_up :: "nat \<Rightarrow> chat_app \<Rightarrow> chat_app" where
  "scroll_up amount app = app\<lparr>ca_follow_tail := False, ca_scroll := ca_scroll app - amount\<rparr>"

definition scroll_down :: "nat \<Rightarrow> chat_app \<Rightarrow> chat_app" where
  "scroll_down amount app =
     (let scroll = min (ca_scroll app + amount) (ca_max_scroll app);
          app1 = app\<lparr>ca_scroll := scroll\<rparr>
      in if scroll = ca_max_scroll app then app1\<lparr>ca_follow_tail := True\<rparr> else app1)"

definition page_step :: "chat_app \<Rightarrow> nat" where
  "page_step app = max (ca_transcript_page app - 1) 1"

section \<open>Keys\<close>

datatype key_code =
    K_Enter
  | K_Char string
  | K_Backspace
  | K_Delete
  | K_Left
  | K_Right
  | K_Home
  | K_End
  | K_Tab
  | K_BackTab
  | K_Esc
  | K_Up
  | K_Down
  | K_PageUp
  | K_PageDown
  | K_Other

datatype key_kind = KK_Press | KK_Repeat | KK_Release

record key_event =
  key_code :: key_code
  key_control :: bool
  key_kind :: key_kind

definition accepts_key :: "key_event \<Rightarrow> bool" where
  "accepts_key key \<longleftrightarrow> key_kind key \<in> {KK_Press, KK_Repeat}"

definition is_ctrl :: "key_event \<Rightarrow> string \<Rightarrow> bool" where
  "is_ctrl key c \<longleftrightarrow> key_code key = K_Char c \<and> key_control key"

datatype idle_action = IA_None | IA_Quit | IA_Submit string

text \<open>An edit of the buffer by a key, and what follows it.\<close>

definition edit_input ::
  "(input_buffer \<Rightarrow> input_buffer option) \<Rightarrow> chat_app \<Rightarrow> chat_app option" where
  "edit_input f app =
     map_option (\<lambda>b. after_input_edit (app\<lparr>ca_input := b\<rparr>)) (f (ca_input app))"

definition move_input ::
  "(input_buffer \<Rightarrow> input_buffer option) \<Rightarrow> chat_app \<Rightarrow> chat_app option" where
  "move_input f app = map_option (\<lambda>b. app\<lparr>ca_input := b\<rparr>) (f (ca_input app))"

definition submit_input :: "chat_app \<Rightarrow> chat_app \<times> idle_action" where
  "submit_input app =
     (let (b, input_line) = input_take (ca_input app);
          app1 = app\<lparr>ca_input := b\<rparr>;
          app2 = (if trim input_line \<noteq> []
                  then app1\<lparr>ca_history := ca_history app1 @ [input_line]\<rparr> else app1)
      in (after_input_edit (app2\<lparr>ca_history_cursor := None, ca_history_draft := []\<rparr>),
          IA_Submit input_line))"

fun composer_key :: "key_code \<Rightarrow> bool \<Rightarrow> chat_app \<Rightarrow> chat_app option" where
  "composer_key (K_Char c) ctrl app =
     (if ctrl then Some app else edit_input (input_insert c) app)"
| "composer_key K_Backspace ctrl app = edit_input input_backspace app"
| "composer_key K_Delete ctrl app = edit_input input_delete app"
| "composer_key K_Left ctrl app = move_input input_move_left app"
| "composer_key K_Right ctrl app = move_input input_move_right app"
| "composer_key K_Home ctrl app = Some (app\<lparr>ca_input := (ca_input app)\<lparr>ib_cursor := 0\<rparr>\<rparr>)"
| "composer_key K_End ctrl app =
     Some (app\<lparr>ca_input := (ca_input app)\<lparr>ib_cursor := length (ib_text (ca_input app))\<rparr>\<rparr>)"
| "composer_key K_Tab ctrl app = Some (accept_suggestion app)"
| "composer_key K_BackTab ctrl app = Some (select_previous_suggestion app)"
| "composer_key K_Esc ctrl app =
     Some (app\<lparr>ca_suggestions_dismissed := True, ca_selected_suggestion := 0\<rparr>)"
| "composer_key K_Up ctrl app =
     (if app_suggestions app \<noteq> [] then Some (select_previous_suggestion app)
      else navigate_history_up app)"
| "composer_key K_Down ctrl app =
     (if app_suggestions app \<noteq> [] then Some (select_next_suggestion app)
      else navigate_history_down app)"
| "composer_key K_PageUp ctrl app = Some (scroll_up (page_step app) app)"
| "composer_key K_PageDown ctrl app = Some (scroll_down (page_step app) app)"
| "composer_key _ ctrl app = Some app"

definition handle_idle_key :: "key_event \<Rightarrow> chat_app \<Rightarrow> (chat_app \<times> idle_action) option" where
  "handle_idle_key key app =
     (let empty = ib_text (ca_input app) = [];
          cleared = after_input_edit (app\<lparr>ca_input := input_clear (ca_input app)\<rparr>)
      in if is_ctrl key ''d'' \<and> empty then Some (app, IA_Quit)
         else if is_ctrl key ''c'' then
           (if empty then Some (app, IA_Quit) else Some (cleared, IA_None))
         else if is_ctrl key ''l'' then Some (clear_transcript app, IA_None)
         else if is_ctrl key ''u'' then Some (cleared, IA_None)
         else if key_code key = K_Enter then Some (submit_input app)
         else map_option (\<lambda>app1. (app1, IA_None)) (composer_key (key_code key) (key_control key) app))"

fun scrolling_key :: "key_code \<Rightarrow> bool \<Rightarrow> chat_app \<Rightarrow> chat_app" where
  "scrolling_key K_PageUp ctrl app = scroll_up (page_step app) app"
| "scrolling_key K_Up ctrl app = scroll_up (page_step app) app"
| "scrolling_key K_PageDown ctrl app = scroll_down (page_step app) app"
| "scrolling_key K_Down ctrl app = scroll_down (page_step app) app"
| "scrolling_key K_Home ctrl app =
     (if ctrl then app\<lparr>ca_follow_tail := False, ca_scroll := 0\<rparr> else app)"
| "scrolling_key K_End ctrl app = (if ctrl then app\<lparr>ca_follow_tail := True\<rparr> else app)"
| "scrolling_key _ ctrl app = app"

definition handle_scrolling_key :: "key_event \<Rightarrow> chat_app \<Rightarrow> chat_app" where
  "handle_scrolling_key key app = scrolling_key (key_code key) (key_control key) app"

text \<open>A paste becomes one line.\<close>

definition single_line :: "string \<Rightarrow> string" where
  "single_line t = join_with '' '' (split_whitespace [] t)"

definition handle_paste :: "string \<Rightarrow> chat_app \<Rightarrow> chat_app option" where
  "handle_paste t app = move_input (input_insert_str (single_line t)) app"

end
