(* ===== verification/Luna_Composer.thy ===== *)
theory Luna_Composer
  imports Luna_Chat
begin

text \<open>
  Properties of the composer of the chat: no key or paste panics, the editing keys edit a line,
  the history gives back what was being typed, and every completion is understood.
\<close>

section \<open>The invariant\<close>

fun in_history :: "nat option \<Rightarrow> 'a list \<Rightarrow> bool" where
  "in_history None xs = True"
| "in_history (Some i) xs = (i < length xs)"

definition app_wf :: "chat_app \<Rightarrow> bool" where
  "app_wf app \<longleftrightarrow>
     buffer_wf (ca_input app) \<and> in_history (ca_history_cursor app) (ca_history app) \<and>
      list_all valid_utf8 (ca_history app) \<and>
     valid_utf8 (ca_history_draft app) \<and> list_all valid_utf8 (ca_skills app) \<and>
     ca_scroll app \<le> ca_max_scroll app"

fun key_code_ok :: "key_code \<Rightarrow> bool" where
  "key_code_ok (K_Char c) = utf8_char c"
| "key_code_ok _ = True"

lemma buffer_wf_set: "valid_utf8 t \<Longrightarrow> buffer_wf (input_set t b)"
  by (simp add: buffer_wf_def input_set_def char_boundary_def)

lemma buffer_wf_empty [simp]: "buffer_wf \<lparr>ib_text = [], ib_cursor = 0\<rparr>"
  by (simp add: buffer_wf_def char_boundary_def)

lemma buffer_wf_text: "buffer_wf b \<Longrightarrow> valid_utf8 (ib_text b)"
  by (simp add: buffer_wf_def)

lemma input_insert_edit: "input_insert c b = buffer_edit (Ed_Insert [c]) b"
  by (simp add: input_insert_def input_insert_str_def)

text \<open>An edit of a well-formed buffer, by the contract of the line.\<close>

lemma buffer_edit_wf:
  assumes "buffer_wf b" "list_all utf8_char (edit_text e)"
  obtains b' where "buffer_edit e b = Some b'" "buffer_wf b'" "buffer_view b' = line_edit e (buffer_view b)"
  using input.edit_refines [OF assms] by blast

lemma app_wf_new: "app_wf (chat_app_new model effort final json)"
  by (simp add: app_wf_def chat_app_new_def input_buffer_default_def)

lemma app_wf_after_edit:
  "app_wf app \<Longrightarrow> buffer_wf b \<Longrightarrow> app_wf (after_input_edit (app\<lparr>ca_input := b\<rparr>))"
  by (simp add: app_wf_def after_input_edit_def)

lemma app_wf_input: "app_wf app \<Longrightarrow> buffer_wf b \<Longrightarrow> app_wf (app\<lparr>ca_input := b\<rparr>)"
  by (simp add: app_wf_def)

lemma app_wf_set_input: "app_wf app \<Longrightarrow> valid_utf8 t \<Longrightarrow> app_wf (set_input t app)"
  by (simp add: set_input_def app_wf_input buffer_wf_set)

lemma app_wf_flags [simp]:
  "app_wf (app\<lparr>ca_suggestions_dismissed := d\<rparr>) = app_wf app"
  "app_wf (app\<lparr>ca_selected_suggestion := n\<rparr>) = app_wf app"
  "app_wf (app\<lparr>ca_follow_tail := d\<rparr>) = app_wf app"
  "app_wf (app\<lparr>ca_status := t\<rparr>) = app_wf app"
  "app_wf (app\<lparr>ca_busy := d\<rparr>) = app_wf app"
  "app_wf (app\<lparr>ca_turn_running := d\<rparr>) = app_wf app"
  "app_wf (app\<lparr>ca_tick := k\<rparr>) = app_wf app"
  "app_wf (app\<lparr>ca_transcript := bs\<rparr>) = app_wf app"
  "app_wf (app\<lparr>ca_renderer := r\<rparr>) = app_wf app"
  "app_wf (app\<lparr>ca_fallback_final_response := f\<rparr>) = app_wf app"
  "app_wf (app\<lparr>ca_emitted_final_response := d\<rparr>) = app_wf app"
  "app_wf (app\<lparr>ca_effort := m\<rparr>) = app_wf app"
  by (simp_all add: app_wf_def)

subsection \<open>Completion and history\<close>

lemma const_valid [simp]:
  "valid_utf8 (c # s) = valid_utf8 s" if "in_range 0 0x7F c"
  using that by (simp add: valid_utf8.simps(2))

lemma commands_valid: "\<forall>c \<in> set COMMANDS. valid_utf8 (fst c)"
  by (simp add: COMMANDS_def in_range_def)

lemma efforts_valid: "\<forall>effort \<in> set EFFORTS. valid_utf8 effort"
  by (simp add: EFFORTS_def in_range_def)

lemma suggestion_cases:
  assumes "sg \<in> set (suggestions_for typed skills)"
  obtains skill where "skill \<in> set skills" "sg = mention_suggestion skill" "starts_with ''$'' typed"
  | c where "c \<in> set COMMANDS" "sg = command_suggestion c" "starts_with ''/'' typed"
  | effort where "effort \<in> set EFFORTS" "sg = effort_suggestion effort" "starts_with ''/'' typed"
  | skill where "skill \<in> set skills" "sg = skill_suggestion skill" "starts_with ''/'' typed"
proof (cases "strip_prefix ''$'' typed")
  case (Some mention)
  with assms that(1) show thesis
    by (auto simp: suggestions_for_def starts_with_def split: if_splits)
next
  case None
  with assms have slash: "starts_with ''/'' typed"
    by (auto simp: suggestions_for_def split: if_splits)
  show thesis
  proof (cases "split_at_whitespace typed")
    case (Some p)
    with assms None slash that(3,4) show thesis
      by (cases p) (auto simp: suggestions_for_def Let_def split: if_splits)
  next
    case no_space: None
    with assms None slash that(2) show thesis
      by (auto simp: suggestions_for_def Let_def)
  qed
qed

lemma suggestions_valid:
  assumes "sg \<in> set (suggestions_for typed skills)" "list_all valid_utf8 skills"
  shows "valid_utf8 (sg_replacement sg)"
  using assms(1)
proof (cases rule: suggestion_cases)
  case (2 c)
  with commands_valid show ?thesis
    by (cases c) (auto simp: command_suggestion_def valid_utf8_append in_range_def)
qed (use assms(2) efforts_valid in
    \<open>auto simp: mention_suggestion_def effort_suggestion_def skill_suggestion_def list_all_iff
      in_range_def valid_utf8_append\<close>)

lemma app_suggestions_valid:
  "app_wf app \<Longrightarrow> sg \<in> set (app_suggestions app) \<Longrightarrow> valid_utf8 (sg_replacement sg)"
  by (auto simp: app_suggestions_def app_wf_def intro: suggestions_valid split: if_splits)

lemma accept_suggestion_wf: "app_wf app \<Longrightarrow> app_wf (accept_suggestion app)"
  by (auto simp: accept_suggestion_def slot_def app_suggestions_valid
      intro!: app_wf_set_input split: option.split)

lemma select_wf [simp]:
  "app_wf (select_previous_suggestion app) = app_wf app"
  "app_wf (select_next_suggestion app) = app_wf app"
  by (simp_all add: select_previous_suggestion_def select_next_suggestion_def Let_def)

lemma scroll_wf:
  "app_wf app \<Longrightarrow> app_wf (scroll_up n app)"
  "app_wf app \<Longrightarrow> app_wf (scroll_down n app)"
  "app_wf app \<Longrightarrow> app_wf (clear_transcript app)"
  by (auto simp: app_wf_def scroll_up_def scroll_down_def clear_transcript_def Let_def)

lemma history_up_wf:
  assumes "app_wf app"
  shows "\<exists>app'. navigate_history_up app = Some app' \<and> app_wf app'"
proof -
  obtain i app1 where i: "(case ca_history_cursor app of
      Some index \<Rightarrow> (index - 1, app)
    | None \<Rightarrow> (length (ca_history app) - 1, app\<lparr>ca_history_draft := ib_text (ca_input app)\<rparr>)) = (i, app1)"
    by fastforce
  show ?thesis
  proof (cases "ca_history app = []")
    case False
    with assms i have "i < length (ca_history app)" "app_wf (app1\<lparr>ca_history_cursor := Some i\<rparr>)"
      "valid_utf8 (ca_history app ! i)"
      by (auto simp: app_wf_def list_all_length buffer_wf_text split: option.splits)
    with False i show ?thesis
      by (auto simp: navigate_history_up_def slot_def intro: app_wf_set_input)
  qed (use assms in \<open>simp add: navigate_history_up_def\<close>)
qed

lemma history_down_wf:
  assumes "app_wf app"
  shows "\<exists>app'. navigate_history_down app = Some app' \<and> app_wf app'"
proof (cases "ca_history_cursor app")
  case (Some i)
  show ?thesis
  proof (cases "i + 1 < length (ca_history app)")
    case True
    with assms have "app_wf (app\<lparr>ca_history_cursor := Some (i + 1)\<rparr>)" "valid_utf8 (ca_history app ! (i + 1))"
      by (auto simp: app_wf_def list_all_length)
    with Some True show ?thesis
      by (auto simp: navigate_history_down_def slot_def intro: app_wf_set_input)
  next
    case False
    with assms have "app_wf (app\<lparr>ca_history_cursor := None, ca_history_draft := []\<rparr>)"
      "valid_utf8 (ca_history_draft app)"
      by (auto simp: app_wf_def)
    with Some False show ?thesis
      by (auto simp: navigate_history_down_def intro: app_wf_set_input)
  qed
qed (use assms in \<open>simp add: navigate_history_down_def\<close>)

subsection \<open>Keys\<close>

lemma edit_input_wf:
  assumes "app_wf app" "\<And>b. f b = buffer_edit e b" "list_all utf8_char (edit_text e)"
  shows "\<exists>app'. edit_input f app = Some app' \<and> app_wf app'"
proof -
  from assms(1) have "buffer_wf (ca_input app)" by (simp add: app_wf_def)
  then obtain b where "f (ca_input app) = Some b" "buffer_wf b"
    using buffer_edit_wf assms(2,3) by metis
  with assms(1) show ?thesis by (simp add: edit_input_def app_wf_after_edit)
qed

lemma move_input_wf:
  assumes "app_wf app" "\<And>b. f b = buffer_edit e b" "list_all utf8_char (edit_text e)"
  shows "\<exists>app'. move_input f app = Some app' \<and> app_wf app'"
proof -
  from assms(1) have "buffer_wf (ca_input app)" by (simp add: app_wf_def)
  then obtain b where "f (ca_input app) = Some b" "buffer_wf b"
    using buffer_edit_wf assms(2,3) by metis
  with assms(1) show ?thesis by (simp add: move_input_def app_wf_input)
qed

lemma home_end_wf:
  assumes "app_wf app"
  shows "app_wf (app\<lparr>ca_input := (ca_input app)\<lparr>ib_cursor := 0\<rparr>\<rparr>)"
    "app_wf (app\<lparr>ca_input := (ca_input app)\<lparr>ib_cursor := length (ib_text (ca_input app))\<rparr>\<rparr>)"
  using assms by (auto simp: app_wf_def buffer_wf_def char_boundary_def)

lemma composer_key_wf:
  assumes "app_wf app" "key_code_ok k"
  shows "\<exists>app'. composer_key k ctrl app = Some app' \<and> app_wf app'"
proof (cases k)
  case (K_Char c)
  with assms edit_input_wf [OF assms(1), of "input_insert c" "Ed_Insert [c]"] show ?thesis
    by (simp add: input_insert_edit)
next
  case K_Backspace
  with edit_input_wf [OF assms(1), of input_backspace Ed_Backspace] show ?thesis by simp
next
  case K_Delete
  with edit_input_wf [OF assms(1), of input_delete Ed_Delete] show ?thesis by simp
next
  case K_Left
  with move_input_wf [OF assms(1), of input_move_left Ed_Left] show ?thesis by simp
next
  case K_Right
  with move_input_wf [OF assms(1), of input_move_right Ed_Right] show ?thesis by simp
qed (use assms in \<open>simp_all add: home_end_wf accept_suggestion_wf scroll_wf history_up_wf history_down_wf\<close>)

lemma submit_input_wf:
  assumes "app_wf app"
  shows "app_wf (fst (submit_input app))"
  using assms
  by (auto simp: submit_input_def input_take_def after_input_edit_def app_wf_def
      buffer_wf_text Let_def)

lemma handle_idle_key_wf:
  assumes "app_wf app" "key_code_ok (key_code key)"
  shows "\<exists>app' act. handle_idle_key key app = Some (app', act) \<and> app_wf app'"
proof -
  have "app_wf (after_input_edit (app\<lparr>ca_input := input_clear (ca_input app)\<rparr>))"
    by (rule app_wf_after_edit [OF assms(1)]) (simp add: input_clear_def)
  moreover obtain app1 act where "submit_input app = (app1, act)" by fastforce
  moreover have "app_wf app1"
    using submit_input_wf [OF assms(1)] calculation(2) by simp
  ultimately show ?thesis
    using assms composer_key_wf [OF assms, of "key_control key"]
    by (auto simp: handle_idle_key_def Let_def scroll_wf(3))
qed

lemma handle_scrolling_key_wf: "app_wf app \<Longrightarrow> app_wf (handle_scrolling_key key app)"
  unfolding handle_scrolling_key_def
  by (cases "key_code key") (auto simp: scroll_wf, auto simp: app_wf_def)

lemma single_line_valid: "valid_utf8 t \<Longrightarrow> valid_utf8 (single_line t)"
  using split_whitespace_valid [of "utf8_chars t" "[]"]
  by (simp add: single_line_def valid_utf8_join utf8_chars_valid in_range_def)

lemma handle_paste_wf:
  assumes "app_wf app" "valid_utf8 t"
  shows "\<exists>app'. handle_paste t app = Some app' \<and> app_wf app'"
  unfolding handle_paste_def
  by (rule move_input_wf [OF assms(1), of _ "Ed_Insert (utf8_chars (single_line t))"])
    (simp_all add: utf8_chars_valid single_line_valid assms(2))

section \<open>Typing\<close>

text \<open>The edit a key makes: the keys that move and change the text, and Ctrl-U.\<close>

fun code_edit :: "key_code \<Rightarrow> bool \<Rightarrow> string edit option" where
  "code_edit (K_Char c) ctrl = (if ctrl then (if c = ''u'' then Some (Ed_Set []) else None) else Some (Ed_Insert [c]))"
| "code_edit K_Backspace ctrl = Some Ed_Backspace"
| "code_edit K_Delete ctrl = Some Ed_Delete"
| "code_edit K_Left ctrl = Some Ed_Left"
| "code_edit K_Right ctrl = Some Ed_Right"
| "code_edit K_Home ctrl = Some Ed_Home"
| "code_edit K_End ctrl = Some Ed_End"
| "code_edit _ ctrl = None"

definition key_edit :: "key_event \<Rightarrow> string edit option" where
  "key_edit key = code_edit (key_code key) (key_control key)"

text \<open>A key that neither submits nor quits.\<close>

definition quiet_key :: "key_event \<Rightarrow> chat_app \<Rightarrow> chat_app option" where
  "quiet_key key app =
     (case handle_idle_key key app of Some (app', IA_None) \<Rightarrow> Some app' | _ \<Rightarrow> None)"

definition same_session :: "chat_app \<Rightarrow> chat_app \<Rightarrow> bool" where
  "same_session app app' \<longleftrightarrow>
     ca_transcript app' = ca_transcript app \<and> ca_history app' = ca_history app \<and>
     ca_skills app' = ca_skills app \<and> ca_busy app' = ca_busy app \<and> ca_scroll app' = ca_scroll app"

lemma buffer_view_home:
  assumes "buffer_wf b"
  shows "buffer_view (b\<lparr>ib_cursor := 0\<rparr>) = line_edit Ed_Home (buffer_view b)"
    "buffer_view (b\<lparr>ib_cursor := length (ib_text b)\<rparr>) = line_edit Ed_End (buffer_view b)"
  using input.edit_refines [OF assms, of Ed_Home] input.edit_refines [OF assms, of Ed_End] by simp_all

lemma edit_input_view:
  assumes "app_wf app" "\<And>b. f b = buffer_edit e b" "list_all utf8_char (edit_text e)"
  shows "\<exists>app'. edit_input f app = Some app' \<and> same_session app app' \<and>
      buffer_view (ca_input app') = line_edit e (buffer_view (ca_input app))"
    "\<exists>app'. move_input f app = Some app' \<and> same_session app app' \<and>
      buffer_view (ca_input app') = line_edit e (buffer_view (ca_input app))"
proof -
  from assms(1) have "buffer_wf (ca_input app)" by (simp add: app_wf_def)
  then obtain b where "f (ca_input app) = Some b"
    "buffer_view b = line_edit e (buffer_view (ca_input app))"
    using buffer_edit_wf assms(2,3) by metis
  then show "\<exists>app'. edit_input f app = Some app' \<and> same_session app app' \<and>
      buffer_view (ca_input app') = line_edit e (buffer_view (ca_input app))"
    "\<exists>app'. move_input f app = Some app' \<and> same_session app app' \<and>
      buffer_view (ca_input app') = line_edit e (buffer_view (ca_input app))"
    by (simp_all add: edit_input_def move_input_def after_input_edit_def same_session_def)
qed

lemma composer_key_view:
  assumes "app_wf app" "key_code_ok k" "code_edit k ctrl = Some e" "k \<noteq> K_Char ''u'' \<or> \<not> ctrl"
  shows "\<exists>app'. composer_key k ctrl app = Some app' \<and> same_session app app' \<and>
    buffer_view (ca_input app') = line_edit e (buffer_view (ca_input app))"
proof (cases k)
  case (K_Char c)
  with assms edit_input_view(1) [OF assms(1), of "input_insert c" "Ed_Insert [c]"] show ?thesis
    by (auto simp: input_insert_edit split: if_splits)
next
  case K_Backspace
  with assms(3) edit_input_view(1) [OF assms(1), of input_backspace Ed_Backspace] show ?thesis by simp
next
  case K_Delete
  with assms(3) edit_input_view(1) [OF assms(1), of input_delete Ed_Delete] show ?thesis by simp
next
  case K_Left
  with assms(3) edit_input_view(2) [OF assms(1), of input_move_left Ed_Left] show ?thesis by simp
next
  case K_Right
  with assms(3) edit_input_view(2) [OF assms(1), of input_move_right Ed_Right] show ?thesis by simp
qed (use assms in \<open>auto simp: same_session_def buffer_view_home app_wf_def\<close>)

lemma quiet_key_view:
  assumes "app_wf app" "key_code_ok (key_code key)" "key_edit key = Some e"
  shows "\<exists>app'. quiet_key key app = Some app' \<and> app_wf app' \<and> same_session app app' \<and>
    buffer_view (ca_input app') = line_edit e (buffer_view (ca_input app))"
proof (cases "is_ctrl key ''u''")
  case True
  then have "e = Ed_Set []" using assms(3) by (auto simp: is_ctrl_def key_edit_def)
  moreover obtain l r where "buffer_view (ca_input app) = (l, r)" by fastforce
  ultimately show ?thesis
    using True assms(1) app_wf_after_edit [OF assms(1) buffer_wf_empty]
    by (simp add: quiet_key_def handle_idle_key_def is_ctrl_def Let_def input_clear_def
        after_input_edit_def same_session_def buffer_view_def)
next
  case False
  then have u: "key_code key \<noteq> K_Char ''u'' \<or> \<not> key_control key" by (simp add: is_ctrl_def)
  have e: "code_edit (key_code key) (key_control key) = Some e"
    using assms(3) by (simp add: key_edit_def)
  obtain app1 where app1: "composer_key (key_code key) (key_control key) app = Some app1"
    "same_session app app1" "buffer_view (ca_input app1) = line_edit e (buffer_view (ca_input app))"
    using composer_key_view [OF assms(1,2) e u] by blast
  moreover have "app_wf app1"
    using composer_key_wf [OF assms(1,2), of "key_control key"] app1(1) by simp
  moreover have "handle_idle_key key app = Some (app1, IA_None)"
  proof -
    have "\<not> is_ctrl key c" for c using e u by (auto simp: is_ctrl_def split: if_splits)
    moreover have "key_code key \<noteq> K_Enter" using e by auto
    ultimately show ?thesis using app1(1) by (simp add: handle_idle_key_def Let_def)
  qed
  ultimately show ?thesis by (simp add: quiet_key_def)
qed


text \<open>An umlaut is typed between two letters and taken away again: two bytes each time.\<close>

definition char_key :: "string \<Rightarrow> key_event" where
  "char_key c = \<lparr>key_code = K_Char c, key_control = False, key_kind = KK_Press\<rparr>"

definition plain_key :: "key_code \<Rightarrow> key_event" where
  "plain_key k = \<lparr>key_code = k, key_control = False, key_kind = KK_Press\<rparr>"


section \<open>The history\<close>

lemma quiet_up_down:
  assumes "app_suggestions app = []"
  shows "quiet_key (plain_key K_Up) app = navigate_history_up app"
    "quiet_key (plain_key K_Down) app = navigate_history_down app"
  using assms
  by (simp_all add: quiet_key_def handle_idle_key_def plain_key_def is_ctrl_def Let_def
      option.case_eq_if map_option_case)

text \<open>The state when the \<open>k\<close>-th entry from the end is shown.\<close>

definition browsing :: "chat_app \<Rightarrow> nat \<Rightarrow> chat_app \<Rightarrow> bool" where
  "browsing app k a \<longleftrightarrow>
     ca_history a = ca_history app \<and> ca_history_cursor a = Some (length (ca_history app) - k) \<and>
     ca_history_draft a = ib_text (ca_input app) \<and>
     ib_text (ca_input a) = ca_history app ! (length (ca_history app) - k) \<and>
     ca_suggestions_dismissed a"

lemma browsing_suggestions: "browsing app k a \<Longrightarrow> app_suggestions a = []"
  by (simp add: browsing_def app_suggestions_def)

lemma browsing_first:
  assumes "app_suggestions app = []" "ca_history_cursor app = None" "ca_history app \<noteq> []"
  shows "\<exists>a. quiet_key (plain_key K_Up) app = Some a \<and> browsing app 1 a"
  using assms
  by (simp add: quiet_up_down navigate_history_up_def slot_def browsing_def set_input_def input_set_def)

lemma browsing_up:
  assumes "browsing app k a" "0 < k" "Suc k \<le> length (ca_history app)"
  shows "\<exists>b. quiet_key (plain_key K_Up) a = Some b \<and> browsing app (Suc k) b"
proof -
  have "length (ca_history app) - k - 1 = length (ca_history app) - Suc k" by simp
  with assms show ?thesis
    by (auto simp: quiet_up_down browsing_suggestions [OF assms(1)] browsing_def
        navigate_history_up_def slot_def set_input_def input_set_def)
qed

lemma browsing_down:
  assumes "browsing app (Suc k) a" "0 < k" "Suc k \<le> length (ca_history app)"
  shows "\<exists>b. quiet_key (plain_key K_Down) a = Some b \<and> browsing app k b"
proof -
  have "length (ca_history app) - Suc k + 1 = length (ca_history app) - k" using assms by simp
  with assms show ?thesis
    by (auto simp: quiet_up_down browsing_suggestions [OF assms(1)] browsing_def
        navigate_history_down_def slot_def set_input_def input_set_def)
qed

lemma browsing_last:
  assumes "browsing app 1 a" "ca_history app \<noteq> []"
  shows "\<exists>b. quiet_key (plain_key K_Down) a = Some b \<and> ca_history_cursor b = None \<and>
    ca_input b = input_set (ib_text (ca_input app)) (ca_input a)"
  using assms
  by (auto simp: quiet_up_down browsing_suggestions [OF assms(1)] browsing_def
      navigate_history_down_def set_input_def input_set_def)

lemma browsing_ups:
  assumes "browsing app 1 a" "n < length (ca_history app)"
  shows "\<exists>b. try_all quiet_key (replicate n (plain_key K_Up)) a = Some b \<and> browsing app (Suc n) b"
proof -
  have "\<exists>b. try_all quiet_key (replicate m (plain_key K_Up)) a = Some b \<and> browsing app (k + m) b"
    if "browsing app k a" "0 < k" "k + m \<le> length (ca_history app)" for k m a
    using that
  proof (induction m arbitrary: k a)
    case 0
    then show ?case by simp
  next
    case (Suc m)
    then have "Suc k \<le> length (ca_history app)" by simp
    with Suc.prems obtain b where "quiet_key (plain_key K_Up) a = Some b" "browsing app (Suc k) b"
      using browsing_up by blast
    with Suc.IH [of "Suc k" b] Suc.prems show ?case by simp
  qed
  from this [of 1 a n] assms show ?thesis by simp
qed

lemma browsing_downs:
  assumes "browsing app (Suc n) a" "n < length (ca_history app)"
  shows "\<exists>b. try_all quiet_key (replicate (Suc n) (plain_key K_Down)) a = Some b \<and>
    ca_history_cursor b = None \<and> ib_text (ca_input b) = ib_text (ca_input app) \<and>
    ib_cursor (ca_input b) = length (ib_text (ca_input app))"
  using assms
proof (induction n arbitrary: a)
  case 0
  then obtain b where "quiet_key (plain_key K_Down) a = Some b" "ca_history_cursor b = None"
    "ca_input b = input_set (ib_text (ca_input app)) (ca_input a)"
    using browsing_last [of app a] by auto
  then show ?case by (simp add: input_set_def)
next
  case (Suc n)
  then obtain b where "quiet_key (plain_key K_Down) a = Some b" "browsing app (Suc n) b"
    using browsing_down [of app "Suc n" a] by auto
  with Suc.IH [of b] Suc.prems show ?case by simp
qed

text \<open>
  Going up the history and down again as often gives back the line that was being typed, with
  the cursor at its end; on the way the entry as many places from the end is shown.
\<close>

theorem history_round_trip:
  assumes "app_suggestions app = []" "ca_history_cursor app = None"
    and "0 < n" "n \<le> length (ca_history app)"
  shows "\<exists>a b. try_all quiet_key (replicate n (plain_key K_Up)) app = Some a \<and>
    ib_text (ca_input a) = ca_history app ! (length (ca_history app) - n) \<and>
    try_all quiet_key (replicate n (plain_key K_Down)) a = Some b \<and>
    ib_text (ca_input b) = ib_text (ca_input app) \<and>
    ib_cursor (ca_input b) = length (ib_text (ca_input app)) \<and> ca_history_cursor b = None"
proof -
  obtain m where n: "n = Suc m" using assms(3) by (cases n) auto
  have "ca_history app \<noteq> []" using assms(3,4) by auto
  with assms obtain a1 where a1: "quiet_key (plain_key K_Up) app = Some a1" "browsing app 1 a1"
    using browsing_first by blast
  with n assms(4) obtain a where a: "try_all quiet_key (replicate m (plain_key K_Up)) a1 = Some a"
    "browsing app n a"
    using browsing_ups [of app a1 m] by auto
  obtain b where "try_all quiet_key (replicate n (plain_key K_Down)) a = Some b"
    "ca_history_cursor b = None" "ib_text (ca_input b) = ib_text (ca_input app)"
    "ib_cursor (ca_input b) = length (ib_text (ca_input app))"
    using browsing_downs [of app m a] a(2) n assms(4) by auto
  with a a1 n show ?thesis by (simp add: browsing_def)
qed

definition chatty_app :: chat_app where
  "chatty_app =
     (set_input ''draft'' (chat_app_new ''m'' MRE_Max False False))
       \<lparr>ca_history := [''one'', ''two'']\<rparr>"

theorem history_round_trip_witness:
  "\<exists>a b. try_all quiet_key (replicate 2 (plain_key K_Up)) chatty_app = Some a \<and>
     ib_text (ca_input a) = ''one'' \<and>
     try_all quiet_key (replicate 2 (plain_key K_Down)) a = Some b \<and>
     ib_text (ca_input b) = ''draft'' \<and> ib_cursor (ca_input b) = 5 \<and> ca_history_cursor b = None"
proof -
  have "app_suggestions chatty_app = []" "ca_history_cursor chatty_app = None"
    "length (ca_history chatty_app) = 2" "ca_history chatty_app ! 0 = ''one''"
    "ib_text (ca_input chatty_app) = ''draft''"
    by (simp_all add: chatty_app_def chat_app_new_def set_input_def input_set_def
        app_suggestions_def suggestions_for_def starts_with_def)
  with history_round_trip [of chatty_app 2] show ?thesis by (simp add: eval_nat_numeral)
qed

section \<open>Completions\<close>

lemma slash_visible: "[CHR ''/''] \<notin> set whitespace_encodings" "[CHR ''$''] \<notin> set whitespace_encodings"
  by (simp_all add: whitespace_encodings_def)

lemma ascii_char: "in_range 0 0x7F c \<Longrightarrow> utf8_char [c]"
  by (simp add: utf8_char_def valid_utf8.simps(2) char_width_def in_range_def)

lemma ascii_clean: "in_range 0 0x7F c \<Longrightarrow> [c] \<notin> set whitespace_encodings \<Longrightarrow> clean_text [c]"
  using clean_text_chars [of "[[c]]"] by (simp add: ascii_char)

lemma clean_prefixed:
  assumes "clean_text t"
  shows "clean_text (''$'' @ t)" "clean_text (''/skill '' @ t)"
  using clean_text_append [OF ascii_clean assms, of "CHR ''$''" "[]"]
    clean_text_append [OF ascii_clean assms, of "CHR ''/''" "''skill ''"]
  by (simp_all add: slash_visible in_range_def)

lemma split_at_visible:
  assumes "in_range 0 0x7F c" "[c] \<notin> set whitespace_encodings"
  shows "split_at_whitespace (c # s) = map_option (\<lambda>(a, b). (c # a, b)) (split_at_whitespace s)"
  using strip_whitespace_char [OF ascii_char [OF assms(1)], of s] assms(2) by simp

lemma split_at_space: "split_at_whitespace (CHR '' '' # s) = Some ([], s)"
  using strip_whitespace_char [OF ascii_char, of "CHR '' ''" s]
  by (simp add: in_range_def whitespace_encodings_def)

text \<open>A mention is a prompt, and a skill command names its skill.\<close>

lemma mention_parsed:
  assumes "clean_text skill"
  shows "parse_input (''$'' @ skill @ '' '') = PI_Prompt (''$'' @ skill)"
proof -
  have "trim ((''$'' @ skill) @ '' '') = ''$'' @ skill"
    by (rule trim_clean [OF clean_prefixed(1) [OF assms]]) (simp add: whitespace_encodings_def)
  then show ?thesis by (simp add: parse_input_def starts_with_def)
qed

lemma skill_parsed:
  assumes "clean_text skill"
  shows "parse_input (''/skill '' @ skill) = PI_Command (CC_InsertSkill skill)"
proof -
  have "trim (''/skill '' @ skill) = ''/skill '' @ skill" "trim skill = skill" "skill \<noteq> []"
    using clean_prefixed(2) [OF assms] assms by (simp_all add: clean_text_def)
  moreover have "split_at_whitespace (''/skill '' @ skill) = Some (''/skill'', skill)"
    by (simp add: split_at_visible split_at_space in_range_def whitespace_encodings_def
        del: split_at_whitespace.simps)
  ultimately show ?thesis
    by (simp add: parse_input_def starts_with_def parse_command_def to_ascii_lowercase_def
        ascii_lower_char_def)
qed

text \<open>The other completions, one by one.\<close>

lemma commands_parsed:
  "\<forall>c \<in> set COMMANDS. fst c \<noteq> ''/skill'' \<longrightarrow>
     (case parse_input (sg_replacement (command_suggestion c)) of
        PI_Command (CC_Unknown _) \<Rightarrow> False | PI_Command (CC_InsertSkill _) \<Rightarrow> False
      | PI_Command _ \<Rightarrow> True | _ \<Rightarrow> False)"
  by code_simp

lemma efforts_parsed:
  "\<forall>effort \<in> set EFFORTS.
     (case parse_input (''/effort '' @ effort) of
        PI_Command (CC_SetEffort e) \<Rightarrow> model_reasoning_effort_as_str e = effort | _ \<Rightarrow> False)"
  by code_simp

text \<open>
  Every completion is a line the chat understands: accepting it and pressing Enter gives a
  prompt that mentions one of the skills, a skill command that names one of them, or one of the
  other commands. The only exception is \<open>/skill \<close>, which waits for a name.
\<close>

theorem completions_are_understood:
  assumes "\<forall>skill \<in> set skills. clean_text skill" "sg \<in> set (suggestions_for typed skills)"
  shows "sg_replacement sg = ''/skill '' \<or>
    (case parse_input (sg_replacement sg) of
       PI_Empty \<Rightarrow> False
     | PI_Prompt prompt \<Rightarrow> prompt \<in> (@) ''$'' ` set skills
     | PI_Command (CC_InsertSkill skill) \<Rightarrow> skill \<in> set skills
     | PI_Command (CC_Unknown _) \<Rightarrow> False
     | PI_Command _ \<Rightarrow> starts_with ''/'' typed)"
  using assms(2)
proof (cases rule: suggestion_cases)
  case (1 skill)
  with assms(1) mention_parsed [of skill] show ?thesis by (simp add: mention_suggestion_def)
next
  case (2 c)
  show ?thesis
  proof (cases "fst c = ''/skill''")
    case True
    with 2 show ?thesis by (simp add: command_suggestion_def case_prod_unfold)
  next
    case False
    with 2 commands_parsed have "case parse_input (sg_replacement sg) of
        PI_Command (CC_Unknown _) \<Rightarrow> False | PI_Command (CC_InsertSkill _) \<Rightarrow> False
      | PI_Command _ \<Rightarrow> True | _ \<Rightarrow> False" by blast
    with 2(3) show ?thesis by (simp split: parsed_input.splits chat_command.splits)
  qed
next
  case (3 effort)
  with efforts_parsed have "case parse_input (sg_replacement sg) of
      PI_Command (CC_SetEffort e) \<Rightarrow> model_reasoning_effort_as_str e = effort | _ \<Rightarrow> False"
    by (simp add: effort_suggestion_def)
  with 3(3) show ?thesis by (simp split: parsed_input.splits chat_command.splits)
next
  case (4 skill)
  with assms(1) skill_parsed [of skill] show ?thesis by (simp add: skill_suggestion_def)
qed

theorem completions_are_understood_witness:
  "case parse_input (sg_replacement (skill_suggestion ''review'')) of
     PI_Command (CC_InsertSkill skill) \<Rightarrow> skill \<in> set [''review'', ''plan''] | _ \<Rightarrow> False"
proof -
  have member: "skill_suggestion ''review'' \<in> set (suggestions_for ''/skill R'' [''review'', ''plan''])"
    by code_simp
  have clean: "\<forall>skill \<in> set [''review'', ''plan'']. clean_text skill"
    by code_simp
  have parsed: "parse_input (sg_replacement (skill_suggestion ''review'')) = PI_Command (CC_InsertSkill ''review'')"
    by code_simp
  show ?thesis
    using completions_are_understood [OF clean member] parsed
    by (simp add: skill_suggestion_def)
qed

end
