(* ===== verification/Luna_Transcript.thy ===== *)
theory Luna_Transcript
  imports Luna_Composer
begin

text \<open>
  The transcript of the chat: how the events of a turn become blocks in
  \<open>crates/luna/src/commands/chat.rs\<close>, and what is drawn of them. How wide a line is on the
  terminal is the parameter \<open>width_of\<close> (the crate \<open>unicode_width\<close>).
\<close>

section \<open>Blocks\<close>

fun transcript_kind_of :: "rendered_item_kind \<Rightarrow> transcript_kind" where
  "transcript_kind_of RK_UserMessage = TK_User"
| "transcript_kind_of RK_AgentMessage = TK_Agent"
| "transcript_kind_of RK_Reasoning = TK_Reasoning"
| "transcript_kind_of RK_Plan = TK_Reasoning"
| "transcript_kind_of RK_ToolCall = TK_Tool"
| "transcript_kind_of RK_CommandExecution = TK_Tool"
| "transcript_kind_of RK_FileChange = TK_Tool"
| "transcript_kind_of RK_Error = TK_Error"
| "transcript_kind_of RK_Status = TK_Status"
| "transcript_kind_of RK_Unknown = TK_Status"

definition push_block :: "transcript_kind \<Rightarrow> string option \<Rightarrow> string \<Rightarrow> chat_app \<Rightarrow> chat_app" where
  "push_block kind item_id t app =
     app\<lparr>ca_transcript := ca_transcript app @ [\<lparr>tb_kind = kind, tb_item_id = item_id, tb_text = t\<rparr>]\<rparr>"

text \<open>The last position of a list whose element satisfies a predicate: \<open>rposition\<close>.\<close>

fun rposition :: "('a \<Rightarrow> bool) \<Rightarrow> 'a list \<Rightarrow> nat option" where
  "rposition P [] = None"
| "rposition P (x # xs) =
     (case rposition P xs of
        Some i \<Rightarrow> Some (Suc i)
      | None \<Rightarrow> if P x then Some 0 else None)"

definition push_fragment :: "rendered_item \<Rightarrow> chat_app \<Rightarrow> chat_app" where
  "push_fragment fragment app =
     (let kind = transcript_kind_of (rendered_kind fragment);
          found =
            (if rendered_continuation fragment then
               rposition (\<lambda>b. tb_kind b = kind \<and> tb_item_id b \<noteq> None \<and>
                   tb_item_id b = rendered_item_id fragment) (ca_transcript app)
             else None);
          app1 =
            (case found of
               Some i \<Rightarrow>
                 app\<lparr>ca_transcript := (ca_transcript app)[i :=
                       (ca_transcript app ! i)
                         \<lparr>tb_text := tb_text (ca_transcript app ! i) @ rendered_markdown fragment\<rparr>]\<rparr>
             | None \<Rightarrow> push_block kind (rendered_item_id fragment) (rendered_markdown fragment) app)
      in app1\<lparr>ca_follow_tail := True\<rparr>)"

definition push_final_response :: "string \<Rightarrow> chat_app \<Rightarrow> chat_app" where
  "push_final_response response app =
     push_block TK_Agent None response (app\<lparr>ca_emitted_final_response := True\<rparr>)"

definition append_status :: "string \<Rightarrow> chat_app \<Rightarrow> chat_app" where
  "append_status message app = (push_block TK_Status None message app)\<lparr>ca_follow_tail := True\<rparr>"

definition append_error :: "string \<Rightarrow> chat_app \<Rightarrow> chat_app" where
  "append_error message app = (push_block TK_Error None message app)\<lparr>ca_follow_tail := True\<rparr>"

definition finish_turn :: "chat_app \<Rightarrow> chat_app" where
  "finish_turn app = app\<lparr>ca_busy := False, ca_turn_running := False, ca_status := ''ready''\<rparr>"

definition finish_turn_with_error :: "string \<Rightarrow> chat_app \<Rightarrow> chat_app" where
  "finish_turn_with_error message app =
     (append_error message app)\<lparr>ca_busy := False, ca_turn_running := False, ca_status := ''ready''\<rparr>"

definition submit_user_message :: "string \<Rightarrow> chat_app \<Rightarrow> chat_app" where
  "submit_user_message prompt app =
     (push_block TK_User None prompt app)
       \<lparr>ca_renderer := {}, ca_fallback_final_response := None, ca_emitted_final_response := False,
        ca_busy := True, ca_turn_running := True, ca_status := ''thinking'', ca_follow_tail := True\<rparr>"

section \<open>The events of a turn\<close>

fun note_answer :: "thread_event \<Rightarrow> chat_app \<Rightarrow> chat_app" where
  "note_answer (TE_ItemCompleted (TI_AgentMessage message)) app =
     (if is_final_answer message then push_final_response (agent_message_text message) app
      else app\<lparr>ca_fallback_final_response := Some (agent_message_text message)\<rparr>)"
| "note_answer _ app = app"

fun note_completion :: "thread_event \<Rightarrow> chat_app \<Rightarrow> chat_app" where
  "note_completion (TE_TurnCompleted usage) app =
     (if ca_emitted_final_response app then app
      else case ca_fallback_final_response app of
             Some response \<Rightarrow> push_final_response response (app\<lparr>ca_fallback_final_response := None\<rparr>)
           | None \<Rightarrow> app)"
| "note_completion _ app = app"

definition ok_text :: "(json \<Rightarrow> string + string) \<Rightarrow> json \<Rightarrow> string option" where
  "ok_text to_text v = (case to_text v of Inr t \<Rightarrow> Some t | Inl _ \<Rightarrow> None)"

definition consume_thread_event ::
  "(json \<Rightarrow> string + string) \<Rightarrow> thread_event \<Rightarrow> chat_app \<Rightarrow> chat_app \<times> (luna_error + unit)" where
  "consume_thread_event to_text event app =
     (if ca_json_output app then
        (case to_text (thread_event_to_json event) of
           Inl e \<Rightarrow> (app, Err (LE_Protocol (''failed to serialize chat event: '' @ e)))
         | Inr t \<Rightarrow> (push_block TK_Raw None t app, Ok ()))
      else if ca_final_response_only app then (note_completion event (note_answer event app), Ok ())
      else
        (let (streamed, fragment) =
           render_event (ok_text to_text) event (ca_renderer app);
             app1 = app\<lparr>ca_renderer := streamed\<rparr>
         in (case fragment of
               Some f \<Rightarrow> if rendered_kind f \<noteq> RK_UserMessage then push_fragment f app1 else app1
             | None \<Rightarrow> app1, Ok ())))"

section \<open>Drawing\<close>

fun transcript_label :: "transcript_kind \<Rightarrow> string" where
  "transcript_label TK_User = ''YOU''"
| "transcript_label TK_Agent = ''LUNA''"
| "transcript_label TK_Reasoning = ''THOUGHT''"
| "transcript_label TK_Tool = ''ACTIVITY''"
| "transcript_label TK_Status = ''LUNAR LOG''"
| "transcript_label TK_Error = ''ERROR''"
| "transcript_label TK_Raw = ''JSON''"

definition transcript_lines :: "transcript_block list \<Rightarrow> string list" where
  "transcript_lines blocks =
     concat (map (\<lambda>b. transcript_label (tb_kind b) #
         (if tb_text b = [] then [[]] else str_lines (tb_text b)) @ [[]]) blocks)"

definition wrapped_height :: "(string \<Rightarrow> nat) \<Rightarrow> string list \<Rightarrow> nat \<Rightarrow> nat" where
  "wrapped_height width_of ls width =
     (let wrap_width = max width 1
      in max 1 (sum_list (map (\<lambda>l. (max (width_of l) 1 + wrap_width - 1) div wrap_width) ls)))"

text \<open>The inside of the conversation block, in columns and rows.\<close>

type_synonym screen = "nat \<times> nat"

definition render_transcript :: "(string \<Rightarrow> nat) \<Rightarrow> screen \<Rightarrow> chat_app \<Rightarrow> chat_app" where
  "render_transcript width_of inner app =
     (if ca_transcript app = [] then app\<lparr>ca_max_scroll := 0, ca_scroll := 0\<rparr>
      else
        (let height = wrapped_height width_of (transcript_lines (ca_transcript app)) (max (fst inner) 1);
             page = max (snd inner) 1;
             max_scroll = height - page
         in app\<lparr>ca_transcript_page := page, ca_max_scroll := max_scroll,
                ca_scroll := (if ca_follow_tail app then max_scroll else min (ca_scroll app) max_scroll)\<rparr>))"

text \<open>A frame; the input line is cut at the cursor.\<close>

definition chat_render :: "(string \<Rightarrow> nat) \<Rightarrow> screen \<Rightarrow> chat_app \<Rightarrow> chat_app option" where
  "chat_render width_of inner app =
     (let app1 = (if length (app_suggestions app) \<le> ca_selected_suggestion app
                  then app\<lparr>ca_selected_suggestion := 0\<rparr> else app);
          app2 = render_transcript width_of inner app1
      in map_option (\<lambda>_. app2) (slices (ib_text (ca_input app2)) (ib_cursor (ca_input app2))))"

section \<open>The invariant\<close>

lemma app_wf_push [simp]:
  "app_wf (push_block k i t app) = app_wf app"
  "app_wf (push_final_response t app) = app_wf app"
  "app_wf (append_status t app) = app_wf app"
  "app_wf (append_error t app) = app_wf app"
  "app_wf (finish_turn app) = app_wf app"
  "app_wf (finish_turn_with_error t app) = app_wf app"
  "app_wf (submit_user_message t app) = app_wf app"
  by (simp_all add: push_block_def push_final_response_def append_status_def append_error_def
      finish_turn_def finish_turn_with_error_def submit_user_message_def app_wf_def)

lemma app_wf_push_fragment [simp]: "app_wf (push_fragment f app) = app_wf app"
  by (simp add: push_fragment_def Let_def split: option.split)

lemma app_wf_note [simp]:
  "app_wf (note_answer event app) = app_wf app"
  "app_wf (note_completion event app) = app_wf app"
proof -
  show "app_wf (note_answer event app) = app_wf app"
    by (induction event app rule: note_answer.induct) simp_all
  show "app_wf (note_completion event app) = app_wf app"
    by (induction event app rule: note_completion.induct) (simp_all split: option.split)
qed

lemma consume_thread_event_wf [simp]:
  "app_wf (fst (consume_thread_event to_text event app)) = app_wf app"
  by (simp add: consume_thread_event_def case_prod_unfold Let_def split: sum.split option.split)

lemma chat_render_wf:
  assumes "app_wf app"
  shows "\<exists>app'. chat_render width_of inner app = Some app' \<and> app_wf app'"
proof -
  let ?app1 = "if length (app_suggestions app) \<le> ca_selected_suggestion app
    then app\<lparr>ca_selected_suggestion := 0\<rparr> else app"
  have "app_wf ?app1" using assms by simp
  then have "app_wf (render_transcript width_of inner ?app1)"
    by (simp add: render_transcript_def app_wf_def Let_def)
  moreover from this have "slices (ib_text (ca_input (render_transcript width_of inner ?app1)))
      (ib_cursor (ca_input (render_transcript width_of inner ?app1))) \<noteq> None"
    by (simp add: app_wf_def buffer_wf_def slices_def)
  ultimately show ?thesis by (auto simp: chat_render_def Let_def simp del: if_split)
qed

section \<open>The transcript of a turn\<close>

text \<open>The events of a turn, one after the other; the failure of the JSON mode stops the chat.\<close>

definition consume_events ::
  "(json \<Rightarrow> string + string) \<Rightarrow> thread_event list \<Rightarrow> chat_app \<Rightarrow> chat_app" where
  "consume_events to_text es app = fold (\<lambda>e a. fst (consume_thread_event to_text e a)) es app"

lemma consume_events_simps [simp]:
  "consume_events to_text [] app = app"
  "consume_events to_text (e # es) app = consume_events to_text es (fst (consume_thread_event to_text e app))"
  "consume_events to_text (es @ fs) app = consume_events to_text fs (consume_events to_text es app)"
  by (simp_all add: consume_events_def)

text \<open>The fragments that are put into the transcript: not the echo of the user's message.\<close>

definition chat_fragments :: "rendered_item list \<Rightarrow> rendered_item list" where
  "chat_fragments fs = filter (\<lambda>f. rendered_kind f \<noteq> RK_UserMessage) fs"

text \<open>The text of one item: that of its blocks in the transcript, and that of its fragments.\<close>

definition block_key :: "transcript_block \<Rightarrow> transcript_kind \<times> string option" where
  "block_key b = (tb_kind b, tb_item_id b)"

definition fragment_block_key :: "rendered_item \<Rightarrow> transcript_kind \<times> string option" where
  "fragment_block_key f = (transcript_kind_of (rendered_kind f), rendered_item_id f)"

definition block_text :: "transcript_kind \<times> string option \<Rightarrow> transcript_block list \<Rightarrow> string" where
  "block_text k bs = concat (map tb_text (filter (\<lambda>b. block_key b = k) bs))"

definition fragments_text :: "transcript_kind \<times> string option \<Rightarrow> rendered_item list \<Rightarrow> string" where
  "fragments_text k fs = concat (map rendered_markdown (filter (\<lambda>f. fragment_block_key f = k) fs))"

lemma block_text_append [simp]: "block_text k (bs @ cs) = block_text k bs @ block_text k cs"
  by (simp add: block_text_def)

lemma rposition_Some:
  "rposition P xs = Some i \<Longrightarrow>
     i < length xs \<and> P (xs ! i) \<and> filter P (drop (Suc i) xs) = []"
proof (induction xs arbitrary: i)
  case (Cons x xs)
  then show ?case
  proof (cases "rposition P xs")
    case None
    have "filter P xs = []" if "rposition P xs = None" for xs :: "'a list"
      using that by (induction xs) (auto split: option.splits if_splits)
    with None Cons.prems show ?thesis by (auto split: if_splits)
  qed auto
qed simp

text \<open>A fragment adds its text to its item, at the end, and to no other.\<close>

lemma push_fragment_text:
  "block_text k (ca_transcript (push_fragment f app)) =
     block_text k (ca_transcript app) @ (if fragment_block_key f = k then rendered_markdown f else [])"
proof -
  let ?P = "\<lambda>b. tb_kind b = transcript_kind_of (rendered_kind f) \<and> tb_item_id b \<noteq> None \<and>
    tb_item_id b = rendered_item_id f"
  let ?bs = "ca_transcript app"
  show ?thesis
  proof (cases "if rendered_continuation f then rposition ?P ?bs else None")
    case None
    then show ?thesis
      by (simp add: push_fragment_def push_block_def Let_def block_text_def block_key_def
          fragment_block_key_def)
  next
    case (Some i)
    then have i: "i < length ?bs" "?P (?bs ! i)" "filter ?P (drop (Suc i) ?bs) = []"
      using rposition_Some [of ?P ?bs i] by (auto split: if_splits)
    from i(2) have "rendered_item_id f \<noteq> None" by metis
    then obtain item where item: "rendered_item_id f = Some item" by blast
    let ?b = "?bs ! i"
    let ?b1 = "?b\<lparr>tb_text := tb_text ?b @ rendered_markdown f\<rparr>"
    have pushed: "ca_transcript (push_fragment f app) = take i ?bs @ ?b1 # drop (Suc i) ?bs"
      using Some i(1) by (simp add: push_fragment_def Let_def upd_conv_take_nth_drop)
    have whole: "?bs = take i ?bs @ ?b # drop (Suc i) ?bs"
      using i(1) by (simp add: id_take_nth_drop)
    have key: "block_key ?b = fragment_block_key f"
      using i(2) by (auto simp: block_key_def fragment_block_key_def)
    have rest: "block_text (fragment_block_key f) (drop (Suc i) ?bs) = []"
      using i(3) item
      by (auto simp: block_text_def block_key_def fragment_block_key_def filter_empty_conv)
    have one: "block_text k (b # bs) = (if block_key b = k then tb_text b else []) @ block_text k bs"
      for b bs by (simp add: block_text_def)
    have "block_key ?b1 = block_key ?b" by (simp add: block_key_def)
    then show ?thesis
      unfolding pushed
      by (subst (3) whole) (use key rest in \<open>auto simp: one\<close>)
  qed
qed

text \<open>
  C22: the conversation shows what the renderer renders: after any events, the text of an item in
  the transcript has grown by exactly the text of its fragments, in their order, although a
  streamed fragment is merged into an earlier block and blocks of other items lie in between;
  the same holds of the fragments without an item, and the user's echo is left out.
\<close>

theorem transcript_is_the_rendering:
  assumes "\<not> ca_json_output app" "\<not> ca_final_response_only app"
  shows "block_text k (ca_transcript (consume_events to_text es app)) =
    block_text k (ca_transcript app) @
      fragments_text k (chat_fragments (snd (render_events (ok_text to_text) es (ca_renderer app))))"
  using assms
proof (induction es arbitrary: app)
  case Nil
  then show ?case by (simp add: chat_fragments_def fragments_text_def)
next
  case (Cons e es)
  obtain streamed f where f: "render_event (ok_text to_text) e (ca_renderer app) = (streamed, f)"
    by fastforce
  let ?app1 = "case f of
      Some f \<Rightarrow> if rendered_kind f \<noteq> RK_UserMessage then push_fragment f (app\<lparr>ca_renderer := streamed\<rparr>)
        else app\<lparr>ca_renderer := streamed\<rparr>
    | None \<Rightarrow> app\<lparr>ca_renderer := streamed\<rparr>"
  have step: "fst (consume_thread_event to_text e app) = ?app1"
    using f Cons.prems by (simp add: consume_thread_event_def split: option.split)
  have kept: "ca_renderer (push_fragment f a) = ca_renderer a"
    "ca_json_output (push_fragment f a) = ca_json_output a"
    "ca_final_response_only (push_fragment f a) = ca_final_response_only a" for f a
    by (simp_all add: push_fragment_def push_block_def Let_def split: option.split)
  have "block_text k (ca_transcript (consume_events to_text es ?app1)) =
    block_text k (ca_transcript ?app1) @
      fragments_text k (chat_fragments (snd (render_events (ok_text to_text) es streamed)))"
    using Cons.IH [of ?app1] Cons.prems by (simp add: kept split: option.splits)
  with f show ?case
    by (auto simp: step push_fragment_text chat_fragments_def fragments_text_def case_prod_unfold
        Let_def split: option.split)
qed

theorem transcript_is_the_rendering_witness:
  "block_text (TK_Agent, Some ''a'') (ca_transcript (consume_events (\<lambda>_. Inr [])
     [TE_ItemUpdated (build_agent_message ''a'' ''he''), TE_ItemUpdated (build_plan ''p'' ''step''),
      TE_ItemUpdated (build_agent_message ''a'' ''llo'')] (chat_app_new ''m'' MRE_Max False False))) = ''hello''"
proof -
  let ?app = "chat_app_new ''m'' MRE_Max False False"
  let ?es = "[TE_ItemUpdated (build_agent_message ''a'' ''he''), TE_ItemUpdated (build_plan ''p'' ''step''),
      TE_ItemUpdated (build_agent_message ''a'' ''llo'')]"
  have modes: "\<not> ca_json_output ?app" "\<not> ca_final_response_only ?app" by (simp_all add: chat_app_new_def)
  have "fragments_text (TK_Agent, Some ''a'') (chat_fragments
      (snd (render_events (ok_text (\<lambda>_. Inr [])) ?es (ca_renderer ?app)))) = ''hello''"
    by (simp add: chat_app_new_def build_agent_message_def build_plan_def rendered_new_def
        chat_fragments_def fragments_text_def fragment_block_key_def)
  then show ?thesis
    using transcript_is_the_rendering [OF modes, of "(TK_Agent, Some ''a'')" "\<lambda>_. Inr []" ?es]
    by (simp add: chat_app_new_def block_text_def del: consume_events_simps)
qed

section \<open>Only the answer\<close>

lemma consume_answer:
  assumes "\<not> ca_json_output app" "ca_final_response_only app"
  shows "fst (consume_thread_event to_text e app) = note_completion e (note_answer e app)"
  using assms by (simp add: consume_thread_event_def)

definition answer_block :: "string \<Rightarrow> transcript_block" where
  "answer_block t = \<lparr>tb_kind = TK_Agent, tb_item_id = None, tb_text = t\<rparr>"

lemma agent_texts_message:
  "agent_texts b (TI_AgentMessage m # items) =
     (if is_final_answer m = b then [agent_message_text m] else []) @ agent_texts b items"
  by (simp add: agent_texts_def)

lemma consume_answers:
  assumes "\<not> ca_json_output app" "ca_final_response_only app" "list_all plain_event es"
  shows "consume_events to_text es app =
    (let items = completed_items es
     in app\<lparr>ca_transcript := ca_transcript app @ map answer_block (agent_texts True items),
            ca_emitted_final_response := ca_emitted_final_response app \<or> agent_texts True items \<noteq> [],
            ca_fallback_final_response :=
              or_opt (last_opt (agent_texts False items)) (ca_fallback_final_response app)\<rparr>)"
  using assms
proof (induction es arbitrary: app)
  case Nil
  then show ?case by (simp add: completed_items_def agent_texts_def)
next
  case (Cons e es)
  have items: "completed_items (e # es) = (case e of TE_ItemCompleted i \<Rightarrow> [i] | _ \<Rightarrow> []) @ completed_items es"
    by (simp add: completed_items_def)
  let ?app1 = "note_answer e app"
  have step: "fst (consume_thread_event to_text e app) = ?app1"
    using Cons.prems by (cases e) (simp_all add: consume_answer)
  have kept: "\<not> ca_json_output ?app1" "ca_final_response_only ?app1"
    using Cons.prems(1,2)
    by (induction e app rule: note_answer.induct) (simp_all add: push_final_response_def push_block_def)
  show ?case
  proof (cases "\<exists>m. e = TE_ItemCompleted (TI_AgentMessage m)")
    case True
    then obtain m where m: "e = TE_ItemCompleted (TI_AgentMessage m)" by blast
    show ?thesis
      using Cons.IH [OF kept] Cons.prems(3) step
      by (cases "is_final_answer m")
        (simp_all add: m items [unfolded m] Let_def agent_texts_message push_final_response_def push_block_def
          answer_block_def or_opt_assoc last_opt_Cons)
  next
    case False
    then have "?app1 = app" by (cases "(e, app)" rule: note_answer.cases) auto
    moreover have "agent_texts b (completed_items (e # es)) = agent_texts b (completed_items es)" for b
      using False by (auto simp: items agent_texts_def split: thread_event.split thread_item.split)
    ultimately show ?thesis
      using Cons.IH [OF kept] Cons.prems(3) by (simp add: step Let_def)
  qed
qed



end
