(* ===== verification/Luna_Chat_Loop.thy ===== *)
theory Luna_Chat_Loop
  imports Luna_Transcript
begin

text \<open>
  The loops of the chat in \<open>crates/luna/src/commands/chat.rs\<close>: one prompt and its turn, the
  commands, and the main loop. What the terminal, the server's stream and the timer do is given
  per iteration: the outcome of drawing the frame, and what \<open>select!\<close> then gets. When the list
  of iterations is used up the chat is waiting. A panic is a value of its own.
\<close>

section \<open>Outcomes\<close>

datatype 'a outcome = Panicked | Waiting | Returned "luna_error + 'a"

record chat_state =
  cs_app :: chat_app
  cs_thread :: thread
  cs_inner :: inner

datatype term_event = Ev_Key key_event | Ev_Paste string | Ev_Ignored

type_synonym drawn = "io_error + screen"

type_synonym term_input = "(io_error + term_event) option"

text \<open>\<open>events.next()\<close> after its two question marks.\<close>

definition next_term_event :: "term_input \<Rightarrow> luna_error + term_event" where
  "next_term_event i =
     (case i of
        None \<Rightarrow> Err (LE_Io (IoError UnexpectedEof ''terminal event stream closed''))
      | Some (Inl e) \<Rightarrow> Err (LE_Io e)
      | Some (Inr ev) \<Rightarrow> Ok ev)"

text \<open>\<open>terminal.draw(|frame| app.render(frame))\<close>: the closure runs unless the terminal fails first.\<close>

definition draw :: "(string \<Rightarrow> nat) \<Rightarrow> drawn \<Rightarrow> chat_app \<Rightarrow> (luna_error + chat_app) option" where
  "draw width_of d app =
     (case d of
        Inl e \<Rightarrow> Some (Err (LE_Io e))
      | Inr inner \<Rightarrow> map_option Ok (chat_render width_of inner app))"

section \<open>A prompt and its turn\<close>

datatype turn_input = In_Stream "stream_item option" | In_Terminal term_input

fun turn_end :: "thread_event \<Rightarrow> (string + unit) option" where
  "turn_end (TE_TurnCompleted usage) = Some (Inr ())"
| "turn_end (TE_TurnFailed e) = Some (Inl (''turn failed: '' @ thread_error_message e))"
| "turn_end (TE_Error message) = Some (Inl (''stream error: '' @ message))"
| "turn_end _ = None"

definition set_status :: "string \<Rightarrow> chat_app \<Rightarrow> chat_app" where
  "set_status t app = app\<lparr>ca_status := t\<rparr>"

definition request_interrupt :: "codex \<Rightarrow> string \<Rightarrow> bool \<Rightarrow> chat_state \<Rightarrow> bool \<times> chat_state" where
  "request_interrupt c turn interrupted st =
     (if interrupted then
        (True, st\<lparr>cs_app := set_status ''interrupt already requested'' (cs_app st)\<rparr>)
      else
        (case thread_interrupt c turn (cs_thread st) (cs_inner st) of
           (s1, th1, Inr _) \<Rightarrow>
             (True, \<lparr>cs_app = set_status ''interrupt requested'' (cs_app st), cs_thread = th1,
                cs_inner = s1\<rparr>)
         | (s1, th1, Inl e) \<Rightarrow>
             (False, \<lparr>cs_app = append_error
                  (''could not interrupt turn: '' @ client_error_display (codex_displays c) e) (cs_app st),
                cs_thread = th1, cs_inner = s1\<rparr>)))"

fun turn_term_event ::
  "codex \<Rightarrow> string \<Rightarrow> term_event \<Rightarrow> bool \<Rightarrow> chat_state \<Rightarrow> bool \<times> chat_state"
where
  "turn_term_event c turn (Ev_Key key) interrupted st =
     (if accepts_key key \<and> is_ctrl key ''c'' then request_interrupt c turn interrupted st
      else if accepts_key key then
        (interrupted, st\<lparr>cs_app := handle_scrolling_key key (cs_app st)\<rparr>)
      else (interrupted, st))"
| "turn_term_event c turn _ interrupted st = (interrupted, st)"

fun run_prompt_loop ::
  "codex \<Rightarrow> (string \<Rightarrow> nat) \<Rightarrow> (json \<Rightarrow> string + string) \<Rightarrow> string \<Rightarrow> (drawn \<times> turn_input) list \<Rightarrow> bool
    \<Rightarrow> chat_state \<Rightarrow> chat_state \<times> unit outcome"
where
  "run_prompt_loop c width_of to_text turn [] interrupted st = (st, Waiting)"
| "run_prompt_loop c width_of to_text turn ((d, i) # rest) interrupted st =
     (case draw width_of d (cs_app st) of
        None \<Rightarrow> (st, Panicked)
      | Some (Inl e) \<Rightarrow> (st, Returned (Err e))
      | Some (Inr app) \<Rightarrow>
          (let st1 = st\<lparr>cs_app := app\<rparr>
           in case i of
                In_Stream None \<Rightarrow>
                  (st1\<lparr>cs_app := finish_turn_with_error ''stream closed before turn completion'' app\<rparr>,
                   Returned (Ok ()))
              | In_Stream (Some (Inl e)) \<Rightarrow> (st1, Returned (Err (LE_Client e)))
              | In_Stream (Some (Inr event)) \<Rightarrow>
                  (case consume_thread_event to_text event app of
                     (app1, Inl e) \<Rightarrow> (st1\<lparr>cs_app := app1\<rparr>, Returned (Err e))
                   | (app1, Inr _) \<Rightarrow>
                       (case turn_end event of
                          None \<Rightarrow>
                            run_prompt_loop c width_of to_text turn rest interrupted (st1\<lparr>cs_app := app1\<rparr>)
                        | Some (Inr _) \<Rightarrow> (st1\<lparr>cs_app := finish_turn app1\<rparr>, Returned (Ok ()))
                        | Some (Inl message) \<Rightarrow>
                            (st1\<lparr>cs_app := finish_turn_with_error message app1\<rparr>, Returned (Ok ()))))
              | In_Terminal t \<Rightarrow>
                  (case next_term_event t of
                     Inl e \<Rightarrow> (st1, Returned (Err e))
                   | Inr ev \<Rightarrow>
                       (let (interrupted1, st2) = turn_term_event c turn ev interrupted st1
                        in run_prompt_loop c width_of to_text turn rest interrupted1 st2))))"

definition prompt_options :: "turn_options \<Rightarrow> chat_app \<Rightarrow> turn_options" where
  "prompt_options base app =
     base\<lparr>turn_opt_model := Some (ca_model app),
          turn_opt_model_reasoning_effort := Some (ca_effort app)\<rparr>"

definition run_prompt ::
  "codex \<Rightarrow> (string \<Rightarrow> nat) \<Rightarrow> (json \<Rightarrow> string + string) \<Rightarrow> turn_options \<Rightarrow> string
    \<Rightarrow> (drawn \<times> turn_input) list \<Rightarrow> chat_state \<Rightarrow> chat_state \<times> unit outcome" where
  "run_prompt c width_of to_text base prompt iterations st =
     (let app = submit_user_message prompt (cs_app st)
      in case run_streamed c (Input_Text prompt) (prompt_options base app) (cs_thread st) (cs_inner st) of
           (s1, th1, Inl e) \<Rightarrow>
             (\<lparr>cs_app = finish_turn_with_error
                  (''could not start turn: '' @ client_error_display (codex_displays c) e) app,
               cs_thread = th1, cs_inner = s1\<rparr>, Returned (Ok ()))
         | (s1, th1, Inr streamed) \<Rightarrow>
             run_prompt_loop c width_of to_text (streamed_turn_id streamed) iterations False
               \<lparr>cs_app = app, cs_thread = th1, cs_inner = s1\<rparr>)"

section \<open>Commands\<close>

definition help_text :: string where
  "help_text = join_with [lf]
     [''/compact          compact conversation context'',
      ''/effort [level]    show or set effort'',
      ''/skills            list enabled skills'',
      ''/skill <name>      insert $name into the composer'',
      ''/clear             clear the visible transcript'',
      ''/quit              leave chat'',
      [],
      ''Tab accepts the ghost suggestion. Up/Down selects suggestions or history. PgUp/PgDn scrolls. Ctrl-C clears input or interrupts a running turn. Ctrl-D exits from an empty composer. Prefix a prompt with // to send a literal leading /.'']"

fun execute_command :: "codex \<Rightarrow> chat_command \<Rightarrow> chat_state \<Rightarrow> chat_state \<times> bool" where
  "execute_command c CC_Help st = (st\<lparr>cs_app := append_status help_text (cs_app st)\<rparr>, False)"
| "execute_command c CC_Compact st =
     (let app = set_status ''requesting compaction'' (cs_app st);
          (s1, th1, r) = thread_compact_start c (cs_thread st) (cs_inner st);
          app1 =
            (case r of
               Inr _ \<Rightarrow> append_status ''Compaction requested.'' app
             | Inl e \<Rightarrow> append_error
                 (''Compaction failed: '' @ client_error_display (codex_displays c) e) app)
      in (\<lparr>cs_app = set_status ''ready'' app1, cs_thread = th1, cs_inner = s1\<rparr>, False))"
| "execute_command c CC_ShowEffort st =
     (st\<lparr>cs_app := append_status
           (''Current reasoning effort: '' @ model_reasoning_effort_as_str (ca_effort (cs_app st)) @ [lf] @
            ''Available: '' @ join_with '', '' EFFORTS) (cs_app st)\<rparr>, False)"
| "execute_command c (CC_SetEffort effort) st =
     (st\<lparr>cs_app := append_status
           (''Reasoning effort set to '' @ model_reasoning_effort_as_str effort @ '' for subsequent turns.'')
           ((cs_app st)\<lparr>ca_effort := effort\<rparr>)\<rparr>, False)"
| "execute_command c CC_Skills st =
     (st\<lparr>cs_app := append_status
           (if ca_skills (cs_app st) = []
            then ''No enabled skills were reported for this working directory.''
            else ''Enabled skills (type `$` or `/skill ` to complete):'' @ [lf] @
              join_with [lf] (ca_skills (cs_app st))) (cs_app st)\<rparr>, False)"
| "execute_command c (CC_InsertSkill skill) st =
     (st\<lparr>cs_app :=
           (if ca_skills (cs_app st) \<noteq> [] \<and> skill \<notin> set (ca_skills (cs_app st))
            then append_error (''Unknown skill: '' @ skill) (cs_app st)
            else append_status (''Inserted skill mention `$'' @ skill @ ''`.'')
              (set_input (''$'' @ skill @ '' '') (cs_app st)))\<rparr>, False)"
| "execute_command c CC_Clear st = (st\<lparr>cs_app := clear_transcript (cs_app st)\<rparr>, False)"
| "execute_command c CC_Quit st = (st, True)"
| "execute_command c (CC_Unknown command) st =
     (st\<lparr>cs_app := append_error
           (''Unknown chat command `'' @ command @ ''`. Type `/help` for available commands; use `//` to send a prompt beginning with `/`.'')
           (cs_app st)\<rparr>, False)"

section \<open>The main loop\<close>

datatype loop_input = In_Tick | In_Event term_input

text \<open>What one iteration is given; it reads only what it waits for.\<close>

record chat_iteration =
  it_drawn :: drawn
  it_input :: loop_input
  it_turn :: "(drawn \<times> turn_input) list"

datatype idle_result = Idle_Panic | Idle_Quit chat_state | Idle_Next "string option" chat_state

fun idle_event :: "codex \<Rightarrow> term_event \<Rightarrow> chat_state \<Rightarrow> idle_result" where
  "idle_event c (Ev_Key key) st =
     (if \<not> accepts_key key then Idle_Next None st
      else case handle_idle_key key (cs_app st) of
             None \<Rightarrow> Idle_Panic
           | Some (app, IA_None) \<Rightarrow> Idle_Next None (st\<lparr>cs_app := app\<rparr>)
           | Some (app, IA_Quit) \<Rightarrow> Idle_Quit (st\<lparr>cs_app := app\<rparr>)
           | Some (app, IA_Submit input_line) \<Rightarrow>
               (case parse_input input_line of
                  PI_Empty \<Rightarrow> Idle_Next None (st\<lparr>cs_app := app\<rparr>)
                | PI_Prompt prompt \<Rightarrow> Idle_Next (Some prompt) (st\<lparr>cs_app := app\<rparr>)
                | PI_Command command \<Rightarrow>
                    (let (st1, quit) = execute_command c command (st\<lparr>cs_app := app\<rparr>)
                     in if quit then Idle_Quit st1 else Idle_Next None st1)))"
| "idle_event c (Ev_Paste t) st =
     (case handle_paste t (cs_app st) of
        None \<Rightarrow> Idle_Panic
      | Some app \<Rightarrow> Idle_Next None (st\<lparr>cs_app := app\<rparr>))"
| "idle_event c Ev_Ignored st = Idle_Next None st"

fun run_chat_loop ::
  "codex \<Rightarrow> (string \<Rightarrow> nat) \<Rightarrow> (json \<Rightarrow> string + string) \<Rightarrow> turn_options \<Rightarrow> chat_iteration list
    \<Rightarrow> string option \<Rightarrow> chat_state \<Rightarrow> chat_state \<times> unit outcome"
where
  "run_chat_loop c width_of to_text base [] queued st = (st, Waiting)"
| "run_chat_loop c width_of to_text base (it # its) queued st =
     (case draw width_of (it_drawn it) (cs_app st) of
        None \<Rightarrow> (st, Panicked)
      | Some (Inl e) \<Rightarrow> (st, Returned (Err e))
      | Some (Inr app) \<Rightarrow>
          (let st1 = st\<lparr>cs_app := app\<rparr>
           in case queued of
                Some prompt \<Rightarrow>
                  (if trim prompt = [] then run_chat_loop c width_of to_text base its None st1
                   else case run_prompt c width_of to_text base prompt (it_turn it) st1 of
                     (st2, Returned (Inr _)) \<Rightarrow> run_chat_loop c width_of to_text base its None st2
                   | (st2, Returned (Inl e)) \<Rightarrow> (st2, Returned (Err e))
                   | (st2, Panicked) \<Rightarrow> (st2, Panicked)
                   | (st2, Waiting) \<Rightarrow> (st2, Waiting))
              | None \<Rightarrow>
                  (case it_input it of
                     In_Tick \<Rightarrow>
                       run_chat_loop c width_of to_text base its None
                         (st1\<lparr>cs_app := app\<lparr>ca_tick := ca_tick app + 1\<rparr>\<rparr>)
                   | In_Event t \<Rightarrow>
                       (case next_term_event t of
                          Inl e \<Rightarrow> (st1, Returned (Err e))
                        | Inr ev \<Rightarrow>
                            (case idle_event c ev st1 of
                               Idle_Panic \<Rightarrow> (st1, Panicked)
                             | Idle_Quit st2 \<Rightarrow> (st2, Returned (Ok ()))
                             | Idle_Next queued1 st2 \<Rightarrow>
                                 run_chat_loop c width_of to_text base its queued1 st2)))))"

section \<open>The command\<close>

text \<open>The frames while connecting, the connection and the skills, then the loop.\<close>

definition connecting_app :: "cli_args \<Rightarrow> chat_app" where
  "connecting_app cli =
     (chat_app_new (unwrap_or (cli_model cli) DEFAULT_MODEL)
        (unwrap_or (cli_reasoning_effort cli) MRE_Max) (cli_final_response_only cli)
        (cli_json_output cli))\<lparr>ca_status := ''connecting to Codex'', ca_busy := True\<rparr>"

definition ready_app :: "string list \<Rightarrow> string list \<Rightarrow> chat_app \<Rightarrow> chat_app" where
  "ready_app skills warnings app =
     app\<lparr>ca_skills := skills, ca_metadata_warning := join_with ''; '' warnings,
         ca_status := ''ready'', ca_busy := False\<rparr>"

definition run_in_terminal ::
  "(string \<Rightarrow> nat) \<Rightarrow> (json \<Rightarrow> string + string) \<Rightarrow> 'v luna_world
    \<Rightarrow> (resolved_websocket_url \<Rightarrow> luna_error + (codex \<times> inner)) \<Rightarrow> cli_args \<Rightarrow> drawn \<Rightarrow> drawn
    \<Rightarrow> chat_iteration list \<Rightarrow> unit outcome" where
  "run_in_terminal width_of to_text w connect cli d1 d2 its =
     (let initial_prompt =
        (if cli_prompt_parts cli = [] then None else Some (join_with '' '' (cli_prompt_parts cli)));
          cli1 = cli\<lparr>cli_prompt_parts := []\<rparr>
      in case draw width_of d1 (connecting_app cli1) of
           None \<Rightarrow> Panicked
         | Some (Inl e) \<Rightarrow> Returned (Err e)
         | Some (Inr app) \<Rightarrow>
             (case prepare w connect cli1 of
                Inl e \<Rightarrow> Returned (Err e)
              | Inr (c, s, th, p) \<Rightarrow>
                  (case draw width_of d2
                      (app\<lparr>ca_model := po_model p, ca_effort := po_reasoning_effort p,
                           ca_status := ''loading skills''\<rparr>) of
                     None \<Rightarrow> Panicked
                   | Some (Inl e) \<Rightarrow> Returned (Err e)
                   | Some (Inr app1) \<Rightarrow>
                       (let (s1, skills, warnings) = load_metadata c (po_working_directory p) s
                        in snd (run_chat_loop c width_of to_text (po_turn_options p) its initial_prompt
                             \<lparr>cs_app = ready_app skills warnings app1, cs_thread = th, cs_inner = s1\<rparr>)))))"

definition not_a_terminal :: luna_error where
  "not_a_terminal = LE_Usage
     ''`luna chat` requires an interactive terminal; use `luna exec` for pipes and scripts''"

text \<open>\<open>clear\<close>, \<open>init\<close> and \<open>restore\<close> are the outcomes of the terminal's own operations.\<close>

definition chat_run ::
  "bool \<Rightarrow> bool \<Rightarrow> io_error + unit \<Rightarrow> io_error + unit \<Rightarrow> io_error + unit \<Rightarrow> unit outcome \<Rightarrow> unit outcome" where
  "chat_run stdin_tty stdout_tty clear init restore result =
     (if \<not> stdin_tty \<or> \<not> stdout_tty then Returned (Err not_a_terminal)
      else case clear of
        Inl e \<Rightarrow> Returned (Err (LE_Io e))
      | Inr _ \<Rightarrow>
          (case init of
             Inl e \<Rightarrow> Returned (Err (LE_Io e))
           | Inr _ \<Rightarrow>
               (case result of
                  Returned (Inr _) \<Rightarrow> Returned (map_err LE_Io restore)
                | other \<Rightarrow> other)))"

end
