(* ===== verification/Luna_Chat_Facts.thy ===== *)
theory Luna_Chat_Facts
  imports Luna_Chat_Loop
begin

text \<open>
  Properties of the loops of the chat: whatever is typed, pasted, drawn and received, nothing
  panics; a prompt that returns leaves the chat ready; an interrupt is sent once.
\<close>

section \<open>What the terminal can deliver\<close>

fun term_event_ok :: "term_event \<Rightarrow> bool" where
  "term_event_ok (Ev_Key key) = key_code_ok (key_code key)"
| "term_event_ok (Ev_Paste t) = valid_utf8 t"
| "term_event_ok Ev_Ignored = True"

fun term_input_ok :: "term_input \<Rightarrow> bool" where
  "term_input_ok (Some (Inr ev)) = term_event_ok ev"
| "term_input_ok _ = True"

fun loop_input_ok :: "loop_input \<Rightarrow> bool" where
  "loop_input_ok (In_Event t) = term_input_ok t"
| "loop_input_ok In_Tick = True"

lemma next_term_event_ok: "term_input_ok t \<Longrightarrow> next_term_event t = Inr ev \<Longrightarrow> term_event_ok ev"
  by (cases t rule: term_input_ok.cases) (auto simp: next_term_event_def)

section \<open>The invariant through a turn\<close>

lemma draw_wf:
  assumes "app_wf app"
  shows "case draw width_of d app of None \<Rightarrow> False | Some (Inl e) \<Rightarrow> True | Some (Inr a) \<Rightarrow> app_wf a"
proof (cases d)
  case (Inr inner)
  with chat_render_wf [OF assms, of width_of inner] show ?thesis by (auto simp: draw_def)
qed (simp add: draw_def)

lemma draw_cases:
  assumes "app_wf app"
  obtains e where "draw width_of d app = Some (Inl e)"
  | a where "draw width_of d app = Some (Inr a)" "app_wf a"
  using draw_wf [OF assms, of width_of d] by (auto split: option.splits sum.splits)

lemma app_wf_set_status [simp]: "app_wf (set_status t app) = app_wf app"
  by (simp add: set_status_def)

lemma turn_term_event_wf:
  "app_wf (cs_app st) \<Longrightarrow> app_wf (cs_app (snd (turn_term_event c turn ev interrupted st)))"
  by (cases ev)
    (auto simp: request_interrupt_def handle_scrolling_key_wf split: prod.split sum.split)

lemma run_prompt_loop_wf:
  assumes "app_wf (cs_app st)"
  shows "snd (run_prompt_loop c width_of to_text turn its interrupted st) \<noteq> Panicked \<and>
    app_wf (cs_app (fst (run_prompt_loop c width_of to_text turn its interrupted st)))"
  using assms
proof (induction its arbitrary: interrupted st)
  case Nil
  then show ?case by simp
next
  case (Cons it its)
  obtain d i where it: "it = (d, i)" by fastforce
  from Cons.prems show ?case
  proof (cases rule: draw_cases [of _ width_of d])
    case (1 e)
    then show ?thesis using Cons.prems by (simp add: it)
  next
    case (2 a)
    let ?st1 = "st\<lparr>cs_app := a\<rparr>"
    show ?thesis
    proof (cases i)
      case (In_Terminal t)
      show ?thesis
      proof (cases "next_term_event t")
        case (Inr ev)
        obtain n st2 where "turn_term_event c turn ev interrupted ?st1 = (n, st2)" by fastforce
        with Cons.IH [of st2 n] turn_term_event_wf [of ?st1 c turn ev interrupted] 2 In_Terminal Inr
        show ?thesis by (simp add: it)
      qed (use 2 In_Terminal in \<open>simp add: it\<close>)
    next
      case (In_Stream item)
      consider "item = None" | e where "item = Some (Inl e)" | event where "item = Some (Inr event)"
        by (cases item) (auto, metis sum.exhaust)
      then show ?thesis
      proof cases
        case (3 event)
        obtain app1 r where r: "consume_thread_event to_text event a = (app1, r)" by fastforce
        moreover from this 2 have "app_wf app1" using consume_thread_event_wf [of to_text event a] by simp
        ultimately show ?thesis
          using Cons.IH [of "?st1\<lparr>cs_app := app1\<rparr>" interrupted] 2 In_Stream 3
          by (auto simp: it Let_def split: sum.split option.split)
      qed (use 2 In_Stream in \<open>simp_all add: it\<close>)
    qed
  qed
qed

lemma run_prompt_wf:
  assumes "app_wf (cs_app st)"
  shows "snd (run_prompt c width_of to_text base prompt its st) \<noteq> Panicked \<and>
    app_wf (cs_app (fst (run_prompt c width_of to_text base prompt its st)))"
  using assms
  by (auto simp: run_prompt_def Let_def run_prompt_loop_wf split: prod.split sum.split)

section \<open>The invariant through the composer\<close>

lemma split_at_whitespace_bytes:
  "\<forall>b \<in> set t. continuation_byte b \<Longrightarrow>
     split_at_whitespace (t @ s) = map_option (\<lambda>(a, b). (t @ a, b)) (split_at_whitespace s)"
  by (induction t) (auto simp: strip_whitespace_continuation option.map_comp option.map_ident o_def case_prod_unfold
      simp del: strip_any.simps)

lemma split_at_whitespace_char:
  assumes "utf8_char c"
  shows "split_at_whitespace (c @ s) =
    (if c \<in> set whitespace_encodings then Some ([], s)
     else map_option (\<lambda>(a, b). (c @ a, b)) (split_at_whitespace s))"
proof -
  from assms obtain a t where c: "c = a # t" "\<forall>b \<in> set t. continuation_byte b"
    by (rule utf8_char_bytes)
  with strip_whitespace_char [OF assms, of s] split_at_whitespace_bytes [OF c(2), of s]
  show ?thesis by (simp add: option.map_comp o_def case_prod_unfold)
qed

lemma split_at_whitespace_valid:
  assumes "valid_utf8 s" "split_at_whitespace s = Some (a, b)"
  shows "valid_utf8 b"
proof -
  have "valid_utf8 b"
    if "list_all utf8_char cs" "split_at_whitespace (concat cs) = Some (a, b)" for cs a b
    using that
    by (induction cs arbitrary: a)
      (auto simp: split_at_whitespace_char valid_utf8_concat split: if_splits)
  from this [of "utf8_chars s" a b] assms show ?thesis by (simp add: utf8_chars_valid)
qed

lemma parsed_skill_valid:
  assumes "valid_utf8 raw" "parse_input raw = PI_Command (CC_InsertSkill skill)"
  shows "valid_utf8 skill"
proof -
  have "valid_utf8 (trim raw)" using assms(1) by (rule valid_utf8_trim)
  moreover obtain command argument where *: "split_at_whitespace (trim raw) = Some (command, argument)"
    "skill = trim argument"
    using assms(2)
    by (auto simp: parse_input_def parse_command_def Let_def split: if_splits option.splits sum.splits)
  ultimately show ?thesis by (auto dest: split_at_whitespace_valid intro: valid_utf8_trim)
qed

lemma execute_command_wf:
  assumes "app_wf (cs_app st)" "\<And>skill. command = CC_InsertSkill skill \<Longrightarrow> valid_utf8 skill"
  shows "app_wf (cs_app (fst (execute_command c command st)))"
  using assms
  by (cases "(c, command, st)" rule: execute_command.cases)
    (auto simp: Let_def scroll_wf(3) valid_utf8_append in_range_def
      intro!: app_wf_set_input split: prod.split sum.split)

lemma submitted_valid:
  "app_wf app \<Longrightarrow> handle_idle_key key app = Some (app1, IA_Submit t) \<Longrightarrow> valid_utf8 t"
  by (auto simp: handle_idle_key_def Let_def submit_input_def input_take_def app_wf_def buffer_wf_text
      split: if_splits)

lemma idle_event_wf:
  assumes "app_wf (cs_app st)" "term_event_ok ev"
  shows "case idle_event c ev st of Idle_Panic \<Rightarrow> False | Idle_Quit st1 \<Rightarrow> app_wf (cs_app st1)
    | Idle_Next q st1 \<Rightarrow> app_wf (cs_app st1)"
proof (cases ev)
  case (Ev_Key key)
  obtain app act where app: "handle_idle_key key (cs_app st) = Some (app, act)" "app_wf app"
    using handle_idle_key_wf [OF assms(1), of key] assms(2) Ev_Key by auto
  show ?thesis
  proof (cases act)
    case (IA_Submit t)
    have t: "valid_utf8 t" using submitted_valid [OF assms(1)] app(1) IA_Submit by simp
    have "app_wf (cs_app (fst (execute_command c command (st\<lparr>cs_app := app\<rparr>))))"
      if "parse_input t = PI_Command command" for command
      using that app(2) parsed_skill_valid [OF t] by (intro execute_command_wf) auto
    with app IA_Submit assms(1) Ev_Key show ?thesis
      by (auto simp: Let_def case_prod_unfold split: parsed_input.split)
  qed (use app assms(1) Ev_Key in simp_all)
next
  case (Ev_Paste t)
  with assms handle_paste_wf [of "cs_app st" t] show ?thesis by auto
qed (use assms in simp)

text \<open>
  C20: the chat never panics: from a well-formed state, whatever the keys, the pastes, the frames,
  the timer, the events of the turns and the errors of the terminal, in any order, no slice, no
  index and no edit is out of range, and the state stays well-formed: the cursor is on a
  boundary of valid UTF-8, the history is indexed within its length, and the view is within
  the transcript.
\<close>

theorem chat_never_panics:
  assumes "app_wf (cs_app st)" "\<forall>it \<in> set its. loop_input_ok (it_input it)"
  shows "snd (run_chat_loop c width_of to_text base its queued st) \<noteq> Panicked \<and>
    app_wf (cs_app (fst (run_chat_loop c width_of to_text base its queued st)))"
  using assms
proof (induction its arbitrary: queued st)
  case Nil
  then show ?case by simp
next
  case (Cons it its)
  from Cons.prems(1) show ?case
  proof (cases rule: draw_cases [of _ width_of "it_drawn it"])
    case (1 e)
    then show ?thesis using Cons.prems(1) by simp
  next
    case (2 app)
    let ?st1 = "st\<lparr>cs_app := app\<rparr>"
    have IH: "snd (run_chat_loop c width_of to_text base its q s) \<noteq> Panicked \<and>
        app_wf (cs_app (fst (run_chat_loop c width_of to_text base its q s)))"
      if "app_wf (cs_app s)" for q s
      using Cons.IH that Cons.prems(2) by simp
    show ?thesis
    proof (cases queued)
      case (Some prompt)
      obtain st2 r where r: "run_prompt c width_of to_text base prompt (it_turn it) ?st1 = (st2, r)"
        by fastforce
      with run_prompt_wf [of ?st1 c width_of to_text base prompt "it_turn it"] 2
      have "r \<noteq> Panicked" "app_wf (cs_app st2)" by auto
      with r Some 2 IH show ?thesis by (auto simp: Let_def split: outcome.split sum.split)
    next
      case None
      show ?thesis
      proof (cases "it_input it")
        case (In_Event t)
        show ?thesis
        proof (cases "next_term_event t")
          case (Inr ev)
          then have "term_event_ok ev"
            using Cons.prems(2) In_Event by (auto intro: next_term_event_ok)
          with idle_event_wf [of ?st1 ev c] 2 IH In_Event Inr None show ?thesis
            by (auto simp: Let_def split: idle_result.split idle_result.split_asm)
        qed (use None In_Event 2 in simp)
      qed (use None 2 IH in simp)
    qed
  qed
qed

text \<open>
  A session in which an umlaut is typed, the history is asked for, a blank is pasted and the
  terminal then closes.
\<close>

definition demo_iteration :: "loop_input \<Rightarrow> chat_iteration" where
  "demo_iteration i = \<lparr>it_drawn = Inr (80, 24), it_input = i, it_turn = []\<rparr>"

definition demo_session :: "chat_iteration list" where
  "demo_session = map demo_iteration
     [In_Event (Some (Inr (Ev_Key (char_key [CHR 0xC3, CHR 0xA4])))), In_Tick,
      In_Event (Some (Inr (Ev_Key (plain_key K_Up)))), In_Event (Some (Inr (Ev_Paste '' ''))),
      In_Event None]"

text \<open>A server that never answers.\<close>

definition silent_codex :: codex where
  "silent_codex =
     \<lparr>codex_displays = plain_displays, codex_lock_wait = id,
      codex_env = (\<lambda>i n s. (s, TimedOutWaiting)),
      codex_initialize_params = default_initialize_params ''1''\<rparr>"

definition demo_state :: chat_state where
  "demo_state =
     \<lparr>cs_app = chat_app_new ''m'' MRE_Max False False, cs_thread = start_thread thread_options_default,
      cs_inner = ready_client\<rparr>"

theorem chat_never_panics_witness:
  "snd (run_chat_loop silent_codex length (\<lambda>_. Inr []) turn_options_default demo_session None demo_state)
     \<noteq> Panicked"
proof -
  have start: "app_wf (cs_app demo_state)" by (simp add: app_wf_new demo_state_def)
  have ok: "\<forall>it \<in> set demo_session. loop_input_ok (it_input it)"
    by (simp add: demo_session_def demo_iteration_def char_key_def plain_key_def utf8_char_def
        valid_utf8.simps(2) in_range_def char_width_def)
  show ?thesis
    using chat_never_panics [OF start ok, of silent_codex length "\<lambda>_. Inr []" turn_options_default None]
    by simp
qed

section \<open>The end of a prompt\<close>

lemma draw_keeps:
  assumes "draw width_of d app = Some (Inr a)"
  shows "ca_input a = ca_input app \<and> ca_history a = ca_history app \<and> ca_effort a = ca_effort app"
  using assms
  by (auto simp: draw_def chat_render_def render_transcript_def Let_def split: sum.splits if_splits)

lemma consume_keeps:
  "ca_input (fst (consume_thread_event to_text e app)) = ca_input app"
  "ca_history (fst (consume_thread_event to_text e app)) = ca_history app"
proof -
  have "ca_input (note_completion e (note_answer e app)) = ca_input app \<and>
      ca_history (note_completion e (note_answer e app)) = ca_history app"
    by (cases "(e, app)" rule: note_answer.cases)
      (auto simp: push_final_response_def push_block_def split: option.split)
  then show "ca_input (fst (consume_thread_event to_text e app)) = ca_input app"
    "ca_history (fst (consume_thread_event to_text e app)) = ca_history app"
    by (auto simp: consume_thread_event_def push_block_def push_fragment_def case_prod_unfold Let_def
        split: sum.split option.split)
qed

lemma turn_term_event_keeps:
  "ca_input (cs_app (snd (turn_term_event c turn ev n st))) = ca_input (cs_app st) \<and>
   ca_history (cs_app (snd (turn_term_event c turn ev n st))) = ca_history (cs_app st)"
proof -
  have "ca_input (scrolling_key k b app) = ca_input app \<and> ca_history (scrolling_key k b app) = ca_history app"
    for k b app
    by (cases k) (simp_all add: scroll_up_def scroll_down_def Let_def)
  then show ?thesis
    by (cases ev)
      (auto simp: request_interrupt_def set_status_def append_error_def push_block_def
        handle_scrolling_key_def split: prod.split sum.split)
qed

text \<open>How a turn that returned ended: completed, or with an error in the transcript.\<close>

definition ended :: "(drawn \<times> turn_input) list \<Rightarrow> chat_app \<Rightarrow> bool" where
  "ended its app \<longleftrightarrow>
     (\<exists>usage. In_Stream (Some (Inr (TE_TurnCompleted usage))) \<in> snd ` set its) \<or>
     (\<exists>bs message. ca_transcript app = bs @ [\<lparr>tb_kind = TK_Error, tb_item_id = None, tb_text = message\<rparr>])"

definition ready :: "chat_app \<Rightarrow> bool" where
  "ready app \<longleftrightarrow> \<not> ca_busy app \<and> \<not> ca_turn_running app \<and> ca_status app = ''ready''"

lemma finish_ready:
  "ready (finish_turn app)" "ready (finish_turn_with_error m app)"
  "ended its (finish_turn_with_error m app)"
  "ca_input (finish_turn app) = ca_input app" "ca_input (finish_turn_with_error m app) = ca_input app"
  "ca_history (finish_turn app) = ca_history app" "ca_history (finish_turn_with_error m app) = ca_history app"
  by (auto simp: ready_def ended_def finish_turn_def finish_turn_with_error_def append_error_def push_block_def)

lemma ended_Cons: "ended its app \<Longrightarrow> ended (it # its) app"
  by (auto simp: ended_def)

lemma run_prompt_loop_ends:
  assumes "run_prompt_loop c width_of to_text turn its interrupted st = (st1, Returned (Inr u))"
  shows "ready (cs_app st1) \<and> ended its (cs_app st1) \<and> ca_input (cs_app st1) = ca_input (cs_app st) \<and>
    ca_history (cs_app st1) = ca_history (cs_app st)"
  using assms
proof (induction its arbitrary: interrupted st)
  case Nil
  then show ?case by simp
next
  case (Cons it its)
  obtain d i where it: "it = (d, i)" by fastforce
  with Cons.prems obtain a where a: "draw width_of d (cs_app st) = Some (Inr a)"
    by (auto split: option.splits sum.splits)
  note kept = draw_keeps [OF a]
  let ?st1 = "st\<lparr>cs_app := a\<rparr>"
  show ?case
  proof (cases i)
    case (In_Terminal t)
    obtain ev where ev: "next_term_event t = Inr ev"
      using Cons.prems by (auto simp: it a In_Terminal Let_def split: sum.splits)
    obtain n st2 where n: "turn_term_event c turn ev interrupted ?st1 = (n, st2)" by fastforce
    have "run_prompt_loop c width_of to_text turn its n st2 = (st1, Returned (Inr u))"
      using Cons.prems by (simp add: it a In_Terminal ev n)
    with Cons.IH [of n st2] turn_term_event_keeps [of c turn ev interrupted ?st1] kept n
    show ?thesis by (simp add: ended_Cons)
  next
    case (In_Stream item)
    show ?thesis
    proof (cases item)
      case None
      with Cons.prems kept show ?thesis by (auto simp: it a In_Stream finish_ready)
    next
      case (Some r)
      then obtain event where event: "r = Inr event"
        using Cons.prems by (cases r) (auto simp: it a In_Stream)
      obtain app1 where app1: "consume_thread_event to_text event a = (app1, Inr ())"
        using Cons.prems
        by (auto simp: it a In_Stream Some event Let_def split: prod.splits sum.splits)
      have kept1: "ca_input app1 = ca_input (cs_app st)" "ca_history app1 = ca_history (cs_app st)"
        using consume_keeps [of to_text event a] app1 kept by simp_all
      show ?thesis
      proof (cases "turn_end event")
        case None
        with Cons.prems Cons.IH [of interrupted "?st1\<lparr>cs_app := app1\<rparr>"] kept1 show ?thesis
          by (simp add: it a In_Stream Some event app1 ended_Cons)
      next
        case end_of_turn: (Some result)
        show ?thesis
        proof (cases result)
          case (Inr v)
          have "cs_app st1 = finish_turn app1"
            using Cons.prems end_of_turn Inr by (auto simp: it a In_Stream Some event app1)
          moreover from end_of_turn Inr obtain usage where "event = TE_TurnCompleted usage"
            by (cases event) auto
          ultimately show ?thesis
            using kept1 by (auto simp: it In_Stream Some event finish_ready ended_def)
        next
          case (Inl message)
          with Cons.prems kept1 end_of_turn show ?thesis
            by (auto simp: it a In_Stream Some event app1 finish_ready)
        qed
      qed
    qed
  qed
qed

text \<open>
  A prompt that returns leaves the chat ready for the next one: it is no longer busy and no
  turn is running, what the user has typed and the history are as before, and either the
  turn has completed or the last thing in the transcript is an error; this covers a turn that
  could not be started, one that failed, and a stream that closed.
\<close>

theorem prompt_leaves_chat_ready:
  assumes "run_prompt c width_of to_text base prompt its st = (st1, Returned (Inr u))"
  shows "ready (cs_app st1) \<and> ended its (cs_app st1) \<and> ca_input (cs_app st1) = ca_input (cs_app st) \<and>
    ca_history (cs_app st1) = ca_history (cs_app st)"
proof -
  let ?app = "submit_user_message prompt (cs_app st)"
  have kept: "ca_input ?app = ca_input (cs_app st)" "ca_history ?app = ca_history (cs_app st)"
    by (simp_all add: submit_user_message_def push_block_def)
  obtain s1 th1 r where r: "run_streamed c (Input_Text prompt) (prompt_options base ?app) (cs_thread st)
      (cs_inner st) = (s1, th1, r)"
    by (metis prod_cases3)
  show ?thesis
  proof (cases r)
    case (Inl e)
    with assms r kept show ?thesis by (auto simp: run_prompt_def Let_def finish_ready)
  next
    case (Inr streamed)
    with assms r have "run_prompt_loop c width_of to_text (streamed_turn_id streamed) its False
        \<lparr>cs_app = ?app, cs_thread = th1, cs_inner = s1\<rparr> = (st1, Returned (Inr u))"
      by (simp add: run_prompt_def Let_def)
    from run_prompt_loop_ends [OF this] kept show ?thesis by simp
  qed
qed

theorem prompt_leaves_chat_ready_witness:
  "\<exists>st1. run_prompt silent_codex length (\<lambda>_. Inr []) turn_options_default ''hi'' [] demo_state =
      (st1, Returned (Inr ())) \<and>
    ready (cs_app st1) \<and> ca_input (cs_app st1) = input_buffer_default"
proof -
  let ?app = "submit_user_message ''hi'' (cs_app demo_state)"
  obtain s1 th1 r where r: "run_streamed silent_codex (Input_Text ''hi'')
      (prompt_options turn_options_default ?app) (cs_thread demo_state) (cs_inner demo_state) = (s1, th1, r)"
    by (metis prod_cases3)
  then obtain e where "r = Inl e"
    by (auto simp: run_streamed_def demo_state_def silent_codex_def ensure_thread_started_or_resumed_def
        ensure_initialized_def ensure_ready_with_def start_thread_def client_call_def
        rpc_typed_method_def request_typed_internal_def request_typed_value_internal_def
        request_value_internal_def request_begin_Ok request_gate_def request_finish_def Let_def
        handshake_order)
  with r obtain st1 where st1: "run_prompt silent_codex length (\<lambda>_. Inr []) turn_options_default ''hi'' []
      demo_state = (st1, Returned (Inr ()))"
    by (simp add: run_prompt_def Let_def)
  from prompt_leaves_chat_ready [OF st1] st1 show ?thesis
    by (simp add: demo_state_def chat_app_new_def)
qed

section \<open>Interrupting\<close>

text \<open>
  A turn is interrupted at most once: when the server has accepted the interrupt, nothing
  more is sent in the rest of the turn, however often Ctrl-C is pressed.
\<close>

theorem interrupt_accepted_once:
  "cs_thread (fst (run_prompt_loop c width_of to_text turn its True st)) = cs_thread st \<and>
   cs_inner (fst (run_prompt_loop c width_of to_text turn its True st)) = cs_inner st"
proof (induction its arbitrary: st)
  case Nil
  then show ?case by simp
next
  case (Cons it its)
  obtain d i where it: "it = (d, i)" by fastforce
  have ev: "fst (turn_term_event c turn ev True s) \<and> cs_thread (snd (turn_term_event c turn ev True s)) = cs_thread s
      \<and> cs_inner (snd (turn_term_event c turn ev True s)) = cs_inner s" for ev s
    by (cases ev) (simp_all add: request_interrupt_def)
  show ?case
    using Cons.IH ev
    by (auto simp: it Let_def case_prod_unfold split: option.split sum.split turn_input.split)
qed

end
