(* ===== verification/Luna_Frame.thy ===== *)
theory Luna_Frame
  imports Luna_Transcript
begin

text \<open>
  What a frame of the chat shows besides the transcript: the header, the suggestions, the
  input line with its ghost text and cursor, and the footer, as the texts that
  \<open>crates/luna/src/commands/chat.rs\<close> hands to the widgets. Their styles are left out; how wide
  a text is on the terminal is the parameter \<open>width_of\<close>.
\<close>

section \<open>Header, suggestions and footer\<close>

definition spinner :: "chat_app \<Rightarrow> string" where
  "spinner app = [''.'', ''o'', ''O'', ''o''] ! (unat (ca_tick app) mod 4)"

definition header_spans :: "chat_app \<Rightarrow> string list" where
  "header_spans app =
     ['' LUNA '',
      (if ca_busy app then spinner app else ''o'') @ ''  '' @ ca_model app @ ''  |  effort '' @
        model_reasoning_effort_as_str (ca_effort app) @ ''  |  '' @ ca_status app]"

definition suggestion_height :: "suggestion list \<Rightarrow> nat" where
  "suggestion_height suggestions = (if suggestions = [] then 0 else min (length suggestions) 5 + 2)"

definition suggestion_row :: "suggestion \<Rightarrow> string list" where
  "suggestion_row sg = [pad_right 18 (sg_display sg), sg_description sg]"

definition footer_hint :: "chat_app \<Rightarrow> string" where
  "footer_hint app =
     (if ca_metadata_warning app = []
      then ''Enter send  Tab complete  Up/Down choose or history  PgUp/PgDn scroll  Ctrl-D quit''
      else ca_status app @ ''  |  '' @ ca_metadata_warning app)"

definition splash_lines :: "nat \<Rightarrow> string list" where
  "splash_lines height = replicate ((height - 1) div 2) [] @ [''Luna'']"

section \<open>The input line\<close>

record input_view =
  iv_title :: string
  iv_text :: string
  iv_ghost :: string
  iv_scroll :: u16
  iv_cursor :: "u16 option"

definition input_title :: "chat_app \<Rightarrow> string" where
  "input_title app =
     (if ca_turn_running app then '' Turn running  [Ctrl-C] interrupt ''
      else if ca_busy app then '' Starting Luna ''
      else '' Message '')"

definition ghost_text :: "suggestion list \<Rightarrow> chat_app \<Rightarrow> string" where
  "ghost_text suggestions app =
     (case slot suggestions (ca_selected_suggestion app) of
        Some sg \<Rightarrow>
          if ib_cursor (ca_input app) = length (ib_text (ca_input app))
          then unwrap_or (strip_prefix (ib_text (ca_input app)) (sg_replacement sg)) []
          else []
      | None \<Rightarrow> [])"

text \<open>The column of the cursor is relative to the inside of the block; \<open>as u16\<close> wraps.\<close>

definition render_input :: "(string \<Rightarrow> nat) \<Rightarrow> nat \<Rightarrow> suggestion list \<Rightarrow> chat_app \<Rightarrow> input_view option" where
  "render_input width_of inner_width suggestions app =
     map_option (\<lambda>(before, _).
       (let cursor_width = width_of before;
            visible_width = max inner_width 1;
            horizontal_scroll = cursor_width - (visible_width - 1)
        in \<lparr>iv_title = input_title app,
            iv_text = ib_text (ca_input app),
            iv_ghost = ghost_text suggestions app,
            iv_scroll = of_nat (min horizontal_scroll 65535),
            iv_cursor =
              (if ca_busy app then None
               else Some (of_nat (cursor_width - horizontal_scroll)))\<rparr>))
       (slices (ib_text (ca_input app)) (ib_cursor (ca_input app)))"

section \<open>What the composer shows is what it does\<close>

lemma ghost_is_accepted:
  assumes "ghost_text (app_suggestions app) app \<noteq> []"
  shows "ca_input (accept_suggestion app) =
    \<lparr>ib_text = ib_text (ca_input app) @ ghost_text (app_suggestions app) app,
     ib_cursor = length (ib_text (ca_input app) @ ghost_text (app_suggestions app) app)\<rparr>"
proof -
  from assms obtain sg where sg: "slot (app_suggestions app) (ca_selected_suggestion app) = Some sg"
    "ghost_text (app_suggestions app) app =
      unwrap_or (strip_prefix (ib_text (ca_input app)) (sg_replacement sg)) []"
    by (auto simp: ghost_text_def split: option.splits if_splits)
  with assms obtain rest where "strip_prefix (ib_text (ca_input app)) (sg_replacement sg) = Some rest"
    by (cases "strip_prefix (ib_text (ca_input app)) (sg_replacement sg)") auto
  with sg show ?thesis
    by (simp add: accept_suggestion_def set_input_def input_set_def strip_prefix_Some_iff)
qed

text \<open>
  The composer shows what it does: its cursor is inside the visible part of the line, however
  long the line and narrow the terminal are, and while no turn runs; and when grey text follows
  the input, Tab completes the input by exactly that text and leaves the cursor behind it.
\<close>

theorem composer_shows_what_it_does:
  assumes "app_wf app" "inner_width \<le> 65536"
  shows "\<exists>v. render_input width_of inner_width (app_suggestions app) app = Some v \<and>
    iv_text v = ib_text (ca_input app) \<and>
    (case iv_cursor v of
       Some column \<Rightarrow> \<not> ca_busy app \<and> unat column < max inner_width 1
     | None \<Rightarrow> ca_busy app) \<and>
    (iv_ghost v = [] \<or>
      ca_input (accept_suggestion app) =
        \<lparr>ib_text = iv_text v @ iv_ghost v, ib_cursor = length (iv_text v @ iv_ghost v)\<rparr>)"
proof -
  obtain before after where cut: "slices (ib_text (ca_input app)) (ib_cursor (ca_input app)) = Some (before, after)"
    using assms(1) by (auto simp: app_wf_def buffer_wf_def slices_def)
  define column where "column = width_of before - (width_of before - (max inner_width 1 - 1))"
  have "render_input width_of inner_width (app_suggestions app) app =
    Some \<lparr>iv_title = input_title app, iv_text = ib_text (ca_input app),
      iv_ghost = ghost_text (app_suggestions app) app,
      iv_scroll = of_nat (min (width_of before - (max inner_width 1 - 1)) 65535),
      iv_cursor = (if ca_busy app then None else Some (of_nat column))\<rparr>"
    by (simp only: render_input_def cut Let_def option.map prod.case column_def)
  moreover have "column < max inner_width 1" "column < 2 ^ 16"
    using assms(2) by (auto simp: column_def)
  moreover from this(2) have "unat (of_nat column :: u16) = column"
    by (simp add: unsigned_of_nat take_bit_nat_eq_self)
  ultimately show ?thesis using ghost_is_accepted [of app] by auto
qed

theorem composer_shows_what_it_does_witness:
  "\<exists>v. render_input length 3 (app_suggestions ((chat_app_new ''m'' MRE_Max False False)
       \<lparr>ca_input := \<lparr>ib_text = ''/comp'', ib_cursor = 5\<rparr>\<rparr>)) ((chat_app_new ''m'' MRE_Max False False)
       \<lparr>ca_input := \<lparr>ib_text = ''/comp'', ib_cursor = 5\<rparr>\<rparr>) = Some v \<and> iv_text v = ''/comp''"
proof -
  let ?app = "(chat_app_new ''m'' MRE_Max False False)\<lparr>ca_input := \<lparr>ib_text = ''/comp'', ib_cursor = 5\<rparr>\<rparr>"
  have "app_wf ?app"
    by (simp add: app_wf_def chat_app_new_def buffer_wf_def) code_simp
  then show ?thesis
    using composer_shows_what_it_does [of ?app 3 length] by auto
qed

end
