(* ===== verification/Luna_Main.thy ===== *)
theory Luna_Main
  imports Luna_Doctor Luna_Chat_Loop
begin

text \<open>
  The whole of \<open>luna\<close>: \<open>main.rs\<close> and the dispatch of \<open>commands/mod.rs\<close>, which compose the
  command line, the commands and the errors into the exit status of the process and what it
  prints on standard error.
\<close>

section \<open>The process\<close>

text \<open>
  What a run depends on besides its arguments: the parser and the completion scripts of clap,
  the world of the commands, the connection, the terminal, and whether the standard streams
  take what is printed.
\<close>

record ('v, 's, 'w) luna_process =
  lp_args :: "string list"
  lp_clap :: "string list \<Rightarrow> clap_error + 's cli_command"
  lp_help :: string
  lp_generated :: "'s \<Rightarrow> bool"
  lp_world :: "'v luna_world"
  lp_fuel :: nat
  lp_host :: host_env
  lp_machine :: machine
  lp_connect :: "cli_args \<Rightarrow> resolved_websocket_url \<Rightarrow> luna_error + (codex \<times> inner)"
  lp_stdin_tty :: bool
  lp_stdin :: "io_error + string"
  lp_stdout_tty :: bool
  lp_writer :: "'w writer"
  lp_out :: 'w
  lp_prints :: "string \<Rightarrow> bool"
  lp_eprints :: "string \<Rightarrow> bool"
  lp_paint :: paint
  lp_styled :: bool
  lp_styled_err :: bool
  lp_to_text :: "json \<Rightarrow> string + string"
  lp_recvs :: "streamed_turn \<Rightarrow> inner \<Rightarrow> recv list"
  lp_width :: "string \<Rightarrow> nat"
  lp_terminal :: "io_error + unit"
  lp_cleared :: "io_error + unit"
  lp_restored :: "io_error + unit"
  lp_frames :: "drawn \<times> drawn"
  lp_chat :: "chat_iteration list"
  lp_doctor :: doctor_host
  lp_pretty :: "json \<Rightarrow> string + string"
  lp_newline :: "io_error + unit"

text \<open>\<open>print!\<close> and \<open>println!\<close> panic when the standard output does not take the text.\<close>

definition printing :: "('v, 's, 'w) luna_process \<Rightarrow> string \<Rightarrow> nat outcome \<Rightarrow> nat outcome" where
  "printing p text after = (if lp_prints p text then after else Panicked)"

definition succeeded :: "nat outcome" where
  "succeeded = Returned (Ok 0)"

section \<open>The commands\<close>

definition luna_exec :: "('v, 's, 'w) luna_process \<Rightarrow> cli_args \<Rightarrow> nat outcome" where
  "luna_exec p cli =
     (case snd (exec_run (lp_writer p) (lp_paint p) (lp_styled p) (lp_to_text p) (lp_recvs p)
             (lp_world p) (lp_connect p cli) (lp_stdin_tty p) (lp_stdin p) cli (lp_out p)) of
        None \<Rightarrow> Waiting
      | Some r \<Rightarrow> Returned (map_ok (\<lambda>_. 0) r))"

definition luna_chat :: "('v, 's, 'w) luna_process \<Rightarrow> cli_args \<Rightarrow> nat outcome" where
  "luna_chat p cli =
     (case chat_run (lp_stdin_tty p) (lp_stdout_tty p) (lp_cleared p) (lp_terminal p) (lp_restored p)
             (run_in_terminal (lp_width p) (lp_to_text p) (lp_world p) (lp_connect p cli) cli
                (fst (lp_frames p)) (snd (lp_frames p)) (lp_chat p)) of
        Panicked \<Rightarrow> Panicked
      | Waiting \<Rightarrow> Waiting
      | Returned r \<Rightarrow> Returned (map_ok (\<lambda>_. 0) r))"

definition luna_start :: "('v, 's, 'w) luna_process \<Rightarrow> cli_args \<Rightarrow> nat outcome" where
  "luna_start p cli =
     (case start_run (lp_fuel p) (lp_host p) (lp_machine p) (lw_env (lp_world p)) cli [] of
        None \<Rightarrow> Waiting
      | Some (_, Inl e) \<Rightarrow> Returned (Err e)
      | Some (_, Inr text) \<Rightarrow> printing p text succeeded)"

definition luna_sessions :: "('v, 's, 'w) luna_process \<Rightarrow> cli_args \<Rightarrow> nat outcome" where
  "luna_sessions p cli =
     (case sessions_run (lp_world p) (lp_connect p cli) cli of
        Inl e \<Rightarrow> Returned (Err e)
      | Inr ls \<Rightarrow> foldr (\<lambda>l. printing p (l @ [lf])) ls succeeded)"

text \<open>The JSON report is written, not printed: its failure is an error of the run.\<close>

definition luna_doctor :: "('v, 's, 'w) luna_process \<Rightarrow> cli_args \<Rightarrow> nat outcome" where
  "luna_doctor p cli =
     (case doctor_run (lp_pretty p) (lp_newline p) (lp_doctor p) cli of
        Inl e \<Rightarrow> Returned (Err e)
      | Inr (text, status) \<Rightarrow>
          (if cli_json_output cli then Returned (Ok status)
           else printing p text (Returned (Ok status))))"

section \<open>Dispatch and main\<close>

fun luna_command :: "('v, 's, 'w) luna_process \<Rightarrow> command_kind \<Rightarrow> cli_args \<Rightarrow> nat outcome" where
  "luna_command p CK_Exec cli = luna_exec p cli"
| "luna_command p CK_Chat cli = luna_chat p cli"
| "luna_command p CK_Start cli = luna_start p cli"
| "luna_command p CK_Sessions cli = luna_sessions p cli"
| "luna_command p CK_Doctor cli = luna_doctor p cli"

definition completions_run :: "('v, 's, 'w) luna_process \<Rightarrow> 's \<Rightarrow> nat outcome" where
  "completions_run p shell = (if lp_generated p shell then succeeded else Panicked)"

fun luna_dispatch :: "('v, 's, 'w) luna_process \<Rightarrow> 's parsed_command \<Rightarrow> nat outcome" where
  "luna_dispatch p (PC_Help help) = printing p help succeeded"
| "luna_dispatch p (PC_Version version) = printing p version succeeded"
| "luna_dispatch p (PC_Completions shell) = completions_run p shell"
| "luna_dispatch p (PC_Run cli) = luna_command p (cli_command_kind cli) cli"

definition luna_parsed :: "('v, 's, 'w) luna_process \<Rightarrow> luna_error + 's parsed_command" where
  "luna_parsed p = parse_cli_args (lp_clap p) (lw_read (lp_world p)) (lp_args p)"

definition luna_run :: "('v, 's, 'w) luna_process \<Rightarrow> nat outcome" where
  "luna_run p = (case luna_parsed p of Inl e \<Rightarrow> Returned (Err e) | Inr command \<Rightarrow> luna_dispatch p command)"

text \<open>
  How the process ends: it may still be running, be aborted by a panic, or exit with a status
  after printing a text on standard error. \<open>eprint!\<close> panics when that text is not taken.
\<close>

datatype process_end = Still_Running | Aborted | Exited nat string

definition luna_main :: "('v, 's, 'w) luna_process \<Rightarrow> process_end" where
  "luna_main p =
     (case luna_run p of
        Panicked \<Rightarrow> Aborted
      | Waiting \<Rightarrow> Still_Running
      | Returned (Inr code) \<Rightarrow> Exited (main_exit_status (Ok code)) []
      | Returned (Inl e) \<Rightarrow>
          (let stderr = main_stderr (lw_displays (lp_world p))
                 (styling_render (lp_paint p) (lp_styled_err p) RK_Error) (lp_help p) e
           in if lp_eprints p stderr then Exited (main_exit_status (Err e)) stderr else Aborted))"

section \<open>What the exit status tells\<close>

lemma printing_code:
  "printing p text after = Returned r \<longleftrightarrow> lp_prints p text \<and> after = Returned r"
  by (simp add: printing_def)

lemma printing_lines_code:
  "foldr (\<lambda>l. printing p (g l)) ls after = Returned r \<Longrightarrow> after = Returned r"
  by (induction ls) (simp_all add: printing_code)

lemma map_ok_zero [simp]: "map_ok (\<lambda>_. 0) r = Inr code \<longleftrightarrow> code = 0 \<and> (\<exists>a. r = Inr a)"
  by (cases r) auto

lemmas luna_commands_def =
  luna_exec_def luna_chat_def luna_start_def luna_sessions_def luna_doctor_def succeeded_def

lemma doctor_run_status:
  assumes "doctor_run pretty newline h cli = Inr (t, status)"
  shows "status = 0 \<or> status = 1"
  using assms by (auto simp: doctor_run_def and_then_Inr_iff split: if_splits)

lemma luna_command_code:
  assumes "luna_command p kind cli = Returned (Inr code)"
  shows "code = 0 \<or> code = 1 \<and> kind = CK_Doctor"
  using assms
  by (cases kind)
    (auto simp: luna_commands_def printing_code dest: printing_lines_code doctor_run_status
      split: option.splits outcome.splits sum.splits if_splits prod.splits)

lemma luna_run_code:
  assumes "luna_run p = Returned (Inr code)"
  shows "code = 0 \<or> code = 1 \<and> (\<exists>cli. luna_parsed p = Ok (PC_Run cli) \<and> cli_command_kind cli = CK_Doctor)"
proof (cases "luna_parsed p")
  case (Inr command)
  with assms have "luna_dispatch p command = Returned (Inr code)" by (simp add: luna_run_def)
  then show ?thesis
    using Inr luna_command_code
    by (cases command) (auto simp: printing_code succeeded_def completions_run_def split: if_splits)
qed (use assms in \<open>simp add: luna_run_def\<close>)

lemma luna_main_exited:
  "luna_main p = Exited status stderr \<longleftrightarrow>
     luna_run p = Returned (Inr status) \<and> stderr = [] \<or>
     (\<exists>e. luna_run p = Returned (Inl e) \<and> status = luna_exit_code e \<and>
        stderr = main_stderr (lw_displays (lp_world p))
          (styling_render (lp_paint p) (lp_styled_err p) RK_Error) (lp_help p) e \<and>
        lp_eprints p stderr)"
  by (auto simp: luna_main_def main_exit_status_def Let_def split: outcome.splits sum.splits)

lemma luna_exit_code_range: "1 \<le> luna_exit_code e \<and> luna_exit_code e \<le> 8"
  by (simp add: luna_exit_code_def Let_def)

lemma luna_exit_code_pos: "0 \<noteq> luna_exit_code e"
  using luna_exit_code_range [of e] by simp


section \<open>What success means\<close>

lemma stream_json_ok:
  assumes "snd (stream_json_events W to_text closed items w) = Some (Ok u)"
  shows "first_verdict items = Some (Ok ()) \<or> closed \<and> first_verdict items = None"
  using assms
proof (induction items arbitrary: w)
  case (Cons item items)
  then show ?case
    by (cases item) (auto split: sum.splits option.splits prod.splits simp: Let_def split_beta)
qed (simp split: if_splits)

lemma stream_human_ok:
  assumes "snd (stream_human_events W paint enabled text_of closed items streamed h) = Some (Ok u)"
  shows "first_verdict items = Some (Ok ())"
  using assms
proof (induction items arbitrary: h streamed)
  case (Cons item items)
  then show ?case
    by (cases item)
      (auto split: sum.splits option.splits prod.splits simp: Let_def split_beta and_then_Inr_iff)
qed (simp split: if_splits)

text \<open>The events a streamed turn hands to the command, and whether its stream has ended.\<close>

definition turn_events :: "(streamed_turn \<Rightarrow> inner \<Rightarrow> recv list) \<Rightarrow> streamed_turn \<Rightarrow> inner \<Rightarrow> stream_item list" where
  "turn_events recvs st s =
     stream_prefix (streamed_started st) @
     fst (pump_turn_events (streamed_thread_id st) (streamed_turn_id st) None None (recvs st s))"

definition turn_stream_ended :: "(streamed_turn \<Rightarrow> inner \<Rightarrow> recv list) \<Rightarrow> streamed_turn \<Rightarrow> inner \<Rightarrow> bool" where
  "turn_stream_ended recvs st s \<longleftrightarrow>
     \<not> snd (pump_turn_events (streamed_thread_id st) (streamed_turn_id st) None None (recvs st s))"

lemma exec_turn_ok:
  assumes "snd (exec_turn W paint enabled to_text recvs cli prompt c s th opts out) = Some (Ok u)"
    and "\<not> cli_final_response_only cli"
  shows "\<exists>s1 th1 st. run_streamed c (Input_Text prompt) opts th s = (s1, th1, Ok st) \<and>
    (first_verdict (turn_events recvs st s1) = Some (Ok ()) \<or>
     cli_json_output cli \<and> turn_stream_ended recvs st s1 \<and>
     first_verdict (turn_events recvs st s1) = None)"
proof -
  obtain s1 th1 st where run: "run_streamed c (Input_Text prompt) opts th s = (s1, th1, Ok st)"
    using assms by (auto simp: exec_turn_def split: prod.splits sum.splits)
  with assms show ?thesis
    by (auto simp: exec_turn_def turn_events_def turn_stream_ended_def Let_def split_beta
        dest!: stream_human_ok stream_json_ok split: if_splits)
qed


section \<open>A run\<close>

text \<open>
  A run of \<open>luna exec --stdio hi\<close> against a server that is signed in, starts a thread and a turn,
  and completes it.
\<close>

definition demo_exec_arguments :: turn_cli_arguments where
  "demo_exec_arguments =
     \<lparr>arg_transport = demo_transport, arg_agent = None, arg_cwd = None, arg_model = None,
      arg_model_provider = None, arg_reasoning_effort = None, arg_reasoning_summary = None,
      arg_model_verbosity = None, arg_fast = False, arg_config_profile = None,
      arg_approval_policy = None, arg_sandbox = None, arg_sandbox_policy_json = None,
      arg_sandbox_network_access_enabled = False, arg_sandbox_network_access_disabled = False,
      arg_sandbox_writable_root = [], arg_web_search_mode = None, arg_dynamic_tools_json = None,
      arg_personality = None, arg_base_instructions = None, arg_developer_instructions = None,
      arg_ephemeral = False, arg_experimental_raw_events = False,
      arg_persist_extended_history = False, arg_continue_last = False, arg_resume = None,
      arg_config = [], arg_config_json = None, arg_output_schema_json = None,
      arg_output_schema_file = None, arg_turn_extra_json = None, arg_final_response = False,
      arg_json = False, arg_prompt = [''hi'']\<rparr>"

definition signed_in_server :: rpc_server where
  "signed_in_server m p =
     (if m = ''account/read'' then Ok (JObject [(''isLoggedIn'', JBool True)]) else demo_server m p)"

definition completed_turn :: turn where
  "completed_turn =
     \<lparr>turn_id = ''u1'', turn_status = Some ''completed'', turn_items = [], turn_error = None,
      turn_extra = []\<rparr>"

definition demo_process :: "clap_error + unit cli_command \<Rightarrow> (unit, unit, string \<times> nat option) luna_process" where
  "demo_process parsed =
     \<lparr>lp_args = [''exec'', ''--stdio'', ''hi''], lp_clap = (\<lambda>_. parsed), lp_help = ''help'',
      lp_generated = (\<lambda>_. True), lp_world = bare_world, lp_fuel = 0, lp_host = plain_env,
      lp_machine = good_machine,
      lp_connect = (\<lambda>_ _. Ok (served_codex plain_displays signed_in_server (default_initialize_params ''1''),
         ready_client)),
      lp_stdin_tty = True, lp_stdin = Ok [], lp_stdout_tty = True,
      lp_writer = bounded (IoError OtherKind ''broken''), lp_out = ([], None),
      lp_prints = (\<lambda>_. True), lp_eprints = (\<lambda>_. True), lp_paint = (\<lambda>_ t. t), lp_styled = False,
      lp_styled_err = False, lp_to_text = (\<lambda>_. Ok []),
      lp_recvs = (\<lambda>_ _. [Received (Notification (SN_TurnCompleted
         \<lparr>turn_completed_turn = completed_turn, turn_completed_extra = []\<rparr>))]),
      lp_width = length, lp_terminal = Ok (), lp_cleared = Ok (), lp_restored = Ok (),
      lp_frames = (Inr (80, 24), Inr (80, 24)), lp_chat = [], lp_doctor = working_host,
      lp_pretty = (\<lambda>_. Ok []), lp_newline = Ok ()\<rparr>"

lemma demo_process_simps [simp]:
  "lp_eprints (demo_process parsed) t"
  "lp_paint (demo_process parsed) = (\<lambda>_ t. t)"
  "lp_styled_err (demo_process parsed) = False"
  "lp_world (demo_process parsed) = bare_world"
  "lp_stdin_tty (demo_process parsed) = True"
  "lp_writer (demo_process parsed) = bounded (IoError OtherKind ''broken'')"
  "lp_out (demo_process parsed) = ([], None)"
  "lp_connect (demo_process parsed) cli r =
     Ok (served_codex plain_displays signed_in_server (default_initialize_params ''1''), ready_client)"
  by (simp_all add: demo_process_def)

lemma demo_process_parsed:
  "luna_parsed (demo_process parsed) =
     parse_cli_args (\<lambda>_. parsed) (lw_read bare_world) [''exec'', ''--stdio'', ''hi'']"
  by (simp add: luna_parsed_def demo_process_def)


lemma demo_exec_parsed:
  "luna_parsed (demo_process (Inr (Cmd_Exec demo_exec_arguments))) =
     Ok (PC_Run ((empty_cli_args CK_Exec StdioMode)\<lparr>cli_prompt_parts := [''hi'']\<rparr>))"
  unfolding demo_process_parsed
  by (simp add: parse_cli_args_def normalize_legacy_cli_args_def upt_rec turn_cli_args_def
      demo_exec_arguments_def apply_transport_args_def demo_transport_def
      normalize_optional_string_def map_transpose_def resolve_ws_auth_token_def
      transport_mode_of_def empty_cli_args_def parse_wire_enum_def)

lemma served_run_streamed:
  fixes tr ur
  defines "i \<equiv> thread_summary_id (thread_result_thread tr)"
  assumes srv: "accepts srv params tr ur" and ok: "usable srv s"
  shows "\<exists>t th1 pos. run_streamed (served_codex d srv params) inp topts (start_thread opts) s =
    (t, th1, Ok \<lparr>streamed_turn_id = turn_id (turn_result_turn ur), streamed_thread_id = i,
      streamed_started = Some i, streamed_from = pos\<rparr>)"
proof -
  have thread: "\<And>p. srv ''thread/start'' p = Ok (thread_result_enc tr)" "thread_result_wf tr"
    and turn: "\<And>p. srv ''turn/start'' p = Ok (turn_result_enc ur)" "turn_result_wf ur"
    using srv by (simp_all add: accepts_def)
  have init: "ensure_initialized (served_codex d srv params) s = (s, Ok ())"
    using ok by (simp add: ensure_initialized_def ensure_ready_with_def usable_def)
  obtain t where t: "served.typed d srv thread_result_dec ''thread/start''
      (thread_start_params_enc (build_thread_start_params opts)) s = (t, Ok tr)" "usable srv t"
    using served.typed_Ok [OF ok thread(1), of thread_result_dec, OF thread_result.roundtrip [OF thread(2)]]
    by blast
  obtain u where "served.typed d srv turn_result_dec ''turn/start''
      (turn_start_params_enc (build_turn_start_params i inp opts topts)) t = (u, Ok ur)"
    using served.typed_Ok [OF t(2) turn(1), of turn_result_dec, OF turn_result.roundtrip [OF turn(2)]]
    by blast
  with t(1) show ?thesis
    by (simp add: run_streamed_def ensure_thread_started_or_resumed_def init start_thread_def
        served_client_call Let_def i_def)
qed

lemma signed_in_usable: "usable signed_in_server ready_client"
  using demo_server_accepts by (auto simp: usable_def ready_client_inv accepts_def sane_server_def
      signed_in_server_def split: if_splits)

lemma signed_in_accepts:
  "\<exists>tr ur. accepts signed_in_server params tr ur \<and>
     thread_summary_id (thread_result_thread tr) = ''t1'' \<and> turn_id (turn_result_turn ur) = ''u1''"
  using demo_server_accepts [of params] signed_in_usable
  by (auto simp: accepts_def usable_def signed_in_server_def METHOD_INITIALIZE_def summary_at_def
      intro!: exI)

lemma demo_prepared:
  defines "cli \<equiv> (empty_cli_args CK_Exec StdioMode)\<lparr>cli_prompt_parts := [''hi'']\<rparr>"
  shows "\<exists>s q. prepare bare_world (lp_connect (demo_process parsed) cli) cli =
    Ok (served_codex plain_displays signed_in_server (default_initialize_params ''1''), s,
      start_thread (po_thread_options q), q) \<and> usable signed_in_server s"
proof -
  obtain q where q: "prepare_options bare_world cli = Ok q"
    by (simp add: prepare_options_def empty_cli_args_def bare_world_def cli_def
        resolve_current_working_directory_def build_thread_config_def parse_optional_json_object_def
        config_flags_of_def flag_rows_def insert_optional_def parse_optional_json_value_def
        resolve_output_schema_def parse_optional_dynamic_tools_def map_transpose_def)
  let ?account = "\<lparr>opaque_extra = [(''isLoggedIn'', JBool True)]\<rparr> :: opaque_struct"
  have "opaque_struct_dec (JObject [(''isLoggedIn'', JBool True)]) = Ok ?account"
    by (simp add: opaque_struct_dec_def of_object_def get_extra_def)
  then obtain s where s: "codex_typed_forward
      (served_codex plain_displays signed_in_server (default_initialize_params ''1''))
      get_account_params_enc opaque_struct_dec ''account/read'' get_account_params_default ready_client =
      (s, Ok ?account)" "usable signed_in_server s"
    using served_forward [OF signed_in_usable, of plain_displays "default_initialize_params ''1''"
        get_account_params_enc opaque_struct_dec "''account/read''" get_account_params_default]
    by (auto simp: signed_in_server_def)
  then have "ensure_authenticated
      (served_codex plain_displays signed_in_server (default_initialize_params ''1'')) env ready_client =
      (s, Ok ())" for env
    by (simp add: ensure_authenticated_def account_is_authenticated_def jget_Cons)
  with q s(2) show ?thesis
    by (simp add: prepare_def websocket_url_for_def prepared_thread_def cli_def empty_cli_args_def)
qed

lemma demo_pumped:
  "pump_turn_events ''t1'' ''u1'' None None (lp_recvs (demo_process parsed) st s) =
   ([Ok (TE_TurnCompleted None)], False)"
  by (simp add: demo_process_def pump_turn_completed_def matches_target_from_extra_def completed_turn_def Let_def
      parse_usage_from_turn_extra_def eq_ignore_ascii_case_def to_ascii_lowercase_def
      ascii_lower_char_def field_with_def)

lemma demo_exec_succeeds:
  "luna_main (demo_process (Inr (Cmd_Exec demo_exec_arguments))) = Exited 0 []"
proof -
  let ?p = "demo_process (Inr (Cmd_Exec demo_exec_arguments))"
  let ?cli = "(empty_cli_args CK_Exec StdioMode)\<lparr>cli_prompt_parts := [''hi'']\<rparr>"
  let ?c = "served_codex plain_displays signed_in_server (default_initialize_params ''1'')"
  obtain s q where prep: "prepare bare_world (lp_connect ?p ?cli) ?cli =
      Ok (?c, s, start_thread (po_thread_options q), q)" "usable signed_in_server s"
    using demo_prepared by blast
  obtain tr ur where srv: "accepts signed_in_server (default_initialize_params ''1'') tr ur"
    "thread_summary_id (thread_result_thread tr) = ''t1''" "turn_id (turn_result_turn ur) = ''u1''"
    using signed_in_accepts by blast
  obtain t th1 pos where run: "run_streamed ?c (Input_Text ''hi'') (po_turn_options q)
      (start_thread (po_thread_options q)) s =
      (t, th1, Ok \<lparr>streamed_turn_id = ''u1'', streamed_thread_id = ''t1'',
        streamed_started = Some ''t1'', streamed_from = pos\<rparr>)"
    using served_run_streamed [OF srv(1) prep(2)] srv(2,3) by fastforce
  have "snd (exec_run (lp_writer ?p) (lp_paint ?p) (lp_styled ?p) (lp_to_text ?p) (lp_recvs ?p)
      (lp_world ?p) (lp_connect ?p ?cli) (lp_stdin_tty ?p) (lp_stdin ?p) ?cli (lp_out ?p)) = Some (Ok ())"
  proof -
    let ?items = "stream_prefix (Some ''t1'') @ [Ok (TE_TurnCompleted None)]"
    have "snd (ho_writer (human_new ([], None))) = None" by (simp add: human_new_def)
    from human_stream [OF this, of "IoError OtherKind ''broken''" "lp_paint ?p" "lp_styled ?p"
        "\<lambda>v. case lp_to_text ?p v of Inr t \<Rightarrow> Some t | Inl _ \<Rightarrow> None" True ?items "{}"]
    have "snd (stream_human_events (bounded (IoError OtherKind ''broken'')) (lp_paint ?p) (lp_styled ?p)
        (\<lambda>v. case lp_to_text ?p v of Inr t \<Rightarrow> Some t | Inl _ \<Rightarrow> None) True ?items {}
        (human_new ([], None))) = Some (Ok ())"
      by (auto simp: stream_prefix_def)
    with prep(1) run show ?thesis
      by (simp add: exec_run_def exec_turn_def resolve_prompt_def demo_pumped empty_cli_args_def
          Let_def split_beta)
  qed
  then have "luna_run ?p = Returned (Ok 0)"
    by (simp add: luna_run_def demo_exec_parsed luna_exec_def)
  then show ?thesis by (simp add: luna_main_def main_exit_status_def)
qed


end
