(* ===== verification/Agx_Config.thy ===== *)
theory Agx_Config
  imports Luna_Text
begin

text \<open>
  The tool \<open>agx\<close> (\<open>crates/agx/src/main.rs\<close>), up to the options of its thread: how it finds an
  agent's file, what it makes of it, and the thread options. Errors are \<open>anyhow\<close> errors: the
  texts of the chain, the outermost first. Files and TOML are parameters.
\<close>

type_synonym anyhow = "string list"

definition with_context :: "string \<Rightarrow> anyhow + 'a \<Rightarrow> anyhow + 'a" where
  "with_context c r = map_err (Cons c) r"

lemma with_context_Ok [simp]: "with_context c r = Inr x \<longleftrightarrow> r = Inr x"
  by (cases r) (simp_all add: with_context_def)

section \<open>Where an agent is found\<close>

datatype agent_scope = Scope_Project | Scope_User

record resolved_agent_config =
  ra_scope :: agent_scope
  ra_path :: string

definition exists_path :: "metadata \<Rightarrow> string \<Rightarrow> bool" where
  "exists_path meta path \<longleftrightarrow> meta path \<noteq> None"

definition is_file_path :: "metadata \<Rightarrow> string \<Rightarrow> bool" where
  "is_file_path meta path = (case meta path of Some (is_file, mode) \<Rightarrow> is_file | None \<Rightarrow> False)"

text \<open>Paths are equal when they have the same components.\<close>

definition path_components :: "string \<Rightarrow> string list" where
  "path_components path = filter (\<lambda>p. p \<noteq> [] \<and> p \<noteq> ''.'') (split_slashes [] path)"

definition same_path :: "string \<Rightarrow> string \<Rightarrow> bool" where
  "same_path a b \<longleftrightarrow> is_absolute a = is_absolute b \<and> path_components a = path_components b"

definition agent_file :: "string \<Rightarrow> string \<Rightarrow> string" where
  "agent_file agent_name dir =
     join_path (join_path (join_path dir ''.codex'') ''agents'') (agent_name @ ''.toml'')"

lemma path_parent_shorter: "path_parent path = Some parent \<Longrightarrow> length parent < length path"
proof -
  assume parent: "path_parent path = Some parent"
  then have path: "path \<noteq> []" "path \<noteq> ''/''" by (auto simp: path_parent_def)
  show ?thesis
  proof (cases "rsplit_once (CHR 0x2F) path")
    case None
    with parent path show ?thesis by (simp add: path_parent_def)
  next
    case (Some split)
    obtain dir name where split: "split = (dir, name)" by fastforce
    with Some have whole: "path = dir @ CHR 0x2F # name" using rsplit_once_Some by blast
    let ?kept = "rev (dropWhile (\<lambda>c. c = CHR 0x2F) (rev dir))"
    have "parent = (if ?kept = [] then ''/'' else ?kept)"
      using parent path by (simp add: path_parent_def Some split Let_def)
    moreover have "length ?kept \<le> length dir"
      using length_dropWhile_le [of _ "rev dir"] by simp
    moreover have "dir \<noteq> [] \<or> name \<noteq> []" using whole path(2) by auto
    ultimately show ?thesis by (cases dir; cases name) (simp_all add: whole)
  qed
qed

function project_agent_config_candidates ::
  "metadata \<Rightarrow> string \<Rightarrow> string option \<Rightarrow> string \<Rightarrow> string list" where
  "project_agent_config_candidates meta agent_name home current =
     (if (case home of Some h \<Rightarrow> same_path current h | None \<Rightarrow> False) then []
      else agent_file agent_name current #
        (if exists_path meta (join_path current ''.git'') then []
         else case path_parent current of
           Some parent \<Rightarrow> project_agent_config_candidates meta agent_name home parent
         | None \<Rightarrow> []))"
  by pat_completeness auto
termination
  by (relation "measure (\<lambda>(_, _, _, current). length current)") (auto dest: path_parent_shorter)

declare project_agent_config_candidates.simps [simp del]

definition format_paths :: "string list \<Rightarrow> string" where
  "format_paths paths = (if paths = [] then ''(none)'' else join_with '', '' paths)"

definition user_agent_config_path :: "string \<Rightarrow> string option \<Rightarrow> anyhow + string" where
  "user_agent_config_path agent_name home =
     (case home of
        Some h \<Rightarrow> Ok (agent_file agent_name h)
      | None \<Rightarrow> Err [''HOME is not set; cannot locate user agent config''])"

definition resolve_project_agent_config_path ::
  "metadata \<Rightarrow> string \<Rightarrow> string \<Rightarrow> string option \<Rightarrow> anyhow + resolved_agent_config" where
  "resolve_project_agent_config_path meta agent_name cwd home =
     (let candidates = project_agent_config_candidates meta agent_name home cwd
      in case List.find (is_file_path meta) candidates of
           Some path \<Rightarrow> Ok \<lparr>ra_scope = Scope_Project, ra_path = path\<rparr>
         | None \<Rightarrow> Err [''agent '' @ quoted agent_name @
             '' not found in project scope; searched project paths: '' @ format_paths candidates])"

definition resolve_user_agent_config_path ::
  "metadata \<Rightarrow> string \<Rightarrow> string option \<Rightarrow> anyhow + resolved_agent_config" where
  "resolve_user_agent_config_path meta agent_name home =
     and_then (user_agent_config_path agent_name home) (\<lambda>path.
       if is_file_path meta path then Ok \<lparr>ra_scope = Scope_User, ra_path = path\<rparr>
       else Err [''agent '' @ quoted agent_name @ '' not found in user scope at '' @ path])"

definition missing_agent_message :: "metadata \<Rightarrow> string \<Rightarrow> string \<Rightarrow> string option \<Rightarrow> string" where
  "missing_agent_message meta agent_name cwd home =
     ''agent '' @ quoted agent_name @ '' not found; searched project scope paths: '' @
       format_paths (project_agent_config_candidates meta agent_name home cwd) @
       (case user_agent_config_path agent_name home of
          Inr user_path \<Rightarrow> ''; searched user scope path: '' @ user_path
        | Inl e \<Rightarrow> ''; user scope unavailable: '' @ join_with '': '' e)"

definition resolve_agent_config_path ::
  "metadata \<Rightarrow> string \<Rightarrow> agent_scope option \<Rightarrow> string \<Rightarrow> string option \<Rightarrow> anyhow + resolved_agent_config" where
  "resolve_agent_config_path meta agent_name scope cwd home =
     (case scope of
        Some Scope_Project \<Rightarrow> resolve_project_agent_config_path meta agent_name cwd home
      | Some Scope_User \<Rightarrow> resolve_user_agent_config_path meta agent_name home
      | None \<Rightarrow>
          with_context (missing_agent_message meta agent_name cwd home)
            (case resolve_project_agent_config_path meta agent_name cwd home of
               Inr r \<Rightarrow> Ok r
             | Inl _ \<Rightarrow> resolve_user_agent_config_path meta agent_name home))"

section \<open>What an agent's file says\<close>

datatype agent_approval_policy = Policy_Mode approval_mode | Policy_Raw json

text \<open>An untagged enum: the first variant that can be read.\<close>

definition agent_approval_policy_dec :: "json \<Rightarrow> agent_approval_policy" where
  "agent_approval_policy_dec v =
     (case wire_enum_dec approval_mode_table v of
        Inr mode \<Rightarrow> Policy_Mode mode
      | Inl _ \<Rightarrow> Policy_Raw v)"

fun policy_mode :: "agent_approval_policy \<Rightarrow> approval_mode option" where
  "policy_mode (Policy_Mode mode) = Some mode"
| "policy_mode (Policy_Raw v) = None"

text \<open>The typed keys of the file, and the table of all others, in order.\<close>

record 'v agent_config =
  ac_name :: "string option"
  ac_description :: "string option"
  ac_model :: "string option"
  ac_model_provider :: "string option"
  ac_developer_instructions :: "string option"
  ac_model_instructions_file :: "string option"
  ac_model_reasoning_effort :: "model_reasoning_effort option"
  ac_model_reasoning_summary :: "model_reasoning_summary option"
  ac_model_verbosity :: "model_verbosity option"
  ac_approval_policy :: "agent_approval_policy option"
  ac_sandbox_mode :: "sandbox_mode option"
  ac_sandbox_policy :: "json option"
  ac_personality :: "personality option"
  ac_base_instructions :: "string option"
  ac_web_search :: "web_search_mode option"
  ac_config :: "(string \<times> 'v) list"

record loaded_agent =
  la_name :: string
  la_config_path :: string
  la_model :: "string option"
  la_model_provider :: "string option"
  la_model_reasoning_effort :: "model_reasoning_effort option"
  la_model_reasoning_summary :: "model_reasoning_summary option"
  la_approval_policy :: "approval_mode option"
  la_sandbox_mode :: "sandbox_mode option"
  la_sandbox_policy :: "json option"
  la_personality :: "personality option"
  la_base_instructions :: "string option"
  la_web_search :: "web_search_mode option"
  la_developer_instructions :: string
  la_config :: jmap

text \<open>The TOML library: an agent's file, and the JSON form of a TOML value, failing with a text.\<close>

record 'v agent_toml =
  at_agent :: "string \<Rightarrow> string + 'v agent_config"
  at_json :: "'v \<Rightarrow> string + json"

definition resolve_developer_instructions ::
  "read_file \<Rightarrow> string \<Rightarrow> string \<Rightarrow> 'v agent_config \<Rightarrow> anyhow + string" where
  "resolve_developer_instructions read agent_name path config =
     (let description =
        (case trimmed_non_empty (ac_description config) of
           Some description \<Rightarrow> Ok description
         | None \<Rightarrow> Err [''agent '' @ quoted agent_name @ '' config '' @ path @
             '' must set `developer_instructions`, `model_instructions_file`, or `description`''])
      in case trimmed_non_empty (ac_developer_instructions config) of
           Some instructions \<Rightarrow> Ok instructions
         | None \<Rightarrow>
             (case trimmed_non_empty (ac_model_instructions_file config) of
                Some file \<Rightarrow>
                  (let instructions_path = resolve_path_from_file path file
                   in case read instructions_path of
                        Inl e \<Rightarrow> Err [''failed to read model_instructions_file for '' @ quoted agent_name @
                          '' at '' @ instructions_path, e]
                      | Inr instructions \<Rightarrow>
                          if trim instructions \<noteq> [] then Ok (trim instructions) else description)
              | None \<Rightarrow> description))"

fun insert_config_value :: "jmap \<Rightarrow> string \<Rightarrow> json \<Rightarrow> jmap"
  and insert_config_values :: "jmap \<Rightarrow> string \<Rightarrow> (string \<times> json) list \<Rightarrow> jmap" where
  "insert_config_value m key (JObject entries) = insert_config_values m key entries"
| "insert_config_value m key JNull = jinsert key JNull m"
| "insert_config_value m key (JBool b) = jinsert key (JBool b) m"
| "insert_config_value m key (JNumber n) = jinsert key (JNumber n) m"
| "insert_config_value m key (JString s) = jinsert key (JString s) m"
| "insert_config_value m key (JArray vs) = jinsert key (JArray vs) m"
| "insert_config_values m key [] = m"
| "insert_config_values m key ((child, v) # entries) =
     insert_config_values (insert_config_value m (key @ ''.'' @ child) v) key entries"

definition toml_value_to_json :: "'v agent_toml \<Rightarrow> 'v \<Rightarrow> anyhow + json" where
  "toml_value_to_json T v =
     with_context ''failed to convert TOML value to JSON'' (map_err (\<lambda>e. [e]) (at_json T v))"

fun insert_table :: "'v agent_toml \<Rightarrow> (string \<times> 'v) list \<Rightarrow> jmap \<Rightarrow> anyhow + jmap" where
  "insert_table T [] m = Ok m"
| "insert_table T ((key, v) # rows) m =
     and_then (toml_value_to_json T v) (\<lambda>j. insert_table T rows (insert_config_value m key j))"

definition config_map_from_agent :: "'v agent_toml \<Rightarrow> 'v agent_config \<Rightarrow> anyhow + jmap" where
  "config_map_from_agent T config =
     (let m1 = (case ac_model_verbosity config of
          Some verbosity \<Rightarrow> jinsert ''model_verbosity'' (JString (model_verbosity_as_str verbosity)) []
        | None \<Rightarrow> []);
          m2 = (case ac_web_search config of
          Some web_search \<Rightarrow> jinsert ''web_search'' (JString (web_search_mode_as_str web_search)) m1
        | None \<Rightarrow> m1);
          m3 = (case ac_approval_policy config of
          Some (Policy_Raw v) \<Rightarrow> jinsert ''approval_policy'' v m2
        | _ \<Rightarrow> m2)
      in insert_table T (ac_config config) m3)"

definition load_agent_from_str ::
  "'v agent_toml \<Rightarrow> read_file \<Rightarrow> string \<Rightarrow> string \<Rightarrow> string \<Rightarrow> anyhow + loaded_agent" where
  "load_agent_from_str T read agent_name path text_of_file =
     and_then (with_context (''failed to parse agent config '' @ path)
       (map_err (\<lambda>e. [e]) (at_agent T text_of_file))) (\<lambda>config.
     and_then (resolve_developer_instructions read agent_name path config) (\<lambda>instructions.
     and_then (with_context (''failed to map agent config '' @ path) (config_map_from_agent T config))
       (\<lambda>config_map.
     Ok \<lparr>la_name = unwrap_or (trimmed_non_empty (ac_name config)) agent_name,
         la_config_path = path,
         la_model = trimmed_non_empty (ac_model config),
         la_model_provider = trimmed_non_empty (ac_model_provider config),
         la_model_reasoning_effort = ac_model_reasoning_effort config,
         la_model_reasoning_summary = ac_model_reasoning_summary config,
         la_approval_policy = Option.bind (ac_approval_policy config) policy_mode,
         la_sandbox_mode = ac_sandbox_mode config,
         la_sandbox_policy = ac_sandbox_policy config,
         la_personality = ac_personality config,
         la_base_instructions = trimmed_non_empty (ac_base_instructions config),
         la_web_search = ac_web_search config,
         la_developer_instructions = instructions,
         la_config = config_map\<rparr>)))"

definition load_agent ::
  "'v agent_toml \<Rightarrow> read_file \<Rightarrow> metadata \<Rightarrow> process_env \<Rightarrow> string \<Rightarrow> agent_scope option \<Rightarrow> string
    \<Rightarrow> anyhow + loaded_agent" where
  "load_agent T read meta env agent_name scope cwd =
     and_then (resolve_agent_config_path meta agent_name scope cwd (env ''HOME'')) (\<lambda>r.
     and_then (with_context (''failed to read agent config '' @ ra_path r)
       (map_err (\<lambda>e. [e]) (read (ra_path r)))) (\<lambda>file.
     load_agent_from_str T read agent_name (ra_path r) file))"

section \<open>The options of the thread\<close>

definition AGX_DEFAULT_MODEL :: string where
  "AGX_DEFAULT_MODEL = ''gpt-5.5''"

definition AGX_DEFAULT_REASONING_EFFORT :: model_reasoning_effort where
  "AGX_DEFAULT_REASONING_EFFORT = MRE_Low"

definition apply_agent :: "loaded_agent \<Rightarrow> jmap \<Rightarrow> thread_options \<Rightarrow> thread_options" where
  "apply_agent agent config_map b =
     (let b = opt_set thread_opt_set_model (la_model agent) b;
          b = opt_set thread_opt_set_model_provider (la_model_provider agent) b;
          b = opt_set thread_opt_set_model_reasoning_effort (la_model_reasoning_effort agent) b;
          b = opt_set thread_opt_set_model_reasoning_summary (la_model_reasoning_summary agent) b;
          b = opt_set thread_opt_set_approval_policy (la_approval_policy agent) b;
          b = opt_set thread_opt_set_sandbox_mode (la_sandbox_mode agent) b;
          b = opt_set thread_opt_set_sandbox_policy (la_sandbox_policy agent) b;
          b = opt_set thread_opt_set_personality (la_personality agent) b;
          b = opt_set thread_opt_set_base_instructions (la_base_instructions agent) b;
          b = opt_set thread_opt_set_web_search_mode (la_web_search agent) b;
          config_map = jextend config_map (la_config agent);
          b = (if config_map \<noteq> [] then thread_opt_set_config config_map b else b)
      in thread_opt_set_developer_instructions (la_developer_instructions agent) b)"

definition agx_thread_config :: "loaded_agent option \<Rightarrow> string \<Rightarrow> thread_options" where
  "agx_thread_config active_agent working_directory =
     (let config_map = jinsert ''service_tier'' (JString ''fast'') [];
          b = thread_opt_set_skip_git_repo_check True
            (thread_opt_set_working_directory working_directory
              (thread_opt_set_ephemeral True
                (thread_opt_set_model_reasoning_effort AGX_DEFAULT_REASONING_EFFORT
                  (thread_opt_set_model AGX_DEFAULT_MODEL thread_options_default))))
      in case active_agent of
           Some agent \<Rightarrow> apply_agent agent config_map b
         | None \<Rightarrow> thread_opt_set_config config_map b)"

section \<open>Which file is read\<close>

text \<open>The directory and those above it, up to the root.\<close>

function ancestors :: "string \<Rightarrow> string list" where
  "ancestors dir = dir # (case path_parent dir of Some parent \<Rightarrow> ancestors parent | None \<Rightarrow> [])"
  by pat_completeness auto
termination
  by (relation "measure length") (auto dest: path_parent_shorter)

declare ancestors.simps [simp del]

fun up_to_first :: "('a \<Rightarrow> bool) \<Rightarrow> 'a list \<Rightarrow> 'a list" where
  "up_to_first P [] = []"
| "up_to_first P (x # xs) = x # (if P x then [] else up_to_first P xs)"

text \<open>The project: from the directory up to the root of its repository, but never the home.\<close>

definition project_dirs :: "metadata \<Rightarrow> string option \<Rightarrow> string \<Rightarrow> string list" where
  "project_dirs meta home cwd =
     up_to_first (\<lambda>d. exists_path meta (join_path d ''.git''))
       (takeWhile (\<lambda>d. case home of Some h \<Rightarrow> \<not> same_path d h | None \<Rightarrow> True) (ancestors cwd))"

lemma project_candidates:
  "project_agent_config_candidates meta agent_name home cwd =
     map (agent_file agent_name) (project_dirs meta home cwd)"
proof (induction meta agent_name home cwd rule: project_agent_config_candidates.induct)
  case (1 meta agent_name home current)
  show ?case
  proof (cases "path_parent current")
    case None
    then show ?thesis
      by (simp add: project_agent_config_candidates.simps [of meta agent_name home current]
          project_dirs_def ancestors.simps [of current] split: option.split)
  next
    case (Some parent)
    with 1 show ?thesis
      by (auto simp: project_agent_config_candidates.simps [of meta agent_name home current]
          project_dirs_def ancestors.simps [of current] split: option.split)
  qed
qed

lemma find_filter: "List.find P xs = (case filter P xs of x # _ \<Rightarrow> Some x | [] \<Rightarrow> None)"
  by (induction xs) (auto split: list.split)

text \<open>
  C37: the file of an agent is the one of the nearest directory of the project that has it, from
  the working directory up to the root of its repository and never the home directory or above
  it; without one, and unless the scope forbids it, the one of the user. A scope excludes the
  other place.
\<close>

theorem agent_lookup:
  "resolve_agent_config_path meta agent_name scope cwd home = Ok r \<longleftrightarrow>
   (let project = (if scope = Some Scope_User then []
        else filter (is_file_path meta) (map (agent_file agent_name) (project_dirs meta home cwd)))
    in case project of
         path # _ \<Rightarrow> r = \<lparr>ra_scope = Scope_Project, ra_path = path\<rparr>
       | [] \<Rightarrow> scope \<noteq> Some Scope_Project \<and>
           (\<exists>h. home = Some h \<and> is_file_path meta (agent_file agent_name h) \<and>
              r = \<lparr>ra_scope = Scope_User, ra_path = agent_file agent_name h\<rparr>))"
proof -
  have user: "resolve_user_agent_config_path meta agent_name home = Ok r \<longleftrightarrow>
      (\<exists>h. home = Some h \<and> is_file_path meta (agent_file agent_name h) \<and>
         r = \<lparr>ra_scope = Scope_User, ra_path = agent_file agent_name h\<rparr>)"
    by (cases home) (auto simp: resolve_user_agent_config_path_def user_agent_config_path_def)
  have project: "resolve_project_agent_config_path meta agent_name cwd home =
      (case filter (is_file_path meta) (map (agent_file agent_name) (project_dirs meta home cwd)) of
         path # _ \<Rightarrow> Ok \<lparr>ra_scope = Scope_Project, ra_path = path\<rparr>
       | [] \<Rightarrow> Err [''agent '' @ quoted agent_name @
           '' not found in project scope; searched project paths: '' @
           format_paths (project_agent_config_candidates meta agent_name home cwd)])"
    by (simp add: resolve_project_agent_config_path_def project_candidates [symmetric] find_filter Let_def
        split: list.split)
  show ?thesis
  proof (cases scope)
    case None
    then show ?thesis
      by (auto simp: resolve_agent_config_path_def project user split: list.split)
  next
    case (Some place)
    then show ?thesis
      by (cases place) (auto simp: resolve_agent_config_path_def project user split: list.split)
  qed
qed

section \<open>What reaches the thread\<close>

text \<open>The values of a setting that are not tables, each under its dotted key.\<close>

fun leaves :: "string \<Rightarrow> json \<Rightarrow> (string \<times> json) list"
  and leaves_of :: "string \<Rightarrow> (string \<times> json) list \<Rightarrow> (string \<times> json) list" where
  "leaves key (JObject entries) = leaves_of key entries"
| "leaves key v = [(key, v)]"
| "leaves_of key [] = []"
| "leaves_of key ((child, v) # entries) = leaves (key @ ''.'' @ child) v @ leaves_of key entries"

lemma jextend_append: "jextend m (e @ f) = jextend (jextend m e) f"
  by (induction m e rule: jextend.induct) simp_all

lemma insert_config_leaves:
  "insert_config_value m key v = jextend m (leaves key v)"
  "insert_config_values m key entries = jextend m (leaves_of key entries)"
  by (induction m key v and m key entries rule: insert_config_value_insert_config_values.induct)
    (simp_all add: jextend_append)

lemma jget_jextend:
  "jget (jextend m e) k = (case map_of (rev e) k of Some v \<Rightarrow> Some v | None \<Rightarrow> jget m k)"
  by (induction m e rule: jextend.induct) (auto simp: jget_jinsert map_add_def split: option.splits)

lemma leaves_not_tables: "list_all (\<lambda>(k, v). \<forall>m. v \<noteq> JObject m) (leaves key v)"
  "list_all (\<lambda>(k, v). \<forall>m. v \<noteq> JObject m) (leaves_of key entries)"
  by (induction key v and key entries rule: leaves_leaves_of.induct) simp_all

text \<open>The settings of a file: the typed ones that are sent as configuration, and the others.\<close>

definition typed_settings :: "'v agent_config \<Rightarrow> (string \<times> json) list" where
  "typed_settings config =
     (case ac_model_verbosity config of
        Some v \<Rightarrow> [(''model_verbosity'', JString (model_verbosity_as_str v))] | None \<Rightarrow> []) @
     (case ac_web_search config of
        Some v \<Rightarrow> [(''web_search'', JString (web_search_mode_as_str v))] | None \<Rightarrow> []) @
     (case ac_approval_policy config of Some (Policy_Raw v) \<Rightarrow> [(''approval_policy'', v)] | _ \<Rightarrow> [])"

definition agent_settings :: "'v agent_config \<Rightarrow> (string \<times> json) list \<Rightarrow> (string \<times> json) list" where
  "agent_settings config table = typed_settings config @ concat (map (\<lambda>(k, v). leaves k v) table)"

lemma insert_table_leaves:
  assumes "map (\<lambda>(k, v). (k, at_json T v)) rows = map (\<lambda>(k, j). (k, Ok j)) table"
  shows "insert_table T rows m = Ok (jextend m (concat (map (\<lambda>(k, v). leaves k v) table)))"
  using assms
proof (induction rows arbitrary: m table)
  case (Cons row rows)
  obtain k v where row: "row = (k, v)" by fastforce
  from Cons.prems row obtain j table' where table: "table = (k, j) # table'" "at_json T v = Ok j"
    "map (\<lambda>(k, v). (k, at_json T v)) rows = map (\<lambda>(k, j). (k, Ok j)) table'"
    by (cases table) auto
  show ?case
    using Cons.IH [OF table(3), of "insert_config_value m k j"] table
    by (simp add: row toml_value_to_json_def with_context_def insert_config_leaves jextend_append)
qed simp

lemma config_map_settings:
  assumes "map (\<lambda>(k, v). (k, at_json T v)) (ac_config config) = map (\<lambda>(k, j). (k, Ok j)) table"
  shows "config_map_from_agent T config = Ok (jextend [] (agent_settings config table))"
  using insert_table_leaves [OF assms]
  by (simp add: config_map_from_agent_def agent_settings_def typed_settings_def Let_def jextend_append
      split: option.split agent_approval_policy.split)

lemma opt_set_agent_option:
  "opt_set thread_opt_set_model v1 b = b\<lparr>thread_opt_model := or_opt v1 (thread_opt_model b)\<rparr>"
  "opt_set thread_opt_set_model_reasoning_effort v2 b =
     b\<lparr>thread_opt_model_reasoning_effort := or_opt v2 (thread_opt_model_reasoning_effort b)\<rparr>"
  "opt_set thread_opt_set_model_reasoning_summary v3 b =
     b\<lparr>thread_opt_model_reasoning_summary := or_opt v3 (thread_opt_model_reasoning_summary b)\<rparr>"
  "opt_set thread_opt_set_sandbox_policy v4 b =
     b\<lparr>thread_opt_sandbox_policy := or_opt v4 (thread_opt_sandbox_policy b)\<rparr>"
  "opt_set thread_opt_set_web_search_mode v5 b =
     b\<lparr>thread_opt_web_search_mode := or_opt v5 (thread_opt_web_search_mode b)\<rparr>"
  by (simp_all add: opt_set_def thread_opt_set_model_def thread_opt_set_model_reasoning_effort_def
      thread_opt_set_model_reasoning_summary_def thread_opt_set_sandbox_policy_def
      thread_opt_set_web_search_mode_def split: option.split)

lemma jinsert_not_empty: "jinsert k v m \<noteq> []"
  by (induction k v m rule: jinsert.induct) simp_all

lemma jextend_not_empty: "m \<noteq> [] \<Longrightarrow> jextend m e \<noteq> []"
  by (induction m e rule: jextend.induct) (simp_all add: jinsert_not_empty)

lemma agx_thread_config_agent:
  "agx_thread_config (Some agent) wd =
     thread_options_default
       \<lparr>thread_opt_model := Some (unwrap_or (la_model agent) ''gpt-5.5''),
        thread_opt_model_provider := la_model_provider agent,
        thread_opt_model_reasoning_effort := Some (unwrap_or (la_model_reasoning_effort agent) MRE_Low),
        thread_opt_model_reasoning_summary := la_model_reasoning_summary agent,
        thread_opt_ephemeral := Some True,
        thread_opt_working_directory := Some wd,
        thread_opt_skip_git_repo_check := Some True,
        thread_opt_approval_policy := la_approval_policy agent,
        thread_opt_sandbox_mode := la_sandbox_mode agent,
        thread_opt_sandbox_policy := la_sandbox_policy agent,
        thread_opt_personality := la_personality agent,
        thread_opt_base_instructions := la_base_instructions agent,
        thread_opt_web_search_mode := la_web_search agent,
        thread_opt_config :=
          Some (jextend (jinsert ''service_tier'' (JString ''fast'') []) (la_config agent)),
        thread_opt_developer_instructions := Some (la_developer_instructions agent)\<rparr>"
proof -
  have some: "or_opt v (Some x) = Some (unwrap_or v x)" for v :: "'a option" and x by (cases v) simp_all
  have "jextend [(''service_tier'', JString ''fast'')] (la_config agent) \<noteq> []"
    by (rule jextend_not_empty) simp
  then show ?thesis
    by (simp add: agx_thread_config_def apply_agent_def Let_def opt_set_agent_option thread_options_default_def
        thread_opt_set_model_def thread_opt_set_model_reasoning_effort_def thread_opt_set_ephemeral_def
        thread_opt_set_working_directory_def thread_opt_set_skip_git_repo_check_def
        thread_opt_set_config_def thread_opt_set_developer_instructions_def AGX_DEFAULT_MODEL_def
        AGX_DEFAULT_REASONING_EFFORT_def some)
qed

text \<open>
  What an agent's file sets wins over the tool's defaults: the thread has the agent's model
  and effort, or the defaults; its instructions and approval mode; and as configuration every
  other setting of the file under its dotted key, a later one before an earlier one, with the
  fast service tier only when the file has none.
\<close>

theorem agent_settings_win:
  assumes "load_agent_from_str T read agent_name path file = Ok agent" "at_agent T file = Ok config"
    "map (\<lambda>(k, v). (k, at_json T v)) (ac_config config) = map (\<lambda>(k, j). (k, Ok j)) table"
  shows "let opts = agx_thread_config (Some agent) wd in
    thread_opt_model opts = Some (unwrap_or (trimmed_non_empty (ac_model config)) ''gpt-5.5'') \<and>
    thread_opt_model_reasoning_effort opts = Some (unwrap_or (ac_model_reasoning_effort config) MRE_Low) \<and>
    thread_opt_working_directory opts = Some wd \<and>
    resolve_developer_instructions read agent_name path config =
      Ok (unwrap_or (thread_opt_developer_instructions opts) []) \<and>
    thread_opt_approval_policy opts = Option.bind (ac_approval_policy config) policy_mode \<and>
    (\<forall>k. Option.bind (thread_opt_config opts) (\<lambda>m. jget m k) =
      (case map_of (rev (agent_settings config table)) k of
         Some v \<Rightarrow> Some v
       | None \<Rightarrow> if k = ''service_tier'' then Some (JString ''fast'') else None))"
proof -
  from assms(1,2) obtain instructions where agent:
    "resolve_developer_instructions read agent_name path config = Ok instructions"
    "la_developer_instructions agent = instructions"
    "la_model agent = trimmed_non_empty (ac_model config)"
    "la_model_reasoning_effort agent = ac_model_reasoning_effort config"
    "la_approval_policy agent = Option.bind (ac_approval_policy config) policy_mode"
    "la_config agent = jextend [] (agent_settings config table)"
    using config_map_settings [OF assms(3)]
    by (auto simp: load_agent_from_str_def with_context_def and_then_Inr_iff)
  let ?settings = "agent_settings config table"
  have "jget (jextend (jinsert ''service_tier'' (JString ''fast'') []) (jextend [] ?settings)) k =
      (case map_of (rev ?settings) k of
         Some v \<Rightarrow> Some v
       | None \<Rightarrow> if k = ''service_tier'' then Some (JString ''fast'') else None)" for k
    using jget_jextend_sorted [of "jextend [] ?settings" "jinsert ''service_tier'' (JString ''fast'') []" k]
      jget_jextend [of "[]" ?settings k]
    by (simp add: jget_jinsert del: jinsert.simps split: option.splits)
  then show ?thesis
    by (simp add: Let_def agx_thread_config_agent agent del: jinsert.simps)
qed

definition sample_config :: "json agent_config" where
  "sample_config =
     \<lparr>ac_name = None, ac_description = Some ''Reviews code'', ac_model = Some '' gpt-x '',
      ac_model_provider = None, ac_developer_instructions = Some ''Review.'',
      ac_model_instructions_file = None, ac_model_reasoning_effort = None,
      ac_model_reasoning_summary = None, ac_model_verbosity = Some MV_High,
      ac_approval_policy = Some (Policy_Mode AM_Never), ac_sandbox_mode = None,
      ac_sandbox_policy = None, ac_personality = None, ac_base_instructions = None,
      ac_web_search = None,
      ac_config = [(''mcp'', JObject [(''docs'', JObject [(''on'', JBool True)])])]\<rparr>"

definition sample_toml :: "json agent_toml" where
  "sample_toml = \<lparr>at_agent = (\<lambda>_. Ok sample_config), at_json = Ok\<rparr>"

theorem agent_settings_win_witness:
  "\<exists>agent. load_agent_from_str sample_toml (\<lambda>_. Err []) ''rev'' ''/r.toml'' [] = Ok agent \<and>
     thread_opt_model (agx_thread_config (Some agent) ''/w'') = Some ''gpt-x'' \<and>
     Option.bind (thread_opt_config (agx_thread_config (Some agent) ''/w'')) (\<lambda>m. jget m ''mcp.docs.on'') =
       Some (JBool True) \<and>
     Option.bind (thread_opt_config (agx_thread_config (Some agent) ''/w'')) (\<lambda>m. jget m ''service_tier'') =
       Some (JString ''fast'')"
proof -
  let ?read = "\<lambda>_. Err [] :: string + string"
  have table: "map (\<lambda>(k, v). (k, at_json sample_toml v)) (ac_config sample_config) =
      map (\<lambda>(k, j). (k, Ok j)) (ac_config sample_config)"
    by (simp add: sample_toml_def case_prod_unfold)
  have parsed: "at_agent sample_toml [] = Ok sample_config" by (simp add: sample_toml_def)
  have trims: "trim '' gpt-x '' = ''gpt-x''" "trim ''Review.'' = ''Review.''" 
    by (simp_all add: trim_def trim_start_def trim_end_def whitespace_encodings_def trim_with.simps)
  have "resolve_developer_instructions ?read ''rev'' ''/r.toml'' sample_config = Ok ''Review.''"
    by (simp add: resolve_developer_instructions_def sample_config_def trimmed_non_empty_def non_empty_def
        trims Let_def)
  then obtain agent where agent:
    "load_agent_from_str sample_toml ?read ''rev'' ''/r.toml'' [] = Ok agent"
    using config_map_settings [OF table] by (simp add: load_agent_from_str_def with_context_def parsed)
  have "agent_settings sample_config (ac_config sample_config) =
      [(''model_verbosity'', JString ''high''), (''mcp.docs.on'', JBool True)]"
    by (simp add: agent_settings_def typed_settings_def sample_config_def)
  moreover have "trimmed_non_empty (ac_model sample_config) = Some ''gpt-x''"
    by (simp add: sample_config_def trimmed_non_empty_def non_empty_def trims)
  ultimately show ?thesis
    using agent_settings_win [OF agent parsed table, of "''/w''"] agent
    by (auto simp: Let_def)
qed

end
