(* ===== verification/Agx_Output.thy ===== *)
theory Agx_Output
  imports Agx_Config
begin

text \<open>
  What \<open>agx\<close> prints: the line about its agent, the events of a turn, and the run of the
  program (\<open>crates/agx/src/main.rs\<close>). A write to the terminal is an entry of a log; whether the
  next one succeeds is a function of the log. Colours are applied by the parameter \<open>paint\<close>.
\<close>

section \<open>The line about the agent\<close>

definition DEV_INSTRUCTIONS_PREVIEW_CHARS :: nat where
  "DEV_INSTRUCTIONS_PREVIEW_CHARS = 220"

text \<open>The characters of a word; \<open>Inr\<close> is an early return.\<close>

fun clip_word :: "nat \<Rightarrow> string list \<Rightarrow> string \<Rightarrow> nat \<Rightarrow> (string \<times> nat) + string" where
  "clip_word max_chars [] preview chars = Inl (preview, chars)"
| "clip_word max_chars (ch # chs) preview chars =
     (if chars = max_chars then Inr (preview @ ''...'')
      else clip_word max_chars chs (preview @ ch) (chars + 1))"

fun clip_words :: "nat \<Rightarrow> string list \<Rightarrow> string \<Rightarrow> nat \<Rightarrow> string" where
  "clip_words max_chars [] preview chars = preview"
| "clip_words max_chars (word # words) preview chars =
     (let separator = (if preview \<noteq> [] then 1 else 0);
          remaining = max_chars - chars
      in if remaining \<le> separator then preview @ ''...''
         else
           (let (preview1, chars1) =
              (if separator = 1 then (preview @ '' '', chars + 1) else (preview, chars))
            in case clip_word max_chars (utf8_chars word) preview1 chars1 of
                 Inr r \<Rightarrow> r
               | Inl (preview2, chars2) \<Rightarrow> clip_words max_chars words preview2 chars2))"

definition clipped_text :: "string \<Rightarrow> nat \<Rightarrow> string" where
  "clipped_text t max_chars =
     (if trim t = [] then ''(empty)''
      else if max_chars = 0 then ''...''
      else clip_words max_chars (split_whitespace [] t) [] 0)"

record turn_start_info =
  ti_agent_name :: string
  ti_config_path :: string
  ti_model :: "string option"
  ti_developer_instructions_preview :: string

definition turn_start_info_of :: "loaded_agent \<Rightarrow> turn_start_info" where
  "turn_start_info_of agent =
     \<lparr>ti_agent_name = la_name agent, ti_config_path = la_config_path agent,
      ti_model = la_model agent,
      ti_developer_instructions_preview =
        clipped_text (la_developer_instructions agent) DEV_INSTRUCTIONS_PREVIEW_CHARS\<rparr>"

definition turn_start_message :: "turn_start_info \<Rightarrow> string" where
  "turn_start_message info =
     ''Agent `'' @ ti_agent_name info @ ''` - '' @ ti_developer_instructions_preview info @
     (case ti_model info of Some model \<Rightarrow> '' | model: '' @ model | None \<Rightarrow> []) @
     '' | config: '' @ ti_config_path info"

section \<open>The terminal\<close>

datatype agx_entry = Out string | ErrOut string

datatype agx_attr = At_Dimmed | At_Italic | At_Bold | At_BrightWhite | At_Cyan | At_Yellow | At_Red
  | At_Green | At_Magenta | At_Blue

type_synonym agx_paint = "agx_attr list \<Rightarrow> string \<Rightarrow> string"

type_synonym agx_sink = "agx_entry list \<Rightarrow> io_error option"

text \<open>How a step can end the program early: a print macro panics, an error is returned.\<close>

datatype agx_failure = Ax_Panicked | Ax_Error anyhow

record agx_state =
  ax_log :: "agx_entry list"
  ax_streamed_ids :: "string set"
  ax_streamed_without_id :: bool
  ax_ended_with_newline :: bool
  ax_printed_reasoning :: "string set"
  ax_reasoning_text :: "string \<rightharpoonup> string"

definition agx_state_default :: agx_state where
  "agx_state_default =
     \<lparr>ax_log = [], ax_streamed_ids = {}, ax_streamed_without_id = False, ax_ended_with_newline = False,
      ax_printed_reasoning = {}, ax_reasoning_text = Map.empty\<rparr>"

type_synonym 'a agx_step = "agx_state \<Rightarrow> agx_state \<times> (agx_failure + 'a)"

definition emit :: "agx_sink \<Rightarrow> agx_entry \<Rightarrow> agx_state \<Rightarrow> agx_state \<times> (io_error + unit)" where
  "emit sink e st =
     (case sink (ax_log st) of
        Some err \<Rightarrow> (st, Err err)
      | None \<Rightarrow> (st\<lparr>ax_log := ax_log st @ [e]\<rparr>, Ok ()))"

text \<open>\<open>print!\<close>, \<open>println!\<close> and \<open>eprintln!\<close>, one after the other.\<close>

fun print_all :: "agx_sink \<Rightarrow> agx_entry list \<Rightarrow> unit agx_step" where
  "print_all sink [] st = (st, Ok ())"
| "print_all sink (e # es) st =
     (case emit sink e st of
        (st1, Inl err) \<Rightarrow> (st1, Err Ax_Panicked)
      | (st1, Inr _) \<Rightarrow> print_all sink es st1)"

definition print_chunk :: "agx_sink \<Rightarrow> string \<Rightarrow> unit agx_step" where
  "print_chunk sink chunk st =
     (let (st1, r) = emit sink (Out chunk) st
      in (st1, map_err (\<lambda>e. Ax_Error [io_error_text e]) r))"

definition print_agent_message_text :: "agx_sink \<Rightarrow> agx_paint \<Rightarrow> string \<Rightarrow> unit agx_step" where
  "print_agent_message_text sink paint t = print_chunk sink (paint [At_Bold, At_BrightWhite] t)"

text \<open>The flag is the one of the state.\<close>

definition ensure_stdout_newline :: "agx_sink \<Rightarrow> bool \<Rightarrow> unit agx_step" where
  "ensure_stdout_newline sink printed_any st =
     (if printed_any \<and> \<not> ax_ended_with_newline st then
        and_do (print_chunk sink [lf] st) (\<lambda>st1 _. (st1\<lparr>ax_ended_with_newline := True\<rparr>, Ok ()))
      else (st, Ok ()))"

definition start_info_output :: "agx_paint \<Rightarrow> turn_start_info \<Rightarrow> agx_entry list" where
  "start_info_output paint info =
     [Out (paint [At_Dimmed] ''info:'' @ '' '' @ paint [At_Dimmed] (turn_start_message info) @ [lf])]"

definition usage_output :: "agx_paint \<Rightarrow> usage \<Rightarrow> agx_entry list" where
  "usage_output paint u =
     [Out ([lf, lf] @ paint [At_Dimmed]
        (''---'' @ [lf] @ ''Usage:'' @ [lf] @
         ''- Input tokens: '' @ show_int (sint (usage_input_tokens u)) @ [lf] @
         ''- Cached input tokens: '' @ show_int (sint (usage_cached_input_tokens u)) @ [lf] @
         ''Output tokens: '' @ show_int (sint (usage_output_tokens u))) @ [lf])]"

definition reasoning_output :: "agx_paint \<Rightarrow> string \<Rightarrow> agx_entry list" where
  "reasoning_output paint t =
     [Out (paint [At_Dimmed, At_Italic] ''Thinking...'' @ [lf] @
        (if t = [] then [] else [CHR 0x09] @ paint [At_Dimmed] t @ [lf]) @ [lf])]"

section \<open>Items\<close>

definition out_line :: "string \<Rightarrow> agx_entry" where
  "out_line t = Out (t @ [lf])"

definition err_line :: "agx_paint \<Rightarrow> string \<Rightarrow> agx_entry" where
  "err_line paint t = ErrOut (paint [At_Bold, At_Red] t @ [lf])"

definition tab :: string where "tab = [CHR 0x09]"

definition command_output_lines :: "agx_paint \<Rightarrow> command_execution_item \<Rightarrow> agx_entry list" where
  "command_output_lines paint cmd =
     (let failed = (command_status cmd = CES_Failed \<or>
            (case command_exit_code cmd of Some code \<Rightarrow> code \<noteq> 0 | None \<Rightarrow> False));
          colour = (if failed then [At_Red] else [At_Green])
      in [out_line (paint colour ''>'' @ '' '' @ paint colour (command_command cmd))] @
         (if command_aggregated_output cmd \<noteq> []
          then [out_line (paint [At_Dimmed] (command_aggregated_output cmd))] else []) @
         (case command_exit_code cmd of
            Some code \<Rightarrow>
              if code \<noteq> 0
              then [out_line (paint [At_Red] (''exit code: '' @ show_int (sint code)))] else []
          | None \<Rightarrow> []))"

fun change_line :: "agx_paint \<Rightarrow> file_update_change \<Rightarrow> agx_entry" where
  "change_line paint change =
     (let (sign, colour) =
        (case change_kind change of
           PCK_Add \<Rightarrow> (''+'', [At_Green])
         | PCK_Delete \<Rightarrow> (''-'', [At_Red])
         | _ \<Rightarrow> (''~'', [At_Magenta]))
      in out_line (tab @ paint colour sign @ '' '' @ paint colour (change_path change)))"

definition todo_line :: "agx_paint \<Rightarrow> todo_item \<Rightarrow> agx_entry" where
  "todo_line paint item =
     (if todo_completed item
      then out_line (tab @ paint [At_Green] [CHR 0xE2, CHR 0x9C, CHR 0x93] @ '' '' @
        paint [At_Dimmed] (todo_text item))
      else out_line (tab @ paint [At_Dimmed] [CHR 0xE2, CHR 0x97, CHR 0x8B] @ '' '' @ todo_text item))"

text \<open>Errors and notices.\<close>

fun notice_output :: "agx_paint \<Rightarrow> thread_item \<Rightarrow> agx_entry list" where
  "notice_output paint (TI_Error err) = [err_line paint (''error: '' @ error_item_message err)]"
| "notice_output paint (TI_ImageView img) =
     [out_line (tab @ paint [At_Dimmed] (''Image: '' @ image_view_path img))]"
| "notice_output paint (TI_EnteredReviewMode review) =
     [out_line (paint [At_Yellow, At_Italic] (''Entered review mode: '' @ review_mode_review review))]"
| "notice_output paint (TI_ExitedReviewMode review) =
     [out_line (paint [At_Yellow, At_Italic] ''Exited review mode'')]"
| "notice_output paint (TI_ContextCompaction c) = [out_line (paint [At_Dimmed] ''Context compacted'')]"
| "notice_output paint (TI_Unknown unk) =
     (case unknown_item_type unk of
        Some ty \<Rightarrow> [out_line (paint [At_Dimmed] (''Unknown item: '' @ ty))]
      | None \<Rightarrow> [])"
| "notice_output paint _ = []"

text \<open>What a completed item prints, but for agent messages and reasoning.\<close>

fun item_output :: "agx_paint \<Rightarrow> thread_item \<Rightarrow> agx_entry list" where
  "item_output paint (TI_WebSearch search) =
     [Out (paint [At_Cyan] ([CHR 0xE2, CHR 0x8A, CHR 0x99] @ '' Searching:'') @ '' '' @
        paint [At_Cyan] (web_search_query search) @ [lf, lf])]"
| "item_output paint (TI_Plan plan) =
     [Out (paint [At_Yellow, At_Bold] ''Plan:'' @ '' '' @ paint [At_Yellow] (plan_text plan) @ [lf, lf])]"
| "item_output paint (TI_CommandExecution cmd) = command_output_lines paint cmd"
| "item_output paint (TI_FileChange fc) =
     map (change_line paint) (file_change_changes fc) @
     (if file_change_status fc = PAS_Failed
      then [out_line (tab @ paint [At_Bold, At_Red] ''patch failed'')] else [])"
| "item_output paint (TI_McpToolCall mcp) =
     [Out (paint [At_Blue, At_Bold] ''MCP:'' @ '' '' @
        paint [At_Blue] (mcp_call_server mcp @ ''::'' @ mcp_call_tool mcp)),
      (case mcp_call_error mcp of
         Some err \<Rightarrow> out_line ('' '' @ paint [At_Red] (''error: '' @ thread_error_message err))
       | None \<Rightarrow> Out [lf])]"
| "item_output paint (TI_DynamicToolCall dtc) =
     [out_line (paint [At_Blue, At_Bold] ''Tool:'' @ '' '' @ paint [At_Blue] (dynamic_call_tool dtc) @
        '' ('' @ paint [At_Dimmed] (dynamic_call_status dtc) @ '')'')]"
| "item_output paint (TI_CollabToolCall collab) =
     [out_line (paint [At_Blue, At_Bold] ''Collab:'' @ '' '' @ paint [At_Blue] (collab_call_tool collab) @
        '' ('' @ paint [At_Dimmed] (collab_call_status collab) @ '')'')]"
| "item_output paint (TI_TodoList todo) = map (todo_line paint) (todo_list_items todo)"
| "item_output paint item = notice_output paint item"

section \<open>The preview of the instructions\<close>

text \<open>The words of a text, as lists of its characters.\<close>

fun char_words :: "string list \<Rightarrow> string list \<Rightarrow> string list list" where
  "char_words acc [] = (if acc = [] then [] else [acc])"
| "char_words acc (c # cs) =
     (if c \<in> set whitespace_encodings then (if acc = [] then [] else [acc]) @ char_words [] cs
      else char_words (acc @ [c]) cs)"

definition word_chars :: "string list \<Rightarrow> bool" where
  "word_chars w \<longleftrightarrow> list_all utf8_char w \<and> set w \<inter> set whitespace_encodings = {}"

lemma split_whitespace_words:
  assumes "list_all utf8_char acc" "list_all utf8_char cs"
  shows "split_whitespace (rev (concat acc)) (concat cs) = map concat (char_words acc cs)"
  using assms
proof (induction acc cs rule: char_words.induct)
  case (1 acc)
  then show ?case by (simp add: split_whitespace.simps [of _ "[]"] concat_chars_Nil del: concat_eq_Nil_conv)
next
  case (2 acc c cs)
  then show ?case by (simp add: split_whitespace_char concat_chars_Nil del: concat_eq_Nil_conv)
qed

lemma char_words_wf:
  assumes "word_chars acc" "list_all utf8_char cs"
  shows "list_all (\<lambda>w. w \<noteq> [] \<and> word_chars w) (char_words acc cs)"
  using assms
proof (induction acc cs rule: char_words.induct)
  case (2 acc c cs)
  moreover have "word_chars []" by (simp add: word_chars_def)
  ultimately show ?case by (auto simp: word_chars_def)
qed simp

lemma char_words_Nil:
  "char_words acc cs = [] \<longleftrightarrow> acc = [] \<and> set cs \<subseteq> set whitespace_encodings"
  by (induction acc cs rule: char_words.induct) auto

lemma trim_Nil:
  assumes "list_all utf8_char cs"
  shows "trim (concat cs) = [] \<longleftrightarrow> set cs \<subseteq> set whitespace_encodings"
proof -
  let ?ws = "\<lambda>c. c \<in> set whitespace_encodings"
  have dropped: "list_all utf8_char (dropWhile ?ws cs)"
    using assms by (auto simp: list_all_iff dest: set_dropWhileD)
  then have ends: "list_all utf8_char (rev (dropWhile ?ws (rev (dropWhile ?ws cs))))"
    by (auto simp: list_all_iff dest!: set_dropWhileD)
  have "trim (concat cs) = concat (rev (dropWhile ?ws (rev (dropWhile ?ws cs))))"
    by (simp add: trim_def trim_start_concat [OF assms] trim_end_concat [OF dropped])
  then have "trim (concat cs) = [] \<longleftrightarrow> dropWhile ?ws (rev (dropWhile ?ws cs)) = []"
    using concat_chars_Nil [OF ends] by simp
  also have "\<dots> \<longleftrightarrow> (\<forall>c \<in> set (dropWhile ?ws cs). ?ws c)"
    by (simp add: dropWhile_eq_Nil_conv)
  also have "\<dots> \<longleftrightarrow> dropWhile ?ws cs = []"
    by (metis dropWhile_eq_Nil_conv hd_dropWhile list.set_sel(1) empty_iff list.set(1))
  also have "\<dots> \<longleftrightarrow> set cs \<subseteq> set whitespace_encodings" by (auto simp: dropWhile_eq_Nil_conv)
  finally show ?thesis .
qed

text \<open>The characters after the first word: a space before each of the others.\<close>

definition spaced :: "string list list \<Rightarrow> string list" where
  "spaced ws = concat (map (\<lambda>w. '' '' # w) ws)"

lemma spaced_simps [simp]: "spaced [] = []" "spaced (w # ws) = '' '' # w @ spaced ws"
  by (simp_all add: spaced_def)

lemma join_words: "join_with '' '' (map concat (w # ws)) = concat (w @ spaced ws)"
  by (induction ws arbitrary: w) simp_all

definition drop_last_space :: "string list \<Rightarrow> string list" where
  "drop_last_space cs = (if cs \<noteq> [] \<and> last cs = '' '' then butlast cs else cs)"

lemma clip_word:
  "n \<le> m \<Longrightarrow> clip_word m chs p n =
     (if n + length chs \<le> m then Inl (p @ concat chs, n + length chs)
      else Inr (p @ concat (take (m - n) chs) @ ''...''))"
proof (induction chs arbitrary: p n)
  case (Cons ch chs)
  show ?case
  proof (cases "n = m")
    case False
    with Cons.prems have "Suc n \<le> m" by simp
    moreover from this have "m - n = Suc (m - Suc n)" by simp
    ultimately show ?thesis using Cons.IH [of "Suc n" "p @ ch"] False by simp
  qed simp
qed simp

lemma drop_last_space_append:
  "ys \<noteq> [] \<Longrightarrow> drop_last_space (xs @ ys) = xs @ drop_last_space ys"
  by (simp add: drop_last_space_def butlast_append)

lemma drop_last_space_word: "'' '' \<notin> set w \<Longrightarrow> drop_last_space w = w"
  by (auto simp: drop_last_space_def dest: last_in_set)

lemma clip_words_spaced:
  assumes "list_all (\<lambda>w. w \<noteq> [] \<and> word_chars w) ws" "p \<noteq> []" "n \<le> m"
  shows "clip_words m (map concat ws) p n =
    (if n + length (spaced ws) \<le> m then p @ concat (spaced ws)
     else p @ concat (drop_last_space (take (m - n) (spaced ws))) @ ''...'')"
  using assms
proof (induction ws arbitrary: p n)
  case (Cons w ws)
  have w: "w \<noteq> []" "utf8_chars (concat w) = w" "'' '' \<notin> set w"
    using Cons.prems(1) by (auto simp: word_chars_def utf8_chars_concat whitespace_encodings_def)
  show ?case
  proof (cases "m - n \<le> 1")
    case True
    then have "take (m - n) (spaced (w # ws)) = (if m = n then [] else ['' ''])"
      using Cons.prems(3) by (auto simp: take_Cons')
    moreover have "m < n + length (spaced (w # ws))" using True w(1) by (cases w) auto
    ultimately show ?thesis using True Cons.prems(2) by (simp add: Let_def drop_last_space_def)
  next
    case False
    then have n: "Suc n \<le> m" "m - n = Suc (m - Suc n)" by simp_all
    show ?thesis
    proof (cases "Suc n + length w \<le> m")
      case True
      have rest: "clip_words m (map concat ws) ((p @ '' '') @ concat w) (Suc n + length w) =
        (if Suc n + length w + length (spaced ws) \<le> m then ((p @ '' '') @ concat w) @ concat (spaced ws)
         else ((p @ '' '') @ concat w) @
           concat (drop_last_space (take (m - (Suc n + length w)) (spaced ws))) @ ''...'')"
        using Cons.prems True by (intro Cons.IH) simp_all
      have "take (m - n) (spaced (w # ws)) = ('' '' # w) @ take (m - (Suc n + length w)) (spaced ws)"
        using True n(2) by simp
      moreover have "drop_last_space (('' '' # w) @ cs) = ('' '' # w) @ drop_last_space cs" for cs
        using drop_last_space_append [of cs "'' '' # w"] w(1,3)
        by (cases "cs = []") (auto simp: drop_last_space_def dest: last_in_set)
      ultimately show ?thesis
        using rest False Cons.prems(2) True n
        by (simp add: Let_def clip_word w(2))
    next
      case long: False
      have "take (m - n) (spaced (w # ws)) = '' '' # take (m - Suc n) w"
        using long n by simp
      moreover have "take (m - Suc n) w \<noteq> []" using False w(1) by simp
      moreover have "'' '' \<notin> set (take (m - Suc n) w)" using w(3) by (meson in_set_takeD)
      ultimately show ?thesis
        using long False Cons.prems(2) n drop_last_space_append [of "take (m - Suc n) w" "['' '']"]
        by (simp add: Let_def clip_word w(2) drop_last_space_word)
    qed
  qed
qed simp

text \<open>
  The preview is the text with its white space reduced to single spaces, whole when it has
  no more characters than the limit and otherwise cut at the limit, never inside a character
  and without a space at the cut, and marked with three dots.
\<close>

theorem preview_is_a_cut:
  assumes "valid_utf8 t"
  shows "let cs = utf8_chars (join_with '' '' (split_whitespace [] t))
    in clipped_text t n =
      (if cs = [] then ''(empty)''
       else if length cs \<le> n then concat cs
       else concat (drop_last_space (take n cs)) @ ''...'')"
proof -
  let ?chars = "utf8_chars t"
  have chars: "t = concat ?chars" "list_all utf8_char ?chars"
    using assms by (simp_all add: utf8_chars_valid)
  let ?ws = "char_words [] ?chars"
  have words: "split_whitespace [] t = map concat ?ws"
    using split_whitespace_words [of "[]" ?chars] chars by simp
  have wf: "list_all (\<lambda>w. w \<noteq> [] \<and> word_chars w) ?ws"
    using char_words_wf [of "[]" ?chars] chars(2) by (simp add: word_chars_def)
  have empty: "trim t = [] \<longleftrightarrow> ?ws = []"
    using trim_Nil [OF chars(2)] chars(1) by (simp add: char_words_Nil)
  show ?thesis
  proof (cases ?ws)
    case Nil
    with empty show ?thesis by (simp add: words clipped_text_def)
  next
    case (Cons w ws)
    have w: "w \<noteq> []" "list_all utf8_char w" "'' '' \<notin> set w" "utf8_chars (concat w) = w"
      and ws: "list_all (\<lambda>w. w \<noteq> [] \<and> word_chars w) ws"
      using wf by (auto simp: Cons word_chars_def utf8_chars_concat whitespace_encodings_def)
    have "utf8_char '' ''" by (rule whitespace_chars) (simp add: whitespace_encodings_def)
    then have "list_all utf8_char (spaced ws)"
      using ws by (induction ws) (auto simp: word_chars_def)
    with w(2) have cs: "utf8_chars (join_with '' '' (split_whitespace [] t)) = w @ spaced ws"
      unfolding words Cons join_words by (simp add: utf8_chars_concat del: concat_append)
    have clip: "clipped_text t n =
        (if n = 0 then ''...'' else case clip_word n w [] 0 of
           Inr r \<Rightarrow> r | Inl (p, k) \<Rightarrow> clip_words n (map concat ws) p k)"
      using empty by (simp add: clipped_text_def words Cons Let_def w(4))
    show ?thesis
    proof (cases "length w \<le> n")
      case True
      with w(1) have "0 < n" by (cases w) auto
      moreover have "concat w \<noteq> []" using w(1,2) concat_chars_Nil by blast
      moreover have "drop_last_space (w @ cs) = w @ drop_last_space cs" for cs
        using drop_last_space_append [of cs w] drop_last_space_word [OF w(3)]
        by (cases "cs = []") (auto simp: drop_last_space_def)
      ultimately show ?thesis
        using clip_words_spaced [OF ws, of "concat w" "length w" n] True w(1)
        by (simp add: cs clip clip_word Let_def)
    next
      case False
      have "'' '' \<notin> set (take n w)" using w(3) by (meson in_set_takeD)
      with False w(1) show ?thesis
        by (auto simp: cs clip clip_word Let_def drop_last_space_word)
    qed
  qed
qed

theorem preview_is_a_cut_witness:
  "clipped_text ''ab  cd'' 3 = ''ab...''"
proof -
  have valid: "valid_utf8 ''ab  cd''" by code_simp
  have "split_whitespace [] ''ab  cd'' = [''ab'', ''cd'']" by code_simp
  moreover have "utf8_chars ''ab cd'' = [''a'', ''b'', '' '', ''c'', ''d'']"
    by (simp add: utf8_chars.simps char_width_def)
  ultimately show ?thesis
    using preview_is_a_cut [OF valid, of 3] by (simp add: drop_last_space_def)
qed

end
