(* ===== verification/Agx_Run.thy ===== *)
theory Agx_Run
  imports Agx_Output
begin

text \<open>
  The event loop and the run of \<open>agx\<close> (\<open>main\<close> of \<open>crates/agx/src/main.rs\<close>), with their
  properties. The events of a turn are a list and then the end of the channel; when it is
  still open the program is waiting.
\<close>

section \<open>Streamed messages and reasoning\<close>

definition note_agent_message_delta :: "agent_message_item \<Rightarrow> agx_state \<Rightarrow> agx_state" where
  "note_agent_message_delta message st =
     (let st1 =
        (if agent_message_id message = [] then st\<lparr>ax_streamed_without_id := True\<rparr>
         else st\<lparr>ax_streamed_ids := insert (agent_message_id message) (ax_streamed_ids st)\<rparr>)
      in st1\<lparr>ax_ended_with_newline := ends_with_newline (agent_message_text message)\<rparr>)"

definition take_agent_message_was_streamed :: "agent_message_item \<Rightarrow> agx_state \<Rightarrow> agx_state \<times> bool" where
  "take_agent_message_was_streamed message st =
     (if agent_message_id message = []
      then (st\<lparr>ax_streamed_without_id := False\<rparr>, ax_streamed_without_id st)
      else (st\<lparr>ax_streamed_ids := ax_streamed_ids st - {agent_message_id message}\<rparr>,
            agent_message_id message \<in> ax_streamed_ids st))"

definition append_reasoning_delta :: "reasoning_item \<Rightarrow> agx_state \<Rightarrow> agx_state" where
  "append_reasoning_delta reasoning st =
     (if reasoning_text reasoning = [] then st
      else st\<lparr>ax_reasoning_text := (ax_reasoning_text st)(reasoning_id reasoning \<mapsto>
             unwrap_or (ax_reasoning_text st (reasoning_id reasoning)) [] @ reasoning_text reasoning)\<rparr>)"

definition completed_reasoning_text :: "reasoning_item \<Rightarrow> agx_state \<Rightarrow> string" where
  "completed_reasoning_text reasoning st =
     (if reasoning_text reasoning = [] then unwrap_or (ax_reasoning_text st (reasoning_id reasoning)) []
      else reasoning_text reasoning)"

section \<open>One event\<close>

definition agent_message_updated :: "agx_sink \<Rightarrow> agx_paint \<Rightarrow> agent_message_item \<Rightarrow> unit agx_step" where
  "agent_message_updated sink paint message st =
     (if agent_message_text message = [] then (st, Ok ())
      else and_do (print_agent_message_text sink paint (agent_message_text message) st)
        (\<lambda>st1 _. (note_agent_message_delta message st1, Ok ())))"

definition reasoning_updated :: "agx_sink \<Rightarrow> agx_paint \<Rightarrow> reasoning_item \<Rightarrow> unit agx_step" where
  "reasoning_updated sink paint reasoning st =
     (let st1 = append_reasoning_delta reasoning st
      in if reasoning_text reasoning = [] then (st1, Ok ())
         else and_do (print_all sink (reasoning_output paint (reasoning_text reasoning)) st1)
           (\<lambda>st2 _. (st2\<lparr>ax_printed_reasoning :=
               insert (reasoning_id reasoning) (ax_printed_reasoning st2)\<rparr>, Ok ())))"

definition agent_message_completed :: "agx_sink \<Rightarrow> agx_paint \<Rightarrow> agent_message_item \<Rightarrow> unit agx_step" where
  "agent_message_completed sink paint message st =
     (let (st1, streamed) = take_agent_message_was_streamed message st
      in if streamed then ensure_stdout_newline sink True st1
         else if agent_message_text message \<noteq> [] then
           and_do (print_agent_message_text sink paint (agent_message_text message) st1) (\<lambda>st2 _.
             ensure_stdout_newline sink True
               (st2\<lparr>ax_ended_with_newline := ends_with_newline (agent_message_text message)\<rparr>))
         else (st1, Ok ()))"

definition reasoning_completed :: "agx_sink \<Rightarrow> agx_paint \<Rightarrow> reasoning_item \<Rightarrow> unit agx_step" where
  "reasoning_completed sink paint reasoning st =
     (if reasoning_id reasoning \<in> ax_printed_reasoning st then (st, Ok ())
      else and_do (print_all sink (reasoning_output paint (completed_reasoning_text reasoning st)) st)
        (\<lambda>st1 _. (st1\<lparr>ax_printed_reasoning :=
            insert (reasoning_id reasoning) (ax_printed_reasoning st1)\<rparr>, Ok ())))"

text \<open>The result says whether the loop goes on.\<close>

definition go_on :: "agx_state \<times> (agx_failure + unit) \<Rightarrow> bool \<Rightarrow> agx_state \<times> (agx_failure + bool)" where
  "go_on r b = and_do r (\<lambda>st _. (st, Ok b))"

fun agx_event :: "agx_sink \<Rightarrow> agx_paint \<Rightarrow> bool \<Rightarrow> thread_event \<Rightarrow> bool agx_step" where
  "agx_event sink paint verbose (TE_TurnCompleted u) st =
     go_on (case u of
         Some u1 \<Rightarrow> if verbose then print_all sink (usage_output paint u1) st else (st, Ok ())
       | None \<Rightarrow> (st, Ok ())) False"
| "agx_event sink paint verbose (TE_TurnFailed e) st =
     go_on (print_all sink [err_line paint (''streamed turn failed: '' @ thread_error_message e)] st) False"
| "agx_event sink paint verbose (TE_ThreadStarted i) st =
     go_on (if verbose then print_all sink
         [out_line (paint [At_Dimmed] (''Thread ID: '' @ i @ [lf] @ ''---''))] st
       else (st, Ok ())) True"
| "agx_event sink paint verbose (TE_Error m) st =
     go_on (print_all sink [err_line paint (''error: '' @ m)] st) True"
| "agx_event sink paint verbose TE_TurnStarted st = (st, Ok True)"
| "agx_event sink paint verbose (TE_ItemStarted i) st = (st, Ok True)"
| "agx_event sink paint verbose (TE_ItemUpdated (TI_AgentMessage message)) st =
     go_on (agent_message_updated sink paint message st) True"
| "agx_event sink paint verbose (TE_ItemUpdated (TI_Reasoning reasoning)) st =
     go_on (reasoning_updated sink paint reasoning st) True"
| "agx_event sink paint verbose (TE_ItemUpdated _) st = (st, Ok True)"
| "agx_event sink paint verbose (TE_ItemCompleted (TI_AgentMessage message)) st =
     go_on (agent_message_completed sink paint message st) True"
| "agx_event sink paint verbose (TE_ItemCompleted (TI_Reasoning reasoning)) st =
     go_on (reasoning_completed sink paint reasoning st) True"
| "agx_event sink paint verbose (TE_ItemCompleted item) st =
     go_on (print_all sink (item_output paint item) st) True"

section \<open>The loop\<close>

definition client_failure :: "displays \<Rightarrow> client_error \<Rightarrow> agx_failure" where
  "client_failure d e = Ax_Error [client_error_display d e]"

fun agx_loop ::
  "displays \<Rightarrow> agx_sink \<Rightarrow> agx_paint \<Rightarrow> bool \<Rightarrow> bool \<Rightarrow> stream_item list \<Rightarrow> agx_state
    \<Rightarrow> agx_state \<times> (agx_failure + unit) option" where
  "agx_loop d sink paint verbose closed [] st = (st, if closed then Some (Ok ()) else None)"
| "agx_loop d sink paint verbose closed (Inl e # items) st = (st, Some (Err (client_failure d e)))"
| "agx_loop d sink paint verbose closed (Inr event # items) st =
     (case agx_event sink paint verbose event st of
        (st1, Inl f) \<Rightarrow> (st1, Some (Err f))
      | (st1, Inr True) \<Rightarrow> agx_loop d sink paint verbose closed items st1
      | (st1, Inr False) \<Rightarrow> (st1, Some (Ok ())))"

section \<open>The program\<close>

record agx_cli =
  agx_prompt :: string
  agx_ws_url :: "string option"
  agx_cwd :: "string option"
  agx_agent :: "string option"
  agx_scope :: "agent_scope option"
  agx_verbose :: bool
  agx_last_response_only :: bool

record 'v agx_world =
  aw_env :: process_env
  aw_current_dir :: "io_error + string"
  aw_metadata :: metadata
  aw_read :: read_file
  aw_toml :: "'v agent_toml"
  aw_displays :: displays
  aw_connect :: "ws_config \<Rightarrow> client_error + (codex \<times> inner)"
  aw_start :: "ws_config \<Rightarrow> (string \<rightharpoonup> string) \<Rightarrow> client_error + (codex \<times> inner)"

definition connect_failure_message :: "string \<Rightarrow> string \<Rightarrow> string \<Rightarrow> string" where
  "connect_failure_message url connect_error start_error =
     ''failed to connect to websocket at `'' @ url @ ''` ('' @ connect_error @
     ''); starting a local app-server as a fallback also failed: '' @ start_error"

definition agx_daemon_env :: "process_env \<Rightarrow> (string \<rightharpoonup> string)" where
  "agx_daemon_env env =
     map_of (List.map_filter (\<lambda>name. map_option (Pair name) (env_var env name))
       [''OPENAI_API_KEY'', ''CODEX_API_KEY'', ''CODEX_ID_TOKEN'', ''CODEX_ACCESS_TOKEN''])"

definition agx_ws_config :: "agx_cli \<Rightarrow> ws_config" where
  "agx_ws_config cli =
     (case agx_ws_url cli of
        Some url \<Rightarrow> ws_config_with_url url ws_config_default
      | None \<Rightarrow> ws_config_default)"

definition agx_connect :: "'v agx_world \<Rightarrow> ws_config \<Rightarrow> anyhow + (codex \<times> inner)" where
  "agx_connect w config =
     (case aw_connect w config of
        Inr client \<Rightarrow> Ok client
      | Inl connect_error \<Rightarrow>
          map_err (\<lambda>start_error. [connect_failure_message (ws_url config)
              (client_error_display (aw_displays w) connect_error)
              (client_error_display (aw_displays w) start_error)])
            (aw_start w config (agx_daemon_env (aw_env w))))"

text \<open>The agent, if one is named; it is looked up from the directory of the invocation.\<close>

definition agx_agent_of :: "'v agx_world \<Rightarrow> agx_cli \<Rightarrow> string \<Rightarrow> anyhow + loaded_agent option" where
  "agx_agent_of w cli invocation_dir =
     (case agx_agent cli of
        None \<Rightarrow> Ok None
      | Some agent_name \<Rightarrow>
          map_ok Some (load_agent (aw_toml w) (aw_read w) (aw_metadata w) (aw_env w) agent_name
            (agx_scope cli) invocation_dir))"

definition thread_run_failure :: "displays \<Rightarrow> thread_run_error \<Rightarrow> agx_failure" where
  "thread_run_failure d e = Ax_Error [thread_run_error_display d e]"

definition print_last_response :: "agx_sink \<Rightarrow> agx_paint \<Rightarrow> string \<Rightarrow> unit agx_step" where
  "print_last_response sink paint response st =
     and_do (if response \<noteq> [] then print_agent_message_text sink paint response st else (st, Ok ()))
       (\<lambda>st1 _. ensure_stdout_newline sink (response \<noteq> [])
          (st1\<lparr>ax_ended_with_newline := ends_with_newline response\<rparr>))"

definition agx_turn ::
  "displays \<Rightarrow> agx_sink \<Rightarrow> agx_paint \<Rightarrow> (streamed_turn \<Rightarrow> inner \<Rightarrow> recv list) \<Rightarrow> agx_cli \<Rightarrow> codex \<Rightarrow> inner
    \<Rightarrow> thread \<Rightarrow> agx_state \<Rightarrow> agx_state \<times> (agx_failure + unit) option" where
  "agx_turn d sink paint recvs cli c s th st =
     (if agx_last_response_only cli then
        (case thread_ask c (Input_Text (agx_prompt cli)) turn_options_default recvs th s of
           (_, _, None) \<Rightarrow> (st, None)
         | (_, _, Some (Inl e)) \<Rightarrow> (st, Some (Err (thread_run_failure d e)))
         | (_, _, Some (Inr response)) \<Rightarrow> map_prod id Some (print_last_response sink paint response st))
      else
        (case run_streamed c (Input_Text (agx_prompt cli)) turn_options_default th s of
           (_, _, Inl e) \<Rightarrow> (st, Some (Err (client_failure d e)))
         | (s1, _, Inr streamed) \<Rightarrow>
             (let (sent, running) = pump_turn_events (streamed_thread_id streamed)
                    (streamed_turn_id streamed) None None (recvs streamed s1)
              in agx_loop d sink paint (agx_verbose cli) (\<not> running)
                   (stream_prefix (streamed_started streamed) @ sent) st)))"

definition agx_main ::
  "'v agx_world \<Rightarrow> agx_sink \<Rightarrow> agx_paint \<Rightarrow> (streamed_turn \<Rightarrow> inner \<Rightarrow> recv list) \<Rightarrow> agx_cli
    \<Rightarrow> agx_state \<times> (agx_failure + unit) option" where
  "agx_main w sink paint recvs cli =
     (let st = agx_state_default; failed = (\<lambda>e. (st, Some (Err (Ax_Error e))))
      in case with_context ''failed to resolve current working directory''
           (map_err (\<lambda>e. [io_error_text e]) (aw_current_dir w)) of
           Inl e \<Rightarrow> failed e
         | Inr invocation_dir \<Rightarrow>
             (case agx_agent_of w cli invocation_dir of
                Inl e \<Rightarrow> failed e
              | Inr active_agent \<Rightarrow>
                  (let wd = unwrap_or (agx_cwd cli) invocation_dir;
                       info_lines =
                         (case active_agent of
                            Some agent \<Rightarrow>
                              if agx_last_response_only cli then []
                              else start_info_output paint (turn_start_info_of agent)
                          | None \<Rightarrow> [])
                   in case print_all sink info_lines st of
                        (st1, Inl f) \<Rightarrow> (st1, Some (Err f))
                      | (st1, Inr _) \<Rightarrow>
                          (case agx_connect w (agx_ws_config cli) of
                             Inl e \<Rightarrow> (st1, Some (Err (Ax_Error e)))
                           | Inr (c, s) \<Rightarrow>
                               agx_turn (aw_displays w) sink paint recvs cli c s
                                 (start_thread (agx_thread_config active_agent wd)) st1))))"

section \<open>On a working terminal\<close>

abbreviation working :: agx_sink where
  "working \<equiv> (\<lambda>_. None)"

lemma emit_working [simp]: "emit working e st = (st\<lparr>ax_log := ax_log st @ [e]\<rparr>, Ok ())"
  by (simp add: emit_def)

lemma print_all_working [simp]: "print_all working es st = (st\<lparr>ax_log := ax_log st @ es\<rparr>, Ok ())"
  by (induction es arbitrary: st) simp_all

lemma print_chunk_working [simp]:
  "print_chunk working t st = (st\<lparr>ax_log := ax_log st @ [Out t]\<rparr>, Ok ())"
  by (simp add: print_chunk_def)

lemma ensure_stdout_newline_working:
  "ensure_stdout_newline working printed st =
     ((if printed \<and> \<not> ax_ended_with_newline st
       then st\<lparr>ax_log := ax_log st @ [Out [lf]], ax_ended_with_newline := True\<rparr> else st), Ok ())"
  by (simp add: ensure_stdout_newline_def)

lemma go_on_Ok [simp]: "go_on (st, Inr u) b = (st, Inr b)"
  by (simp add: go_on_def)

lemma agx_event_working: "\<exists>st' b. agx_event working paint verbose e st = (st', Inr b)"
  by (induction "working :: agx_sink" paint verbose e st rule: agx_event.induct)
    (auto simp: agent_message_updated_def print_agent_message_text_def reasoning_updated_def Let_def
      agent_message_completed_def reasoning_completed_def ensure_stdout_newline_working case_prod_unfold
      split: option.split)


section \<open>A message is printed once\<close>

text \<open>The events that print nothing and leave no trace.\<close>

fun silent_event :: "bool \<Rightarrow> thread_event \<Rightarrow> bool" where
  "silent_event verbose TE_TurnStarted = True"
| "silent_event verbose (TE_ThreadStarted i) = (\<not> verbose)"
| "silent_event verbose (TE_ItemStarted i) = True"
| "silent_event verbose (TE_ItemUpdated (TI_AgentMessage m)) = False"
| "silent_event verbose (TE_ItemUpdated (TI_Reasoning r)) = False"
| "silent_event verbose (TE_ItemUpdated i) = True"
| "silent_event verbose (TE_ItemCompleted (TI_UserMessage m)) = True"
| "silent_event verbose e = False"

lemma silent_event: "silent_event verbose e \<Longrightarrow> agx_event working paint verbose e st = (st, Ok True)"
  by (induction verbose e rule: silent_event.induct) simp_all

lemma agx_loop_silent:
  "agx_loop d working paint verbose closed (map Ok es) st =
     agx_loop d working paint verbose closed (map Ok (filter (\<lambda>e. \<not> silent_event verbose e) es)) st"
proof (induction es arbitrary: st)
  case (Cons e es)
  obtain st' b where "agx_event working paint verbose e st = (st', Inr b)"
    using agx_event_working by blast
  with Cons.IH silent_event [of verbose e paint st] show ?case by (cases b) auto
qed simp

definition was_streamed :: "string \<Rightarrow> agx_state \<Rightarrow> bool" where
  "was_streamed i st = (if i = [] then ax_streamed_without_id st else i \<in> ax_streamed_ids st)"

definition message_chunk :: "agx_paint \<Rightarrow> string \<Rightarrow> agx_entry" where
  "message_chunk paint t = Out (paint [At_Bold, At_BrightWhite] t)"

definition shown_texts :: "agent_message_item list \<Rightarrow> string list" where
  "shown_texts ms = filter (\<lambda>t. t \<noteq> []) (map agent_message_text ms)"

lemma message_updates:
  assumes "list_all (\<lambda>m. agent_message_id m = i) ms"
  shows "\<exists>st'. agx_loop d working paint verbose closed
      (map Ok (map (\<lambda>m. TE_ItemUpdated (TI_AgentMessage m)) ms @ rest)) st =
        agx_loop d working paint verbose closed (map Ok rest) st' \<and>
      ax_log st' = ax_log st @ map (message_chunk paint) (shown_texts ms) \<and>
      was_streamed i st' = (was_streamed i st \<or> shown_texts ms \<noteq> []) \<and>
      ax_ended_with_newline st' =
        (if shown_texts ms = [] then ax_ended_with_newline st
         else ends_with_newline (last (shown_texts ms)))"
  using assms
proof (induction ms arbitrary: st)
  case Nil
  then show ?case by (auto simp: shown_texts_def)
next
  case (Cons m ms)
  let ?st1 = "if agent_message_text m = [] then st
    else note_agent_message_delta m (st\<lparr>ax_log := ax_log st @ [message_chunk paint (agent_message_text m)]\<rparr>)"
  have "agx_event working paint verbose (TE_ItemUpdated (TI_AgentMessage m)) st = (?st1, Ok True)"
    by (simp add: agent_message_updated_def print_agent_message_text_def message_chunk_def)
  moreover have "ax_log ?st1 = ax_log st @ map (message_chunk paint) (shown_texts [m])"
    "was_streamed i ?st1 = (was_streamed i st \<or> shown_texts [m] \<noteq> [])"
    "ax_ended_with_newline ?st1 =
      (if shown_texts [m] = [] then ax_ended_with_newline st else ends_with_newline (last (shown_texts [m])))"
    using Cons.prems
    by (auto simp: shown_texts_def note_agent_message_delta_def was_streamed_def Let_def)
  moreover have "shown_texts (m # ms) = shown_texts [m] @ shown_texts ms" by (simp add: shown_texts_def)
  ultimately show ?case
    using Cons.IH [of ?st1] Cons.prems by (auto split: if_splits)
qed

text \<open>
  C38: an agent message is printed exactly once: the pieces it was streamed in, when there were
  any, and otherwise the text it was completed with; then one newline unless it ends with one.
  Events that print nothing may lie in between.
\<close>

theorem message_printed_exactly_once:
  assumes "filter (\<lambda>e. \<not> silent_event verbose e) es =
      map (\<lambda>m. TE_ItemUpdated (TI_AgentMessage m)) ms @ [TE_ItemCompleted (TI_AgentMessage m)]"
    "list_all (\<lambda>m. agent_message_id m = i) (ms @ [m])"
  shows "let shown = (if shown_texts ms \<noteq> [] then shown_texts ms else shown_texts [m])
    in ax_log (fst (agx_loop d working paint verbose closed (map Ok es) agx_state_default)) =
      map (message_chunk paint) shown @
      (if shown \<noteq> [] \<and> \<not> ends_with_newline (last shown) then [Out [lf]] else [])"
proof -
  let ?done = "TE_ItemCompleted (TI_AgentMessage m)"
  have fresh: "\<not> was_streamed i agx_state_default" "ax_log agx_state_default = []"
    by (simp_all add: agx_state_default_def was_streamed_def)
  have "list_all (\<lambda>m. agent_message_id m = i) ms" using assms(2) by simp
  from message_updates [OF this, of d paint verbose closed "[?done]" agx_state_default]
  obtain st' where st': "agx_loop d working paint verbose closed (map Ok es) agx_state_default =
      agx_loop d working paint verbose closed (map Ok [?done]) st'"
    "ax_log st' = map (message_chunk paint) (shown_texts ms)"
    "was_streamed i st' = (shown_texts ms \<noteq> [])"
    "ax_ended_with_newline st' =
      (if shown_texts ms = [] then ax_ended_with_newline agx_state_default
       else ends_with_newline (last (shown_texts ms)))"
    unfolding agx_loop_silent [of d paint verbose closed es] assms(1) using fresh by auto
  have take: "snd (take_agent_message_was_streamed m st') = was_streamed i st'"
    "ax_log (fst (take_agent_message_was_streamed m st')) = ax_log st'"
    "ax_ended_with_newline (fst (take_agent_message_was_streamed m st')) = ax_ended_with_newline st'"
    using assms(2) by (auto simp: take_agent_message_was_streamed_def was_streamed_def)
  show ?thesis
    unfolding st'(1)
    using st'(2-4) take
    by (cases "shown_texts ms = []"; cases "agent_message_text m = []")
      (simp_all add: agent_message_completed_def case_prod_unfold Let_def ensure_stdout_newline_working
        print_agent_message_text_def message_chunk_def shown_texts_def)
qed

theorem message_printed_exactly_once_witness:
  "ax_log (fst (agx_loop plain_displays working (\<lambda>_ t. t) False True (map Ok
     [TE_TurnStarted, TE_ItemUpdated (TI_AgentMessage \<lparr>agent_message_id = ''1'', agent_message_text = ''he'',
        agent_message_phase = None\<rparr>),
      TE_ItemUpdated (TI_AgentMessage \<lparr>agent_message_id = ''1'', agent_message_text = ''llo'',
        agent_message_phase = None\<rparr>),
      TE_ItemCompleted (TI_AgentMessage \<lparr>agent_message_id = ''1'', agent_message_text = ''hello'',
        agent_message_phase = None\<rparr>)]) agx_state_default)) = [Out ''he'', Out ''llo'', Out [lf]]"
proof -
  let ?m = "\<lambda>t. \<lparr>agent_message_id = ''1'', agent_message_text = t, agent_message_phase = None\<rparr>"
  let ?es = "[TE_TurnStarted, TE_ItemUpdated (TI_AgentMessage (?m ''he'')),
    TE_ItemUpdated (TI_AgentMessage (?m ''llo'')), TE_ItemCompleted (TI_AgentMessage (?m ''hello''))]"
  have events: "filter (\<lambda>e. \<not> silent_event False e) ?es =
      map (\<lambda>m. TE_ItemUpdated (TI_AgentMessage m)) [?m ''he'', ?m ''llo''] @
        [TE_ItemCompleted (TI_AgentMessage (?m ''hello''))]"
    by simp
  have ids: "list_all (\<lambda>m. agent_message_id m = ''1'') ([?m ''he'', ?m ''llo''] @ [?m ''hello''])"
    by simp
  show ?thesis
    using message_printed_exactly_once [OF events ids, of plain_displays "\<lambda>_ t. t" True]
    by (simp add: shown_texts_def message_chunk_def ends_with_newline_def lf_def)
qed

end
